(* ===== verification/Janus_Prelude.thy ===== *)
theory Janus_Prelude
  imports Main
begin

text \<open>
  Shared vocabulary of the development: the proof collections the component theories fill, the
  generic lemmas on lists and sums they use, and the computation type of the server's code.

  A Go function of the server that returns \<open>(T, error)\<close> and has effects is modelled as a
  function from the state \<open>'w\<close> of the world to a pair of a result and the new state. The result
  is \<open>Inl e\<close> for the pair \<open>(nil, e)\<close> and \<open>Inr x\<close> for \<open>(x, nil)\<close>.
  \<open>bindE m f\<close> is the idiom \<^verbatim>\<open>x, err := m; if err != nil { return nil, err }; f\<close>, and
  \<open>or_err e m\<close> the variant \<^verbatim>\<open>if err != nil { return nil, e }\<close>. \<open>attempt m\<close> hands
  both outcomes to the caller, for code that inspects the error, and \<open>tryM m\<close> is a call whose
  error the code throws away (\<^verbatim>\<open>_ = m\<close>).
\<close>

named_theorems keeps_rules \<open>operations that keep a state predicate, whatever they return\<close>
named_theorems quiet_rules \<open>operations that only read\<close>
named_theorems triple_rules \<open>pre- and postconditions of operations\<close>
named_theorems monad_simps \<open>outcomes of composed computations\<close>
named_theorems schema_simps \<open>what the SQL statements do to the tables\<close>

section \<open>Computations with state and errors\<close>

type_synonym ('w, 'e, 'a) comp = "'w \<Rightarrow> ('e + 'a) \<times> 'w"

definition ret :: "'a \<Rightarrow> ('w, 'e, 'a) comp" where
  "ret x w = (Inr x, w)"

definition raise :: "'e \<Rightarrow> ('w, 'e, 'a) comp" where
  "raise e w = (Inl e, w)"

definition bindE :: "('w, 'e, 'a) comp \<Rightarrow> ('a \<Rightarrow> ('w, 'e, 'b) comp) \<Rightarrow> ('w, 'e, 'b) comp" where
  "bindE m f w = (case m w of (Inl e, w') \<Rightarrow> (Inl e, w') | (Inr x, w') \<Rightarrow> f x w')"

definition or_err :: "'e \<Rightarrow> ('w, 'e, 'a) comp \<Rightarrow> ('w, 'e, 'a) comp" where
  "or_err e m w = (case m w of (Inl _, w') \<Rightarrow> (Inl e, w') | (Inr x, w') \<Rightarrow> (Inr x, w'))"

definition attempt :: "('w, 'e, 'a) comp \<Rightarrow> ('w, 'e, 'e + 'a) comp" where
  "attempt m w = (case m w of (r, w') \<Rightarrow> (Inr r, w'))"

definition tryM :: "('w, 'e, 'a) comp \<Rightarrow> ('w, 'e, unit) comp" where
  "tryM m w = (Inr (), snd (m w))"

definition of_result :: "'e + 'a \<Rightarrow> ('w, 'e, 'a) comp" where
  "of_result r w = (r, w)"

fun for_each :: "('a \<Rightarrow> ('w, 'e, unit) comp) \<Rightarrow> 'a list \<Rightarrow> ('w, 'e, unit) comp" where
  "for_each f [] = ret ()"
| "for_each f (x # xs) = bindE (f x) (\<lambda>_. for_each f xs)"

lemma ret_iff [monad_simps, simp]: "ret x w = (r, w') \<longleftrightarrow> r = Inr x \<and> w' = w"
  by (auto simp: ret_def)

lemma raise_iff [monad_simps, simp]: "raise e w = (r, w') \<longleftrightarrow> r = Inl e \<and> w' = w"
  by (auto simp: raise_def)

lemma of_result_iff [monad_simps, simp]: "of_result x w = (r, w') \<longleftrightarrow> r = x \<and> w' = w"
  by (auto simp: of_result_def)

lemma bindE_Inr_iff [monad_simps]:
  "bindE m f w = (Inr y, w') \<longleftrightarrow> (\<exists>x w1. m w = (Inr x, w1) \<and> f x w1 = (Inr y, w'))"
  by (auto simp: bindE_def split: prod.splits sum.splits)

lemma bindE_Inl_iff:
  "bindE m f w = (Inl e, w') \<longleftrightarrow>
     m w = (Inl e, w') \<or> (\<exists>x w1. m w = (Inr x, w1) \<and> f x w1 = (Inl e, w'))"
  by (auto simp: bindE_def split: prod.splits sum.splits)

lemma bindE_eval_Inr [simp]: "m w = (Inr x, w1) \<Longrightarrow> bindE m f w = f x w1"
  by (simp add: bindE_def)

lemma bindE_eval_Inl [simp]: "m w = (Inl e, w1) \<Longrightarrow> bindE m f w = (Inl e, w1)"
  by (simp add: bindE_def)

lemma bindE_ret_left [simp]: "bindE (ret x) f = f x"
  by (rule ext) (simp add: bindE_def ret_def)

lemma bindE_raise_left [simp]: "bindE (raise e) f = raise e"
  by (rule ext) (simp add: bindE_def raise_def)

lemma bindE_assoc: "bindE (bindE m f) g = bindE m (\<lambda>x. bindE (f x) g)"
  by (rule ext) (auto simp: bindE_def split: prod.splits sum.splits)

lemma or_err_Inr_iff [monad_simps, simp]:
  "or_err e m w = (Inr x, w') \<longleftrightarrow> m w = (Inr x, w')"
  by (auto simp: or_err_def split: prod.splits sum.splits)

lemma or_err_Inl_iff [monad_simps, simp]:
  "or_err e m w = (Inl e', w') \<longleftrightarrow> e' = e \<and> (\<exists>d. m w = (Inl d, w'))"
  by (auto simp: or_err_def split: prod.splits sum.splits)

lemma or_err_eval_Inr [simp]: "m w = (Inr x, w1) \<Longrightarrow> or_err e m w = (Inr x, w1)"
  by (simp add: or_err_def)

lemma or_err_eval_Inl [simp]: "m w = (Inl d, w1) \<Longrightarrow> or_err e m w = (Inl e, w1)"
  by (simp add: or_err_def)

lemma attempt_iff [monad_simps, simp]:
  "attempt m w = (r, w') \<longleftrightarrow> (\<exists>x. m w = (x, w') \<and> r = Inr x)"
  by (auto simp: attempt_def split: prod.splits)

lemma attempt_eval [simp]: "m w = (x, w1) \<Longrightarrow> attempt m w = (Inr x, w1)"
  by (simp add: attempt_def)

lemma tryM_iff [monad_simps, simp]: "tryM m w = (r, w') \<longleftrightarrow> r = Inr () \<and> w' = snd (m w)"
  by (auto simp: tryM_def)

lemma snd_or_err [simp]: "snd (or_err e m w) = snd (m w)"
  by (simp add: or_err_def split: prod.splits sum.splits)

lemma snd_attempt [simp]: "snd (attempt m w) = snd (m w)"
  by (simp add: attempt_def split: prod.splits)

lemma snd_tryM [simp]: "snd (tryM m w) = snd (m w)"
  by (simp add: tryM_def)

section \<open>State predicates kept by a computation\<close>

definition keeps :: "('w \<Rightarrow> bool) \<Rightarrow> ('w, 'e, 'a) comp \<Rightarrow> bool" where
  "keeps I m \<longleftrightarrow> (\<forall>w. I w \<longrightarrow> I (snd (m w)))"

lemma keepsI: "(\<And>w. I w \<Longrightarrow> I (snd (m w))) \<Longrightarrow> keeps I m"
  by (simp add: keeps_def)

lemma keepsD: "keeps I m \<Longrightarrow> I w \<Longrightarrow> m w = (r, w') \<Longrightarrow> I w'"
  by (metis keeps_def snd_conv)

lemma keeps_snd: "keeps I m \<Longrightarrow> I w \<Longrightarrow> I (snd (m w))"
  by (simp add: keeps_def)

lemma keeps_ret [keeps_rules]: "keeps I (ret x)"
  by (simp add: keeps_def ret_def)

lemma keeps_raise [keeps_rules]: "keeps I (raise e)"
  by (simp add: keeps_def raise_def)

lemma keeps_of_result [keeps_rules]: "keeps I (of_result r)"
  by (simp add: keeps_def of_result_def)

lemma keeps_bindE [keeps_rules]:
  "keeps I m \<Longrightarrow> (\<And>x. keeps I (f x)) \<Longrightarrow> keeps I (bindE m f)"
  by (fastforce simp: keeps_def bindE_def split: prod.splits sum.splits)

lemma keeps_or_err [keeps_rules]: "keeps I m \<Longrightarrow> keeps I (or_err e m)"
  by (simp add: keeps_def)

lemma keeps_attempt [keeps_rules]: "keeps I m \<Longrightarrow> keeps I (attempt m)"
  by (simp add: keeps_def)

lemma keeps_tryM [keeps_rules]: "keeps I m \<Longrightarrow> keeps I (tryM m)"
  by (simp add: keeps_def)

lemma keeps_if [keeps_rules]: "keeps I m \<Longrightarrow> keeps I n \<Longrightarrow> keeps I (if b then m else n)"
  by simp

lemma keeps_case_sum [keeps_rules]:
  "(\<And>e. keeps I (f e)) \<Longrightarrow> (\<And>x. keeps I (g x)) \<Longrightarrow>
     keeps I (case r of Inl e \<Rightarrow> f e | Inr x \<Rightarrow> g x)"
  by (cases r) auto

lemma keeps_case_option [keeps_rules]:
  "keeps I m \<Longrightarrow> (\<And>x. keeps I (g x)) \<Longrightarrow>
     keeps I (case r of None \<Rightarrow> m | Some x \<Rightarrow> g x)"
  by (cases r) auto

lemma keeps_case_prod [keeps_rules]:
  "(\<And>a b. keeps I (f a b)) \<Longrightarrow> keeps I (case p of (a, b) \<Rightarrow> f a b)"
  by (cases p) auto

lemma keeps_for_each [keeps_rules]:
  "(\<And>x. keeps I (f x)) \<Longrightarrow> keeps I (for_each f xs)"
  by (induction xs) (auto intro!: keeps_rules)

section \<open>Pre- and postconditions\<close>

text \<open>
  \<open>triple P m Q E\<close>: from a state satisfying \<open>P\<close>, a run of \<open>m\<close> that returns \<open>x\<close> ends in
  a state satisfying \<open>Q x\<close>, and one that returns an error in a state satisfying \<open>E\<close>.
\<close>

definition triple ::
  "('w \<Rightarrow> bool) \<Rightarrow> ('w, 'e, 'a) comp \<Rightarrow> ('a \<Rightarrow> 'w \<Rightarrow> bool) \<Rightarrow> ('w \<Rightarrow> bool) \<Rightarrow> bool" where
  "triple P m Q E \<longleftrightarrow>
     (\<forall>w. P w \<longrightarrow> (case m w of (Inl e, w') \<Rightarrow> E w' | (Inr x, w') \<Rightarrow> Q x w'))"

lemma tripleI:
  assumes "\<And>w x w'. P w \<Longrightarrow> m w = (Inr x, w') \<Longrightarrow> Q x w'"
    and "\<And>w e w'. P w \<Longrightarrow> m w = (Inl e, w') \<Longrightarrow> E w'"
  shows "triple P m Q E"
  using assms by (auto simp: triple_def split: prod.splits sum.splits)

lemma triple_InrD: "triple P m Q E \<Longrightarrow> P w \<Longrightarrow> m w = (Inr x, w') \<Longrightarrow> Q x w'"
  by (fastforce simp: triple_def)

lemma triple_InlD: "triple P m Q E \<Longrightarrow> P w \<Longrightarrow> m w = (Inl e, w') \<Longrightarrow> E w'"
  by (fastforce simp: triple_def)

lemma triple_weaken:
  assumes "triple P m Q E" "\<And>w. P' w \<Longrightarrow> P w" "\<And>x w. Q x w \<Longrightarrow> Q' x w" "\<And>w. E w \<Longrightarrow> E' w"
  shows "triple P' m Q' E'"
proof (rule tripleI)
  show "Q' x w'" if "P' w" "m w = (Inr x, w')" for w x w'
    using that assms(2,3) triple_InrD [OF assms(1)] by blast
  show "E' w'" if "P' w" "m w = (Inl e, w')" for w e w'
    using that assms(2,4) triple_InlD [OF assms(1)] by blast
qed

lemma triple_ret: "(\<And>w. P w \<Longrightarrow> Q x w) \<Longrightarrow> triple P (ret x) Q E"
  by (auto intro!: tripleI)

lemma triple_raise: "(\<And>w. P w \<Longrightarrow> E w) \<Longrightarrow> triple P (raise e) Q E"
  by (auto intro!: tripleI)

lemma triple_bindE [triple_rules]:
  assumes "triple P m Q E" "\<And>x. triple (Q x) (f x) R E"
  shows "triple P (bindE m f) R E"
proof (rule tripleI)
  fix w x w' assume "P w" "bindE m f w = (Inr x, w')"
  then show "R x w'"
    using assms(2) triple_InrD [OF assms(1)] by (fastforce simp: bindE_Inr_iff dest: triple_InrD)
next
  fix w e w' assume "P w" "bindE m f w = (Inl e, w')"
  then show "E w'"
    using assms(2) triple_InrD [OF assms(1)] triple_InlD [OF assms(1)]
    by (fastforce simp: bindE_Inl_iff dest: triple_InlD)
qed

lemma triple_or_err [triple_rules]: "triple P m Q E \<Longrightarrow> triple P (or_err e m) Q E"
  by (auto intro!: tripleI dest: triple_InrD triple_InlD)

lemma triple_if [triple_rules]:
  "triple P m Q E \<Longrightarrow> triple P n Q E \<Longrightarrow> triple P (if b then m else n) Q E"
  by simp

lemma triple_keeps: "keeps I m \<Longrightarrow> triple I m (\<lambda>_. I) I"
  by (auto intro!: tripleI dest: keepsD)

section \<open>Lists\<close>

lemma distinct_map_snoc [simp]:
  "distinct (map f (xs @ [x])) \<longleftrightarrow> distinct (map f xs) \<and> f x \<notin> f ` set xs"
  by auto

lemma filter_unique_key:
  assumes "distinct (map f xs)" "x \<in> set xs"
  shows "filter (\<lambda>y. f y = f x) xs = [x]"
  using assms
proof (induction xs)
  case Nil
  then show ?case by simp
next
  case (Cons a xs)
  have "f a \<notin> f ` set xs" "distinct (map f xs)"
    using Cons.prems(1) by auto
  then show ?case
    using Cons by (auto simp: filter_empty_conv image_iff)
qed

lemma filter_key_length_le_1:
  "distinct (map f xs) \<Longrightarrow> length (filter (\<lambda>y. f y = k) xs) \<le> 1"
proof (induction xs)
  case Nil
  then show ?case by simp
next
  case (Cons a xs)
  then show ?case
    by (cases "f a = k") (auto simp: filter_empty_conv image_iff)
qed

lemma distinct_map_filter_keep: "distinct (map f xs) \<Longrightarrow> distinct (map f (filter P xs))"
  by (simp add: distinct_map_filter)

lemma map_key_update [simp]:
  "(\<And>x. f (g x) = f x) \<Longrightarrow> map f (map (\<lambda>x. if P x then g x else x) xs) = map f xs"
  by simp

lemma upt_eq_split:
  assumes "[a..<b] = pre @ i # post"
  shows "a \<le> i \<and> i < b \<and> pre = [a..<i]"
proof -
  have len: "length pre < b - a"
    using arg_cong [OF assms, of length] by simp
  then have i: "i = a + length pre"
    using arg_cong [OF assms, of "\<lambda>xs. xs ! length pre"] by simp
  have "take (length pre) [a..<b] = pre"
    by (simp add: assms)
  then show ?thesis
    using len i by (simp add: take_upt)
qed

end
