(* ===== verification/Go_Strings.thy ===== *)
theory Go_Strings
  imports Janus_Prelude
begin

text \<open>
  What the server uses of Go's package strings. A Go string is a sequence of bytes, here a list of
  \<open>char\<close> (a \<open>char\<close> of HOL is one byte), so \<open>length\<close> is Go's \<^verbatim>\<open>len\<close>. The Unicode-aware
  functions are in the theory of runes.
\<close>

section \<open>Splitting and joining\<close>

text \<open>\<^verbatim>\<open>strings.Split(s, sep)\<close> for a separator of one byte.\<close>

fun split_ch :: "char \<Rightarrow> string \<Rightarrow> string list" where
  "split_ch c [] = [[]]"
| "split_ch c (x # xs) =
     (if x = c then [] # split_ch c xs
      else (case split_ch c xs of [] \<Rightarrow> [[x]] | p # ps \<Rightarrow> (x # p) # ps))"

text \<open>\<^verbatim>\<open>strings.Join(parts, sep)\<close>.\<close>

fun join_str :: "string \<Rightarrow> string list \<Rightarrow> string" where
  "join_str sep [] = []"
| "join_str sep [p] = p"
| "join_str sep (p # q # ps) = p @ sep @ join_str sep (q # ps)"

lemma split_ch_nonempty [simp]: "split_ch c s \<noteq> []"
  by (cases s) (auto split: list.split)

lemma split_ch_no_sep: "p \<in> set (split_ch c s) \<Longrightarrow> c \<notin> set p"
proof (induction s arbitrary: p)
  case Nil
  then show ?case by simp
next
  case (Cons x s)
  then show ?case
    by (cases "split_ch c s") (auto split: if_splits)
qed

lemma split_ch_free [simp]: "c \<notin> set s \<Longrightarrow> split_ch c s = [s]"
  by (induction s) auto

lemma split_ch_append_sep:
  "c \<notin> set p \<Longrightarrow> split_ch c (p @ c # s) = p # split_ch c s"
  by (induction p) auto

lemma join_split_ch: "join_str [c] (split_ch c s) = s"
proof (induction s)
  case Nil
  then show ?case by simp
next
  case (Cons x s)
  obtain p ps where ps: "split_ch c s = p # ps"
    by (cases "split_ch c s") auto
  then show ?case
    using Cons by (cases ps) auto
qed

lemma length_split_ch: "length (split_ch c s) = Suc (count_list s c)"
  by (induction s) (auto split: list.split)

lemma hd_split_ch_subset: "set (hd (split_ch c s)) \<subseteq> set s"
proof (induction s)
  case (Cons x s)
  then show ?case by (cases "split_ch c s") auto
qed simp

lemma hd_split_ch_takeWhile: "hd (split_ch c s) = takeWhile (\<lambda>x. x \<noteq> c) s"
proof (induction s)
  case (Cons x s)
  then show ?case by (cases "split_ch c s") auto
qed simp

section \<open>Prefixes, searching, trimming\<close>

definition has_prefix :: "string \<Rightarrow> string \<Rightarrow> bool" where
  "has_prefix s p \<longleftrightarrow> take (length p) s = p"

definition trim_prefix :: "string \<Rightarrow> string \<Rightarrow> string" where
  "trim_prefix s p = (if has_prefix s p then drop (length p) s else s)"

lemma has_prefix_append [simp]: "has_prefix (p @ s) p"
  by (simp add: has_prefix_def)

lemma trim_prefix_append [simp]: "trim_prefix (p @ s) p = s"
  by (simp add: trim_prefix_def)

lemma has_prefix_iff: "has_prefix s p \<longleftrightarrow> (\<exists>r. s = p @ r)"
  unfolding has_prefix_def by (metis append_eq_conv_conj append_take_drop_id)

text \<open>\<^verbatim>\<open>strings.LastIndex(s, c)\<close>: \<open>None\<close> stands for -1.\<close>

fun last_index :: "char \<Rightarrow> string \<Rightarrow> nat option" where
  "last_index c [] = None"
| "last_index c (x # xs) =
     (case last_index c xs of Some i \<Rightarrow> Some (Suc i)
      | None \<Rightarrow> (if x = c then Some 0 else None))"

lemma last_index_None: "last_index c s = None \<longleftrightarrow> c \<notin> set s"
  by (induction s) (auto split: option.splits)

lemma last_index_Some:
  "last_index c s = Some i \<Longrightarrow> i < length s \<and> s ! i = c \<and> c \<notin> set (drop (Suc i) s)"
proof (induction s arbitrary: i)
  case (Cons x s)
  show ?case
  proof (cases "last_index c s")
    case None
    then show ?thesis
      using Cons.prems None by (auto simp: last_index_None [THEN iffD1] split: if_splits)
  next
    case (Some j)
    then show ?thesis
      using Cons by auto
  qed
qed simp

lemma last_index_append: "c \<notin> set d \<Longrightarrow> last_index c (l @ c # d) = Some (length l)"
  by (induction l) (auto simp: last_index_None [THEN iffD2])

text \<open>
  \<^verbatim>\<open>strings.TrimSpace\<close> and \<^verbatim>\<open>strings.Fields\<close> on ASCII white space: tab, newline, vertical
  tab, form feed, carriage return and space.
\<close>

definition is_space :: "char \<Rightarrow> bool" where
  "is_space c \<longleftrightarrow> (of_char c :: nat) \<in> {9, 10, 11, 12, 13, 32}"

definition trim_space :: "string \<Rightarrow> string" where
  "trim_space s = rev (dropWhile is_space (rev (dropWhile is_space s)))"

fun fields_from :: "string \<Rightarrow> string \<Rightarrow> string list" where
  "fields_from acc [] = (if acc = [] then [] else [rev acc])"
| "fields_from acc (x # xs) =
     (if is_space x then (if acc = [] then fields_from [] xs else rev acc # fields_from [] xs)
      else fields_from (x # acc) xs)"

definition fields :: "string \<Rightarrow> string list" where
  "fields s = fields_from [] s"

lemma fields_from_space:
  "is_space x \<Longrightarrow> f \<in> set (fields_from acc (x # xs)) \<longleftrightarrow>
     acc \<noteq> [] \<and> f = rev acc \<or> f \<in> set (fields_from [] xs)"
  by simp

lemma fields_from_words:
  assumes "\<forall>c \<in> set acc. \<not> is_space c" "f \<in> set (fields_from acc s)"
  shows "f \<noteq> []" "c \<in> set f \<Longrightarrow> \<not> is_space c"
proof -
  have "f \<noteq> [] \<and> \<not> (\<exists>c \<in> set f. is_space c)"
    using assms
  proof (induction s arbitrary: acc)
    case Nil
    then show ?case by (cases "acc = []") simp_all
  next
    case (Cons x xs)
    have IH: "f \<in> set (fields_from a xs) \<Longrightarrow> \<not> (\<exists>c \<in> set a. is_space c) \<Longrightarrow>
        f \<noteq> [] \<and> \<not> (\<exists>c \<in> set f. is_space c)" for a
      using Cons.IH [of a] by blast
    show ?case
    proof (cases "is_space x")
      case True
      then consider "f \<in> set (fields_from [] xs)" | "acc \<noteq> []" "f = rev acc"
        using Cons.prems(2) unfolding fields_from_space [OF True] by blast
      then show ?thesis
        using IH [of "[]"] Cons.prems(1) by cases simp_all
    next
      case False
      then show ?thesis
        using IH [of "x # acc"] Cons.prems by simp
    qed
  qed
  then show "f \<noteq> []" "c \<in> set f \<Longrightarrow> \<not> is_space c"
    by blast+
qed

lemma fields_words: "f \<in> set (fields s) \<Longrightarrow> f \<noteq> []"
  "f \<in> set (fields s) \<Longrightarrow> c \<in> set f \<Longrightarrow> \<not> is_space c"
  unfolding fields_def by (auto dest: fields_from_words [of "[]", simplified])

section \<open>Numbers in decimal\<close>

text \<open>\<^verbatim>\<open>fmt.Sprintf("%d", n)\<close> for a non-negative number.\<close>

fun itoa :: "nat \<Rightarrow> string" where
  "itoa n = (if n < 10 then [char_of (48 + n)] else itoa (n div 10) @ [char_of (48 + n mod 10)])"

declare itoa.simps [simp del]

lemma of_char_digit: "d < 10 \<Longrightarrow> of_char (char_of (48 + d) :: char) = (48 + d :: nat)"
  by (simp add: of_char_of)

lemma itoa_digits: "c \<in> set (itoa n) \<Longrightarrow> (of_char c :: nat) \<in> {48..57}"
proof (induction n rule: itoa.induct)
  case (1 n)
  show ?case
  proof (cases "n < 10")
    case True
    then show ?thesis
      using "1.prems" by (subst (asm) itoa.simps) (auto simp: of_char_of)
  next
    case False
    then have "c \<in> set (itoa (n div 10)) \<or> c = char_of (48 + n mod 10)"
      using "1.prems" by (subst (asm) itoa.simps) auto
    then show ?thesis
      using "1.IH" False by (auto simp: of_char_of)
  qed
qed

lemma itoa_nonempty [simp]: "itoa n \<noteq> []"
  by (subst itoa.simps) simp

text \<open>Reading the digits back gives the number, so \<open>itoa\<close> is injective.\<close>

definition atoi :: "string \<Rightarrow> nat" where
  "atoi s = foldl (\<lambda>n c. 10 * n + (of_char c - 48)) 0 s"

lemma atoi_itoa [simp]: "atoi (itoa n) = n"
proof (induction n rule: itoa.induct)
  case (1 n)
  show ?case
  proof (cases "n < 10")
    case True
    then show ?thesis
      by (subst itoa.simps) (simp add: atoi_def of_char_of)
  next
    case False
    then have "atoi (itoa n) = 10 * atoi (itoa (n div 10)) + n mod 10"
      by (subst itoa.simps) (simp add: atoi_def of_char_of)
    then show ?thesis
      using "1" False by simp
  qed
qed

lemma itoa_inject [simp]: "itoa m = itoa n \<longleftrightarrow> m = n"
  by (metis atoi_itoa)

lemma itoa_digit_values [simp]:
  "itoa 0 = ''0''" "itoa (Suc 0) = ''1''" "itoa 2 = ''2''" "itoa 3 = ''3''" "itoa 4 = ''4''" "itoa 5 = ''5''"
  "itoa 6 = ''6''" "itoa 7 = ''7''" "itoa 8 = ''8''" "itoa 9 = ''9''"
  by code_simp+

end
