(* ===== verification/Go_Encoding.thy ===== *)
theory Go_Encoding
  imports Go_Strings "HOL-Library.Word"
begin

text \<open>
  Bytes and the encodings of Go's encoding/hex and encoding/base64 the server uses: lower-case hex,
  and base64 without padding in the standard and in the URL alphabet. The decoder is
  \<^verbatim>\<open>DecodeString\<close>: it skips line breaks, accepts a last group of two or three characters and
  does not look at the bits of a last group that encode nothing.
\<close>

type_synonym byte = "8 word"

definition bytes_of :: "string \<Rightarrow> byte list" where
  "bytes_of s = map (\<lambda>c. word_of_nat (of_char c)) s"

lemma length_bytes_of [simp]: "length (bytes_of s) = length s"
  by (simp add: bytes_of_def)

lemma bytes_of_inject [simp]: "bytes_of s = bytes_of t \<longleftrightarrow> s = t"
proof
  assume "bytes_of s = bytes_of t"
  then have "map (\<lambda>b. char_of (unat b)) (bytes_of s) = map (\<lambda>b. char_of (unat b)) (bytes_of t)"
    by simp
  moreover have "map (\<lambda>b. char_of (unat b)) (bytes_of u) = u" for u
    by (simp add: bytes_of_def o_def unat_of_nat)
  ultimately show "s = t" by simp
qed simp

lemma byte_lt_256 [simp]: "unat (b :: byte) < 256"
  using unsigned_less [of b, where ?'a = nat] by simp

section \<open>Hexadecimal\<close>

definition hex_digit :: "nat \<Rightarrow> char" where
  "hex_digit d = (if d < 10 then char_of (48 + d) else char_of (87 + d))"

definition hex_encode :: "byte list \<Rightarrow> string" where
  "hex_encode bs = concat (map (\<lambda>b. [hex_digit (unat b div 16), hex_digit (unat b mod 16)]) bs)"

lemma length_hex_encode [simp]: "length (hex_encode bs) = 2 * length bs"
  by (induction bs) (simp_all add: hex_encode_def)

lemma hex_digit_inject:
  "d < 16 \<Longrightarrow> e < 16 \<Longrightarrow> hex_digit d = hex_digit e \<longleftrightarrow> d = e"
  by (auto simp: hex_digit_def split: if_splits dest!: arg_cong [where f = "of_char :: char \<Rightarrow> nat"])

lemma hex_encode_inject [simp]: "hex_encode as = hex_encode bs \<longleftrightarrow> as = bs"
proof
  assume eq: "hex_encode as = hex_encode bs"
  then have "length as = length bs"
    by (metis length_hex_encode nat_mult_eq_cancel1 zero_less_numeral)
  then show "as = bs"
    using eq
  proof (induction as bs rule: list_induct2)
    case (Cons a as b bs)
    then have "hex_digit (unat a div 16) = hex_digit (unat b div 16)"
        "hex_digit (unat a mod 16) = hex_digit (unat b mod 16)" "as = bs"
      by (auto simp: hex_encode_def)
    moreover have "unat a div 16 < 16" "unat b div 16 < 16"
      using byte_lt_256 [of a] byte_lt_256 [of b] by linarith+
    ultimately have "unat a div 16 = unat b div 16" "unat a mod 16 = unat b mod 16" "as = bs"
      by (simp_all add: hex_digit_inject)
    then have "unat a = unat b" "as = bs"
      by (metis div_mult_mod_eq)+
    then show ?case
      by (simp add: word_unat_eq_iff)
  qed simp
qed simp

section \<open>Base64\<close>

definition b64_char :: "bool \<Rightarrow> nat \<Rightarrow> char" where
  "b64_char url d =
     (if d < 26 then char_of (65 + d) else if d < 52 then char_of (71 + d)
      else if d < 62 then char_of (d - 4) else if d = 62 then (if url then CHR ''-'' else CHR ''+'')
      else (if url then CHR ''_'' else CHR ''/''))"

definition b64_val :: "bool \<Rightarrow> char \<Rightarrow> nat option" where
  "b64_val url c =
     (let n = of_char c :: nat in
      if 65 \<le> n \<and> n \<le> 90 then Some (n - 65) else if 97 \<le> n \<and> n \<le> 122 then Some (n - 71)
      else if 48 \<le> n \<and> n \<le> 57 then Some (n + 4)
      else if c = (if url then CHR ''-'' else CHR ''+'') then Some 62
      else if c = (if url then CHR ''_'' else CHR ''/'') then Some 63 else None)"

fun b64_groups :: "bool \<Rightarrow> nat list \<Rightarrow> string" where
  "b64_groups url [] = []"
| "b64_groups url [a] = [b64_char url (a div 4), b64_char url (a mod 4 * 16)]"
| "b64_groups url [a, b] =
     [b64_char url (a div 4), b64_char url (a mod 4 * 16 + b div 16), b64_char url (b mod 16 * 4)]"
| "b64_groups url (a # b # c # r) =
     b64_char url (a div 4) # b64_char url (a mod 4 * 16 + b div 16)
     # b64_char url (b mod 16 * 4 + c div 64) # b64_char url (c mod 64) # b64_groups url r"

fun b64_ungroup :: "bool \<Rightarrow> string \<Rightarrow> nat list option" where
  "b64_ungroup url [] = Some []"
| "b64_ungroup url [_] = None"
| "b64_ungroup url [p, q] =
     (case (b64_val url p, b64_val url q) of
        (Some i, Some j) \<Rightarrow> Some [i * 4 + j div 16] | _ \<Rightarrow> None)"
| "b64_ungroup url [p, q, r] =
     (case (b64_val url p, b64_val url q, b64_val url r) of
        (Some i, Some j, Some k) \<Rightarrow> Some [i * 4 + j div 16, j mod 16 * 16 + k div 4] | _ \<Rightarrow> None)"
| "b64_ungroup url (p # q # r # s # t) =
     (case (b64_val url p, b64_val url q, b64_val url r, b64_val url s, b64_ungroup url t) of
        (Some i, Some j, Some k, Some l, Some rest) \<Rightarrow>
          Some ((i * 4 + j div 16) # (j mod 16 * 16 + k div 4) # (k mod 4 * 64 + l) # rest)
      | _ \<Rightarrow> None)"

definition b64_encode :: "bool \<Rightarrow> byte list \<Rightarrow> string" where
  "b64_encode url bs = b64_groups url (map unat bs)"

definition is_line_break :: "char \<Rightarrow> bool" where
  "is_line_break c \<longleftrightarrow> (of_char c :: nat) = 10 \<or> (of_char c :: nat) = 13"

definition b64_decode :: "bool \<Rightarrow> string \<Rightarrow> byte list option" where
  "b64_decode url s =
     map_option (map word_of_nat) (b64_ungroup url (filter (\<lambda>c. \<not> is_line_break c) s))"

text \<open>\<^verbatim>\<open>base64.RawURLEncoding\<close> and \<^verbatim>\<open>base64.RawStdEncoding\<close>.\<close>

definition raw_url_encode :: "byte list \<Rightarrow> string" where
  "raw_url_encode = b64_encode True"

definition raw_std_encode :: "byte list \<Rightarrow> string" where
  "raw_std_encode = b64_encode False"

definition raw_std_decode :: "string \<Rightarrow> byte list option" where
  "raw_std_decode = b64_decode False"

lemma b64_val_char [simp]: "d < 64 \<Longrightarrow> b64_val url (b64_char url d) = Some d"
  by (auto simp: b64_val_def b64_char_def Let_def of_char_of)

definition b64_alphabet :: "char \<Rightarrow> bool" where
  "b64_alphabet c \<longleftrightarrow>
     (let n = of_char c :: nat in
      65 \<le> n \<and> n \<le> 90 \<or> 97 \<le> n \<and> n \<le> 122 \<or> 48 \<le> n \<and> n \<le> 57 \<or> n \<in> {43, 45, 47, 95})"

lemma b64_char_alphabet [simp]: "b64_alphabet (b64_char url d)"
  by (auto simp: b64_alphabet_def b64_char_def Let_def of_char_of)

lemma b64_groups_alphabet: "c \<in> set (b64_groups url ns) \<Longrightarrow> b64_alphabet c"
  by (induction url ns rule: b64_groups.induct) auto

lemma b64_encode_alphabet: "c \<in> set (b64_encode url bs) \<Longrightarrow> b64_alphabet c"
  unfolding b64_encode_def by (rule b64_groups_alphabet)

lemma b64_alphabet_not_break: "b64_alphabet c \<Longrightarrow> \<not> is_line_break c"
  by (auto simp: b64_alphabet_def is_line_break_def Let_def)

lemma b64_group_bounds:
  assumes "a < (256 :: nat)"
  shows "a div 4 < 64" "a mod 4 * 16 < 64" "a div 16 < 16" "a mod 16 * 4 < 64" "a div 64 < 4"
    "a mod 64 < 64" "a mod 4 * 16 + k div 16 < 64 \<longleftrightarrow> a mod 4 * 16 + k div 16 < 64"
  using assms by auto

lemma b64_ungroup_groups:
  "(\<forall>n \<in> set ns. n < 256) \<Longrightarrow> b64_ungroup url (b64_groups url ns) = Some ns"
proof (induction url ns rule: b64_groups.induct)
  case (2 url a)
  have "a mod 4 * 16 < 64" "a div 4 < 64" using 2 by auto
  then show ?case by simp
next
  case (3 url a b)
  have "a mod 4 * 16 + b div 16 < 64" "a div 4 < 64" "b mod 16 * 4 < 64" "b div 16 < 16"
    using 3 by auto
  then show ?case by simp
next
  case (4 url a b c r)
  have "a mod 4 * 16 + b div 16 < 64" "a div 4 < 64" "b mod 16 * 4 + c div 64 < 64"
    "b div 16 < 16" "c div 64 < 4"
    using 4(2) by auto
  then show ?case using 4 by simp
qed simp

lemma b64_decode_encode [simp]: "b64_decode url (b64_encode url bs) = Some bs"
proof -
  have "filter (\<lambda>c. \<not> is_line_break c) (b64_encode url bs) = b64_encode url bs"
    by (auto simp: filter_id_conv dest: b64_encode_alphabet b64_alphabet_not_break)
  moreover have "b64_ungroup url (b64_encode url bs) = Some (map unat bs)"
    unfolding b64_encode_def by (rule b64_ungroup_groups) auto
  ultimately show ?thesis
    by (simp add: b64_decode_def o_def)
qed

lemma b64_encode_inject [simp]: "b64_encode url as = b64_encode url bs \<longleftrightarrow> as = bs"
  by (metis b64_decode_encode option.inject)

lemma raw_std_decode_encode [simp]: "raw_std_decode (raw_std_encode bs) = Some bs"
  by (simp add: raw_std_decode_def raw_std_encode_def)

lemma raw_url_encode_inject [simp]: "raw_url_encode as = raw_url_encode bs \<longleftrightarrow> as = bs"
  by (simp add: raw_url_encode_def)

lemma length_b64_groups: "length (b64_groups url ns) = (4 * length ns + 2) div 3"
  by (induction url ns rule: b64_groups.induct) auto

lemma length_raw_url_encode: "length (raw_url_encode bs) = (4 * length bs + 2) div 3"
  by (simp add: raw_url_encode_def b64_encode_def length_b64_groups)

end
