(* ===== verification/Janus_Types.thy ===== *)
theory Janus_Types
  imports Go_Encoding
begin

text \<open>
  The data of the server: the domain structs of the packages under \<^verbatim>\<open>internal/\<close> as records, with
  the fields in the source's order. A record's fields carry a two-letter prefix, since field names
  are global in HOL. A time is a number of nanoseconds since Go's zero time, a duration a number of
  nanoseconds; a pointer that may be nil is an option.
\<close>

type_synonym time = int

definition second :: int where "second = 1000000000"
definition minute :: int where "minute = 60 * second"
definition hour :: int where "hour = 60 * minute"

lemmas duration_defs = hour_def minute_def second_def

section \<open>Tenants, identities, users\<close>

record tenant =
  tnID :: string
  tnSlug :: string
  tnDisplayName :: string
  tnStatus :: string
  tnCreatedAt :: time
  tnUpdatedAt :: time

record policy =
  poTenantID :: string
  poPasswordMinLength :: int
  poPasswordRequireUpper :: bool
  poPasswordRequireDigit :: bool
  poPasswordRequireSymbol :: bool
  poAllowedEmailDomains :: "string list"
  poRequireMFA :: bool
  poMaxActiveSessions :: int

record identity =
  iID :: string
  iPrimaryEmail :: string
  iEmailVerified :: bool
  iStatus :: string
  iCreatedAt :: time
  iUpdatedAt :: time

record user =
  usID :: string
  usTenantID :: string
  usIdentityID :: string
  usUsername :: string
  usDisplayName :: string
  usStatus :: string
  usCreatedAt :: time
  usUpdatedAt :: time

record credential =
  crID :: string
  crIdentityID :: string
  crCredentialType :: string
  crPasswordHash :: string
  crCreatedAt :: time
  crUpdatedAt :: time

record session =
  ssID :: string
  ssTenantID :: string
  ssIdentityID :: string
  ssUserID :: string
  ssRefreshTokenHash :: string
  ssParentSessionID :: "string option"
  ssIPAddress :: "string option"
  ssUserAgent :: string
  ssExpiresAt :: time
  ssRevokedAt :: "time option"
  ssCreatedAt :: time

section \<open>Roles and permissions\<close>

record role =
  rlID :: string
  rlTenantID :: string
  rlName :: string
  rlDescription :: string
  rlCreatedAt :: time

record permission =
  pmID :: string
  pmName :: string
  pmDescription :: string
  pmCreatedAt :: time

record role_permission =
  rpRoleID :: string
  rpPermissionID :: string

record user_role =
  urUserID :: string
  urRoleID :: string
  urCreatedAt :: time

record principal =
  prSessionID :: string
  prIdentityID :: string
  prTenantID :: string
  prUserID :: string
  prEmail :: string
  prRoles :: "string list"
  prPermissions :: "string list"

section \<open>Second factors, signing keys, tokens\<close>

record factor =
  faID :: string
  faIdentityID :: string
  faFactorType :: string
  faSecretEncrypted :: string
  faLabel :: string
  faVerified :: bool
  faCreatedAt :: time

record challenge =
  chToken :: string
  chIdentityID :: string
  chTenantID :: string
  chUserID :: string
  chIPAddress :: string
  chUserAgent :: string
  chExpiresAt :: time

record signing_key =
  skID :: string
  skAlgorithm :: string
  skPublicKey :: string
  skPrivateKey :: string
  skIsActive :: bool
  skCreatedAt :: time
  skRotatedAt :: "time option"

text \<open>The registered claims of the JWT library the server sets, and its own.\<close>

record claims =
  clIssuer :: string
  clSubject :: string
  clAudience :: "string list"
  clIssuedAt :: time
  clExpiresAt :: time
  clNotBefore :: time
  clID :: string
  clTenantID :: string
  clUserID :: string
  clSessionID :: string
  clEmail :: string
  clRoles :: "string list"
  clPermissions :: "string list"
  clNonce :: string

section \<open>OAuth\<close>

record client =
  ocID :: string
  ocTenantID :: string
  ocClientID :: string
  ocClientSecretHash :: string
  ocClientName :: string
  ocRedirectURIs :: "string list"
  ocGrantTypes :: "string list"
  ocScopes :: "string list"
  ocConfidential :: bool
  ocCreatedAt :: time

record auth_code =
  acCode :: string
  acClientID :: string
  acTenantID :: string
  acIdentityID :: string
  acUserID :: string
  acScopes :: "string list"
  acRedirectURI :: string
  acCodeChallenge :: string
  acCodeChallengeMethod :: string
  acNonce :: string
  acExpiresAt :: time

section \<open>WebAuthn\<close>

record wa_credential =
  wcID :: string
  wcIdentityID :: string
  wcCredentialID :: "byte list"
  wcPublicKey :: "byte list"
  wcAttestation :: string
  wcAAGUID :: "byte list"
  wcSignCount :: "32 word"
  wcTransports :: "string list"
  wcUserHandle :: "byte list"
  wcLabel :: string
  wcCreatedAt :: time
  wcLastUsedAt :: "time option"

text \<open>The WebAuthn library's session data: its user handle, and the rest, which the server only carries.\<close>

record wa_session =
  wsUserID :: "byte list"
  wsRest :: string

section \<open>Audit\<close>

record event =
  evID :: string
  evTenantID :: string
  evActorIdentityID :: string
  evEventType :: string
  evResourceType :: string
  evResourceID :: string
  evIPAddress :: string
  evPayload :: string
  evCreatedAt :: time

section \<open>Errors\<close>

text \<open>What PostgreSQL reports for a statement it refuses; \<open>InvalidText\<close>: a value its column cannot hold.\<close>

datatype pg_code = UniqueViolation | ForeignKeyViolation | InvalidText | InFailedTransaction

text \<open>
  The error values of the server's packages, by the names the source gives them, and those of the
  libraries it sees: \<open>ErrNoRows\<close> (pgx), \<open>PgError\<close> (pgconn), \<open>ErrConn\<close> (a call that did not
  reach its service, or that the service failed), \<open>RedisNil\<close> (go-redis), \<open>ErrTxCommitRollback\<close>
  (pgx: the transaction had failed when it was committed). \<open>ErrMsg\<close> is an error made from a
  message, \<open>Wrapped\<close> one that wraps another, \<open>Panic\<close> a panic.
\<close>

datatype error =
    ErrNotFound | ErrUnauthorized | ErrForbidden | ErrConflict | ErrInvalidCredentials
  | ErrTenantMismatch
  | ErrPasswordTooShort | ErrPasswordNeedsUpper | ErrPasswordNeedsDigit | ErrPasswordNeedsSymbol
  | ErrEmailDomainNotAllowed
  | ErrMFAEnrollmentRequired | ErrInvalidCode | ErrFactorNotFound
  | ErrInvalidClient | ErrInvalidRedirectURI | ErrUnsupportedResponse | ErrInvalidScope
  | ErrMissingPKCE | ErrUnsupportedChallenge | ErrInvalidGrant | ErrUnsupportedGrant
  | ErrUnknownCredential | ErrBodyNotAllowed
  | ErrNoRows | PgError pg_code | ErrConn | ErrTxCommitRollback | ErrTxClosed
  | RedisNil | ErrJSON | ErrRandom | ErrLibrary
  | ErrMsg string | Wrapped string error | Panic string

text \<open>\<^verbatim>\<open>errors.Is\<close>: the error itself or one it wraps.\<close>

fun errors_is :: "error \<Rightarrow> error \<Rightarrow> bool" where
  "errors_is (Wrapped m e) t \<longleftrightarrow> Wrapped m e = t \<or> errors_is e t"
| "errors_is e t \<longleftrightarrow> e = t"

end
