(* ===== verification/Janus_Schema.thy ===== *)
theory Janus_Schema
  imports Janus_Types
begin

text \<open>
  The PostgreSQL database of the server: one list of rows per table of \<^verbatim>\<open>migrations/\<close>, and the
  effect of each INSERT, UPDATE and DELETE statement of the repositories, with the constraints the
  migrations declare (primary keys, UNIQUE, REFERENCES). A statement returns \<open>Inl\<close> with the
  violation, and then changes nothing, or \<open>Inr\<close> with its result and the new database.
  \<open>integrity\<close> says that the constraints hold of a whole database.
\<close>

record audit_row =
  auID :: string
  auTenantID :: "string option"
  auActorIdentityID :: "string option"
  auEventType :: string
  auResourceType :: "string option"
  auResourceID :: "string option"
  auIPAddress :: "string option"
  auPayload :: "string option"
  auCreatedAt :: time

record database =
  tenants :: "tenant list"
  tenant_policies :: "policy list"
  identities :: "identity list"
  users :: "user list"
  credentials :: "credential list"
  sessions :: "session list"
  roles :: "role list"
  permissions :: "permission list"
  role_permissions :: "role_permission list"
  user_roles :: "user_role list"
  mfa_factors :: "factor list"
  signing_keys :: "signing_key list"
  oauth_clients :: "client list"
  webauthn_credentials :: "wa_credential list"
  audit_events :: "audit_row list"

definition empty_db :: database where
  "empty_db = \<lparr> tenants = [], tenant_policies = [], identities = [], users = [], credentials = [],
     sessions = [], roles = [], permissions = [], role_permissions = [], user_roles = [],
     mfa_factors = [], signing_keys = [], oauth_clients = [], webauthn_credentials = [],
     audit_events = [] \<rparr>"

type_synonym 'a dbop = "database \<Rightarrow> error + ('a \<times> database)"

text \<open>\<open>guarded cs d\<close>: the first violated constraint, else the new database.\<close>

fun guarded :: "(bool \<times> pg_code) list \<Rightarrow> database \<Rightarrow> error + (unit \<times> database)" where
  "guarded [] d = Inr ((), d)"
| "guarded ((ok, c) # cs) d = (if ok then guarded cs d else Inl (PgError c))"

lemma guarded_Inr_iff [simp]:
  "guarded cs d = Inr (u, d') \<longleftrightarrow> d' = d \<and> list_all fst cs"
  by (induction cs d rule: guarded.induct) auto

declare guarded.simps [simp del]

section \<open>INSERT\<close>

definition has_key :: "('r \<Rightarrow> 'k) \<Rightarrow> 'k \<Rightarrow> 'r list \<Rightarrow> bool" where
  "has_key key k rows \<longleftrightarrow> list_ex (\<lambda>r. key r = k) rows"

lemma has_key_iff [simp]: "has_key key k rows \<longleftrightarrow> k \<in> key ` set rows"
  by (auto simp: has_key_def list_ex_iff)

definition ins_tenant :: "tenant \<Rightarrow> unit dbop" where
  "ins_tenant r d = guarded
     [(\<not> has_key tnID (tnID r) (tenants d), UniqueViolation),
      (\<not> has_key tnSlug (tnSlug r) (tenants d), UniqueViolation)]
     (d\<lparr>tenants := tenants d @ [r]\<rparr>)"

definition ins_identity :: "identity \<Rightarrow> unit dbop" where
  "ins_identity r d = guarded
     [(\<not> has_key iID (iID r) (identities d), UniqueViolation),
      (\<not> has_key iPrimaryEmail (iPrimaryEmail r) (identities d), UniqueViolation)]
     (d\<lparr>identities := identities d @ [r]\<rparr>)"

definition user_membership :: "user \<Rightarrow> string \<times> string" where
  "user_membership u = (usTenantID u, usIdentityID u)"

definition user_login :: "user \<Rightarrow> string \<times> string" where
  "user_login u = (usTenantID u, usUsername u)"

definition ins_user :: "user \<Rightarrow> unit dbop" where
  "ins_user r d = guarded
     [(\<not> has_key usID (usID r) (users d), UniqueViolation),
      (\<not> has_key user_membership (user_membership r) (users d), UniqueViolation),
      (\<not> has_key user_login (user_login r) (users d), UniqueViolation),
      (has_key tnID (usTenantID r) (tenants d), ForeignKeyViolation),
      (has_key iID (usIdentityID r) (identities d), ForeignKeyViolation)]
     (d\<lparr>users := users d @ [r]\<rparr>)"

definition ins_credential :: "credential \<Rightarrow> unit dbop" where
  "ins_credential r d = guarded
     [(\<not> has_key crID (crID r) (credentials d), UniqueViolation),
      (has_key iID (crIdentityID r) (identities d), ForeignKeyViolation)]
     (d\<lparr>credentials := credentials d @ [r]\<rparr>)"

text \<open>A session may name itself as its parent; the code never does.\<close>

definition ins_session :: "session \<Rightarrow> unit dbop" where
  "ins_session r d = guarded
     [(\<not> has_key ssID (ssID r) (sessions d), UniqueViolation),
      (has_key tnID (ssTenantID r) (tenants d), ForeignKeyViolation),
      (has_key iID (ssIdentityID r) (identities d), ForeignKeyViolation),
      (has_key usID (ssUserID r) (users d), ForeignKeyViolation),
      (case ssParentSessionID r of None \<Rightarrow> True
       | Some p \<Rightarrow> p = ssID r \<or> has_key ssID p (sessions d), ForeignKeyViolation)]
     (d\<lparr>sessions := sessions d @ [r]\<rparr>)"

definition role_name_key :: "role \<Rightarrow> string \<times> string" where
  "role_name_key r = (rlTenantID r, rlName r)"

definition ins_role :: "role \<Rightarrow> unit dbop" where
  "ins_role r d = guarded
     [(\<not> has_key rlID (rlID r) (roles d), UniqueViolation),
      (\<not> has_key role_name_key (role_name_key r) (roles d), UniqueViolation),
      (has_key tnID (rlTenantID r) (tenants d), ForeignKeyViolation)]
     (d\<lparr>roles := roles d @ [r]\<rparr>)"

text \<open>The code inserts permissions with no tenant, so the index on tenant and name is one on the name.\<close>

definition ins_permission :: "permission \<Rightarrow> unit dbop" where
  "ins_permission r d = guarded
     [(\<not> has_key pmID (pmID r) (permissions d), UniqueViolation),
      (\<not> has_key pmName (pmName r) (permissions d), UniqueViolation)]
     (d\<lparr>permissions := permissions d @ [r]\<rparr>)"

definition rp_key :: "role_permission \<Rightarrow> string \<times> string" where
  "rp_key r = (rpRoleID r, rpPermissionID r)"

definition ins_role_permission :: "role_permission \<Rightarrow> unit dbop" where
  "ins_role_permission r d = guarded
     [(\<not> has_key rp_key (rp_key r) (role_permissions d), UniqueViolation),
      (has_key rlID (rpRoleID r) (roles d), ForeignKeyViolation),
      (has_key pmID (rpPermissionID r) (permissions d), ForeignKeyViolation)]
     (d\<lparr>role_permissions := role_permissions d @ [r]\<rparr>)"

definition ur_key :: "user_role \<Rightarrow> string \<times> string" where
  "ur_key r = (urUserID r, urRoleID r)"

definition ins_user_role :: "user_role \<Rightarrow> unit dbop" where
  "ins_user_role r d = guarded
     [(\<not> has_key ur_key (ur_key r) (user_roles d), UniqueViolation),
      (has_key usID (urUserID r) (users d), ForeignKeyViolation),
      (has_key rlID (urRoleID r) (roles d), ForeignKeyViolation)]
     (d\<lparr>user_roles := user_roles d @ [r]\<rparr>)"

definition ins_factor :: "factor \<Rightarrow> unit dbop" where
  "ins_factor r d = guarded
     [(\<not> has_key faID (faID r) (mfa_factors d), UniqueViolation),
      (has_key iID (faIdentityID r) (identities d), ForeignKeyViolation)]
     (d\<lparr>mfa_factors := mfa_factors d @ [r]\<rparr>)"

definition ins_signing_key :: "signing_key \<Rightarrow> unit dbop" where
  "ins_signing_key r d = guarded
     [(\<not> has_key skID (skID r) (signing_keys d), UniqueViolation)]
     (d\<lparr>signing_keys := signing_keys d @ [r]\<rparr>)"

definition ins_client :: "client \<Rightarrow> unit dbop" where
  "ins_client r d = guarded
     [(\<not> has_key ocID (ocID r) (oauth_clients d), UniqueViolation),
      (\<not> has_key ocClientID (ocClientID r) (oauth_clients d), UniqueViolation),
      (has_key tnID (ocTenantID r) (tenants d), ForeignKeyViolation)]
     (d\<lparr>oauth_clients := oauth_clients d @ [r]\<rparr>)"

definition ins_wa_credential :: "wa_credential \<Rightarrow> unit dbop" where
  "ins_wa_credential r d = guarded
     [(\<not> has_key wcID (wcID r) (webauthn_credentials d), UniqueViolation),
      (\<not> has_key wcCredentialID (wcCredentialID r) (webauthn_credentials d), UniqueViolation),
      (has_key iID (wcIdentityID r) (identities d), ForeignKeyViolation)]
     (d\<lparr>webauthn_credentials := webauthn_credentials d @ [r]\<rparr>)"

definition ins_audit_row :: "audit_row \<Rightarrow> unit dbop" where
  "ins_audit_row r d = guarded
     [(\<not> has_key auID (auID r) (audit_events d), UniqueViolation)]
     (d\<lparr>audit_events := audit_events d @ [r]\<rparr>)"

text \<open>INSERT ... ON CONFLICT (tenant_id) DO UPDATE of every column.\<close>

definition upsert_policy :: "policy \<Rightarrow> unit dbop" where
  "upsert_policy r d = guarded
     [(has_key tnID (poTenantID r) (tenants d), ForeignKeyViolation)]
     (if has_key poTenantID (poTenantID r) (tenant_policies d)
      then d\<lparr>tenant_policies :=
             map (\<lambda>p. if poTenantID p = poTenantID r then r else p) (tenant_policies d)\<rparr>
      else d\<lparr>tenant_policies := tenant_policies d @ [r]\<rparr>)"

lemmas insert_defs =
  ins_tenant_def ins_identity_def ins_user_def ins_credential_def ins_session_def ins_role_def
  ins_permission_def ins_role_permission_def ins_user_role_def ins_factor_def ins_signing_key_def
  ins_client_def ins_wa_credential_def ins_audit_row_def

section \<open>UPDATE and DELETE\<close>

definition upd_sessions :: "(session \<Rightarrow> bool) \<Rightarrow> (session \<Rightarrow> session) \<Rightarrow> unit dbop" where
  "upd_sessions P f d = Inr ((), d\<lparr>sessions := map (\<lambda>s. if P s then f s else s) (sessions d)\<rparr>)"

text \<open>
  \<^verbatim>\<open>sessions.parent_session_id REFERENCES sessions(id)\<close> has no ON DELETE clause: a row that stays
  must not name a row that goes, which is checked once all of them are gone.
\<close>

definition orphaned :: "session list \<Rightarrow> bool" where
  "orphaned ss \<longleftrightarrow>
     list_ex (\<lambda>s. case ssParentSessionID s of None \<Rightarrow> False | Some p \<Rightarrow> \<not> has_key ssID p ss) ss"

definition del_sessions :: "(session \<Rightarrow> bool) \<Rightarrow> nat dbop" where
  "del_sessions P d =
     (let keep = filter (\<lambda>s. \<not> P s) (sessions d) in
      if orphaned keep then Inl (PgError ForeignKeyViolation)
      else Inr (length (filter P (sessions d)), d\<lparr>sessions := keep\<rparr>))"

definition upd_factors :: "(factor \<Rightarrow> bool) \<Rightarrow> (factor \<Rightarrow> factor) \<Rightarrow> unit dbop" where
  "upd_factors P f d = Inr ((), d\<lparr>mfa_factors := map (\<lambda>s. if P s then f s else s) (mfa_factors d)\<rparr>)"

definition del_factors :: "(factor \<Rightarrow> bool) \<Rightarrow> unit dbop" where
  "del_factors P d = Inr ((), d\<lparr>mfa_factors := filter (\<lambda>s. \<not> P s) (mfa_factors d)\<rparr>)"

definition upd_signing_keys ::
  "(signing_key \<Rightarrow> bool) \<Rightarrow> (signing_key \<Rightarrow> signing_key) \<Rightarrow> unit dbop" where
  "upd_signing_keys P f d =
     Inr ((), d\<lparr>signing_keys := map (\<lambda>s. if P s then f s else s) (signing_keys d)\<rparr>)"

definition upd_wa_credentials ::
  "(wa_credential \<Rightarrow> bool) \<Rightarrow> (wa_credential \<Rightarrow> wa_credential) \<Rightarrow> unit dbop" where
  "upd_wa_credentials P f d =
     Inr ((), d\<lparr>webauthn_credentials :=
                 map (\<lambda>s. if P s then f s else s) (webauthn_credentials d)\<rparr>)"

definition del_wa_credentials :: "(wa_credential \<Rightarrow> bool) \<Rightarrow> unit dbop" where
  "del_wa_credentials P d =
     Inr ((), d\<lparr>webauthn_credentials := filter (\<lambda>s. \<not> P s) (webauthn_credentials d)\<rparr>)"

section \<open>Integrity\<close>

definition unique :: "('r \<Rightarrow> 'k) \<Rightarrow> 'r list \<Rightarrow> bool" where
  "unique key rows \<longleftrightarrow> distinct (map key rows)"

definition refers :: "('r \<Rightarrow> 'k) \<Rightarrow> 'r list \<Rightarrow> ('s \<Rightarrow> 'k) \<Rightarrow> 's list \<Rightarrow> bool" where
  "refers fk rows key targets \<longleftrightarrow> list_all (\<lambda>r. has_key key (fk r) targets) rows"

definition integrity :: "database \<Rightarrow> bool" where
  "integrity d \<longleftrightarrow>
     (unique tnID (tenants d) \<and> unique tnSlug (tenants d))
   \<and> (unique poTenantID (tenant_policies d) \<and> refers poTenantID (tenant_policies d) tnID (tenants d))
   \<and> (unique iID (identities d) \<and> unique iPrimaryEmail (identities d))
   \<and> (unique usID (users d) \<and> unique user_membership (users d) \<and> unique user_login (users d)
      \<and> refers usTenantID (users d) tnID (tenants d) \<and> refers usIdentityID (users d) iID (identities d))
   \<and> (unique crID (credentials d) \<and> refers crIdentityID (credentials d) iID (identities d))
   \<and> (unique ssID (sessions d) \<and> refers ssTenantID (sessions d) tnID (tenants d)
      \<and> refers ssIdentityID (sessions d) iID (identities d) \<and> refers ssUserID (sessions d) usID (users d)
      \<and> \<not> orphaned (sessions d))
   \<and> (unique rlID (roles d) \<and> unique role_name_key (roles d)
      \<and> refers rlTenantID (roles d) tnID (tenants d))
   \<and> (unique pmID (permissions d) \<and> unique pmName (permissions d))
   \<and> (unique rp_key (role_permissions d) \<and> refers rpRoleID (role_permissions d) rlID (roles d)
      \<and> refers rpPermissionID (role_permissions d) pmID (permissions d))
   \<and> (unique ur_key (user_roles d) \<and> refers urUserID (user_roles d) usID (users d)
      \<and> refers urRoleID (user_roles d) rlID (roles d))
   \<and> (unique faID (mfa_factors d) \<and> refers faIdentityID (mfa_factors d) iID (identities d))
   \<and> unique skID (signing_keys d)
   \<and> (unique ocID (oauth_clients d) \<and> unique ocClientID (oauth_clients d)
      \<and> refers ocTenantID (oauth_clients d) tnID (tenants d))
   \<and> (unique wcID (webauthn_credentials d) \<and> unique wcCredentialID (webauthn_credentials d)
      \<and> refers wcIdentityID (webauthn_credentials d) iID (identities d))
   \<and> unique auID (audit_events d)"

lemma unique_Nil [simp]: "unique key []"
  by (simp add: unique_def)

lemma unique_snoc [simp]: "unique key (rows @ [r]) \<longleftrightarrow> unique key rows \<and> key r \<notin> key ` set rows"
  by (simp add: unique_def conj_commute)

lemma unique_filter [simp, intro]: "unique key rows \<Longrightarrow> unique key (filter P rows)"
  by (simp add: unique_def distinct_map_filter)

lemma unique_update [simp]:
  "(\<And>r. key (f r) = key r) \<Longrightarrow> unique key (map (\<lambda>r. if P r then f r else r) rows) \<longleftrightarrow> unique key rows"
  by (simp add: unique_def o_def if_distrib [of key] cong: if_cong)

lemma uniqueD: "unique key rows \<Longrightarrow> r \<in> set rows \<Longrightarrow> s \<in> set rows \<Longrightarrow> key r = key s \<Longrightarrow> r = s"
  by (auto simp: unique_def distinct_map inj_on_def)

lemma refers_Nil [simp]: "refers fk [] key targets"
  by (simp add: refers_def)

lemma refers_snoc [simp]:
  "refers fk (rows @ [r]) key targets \<longleftrightarrow> refers fk rows key targets \<and> fk r \<in> key ` set targets"
  by (simp add: refers_def)

lemma refers_target_snoc [simp, intro]:
  "refers fk rows key targets \<Longrightarrow> refers fk rows key (targets @ [t])"
  by (auto simp: refers_def list_all_iff)

lemma refers_filter [simp, intro]: "refers fk rows key targets \<Longrightarrow> refers fk (filter P rows) key targets"
  by (simp add: refers_def list_all_iff)

lemma refers_update [simp]:
  assumes "\<And>r. fk (f r) = fk r"
  shows "refers fk (map (\<lambda>r. if P r then f r else r) rows) key targets \<longleftrightarrow> refers fk rows key targets"
proof -
  have "fk (if P r then f r else r) = fk r" for r
    using assms by simp
  then show ?thesis
    unfolding refers_def by (simp only: list.pred_map o_def)
qed

lemma refersD: "refers fk rows key targets \<Longrightarrow> r \<in> set rows \<Longrightarrow> fk r \<in> key ` set targets"
  by (simp add: refers_def list_all_iff)

lemma orphaned_Nil [simp]: "\<not> orphaned []"
  by (simp add: orphaned_def)

lemma orphaned_iff:
  "orphaned ss \<longleftrightarrow> (\<exists>s \<in> set ss. \<exists>p. ssParentSessionID s = Some p \<and> p \<notin> ssID ` set ss)"
  unfolding orphaned_def list_ex_iff by (intro bex_cong refl) (simp split: option.split)

lemma image_update [simp]:
  assumes "\<And>r. key (f r) = key r"
  shows "key ` set (map (\<lambda>r. if P r then f r else r) rows) = key ` set rows"
  by (simp only: set_map image_image if_distrib [of key] assms if_cancel)

lemma orphaned_update [simp]:
  assumes "\<And>r. ssID (f r) = ssID r" "\<And>r. ssParentSessionID (f r) = ssParentSessionID r"
  shows "orphaned (map (\<lambda>r. if P r then f r else r) ss) \<longleftrightarrow> orphaned ss"
proof -
  have "ssID ` set (map (\<lambda>r. if P r then f r else r) ss) = ssID ` set ss"
    using assms(1) by (rule image_update)
  moreover have "ssParentSessionID (if P r then f r else r) = ssParentSessionID r" for r
    using assms(2) by simp
  ultimately show ?thesis
    unfolding orphaned_iff by (simp only: set_map bex_simps)
qed

lemma integrity_empty: "integrity empty_db"
  by (simp add: integrity_def empty_db_def)

text \<open>Every statement keeps the database integral: the constraints it checks are the ones it could break.\<close>

lemma integrity_insert:
  "integrity d \<Longrightarrow> ins_tenant r1 d = Inr (u, d') \<Longrightarrow> integrity d'"
  "integrity d \<Longrightarrow> ins_identity r2 d = Inr (u, d') \<Longrightarrow> integrity d'"
  "integrity d \<Longrightarrow> ins_user r3 d = Inr (u, d') \<Longrightarrow> integrity d'"
  "integrity d \<Longrightarrow> ins_credential r4 d = Inr (u, d') \<Longrightarrow> integrity d'"
  "integrity d \<Longrightarrow> ins_role r6 d = Inr (u, d') \<Longrightarrow> integrity d'"
  "integrity d \<Longrightarrow> ins_permission r7 d = Inr (u, d') \<Longrightarrow> integrity d'"
  "integrity d \<Longrightarrow> ins_role_permission r8 d = Inr (u, d') \<Longrightarrow> integrity d'"
  "integrity d \<Longrightarrow> ins_user_role r9 d = Inr (u, d') \<Longrightarrow> integrity d'"
  "integrity d \<Longrightarrow> ins_factor r10 d = Inr (u, d') \<Longrightarrow> integrity d'"
  "integrity d \<Longrightarrow> ins_signing_key r11 d = Inr (u, d') \<Longrightarrow> integrity d'"
  "integrity d \<Longrightarrow> ins_client r12 d = Inr (u, d') \<Longrightarrow> integrity d'"
  "integrity d \<Longrightarrow> ins_wa_credential r13 d = Inr (u, d') \<Longrightarrow> integrity d'"
  "integrity d \<Longrightarrow> ins_audit_row r14 d = Inr (u, d') \<Longrightarrow> integrity d'"
  by (simp_all add: insert_defs, simp_all add: integrity_def)

lemma integrity_ins_session:
  assumes "integrity d" "ins_session r d = Inr (u, d')"
  shows "integrity d'"
proof -
  have fresh: "case ssParentSessionID r of None \<Rightarrow> True | Some p \<Rightarrow> p = ssID r \<or> p \<in> ssID ` set (sessions d)"
    and d': "d' = d\<lparr>sessions := sessions d @ [r]\<rparr>"
    using assms(2) by (simp_all add: ins_session_def cong: option.case_cong)
  have "\<not> orphaned (sessions d)"
    using assms(1) by (simp add: integrity_def)
  with fresh have "\<not> orphaned (sessions d @ [r])"
    by (auto simp: orphaned_iff split: option.splits)
  then show ?thesis
    using assms unfolding d' by (simp add: ins_session_def) (simp add: integrity_def)
qed

lemma integrity_upsert_policy:
  assumes int: "integrity d" and up: "upsert_policy r d = Inr (u, d')"
  shows "integrity d'"
proof -
  let ?put = "map (\<lambda>p. if poTenantID p = poTenantID r then r else p) (tenant_policies d)"
  have keys: "map poTenantID ?put = map poTenantID (tenant_policies d)"
    by simp
  have ref: "poTenantID r \<in> tnID ` set (tenants d)"
    using up by (simp add: upsert_policy_def)
  have "unique poTenantID ?put" "refers poTenantID ?put tnID (tenants d)"
    using int ref by (auto simp: integrity_def unique_def keys refers_def list_all_iff simp del: map_map)
  then show ?thesis
    using int up by (cases "poTenantID r \<in> poTenantID ` set (tenant_policies d)")
      (simp_all add: upsert_policy_def integrity_def)
qed

lemma integrity_del_sessions: "integrity d \<Longrightarrow> del_sessions P d = Inr (n, d') \<Longrightarrow> integrity d'"
  by (clarsimp simp: del_sessions_def Let_def split: if_splits, simp add: integrity_def)

lemma integrity_upd_sessions:
  assumes "integrity d" "upd_sessions P f d = Inr (u, d')"
    and "\<And>s. ssID (f s) = ssID s" "\<And>s. ssTenantID (f s) = ssTenantID s"
      "\<And>s. ssIdentityID (f s) = ssIdentityID s" "\<And>s. ssUserID (f s) = ssUserID s"
      "\<And>s. ssParentSessionID (f s) = ssParentSessionID s"
  shows "integrity d'"
  using assms by (clarsimp simp: upd_sessions_def, simp add: integrity_def)

lemma integrity_factors:
  "integrity d \<Longrightarrow> upd_factors P f d = Inr (u, d') \<Longrightarrow> (\<And>x. faID (f x) = faID x) \<Longrightarrow>
     (\<And>x. faIdentityID (f x) = faIdentityID x) \<Longrightarrow> integrity d'"
  "integrity d \<Longrightarrow> del_factors P d = Inr (u, d') \<Longrightarrow> integrity d'"
  by (clarsimp simp: upd_factors_def, simp add: integrity_def)
    (clarsimp simp: del_factors_def, simp add: integrity_def)

lemma integrity_upd_signing_keys:
  "integrity d \<Longrightarrow> upd_signing_keys P f d = Inr (u, d') \<Longrightarrow> (\<And>x. skID (f x) = skID x) \<Longrightarrow> integrity d'"
  by (clarsimp simp: upd_signing_keys_def, simp add: integrity_def)

lemma integrity_wa_credentials:
  "integrity d \<Longrightarrow> upd_wa_credentials P f d = Inr (u, d') \<Longrightarrow> (\<And>x. wcID (f x) = wcID x) \<Longrightarrow>
     (\<And>x. wcCredentialID (f x) = wcCredentialID x) \<Longrightarrow> (\<And>x. wcIdentityID (f x) = wcIdentityID x) \<Longrightarrow>
     integrity d'"
  "integrity d \<Longrightarrow> del_wa_credentials P d = Inr (u, d') \<Longrightarrow> integrity d'"
  by (clarsimp simp: upd_wa_credentials_def, simp add: integrity_def)
    (clarsimp simp: del_wa_credentials_def, simp add: integrity_def)

end
