(* ===== verification/Go_Runes.thy ===== *)
theory Go_Runes
  imports Go_Strings
begin

text \<open>
  UTF-8 and the Unicode-aware functions of Go's strings and unicode packages that the server uses.
  The ASCII part of every character class is written out; the classes of the runes from 128 on are
  the tables of package unicode, the fields of \<open>unicode\<close>, which every definition here takes.
\<close>

section \<open>Decoding: what \<^verbatim>\<open>for _, r := range s\<close> yields\<close>

definition rune_error :: nat where
  "rune_error = 65533"

definition cont :: "nat \<Rightarrow> bool" where
  "cont b \<longleftrightarrow> 128 \<le> b \<and> b \<le> 191"

text \<open>The range of the second byte of a sequence of two, three or four, by its first byte.\<close>

definition second_ok :: "nat \<Rightarrow> nat \<Rightarrow> bool" where
  "second_ok b0 b1 \<longleftrightarrow>
     (if b0 = 224 then 160 \<le> b1 \<and> b1 \<le> 191
      else if b0 = 237 then 128 \<le> b1 \<and> b1 \<le> 159
      else if b0 = 240 then 144 \<le> b1 \<and> b1 \<le> 191
      else if b0 = 244 then 128 \<le> b1 \<and> b1 \<le> 143
      else cont b1)"

text \<open>
  \<^verbatim>\<open>utf8.DecodeRune\<close>: the first rune and how many bytes it took. A byte that starts no valid
  sequence is \<^verbatim>\<open>utf8.RuneError\<close> of width 1.
\<close>

fun decode_rune :: "nat list \<Rightarrow> nat \<times> nat" where
  "decode_rune [] = (rune_error, 0)"
| "decode_rune (b0 # bs) =
     (if b0 < 128 then (b0, 1)
      else if 194 \<le> b0 \<and> b0 \<le> 223 then
        (case bs of b1 # _ \<Rightarrow>
           if second_ok b0 b1 then ((b0 - 192) * 64 + (b1 - 128), 2) else (rune_error, 1)
         | _ \<Rightarrow> (rune_error, 1))
      else if 224 \<le> b0 \<and> b0 \<le> 239 then
        (case bs of b1 # b2 # _ \<Rightarrow>
           if second_ok b0 b1 \<and> cont b2
           then ((b0 - 224) * 4096 + (b1 - 128) * 64 + (b2 - 128), 3) else (rune_error, 1)
         | _ \<Rightarrow> (rune_error, 1))
      else if 240 \<le> b0 \<and> b0 \<le> 244 then
        (case bs of b1 # b2 # b3 # _ \<Rightarrow>
           if second_ok b0 b1 \<and> cont b2 \<and> cont b3
           then ((b0 - 240) * 262144 + (b1 - 128) * 4096 + (b2 - 128) * 64 + (b3 - 128), 4)
           else (rune_error, 1)
         | _ \<Rightarrow> (rune_error, 1))
      else (rune_error, 1))"

function runes_of :: "nat list \<Rightarrow> nat list" where
  "runes_of [] = []"
| "runes_of (b # bs) =
     (case decode_rune (b # bs) of (r, n) \<Rightarrow> r # runes_of (drop (n - 1) bs))"
  by pat_completeness auto
termination
  by (relation "measure length") auto

declare runes_of.simps(2) [simp del]
declare decode_rune.simps(2) [simp del]

definition runes :: "string \<Rightarrow> nat list" where
  "runes s = runes_of (map of_char s)"

section \<open>Encoding\<close>

definition encode_rune :: "nat \<Rightarrow> nat list" where
  "encode_rune r =
     (if r < 128 then [r]
      else if r < 2048 then [192 + r div 64, 128 + r mod 64]
      else if 55296 \<le> r \<and> r \<le> 57343 \<or> 1114111 < r then [239, 191, 189]
      else if r < 65536 then [224 + r div 4096, 128 + r div 64 mod 64, 128 + r mod 64]
      else [240 + r div 262144, 128 + r div 4096 mod 64, 128 + r div 64 mod 64, 128 + r mod 64])"

definition string_of_runes :: "nat list \<Rightarrow> string" where
  "string_of_runes rs = map char_of (concat (map encode_rune rs))"

definition valid_rune :: "nat \<Rightarrow> bool" where
  "valid_rune r \<longleftrightarrow> r < 55296 \<or> 57343 < r \<and> r \<le> 1114111"

lemma encode_rune_bytes: "b \<in> set (encode_rune r) \<Longrightarrow> b < 256"
  by (auto simp: encode_rune_def split: if_splits)

lemma runes_of_ascii: "(\<forall>b \<in> set bs. b < 128) \<Longrightarrow> runes_of bs = bs"
  by (induction bs) (auto simp: runes_of.simps(2) decode_rune.simps(2))

definition ascii :: "string \<Rightarrow> bool" where
  "ascii s \<longleftrightarrow> (\<forall>c \<in> set s. (of_char c :: nat) < 128)"

lemma ascii_simps [simp]:
  "ascii []" "ascii (c # s) \<longleftrightarrow> (of_char c :: nat) < 128 \<and> ascii s"
  "ascii (s @ t) \<longleftrightarrow> ascii s \<and> ascii t"
  by (auto simp: ascii_def)

lemma runes_ascii: "ascii s \<Longrightarrow> runes s = map of_char s"
  by (auto simp: runes_def ascii_def intro!: runes_of_ascii)

text \<open>Decoding undoes encoding on every rune that is a Unicode scalar value.\<close>

lemma decode_encode_rune:
  assumes "valid_rune r"
  shows "decode_rune (encode_rune r @ bs) = (r, length (encode_rune r))"
proof -
  consider "r < 128" | "128 \<le> r" "r < 2048" | "2048 \<le> r" "r < 65536" | "65536 \<le> r" "r \<le> 1114111"
    using assms unfolding valid_rune_def
    by (cases "r < 128"; cases "r < 2048"; cases "r < 65536"; force)
  then show ?thesis
  proof cases
    case 1
    then show ?thesis by (simp add: encode_rune_def decode_rune.simps(2))
  next
    case 2
    have "(r div 64) * 64 + r mod 64 = r" "r div 64 < 32" "2 \<le> r div 64"
      using 2 by auto
    then show ?thesis
      using 2 by (simp add: encode_rune_def decode_rune.simps(2) second_ok_def cont_def)
  next
    case 3
    let ?h = "r div 4096" and ?m = "r div 64 mod 64" and ?l = "r mod 64"
    have q: "r div 64 div 64 = ?h"
      by (simp add: div_mult2_eq [symmetric])
    have "?h * 4096 + ?m * 64 + ?l = r"
      using div_mult_mod_eq [of r 64] div_mult_mod_eq [of "r div 64" 64] unfolding q by linarith
    moreover have "?h < 16" "?m < 64" "?l < 64"
      using 3 by auto
    ultimately have m: "?h = 0 \<Longrightarrow> 32 \<le> ?m" "?h = 13 \<Longrightarrow> ?m < 32"
        and h: "?h * 4096 + ?m * 64 + ?l = r" "?h < 16" "?m < 64" "?l < 64"
      using assms 3 unfolding valid_rune_def by linarith+
    then show ?thesis
      using 3 assms
      by (simp add: encode_rune_def decode_rune.simps(2) second_ok_def cont_def valid_rune_def)
         linarith
  next
    case 4
    let ?h = "r div 262144" and ?m = "r div 4096 mod 64" and ?n = "r div 64 mod 64" and ?l = "r mod 64"
    have q: "r div 64 div 64 = r div 4096" "r div 4096 div 64 = ?h"
      by (simp_all add: div_mult2_eq [symmetric])
    have "?h * 262144 + ?m * 4096 + ?n * 64 + ?l = r"
      using div_mult_mod_eq [of r 64] div_mult_mod_eq [of "r div 64" 64]
        div_mult_mod_eq [of "r div 4096" 64] unfolding q by linarith
    moreover have "?h < 5" "?m < 64" "?n < 64" "?l < 64"
      using 4 by auto
    ultimately have m: "?h = 0 \<Longrightarrow> 16 \<le> ?m" "?h = 4 \<Longrightarrow> ?m < 16"
        and h: "?h * 262144 + ?m * 4096 + ?n * 64 + ?l = r" "?h < 5" "?m < 64" "?n < 64" "?l < 64"
      using 4 by linarith+
    then show ?thesis
      using 4 assms
      by (simp add: encode_rune_def decode_rune.simps(2) second_ok_def cont_def valid_rune_def)
         (intro conjI impI; linarith)
  qed
qed

lemma encode_rune_nonempty [simp]: "encode_rune r \<noteq> []"
  by (simp add: encode_rune_def)

lemma runes_of_encode:
  "valid_rune r \<Longrightarrow> runes_of (encode_rune r @ bs) = r # runes_of bs"
proof -
  assume r: "valid_rune r"
  obtain b cs where bc: "encode_rune r = b # cs"
    by (cases "encode_rune r") auto
  have "decode_rune (b # (cs @ bs)) = (r, Suc (length cs))"
    using decode_encode_rune [OF r, of bs] by (simp add: bc)
  then show ?thesis
    by (simp add: bc runes_of.simps(2))
qed

lemma runes_string_of_runes:
  assumes "\<forall>r \<in> set rs. valid_rune r"
  shows "runes (string_of_runes rs) = rs"
proof -
  have "\<forall>b \<in> set (concat (map encode_rune rs)). b mod 256 = b"
    by (auto dest!: encode_rune_bytes)
  then have "map of_char (string_of_runes rs) = concat (map encode_rune rs)"
    by (auto simp: string_of_runes_def o_def of_char_of intro!: map_idI)
  moreover have "runes_of (concat (map encode_rune rs)) = rs"
    using assms by (induction rs) (auto simp: runes_of_encode)
  ultimately show ?thesis
    by (simp add: runes_def)
qed

section \<open>Character classes and case\<close>

text \<open>The tables of package unicode from rune 128 on.\<close>

record unicode =
  upper_ext :: "nat \<Rightarrow> bool"
  digit_ext :: "nat \<Rightarrow> bool"
  punct_ext :: "nat \<Rightarrow> bool"
  symbol_ext :: "nat \<Rightarrow> bool"
  lower_ext :: "nat \<Rightarrow> nat"

definition is_upper :: "unicode \<Rightarrow> nat \<Rightarrow> bool" where
  "is_upper u r = (if r < 128 then 65 \<le> r \<and> r \<le> 90 else upper_ext u r)"

definition is_digit :: "unicode \<Rightarrow> nat \<Rightarrow> bool" where
  "is_digit u r = (if r < 128 then 48 \<le> r \<and> r \<le> 57 else digit_ext u r)"

definition is_punct :: "unicode \<Rightarrow> nat \<Rightarrow> bool" where
  "is_punct u r =
     (if r < 128 then 33 \<le> r \<and> r \<le> 47 \<and> r \<noteq> 36 \<and> r \<noteq> 43 \<or> r = 58 \<or> r = 59 \<or> r = 63 \<or> r = 64
        \<or> 91 \<le> r \<and> r \<le> 95 \<and> r \<noteq> 94 \<or> r = 123 \<or> r = 125
      else punct_ext u r)"

definition is_symbol_cat :: "unicode \<Rightarrow> nat \<Rightarrow> bool" where
  "is_symbol_cat u r =
     (if r < 128 then r = 36 \<or> r = 43 \<or> 60 \<le> r \<and> r \<le> 62 \<or> r = 94 \<or> r = 96 \<or> r = 124 \<or> r = 126
      else symbol_ext u r)"

definition to_lower_rune :: "unicode \<Rightarrow> nat \<Rightarrow> nat" where
  "to_lower_rune u r = (if r < 128 then if 65 \<le> r \<and> r \<le> 90 then r + 32 else r else lower_ext u r)"

text \<open>\<^verbatim>\<open>strings.ToLower\<close>: every rune mapped, an invalid byte becoming U+FFFD.\<close>

definition to_lower :: "unicode \<Rightarrow> string \<Rightarrow> string" where
  "to_lower u s = string_of_runes (map (to_lower_rune u) (runes s))"

text \<open>\<^verbatim>\<open>strings.ReplaceAll(s, a, b)\<close> for one ASCII byte by another works byte by byte.\<close>

definition replace_ch :: "char \<Rightarrow> char \<Rightarrow> string \<Rightarrow> string" where
  "replace_ch a b s = map (\<lambda>c. if c = a then b else c) s"

definition lower_ch :: "char \<Rightarrow> char" where
  "lower_ch c = (let n = of_char c :: nat in if 65 \<le> n \<and> n \<le> 90 then char_of (n + 32) else c)"

lemma to_lower_ascii: "ascii s \<Longrightarrow> to_lower u s = map lower_ch s"
  unfolding to_lower_def
  by (simp add: runes_ascii)
     (induction s, auto simp: string_of_runes_def to_lower_rune_def encode_rune_def lower_ch_def)

lemma lower_ch_code:
  "(of_char (lower_ch c) :: nat) = (if 65 \<le> (of_char c :: nat) \<and> (of_char c :: nat) \<le> 90 then of_char c + 32 else of_char c)"
  by (auto simp: lower_ch_def Let_def of_char_of)

lemma lower_ch_fixed:
  assumes "(of_char d :: nat) < 65"
  shows "lower_ch c = d \<longleftrightarrow> c = d"
proof (cases "65 \<le> (of_char c :: nat)")
  case True
  then have "lower_ch c \<noteq> d" "c \<noteq> d"
    using assms lower_ch_code [of c] by (auto split: if_splits)
  then show ?thesis
    by simp
next
  case False
  then show ?thesis
    by (simp add: lower_ch_def Let_def)
qed

lemma lower_ch_not_upper: "\<not> (65 \<le> (of_char (lower_ch c) :: nat) \<and> (of_char (lower_ch c) :: nat) \<le> 90)"
  by (auto simp: lower_ch_def Let_def of_char_of)

lemma lower_ch_idem [simp]: "lower_ch (lower_ch c) = lower_ch c"
  using lower_ch_not_upper [of c] by (subst lower_ch_def) auto

lemma ascii_lower [simp]: "ascii (map lower_ch s) \<longleftrightarrow> ascii s"
  by (induction s) (auto simp: lower_ch_def Let_def of_char_of)

lemma to_lower_idem_ascii: "ascii s \<Longrightarrow> to_lower u (to_lower u s) = to_lower u s"
  by (simp add: to_lower_ascii)

text \<open>
  A string that passed through JSON, encoded by \<^verbatim>\<open>json.Marshal\<close> and decoded again: every byte that
  is not part of a valid UTF-8 sequence has become U+FFFD.
\<close>

definition json_string :: "string \<Rightarrow> string" where
  "json_string s = string_of_runes (runes s)"

lemma json_string_ascii [simp]: "ascii s \<Longrightarrow> json_string s = s"
  unfolding json_string_def
  by (simp add: runes_ascii) (induction s, auto simp: string_of_runes_def encode_rune_def)

end
