(* ===== verification/Janus_World.thy ===== *)
theory Janus_World
  imports "HOL-Library.Multiset" Janus_Prelude Janus_Schema Go_Runes
begin

text \<open>
  The world the server runs in. What it calls and this repository does not contain (the clock, the
  random source, UUIDs, PostgreSQL, Redis, NATS, the JWT and TOTP libraries, Argon2) is a parameter:
  the record \<open>env\<close> holds, for the \<open>n\<close>-th external call, what that call yields and whether it
  fails. The record \<open>world\<close> is the state the server changes: the committed database, the open
  transaction of the request, the Redis keys, the published events, the counters. Every external
  call advances \<open>calls\<close> by one. A call that fails changes nothing else, except that inside a
  transaction PostgreSQL refuses every later statement (\<open>tx_failed\<close>).
\<close>

section \<open>The environment\<close>

text \<open>
  Keys of \<^verbatim>\<open>crypto/rsa\<close> and \<^verbatim>\<open>crypto/ecdsa\<close> by their numbers: modulus, exponent and private exponent,
  or the coordinates of the public point and the private scalar. Keys of another kind are opaque.
\<close>

datatype pub_key = RSAPub nat nat | ECPub nat nat | OtherPub string
datatype priv_key = RSAPriv nat nat nat | ECPriv nat nat nat | OtherPriv string

fun public_of :: "priv_key \<Rightarrow> pub_key" where
  "public_of (RSAPriv n e d) = RSAPub n e"
| "public_of (ECPriv x y d) = ECPub x y"
| "public_of (OtherPriv s) = OtherPub s"

record env =
  clock_at :: "nat \<Rightarrow> time"
  rand_at :: "nat \<Rightarrow> (nat \<Rightarrow> byte) option"
  uuid_at :: "nat \<Rightarrow> string"
  db_fault :: "nat \<Rightarrow> error option"
  db_now :: "nat \<Rightarrow> time"
  row_order :: "nat \<Rightarrow> nat list"
  row_cut :: "nat \<Rightarrow> nat option"
  collate_key :: "string \<Rightarrow> nat list"
  pg_uuid :: "string \<Rightarrow> string option"
  pg_inet :: "string \<Rightarrow> string option"
  pg_time :: "time \<Rightarrow> time"
  redis_fault :: "nat \<Rightarrow> error option"
  redis_now :: "nat \<Rightarrow> time"
  redis_ttl :: "time \<Rightarrow> time"
  publish_fault :: "nat \<Rightarrow> error option"
  uni :: unicode
  argon2_IDKey :: "byte list \<Rightarrow> byte list \<Rightarrow> nat \<Rightarrow> nat \<Rightarrow> nat \<Rightarrow> nat \<Rightarrow> byte list"
  totp_validate :: "string \<Rightarrow> string \<Rightarrow> time \<Rightarrow> bool"
  totp_generate :: "nat \<Rightarrow> string \<Rightarrow> string \<Rightarrow> (string \<times> string) option"
  rsa_generate :: "nat \<Rightarrow> nat \<Rightarrow> (nat \<times> nat \<times> nat) option"
  ecdsa_generate :: "nat \<Rightarrow> (nat \<times> nat \<times> nat) option"
  pem_decode :: "string \<Rightarrow> (string \<times> string) option"
  pem_encode :: "string \<Rightarrow> string \<Rightarrow> string"
  x509_parse_ec_private :: "string \<Rightarrow> priv_key option"
  x509_parse_pkcs1_private :: "string \<Rightarrow> priv_key option"
  x509_parse_pkcs8_private :: "string \<Rightarrow> priv_key option"
  x509_parse_pkix_public :: "string \<Rightarrow> pub_key option"
  x509_marshal_ec_private :: "priv_key \<Rightarrow> string option"
  x509_marshal_pkcs1_private :: "priv_key \<Rightarrow> string"
  x509_marshal_pkix_public :: "pub_key \<Rightarrow> string option"
  jwt_date :: "time \<Rightarrow> time"
  jwt_sign :: "string \<Rightarrow> priv_key \<Rightarrow> string \<Rightarrow> claims \<Rightarrow> string option"
  jwt_unverified :: "string \<Rightarrow> (string \<times> string \<times> claims) option"
  jwt_signature_ok :: "string \<Rightarrow> string \<Rightarrow> pub_key \<Rightarrow> bool"
  jwt_claims_valid :: "claims \<Rightarrow> time \<Rightarrow> bool"

section \<open>The state\<close>

datatype redis_value =
    RvCode auth_code | RvChallenge challenge | RvPrincipal principal | RvWaSession wa_session

record world =
  pool_db :: database
  tx_db :: "database option"
  tx_failed :: bool
  redis :: "string \<rightharpoonup> redis_value \<times> time"
  calls :: nat
  cache_hits :: nat
  cache_misses :: nat
  published :: "event list"

type_synonym 'a io = "(world, error, 'a) comp"

text \<open>The values a request's context carries: the transaction, the principal, the tenant id.\<close>

record ctx =
  cx_tx :: bool
  cx_principal :: "principal option"
  cx_tenant :: "string option"

definition background :: ctx where
  "background = \<lparr> cx_tx = False, cx_principal = None, cx_tenant = None \<rparr>"

definition tick :: "world \<Rightarrow> world" where
  "tick w = w\<lparr>calls := Suc (calls w)\<rparr>"

lemma tick_simps [simp]:
  "pool_db (tick w) = pool_db w" "tx_db (tick w) = tx_db w" "tx_failed (tick w) = tx_failed w"
  "redis (tick w) = redis w" "calls (tick w) = Suc (calls w)" "cache_hits (tick w) = cache_hits w"
  "cache_misses (tick w) = cache_misses w" "published (tick w) = published w"
  by (simp_all add: tick_def)

section \<open>Clock, identifiers, randomness\<close>

definition now :: "env \<Rightarrow> time io" where
  "now E w = (Inr (clock_at E (calls w)), tick w)"

definition new_id :: "env \<Rightarrow> string io" where
  "new_id E w = (Inr (uuid_at E (calls w)), tick w)"

definition rand_read :: "env \<Rightarrow> nat \<Rightarrow> byte list io" where
  "rand_read E k w =
     (case rand_at E (calls w) of None \<Rightarrow> (Inl ErrRandom, tick w)
      | Some f \<Rightarrow> (Inr (map f [0..<k]), tick w))"

lemma now_iff [monad_simps, simp]: "now E w = (r, w') \<longleftrightarrow> r = Inr (clock_at E (calls w)) \<and> w' = tick w"
  by (auto simp: now_def)

lemma new_id_iff [monad_simps, simp]: "new_id E w = (r, w') \<longleftrightarrow> r = Inr (uuid_at E (calls w)) \<and> w' = tick w"
  by (auto simp: new_id_def)

lemma rand_read_Inr_iff [monad_simps]:
  "rand_read E k w = (Inr bs, w') \<longleftrightarrow>
     w' = tick w \<and> (\<exists>f. rand_at E (calls w) = Some f \<and> bs = map f [0..<k])"
  by (auto simp: rand_read_def split: option.splits)

lemma snd_basic [simp]:
  "snd (now E w) = tick w" "snd (new_id E w) = tick w" "snd (rand_read E k w) = tick w"
  by (auto simp: now_def new_id_def rand_read_def split: option.splits)

section \<open>PostgreSQL\<close>

text \<open>
  \<^verbatim>\<open>executor(ctx)\<close> of the repositories: the statement runs in the transaction the context carries,
  else on the pool, where it is a transaction of its own.
\<close>

definition exec_sql :: "env \<Rightarrow> ctx \<Rightarrow> 'a dbop \<Rightarrow> 'a io" where
  "exec_sql E cx st w =
     (if cx_tx cx then
        (case tx_db w of
           None \<Rightarrow> (Inl ErrTxClosed, tick w)
         | Some d \<Rightarrow>
             if tx_failed w then (Inl (PgError InFailedTransaction), tick w)
             else (case db_fault E (calls w) of
                     Some e \<Rightarrow> (Inl e, (tick w)\<lparr>tx_failed := True\<rparr>)
                   | None \<Rightarrow>
                       (case st d of
                          Inl e \<Rightarrow> (Inl e, (tick w)\<lparr>tx_failed := True\<rparr>)
                        | Inr (x, d') \<Rightarrow> (Inr x, (tick w)\<lparr>tx_db := Some d'\<rparr>))))
      else
        (case db_fault E (calls w) of
           Some e \<Rightarrow> (Inl e, tick w)
         | None \<Rightarrow>
             (case st (pool_db w) of
                Inl e \<Rightarrow> (Inl e, tick w)
              | Inr (x, d') \<Rightarrow> (Inr x, (tick w)\<lparr>pool_db := d'\<rparr>))))"

text \<open>\<^verbatim>\<open>Manager.WithinTransaction\<close>: begin, the body, then commit; any error rolls back.\<close>

definition begin_tx :: "env \<Rightarrow> unit io" where
  "begin_tx E w =
     (case db_fault E (calls w) of
        Some e \<Rightarrow> (Inl e, tick w)
      | None \<Rightarrow> (Inr (), (tick w)\<lparr>tx_db := Some (pool_db w), tx_failed := False\<rparr>))"

definition rollback_tx :: "world \<Rightarrow> world" where
  "rollback_tx w = (tick w)\<lparr>tx_db := None, tx_failed := False\<rparr>"

definition commit_tx :: "env \<Rightarrow> unit io" where
  "commit_tx E w =
     (case tx_db w of
        None \<Rightarrow> (Inl ErrTxClosed, tick w)
      | Some d \<Rightarrow>
          if tx_failed w then (Inl ErrTxCommitRollback, rollback_tx w)
          else (case db_fault E (calls w) of
                  Some e \<Rightarrow> (Inl e, rollback_tx w)
                | None \<Rightarrow> (Inr (), (tick w)\<lparr>pool_db := d, tx_db := None, tx_failed := False\<rparr>)))"

definition within_transaction :: "env \<Rightarrow> ctx \<Rightarrow> (ctx \<Rightarrow> 'a io) \<Rightarrow> 'a io" where
  "within_transaction E cx fn w =
     (case begin_tx E w of
        (Inl e, w1) \<Rightarrow> (Inl e, w1)
      | (Inr _, w1) \<Rightarrow>
          (case fn (cx\<lparr>cx_tx := True\<rparr>) w1 of
             (Inl e, w2) \<Rightarrow> (Inl e, rollback_tx w2)
           | (Inr x, w2) \<Rightarrow>
               (case commit_tx E w2 of
                  (Inl e, w3) \<Rightarrow> (Inl e, w3)
                | (Inr _, w3) \<Rightarrow> (Inr x, w3))))"

text \<open>The order of the rows of a SELECT without ORDER BY is whatever the server yields.\<close>

definition permute :: "nat list \<Rightarrow> 'a list \<Rightarrow> 'a list" where
  "permute p xs =
     (if distinct p \<and> set p = set [0..<length xs] then map (\<lambda>i. xs ! i) p else xs)"

lemma mset_permute: "mset (permute p xs) = mset xs"
proof (cases "distinct p \<and> set p = set [0..<length xs]")
  case True
  then have "mset p = mset [0..<length xs]"
    by (metis distinct_upt set_eq_iff_mset_eq_distinct)
  then have "mset (map (\<lambda>i. xs ! i) p) = mset (map (\<lambda>i. xs ! i) [0..<length xs])"
    by (simp only: mset_map)
  then show ?thesis
    using True unfolding permute_def by (simp add: map_nth)
qed (auto simp: permute_def)

lemma set_permute [simp]: "set (permute p xs) = set xs"
  by (metis mset_permute set_mset_mset)

lemma length_permute [simp]: "length (permute p xs) = length xs"
  by (metis mset_permute size_mset)

lemma permute_Nil [simp]: "permute p xs = [] \<longleftrightarrow> xs = []"
  by (metis length_0_conv length_permute)

lemma permute_single [simp]: "permute p [x] = [x]"
proof -
  have "length (permute p [x]) = 1" "set (permute p [x]) = {x}"
    by simp_all
  then show ?thesis
    by (cases "permute p [x]") auto
qed

lemma permute_id [simp]: "permute [] xs = xs"
  by (auto simp: permute_def)

text \<open>A SELECT: the rows \<open>q\<close> yields (or the server's error), shuffled, then ordered by \<open>post\<close>.\<close>

definition fetch :: "env \<Rightarrow> ctx \<Rightarrow> ('r list \<Rightarrow> 'r list) \<Rightarrow> (database \<Rightarrow> error + 'r list) \<Rightarrow> 'r list io" where
  "fetch E cx post q w =
     exec_sql E cx
       (\<lambda>d. case q d of Inl e \<Rightarrow> Inl e
             | Inr rs \<Rightarrow> Inr (post (permute (row_order E (calls w)) rs), d)) w"

text \<open>\<^verbatim>\<open>QueryRow(...).Scan(...)\<close>: the first row, or \<open>ErrNoRows\<close>, which leaves the transaction usable.\<close>

definition query_row :: "env \<Rightarrow> ctx \<Rightarrow> (database \<Rightarrow> error + 'r list) \<Rightarrow> 'r io" where
  "query_row E cx q =
     bindE (fetch E cx id q) (\<lambda>rs. case rs of [] \<Rightarrow> raise ErrNoRows | r # _ \<Rightarrow> ret r)"

text \<open>The same for a query with ORDER BY.\<close>

definition query_first ::
  "env \<Rightarrow> ctx \<Rightarrow> ('r list \<Rightarrow> 'r list) \<Rightarrow> (database \<Rightarrow> error + 'r list) \<Rightarrow> 'r io" where
  "query_first E cx post q =
     bindE (fetch E cx post q) (\<lambda>rs. case rs of [] \<Rightarrow> raise ErrNoRows | r # _ \<Rightarrow> ret r)"

text \<open>
  \<^verbatim>\<open>Query\<close> and the loop over \<^verbatim>\<open>rows.Next()\<close>. The loops of the repositories do not read
  \<^verbatim>\<open>rows.Err()\<close> afterwards: when the connection breaks after \<open>k\<close> rows (\<open>row_cut\<close>), the \<open>k\<close> rows
  are returned as if they were all.
\<close>

definition query_rows ::
  "env \<Rightarrow> ctx \<Rightarrow> ('r list \<Rightarrow> 'r list) \<Rightarrow> (database \<Rightarrow> error + 'r list) \<Rightarrow> 'r list io" where
  "query_rows E cx post q w =
     bindE (fetch E cx post q)
       (\<lambda>rs. ret (case row_cut E (calls w) of None \<Rightarrow> rs | Some k \<Rightarrow> take k rs)) w"

text \<open>The database a context's statements see.\<close>

definition view :: "ctx \<Rightarrow> world \<Rightarrow> database" where
  "view cx w = (if cx_tx cx then (case tx_db w of Some d \<Rightarrow> d | None \<Rightarrow> empty_db) else pool_db w)"

definition set_view :: "ctx \<Rightarrow> database \<Rightarrow> world \<Rightarrow> world" where
  "set_view cx d w = (if cx_tx cx then w\<lparr>tx_db := Some d\<rparr> else w\<lparr>pool_db := d\<rparr>)"

lemma view_tick [simp]: "view cx (tick w) = view cx w"
  by (simp add: view_def)

lemma view_set_view [simp]: "view cx (set_view cx d w) = d"
  by (simp add: view_def set_view_def)

lemma view_pool [simp]: "\<not> cx_tx cx \<Longrightarrow> view cx w = pool_db w"
  by (simp add: view_def)

lemma set_view_pool [simp]: "\<not> cx_tx cx \<Longrightarrow> set_view cx d w = w\<lparr>pool_db := d\<rparr>"
  by (simp add: set_view_def)

lemma set_view_simps [simp]:
  "redis (set_view cx d w) = redis w" "calls (set_view cx d w) = calls w"
  "published (set_view cx d w) = published w" "tx_failed (set_view cx d w) = tx_failed w"
  by (simp_all add: set_view_def)

lemma exec_sql_outcome:
  assumes "exec_sql E cx st w = (r, w')"
  obtains (err) e where "r = Inl e" "w' = tick w \<or> cx_tx cx \<and> w' = (tick w)\<lparr>tx_failed := True\<rparr>"
  | (ok) x d' where "r = Inr x" "st (view cx w) = Inr (x, d')" "w' = set_view cx d' (tick w)"
      "cx_tx cx \<Longrightarrow> tx_db w \<noteq> None \<and> \<not> tx_failed w"
proof (cases "cx_tx cx")
  case True
  show ?thesis
  proof (cases "tx_db w")
    case None
    then show ?thesis
      using assms True err by (auto simp: exec_sql_def)
  next
    case (Some d)
    show ?thesis
    proof (cases "tx_failed w \<or> db_fault E (calls w) \<noteq> None")
      case bad: True
      then show ?thesis
        using assms True Some err by (auto simp: exec_sql_def split: if_splits)
    next
      case good: False
      show ?thesis
      proof (cases "st d")
        case (Inl e)
        then show ?thesis
          using assms True Some good err by (auto simp: exec_sql_def)
      next
        case (Inr y)
        then show ?thesis
          using assms True Some good ok [of "fst y" "snd y"]
          by (auto simp: exec_sql_def view_def set_view_def split: prod.splits)
      qed
    qed
  qed
next
  case False
  show ?thesis
  proof (cases "db_fault E (calls w)")
    case (Some e)
    then show ?thesis
      using assms False err by (auto simp: exec_sql_def)
  next
    case None
    show ?thesis
    proof (cases "st (pool_db w)")
      case (Inl e)
      then show ?thesis
        using assms False None err by (auto simp: exec_sql_def)
    next
      case (Inr y)
      then show ?thesis
        using assms False None ok [of "fst y" "snd y"]
        by (auto simp: exec_sql_def split: prod.splits)
    qed
  qed
qed

lemma exec_sql_InrD:
  assumes "exec_sql E cx st w = (Inr x, w')"
  shows "\<exists>d'. st (view cx w) = Inr (x, d') \<and> w' = set_view cx d' (tick w)
          \<and> (cx_tx cx \<longrightarrow> tx_db w \<noteq> None \<and> \<not> tx_failed w)"
  using assms by (cases rule: exec_sql_outcome) auto

text \<open>A statement that fails leaves the databases as they were.\<close>

definition same_data :: "world \<Rightarrow> world \<Rightarrow> bool" where
  "same_data w w' \<longleftrightarrow> pool_db w' = pool_db w \<and> tx_db w' = tx_db w \<and> redis w' = redis w
     \<and> published w' = published w"

lemma same_data_refl [simp]: "same_data w w" and same_data_tick [simp]: "same_data w (tick w)"
  by (simp_all add: same_data_def)

lemma same_data_trans: "same_data w1 w2 \<Longrightarrow> same_data w2 w3 \<Longrightarrow> same_data w1 w3"
  by (simp add: same_data_def)

lemma same_data_view: "same_data w w' \<Longrightarrow> view cx w' = view cx w"
  by (simp add: same_data_def view_def)

lemma exec_sql_InlD:
  assumes "exec_sql E cx st w = (Inl e, w')"
  shows "same_data w w' \<and> calls w' = Suc (calls w)"
  using assms by (cases rule: exec_sql_outcome) (auto simp: same_data_def)

lemma exec_sql_pool_eval:
  "\<not> cx_tx cx \<Longrightarrow> db_fault E (calls w) = None \<Longrightarrow> st (pool_db w) = Inr (x, d') \<Longrightarrow>
     exec_sql E cx st w = (Inr x, (tick w)\<lparr>pool_db := d'\<rparr>)"
  by (simp add: exec_sql_def)

lemma fetch_InrD:
  assumes "fetch E cx post q w = (Inr rs, w')"
  shows "w' = tick w \<and> (\<exists>rs0 p. q (view cx w) = Inr rs0 \<and> rs = post (permute p rs0))
          \<and> (cx_tx cx \<longrightarrow> tx_db w \<noteq> None \<and> \<not> tx_failed w)"
proof -
  obtain d' where st: "(case q (view cx w) of Inl e \<Rightarrow> Inl e
        | Inr rs \<Rightarrow> Inr (post (permute (row_order E (calls w)) rs), view cx w)) = Inr (rs, d')"
    and w': "w' = set_view cx d' (tick w)" and open_tx: "cx_tx cx \<longrightarrow> tx_db w \<noteq> None \<and> \<not> tx_failed w"
    using exec_sql_InrD [OF assms [unfolded fetch_def]] by blast
  have d': "d' = view cx w" "\<exists>rs0 p. q (view cx w) = Inr rs0 \<and> rs = post (permute p rs0)"
    using st by (auto split: sum.splits)
  have "set_view cx (view cx w) (tick w) = tick w"
    using open_tx by (auto simp: set_view_def view_def tick_def)
  then show ?thesis
    using w' d' open_tx by simp
qed

lemma fetch_InlD:
  assumes "fetch E cx post q w = (Inl e, w')"
  shows "same_data w w' \<and> calls w' = Suc (calls w)"
  using exec_sql_InlD assms unfolding fetch_def by blast

lemma query_row_InrD:
  assumes "query_row E cx q w = (Inr r, w')"
  shows "w' = tick w \<and> (\<exists>rs. q (view cx w) = Inr rs \<and> r \<in> set rs)
          \<and> (cx_tx cx \<longrightarrow> tx_db w \<noteq> None \<and> \<not> tx_failed w)"
proof -
  obtain rs w1 where f: "fetch E cx id q w = (Inr rs, w1)"
    and sel: "(case rs of [] \<Rightarrow> raise ErrNoRows | r # _ \<Rightarrow> ret r) w1 = (Inr r, w')"
    using assms unfolding query_row_def bindE_Inr_iff by blast
  have "r \<in> set rs \<and> w' = w1"
    using sel by (cases rs) simp_all
  then show ?thesis
    using fetch_InrD [OF f] by (metis id_apply set_permute)
qed

lemma query_row_InlD:
  assumes "query_row E cx q w = (Inl e, w')"
  shows "same_data w w' \<and> calls w' = Suc (calls w)"
proof -
  consider "fetch E cx id q w = (Inl e, w')" |
    rs w1 where "fetch E cx id q w = (Inr rs, w1)"
      "(case rs of [] \<Rightarrow> raise ErrNoRows | r # _ \<Rightarrow> ret r) w1 = (Inl e, w')"
    using assms unfolding query_row_def bindE_Inl_iff by blast
  then show ?thesis
  proof cases
    case 1
    then show ?thesis
      by (rule fetch_InlD)
  next
    case 2
    have "w' = w1"
      using 2(2) by (cases rs) simp_all
    then show ?thesis
      using fetch_InrD [OF 2(1)] by simp
  qed
qed

lemma query_first_InrD:
  assumes "query_first E cx post q w = (Inr r, w')"
  shows "w' = tick w \<and> (\<exists>rs p. q (view cx w) = Inr rs \<and> (\<exists>ys. post (permute p rs) = r # ys))"
proof -
  obtain rs w1 where f: "fetch E cx post q w = (Inr rs, w1)"
    and sel: "(case rs of [] \<Rightarrow> raise ErrNoRows | r # _ \<Rightarrow> ret r) w1 = (Inr r, w')"
    using assms unfolding query_first_def bindE_Inr_iff by blast
  obtain ys where "rs = r # ys" "w' = w1"
    using sel by (cases rs) simp_all
  then show ?thesis
    using fetch_InrD [OF f] by metis
qed

lemma query_first_InlD:
  assumes "query_first E cx post q w = (Inl e, w')"
  shows "same_data w w' \<and> calls w' = Suc (calls w)"
proof -
  consider "fetch E cx post q w = (Inl e, w')" |
    rs w1 where "fetch E cx post q w = (Inr rs, w1)"
      "(case rs of [] \<Rightarrow> raise ErrNoRows | r # _ \<Rightarrow> ret r) w1 = (Inl e, w')"
    using assms unfolding query_first_def bindE_Inl_iff by blast
  then show ?thesis
  proof cases
    case 1
    then show ?thesis
      by (rule fetch_InlD)
  next
    case 2
    have "w' = w1"
      using 2(2) by (cases rs) simp_all
    then show ?thesis
      using fetch_InrD [OF 2(1)] by simp
  qed
qed

lemma query_rows_InrD:
  assumes "query_rows E cx post q w = (Inr rs, w')"
  shows "w' = tick w \<and> (\<exists>rs0 p. q (view cx w) = Inr rs0 \<and>
           rs = (case row_cut E (calls w) of None \<Rightarrow> post (permute p rs0) | Some k \<Rightarrow> take k (post (permute p rs0))))"
proof -
  obtain rs1 w1 where f: "fetch E cx post q w = (Inr rs1, w1)"
    and "w' = w1" "rs = (case row_cut E (calls w) of None \<Rightarrow> rs1 | Some k \<Rightarrow> take k rs1)"
    using assms unfolding query_rows_def bindE_Inr_iff by auto
  then show ?thesis
    using fetch_InrD [OF f] by metis
qed

lemma query_rows_subset:
  assumes "query_rows E cx post q w = (Inr rs, w')" "\<And>xs. set (post xs) \<subseteq> set xs"
  shows "\<exists>rs0. q (view cx w) = Inr rs0 \<and> set rs \<subseteq> set rs0"
proof -
  obtain rs0 p where q: "q (view cx w) = Inr rs0" and
    rs: "rs = (case row_cut E (calls w) of None \<Rightarrow> post (permute p rs0) | Some k \<Rightarrow> take k (post (permute p rs0)))"
    using query_rows_InrD [OF assms(1)] by blast
  have "set rs \<subseteq> set (post (permute p rs0))"
    unfolding rs by (auto split: option.splits dest: in_set_takeD)
  also have "\<dots> \<subseteq> set rs0"
    using assms(2) [of "permute p rs0"] by simp
  finally show ?thesis
    using q by blast
qed

text \<open>\<open>quiet m\<close>: whatever \<open>m\<close> returns, the databases, Redis and the events are as before.\<close>

definition quiet :: "'a io \<Rightarrow> bool" where
  "quiet m \<longleftrightarrow> (\<forall>w. same_data w (snd (m w)))"

lemma quietD: "quiet m \<Longrightarrow> m w = (r, w') \<Longrightarrow> same_data w w'"
  by (metis quiet_def snd_conv)

lemma quiet_pool: "quiet m \<Longrightarrow> m w = (r, w') \<Longrightarrow> pool_db w' = pool_db w"
  using quietD unfolding same_data_def by blast

lemma quiet_bindE [quiet_rules]:
  assumes "quiet m" "\<And>x. quiet (f x)"
  shows "quiet (bindE m f)"
  unfolding quiet_def
proof
  fix w
  show "same_data w (snd (bindE m f w))"
    using assms by (cases "m w"; cases "fst (m w)")
      (auto simp: quiet_def bindE_def, (metis same_data_trans snd_conv)+)
qed

lemma quiet_basic [quiet_rules]:
  "quiet (ret x)" "quiet (raise e)" "quiet (of_result r)" "quiet (now E)" "quiet (new_id E)" "quiet (rand_read E n)"
  by (simp_all add: quiet_def ret_def raise_def of_result_def)

lemma quiet_wrap [quiet_rules]:
  "quiet m \<Longrightarrow> quiet (or_err e m)" "quiet m \<Longrightarrow> quiet (attempt m)" "quiet m \<Longrightarrow> quiet (tryM m)"
  by (simp_all add: quiet_def)

lemma quiet_cases [quiet_rules]:
  "quiet m \<Longrightarrow> quiet n \<Longrightarrow> quiet (if b then m else n)"
  "(\<And>e. quiet (f e)) \<Longrightarrow> (\<And>x. quiet (g x)) \<Longrightarrow> quiet (case r of Inl e \<Rightarrow> f e | Inr x \<Rightarrow> g x)"
  "quiet h \<Longrightarrow> (\<And>x. quiet (g x)) \<Longrightarrow> quiet (case p of None \<Rightarrow> h | Some x \<Rightarrow> g x)"
  "(\<And>a b. quiet (k a b)) \<Longrightarrow> quiet (case q of (a, b) \<Rightarrow> k a b)"
  "quiet h \<Longrightarrow> (\<And>x xs. quiet (l x xs)) \<Longrightarrow> quiet (case ys of [] \<Rightarrow> h | x # xs \<Rightarrow> l x xs)"
  by (auto split: sum.split option.split prod.split list.split)

lemma quiet_fetch [quiet_rules]: "quiet (fetch E cx post q)"
  unfolding quiet_def
proof
  fix w
  show "same_data w (snd (fetch E cx post q w))"
  proof (cases "fetch E cx post q w")
    case (Pair r w')
    then show ?thesis
      by (cases r) (use fetch_InrD fetch_InlD same_data_tick in fastforce)+
  qed
qed

lemma quiet_queries [quiet_rules]:
  "quiet (query_row E cx q)" "quiet (query_first E cx post q)" "quiet (query_rows E cx post q)"
proof -
  show "quiet (query_row E cx q)" "quiet (query_first E cx post q)"
    unfolding query_row_def query_first_def by (intro quiet_rules)+
  have "quiet (bindE (fetch E cx post q) (\<lambda>rs. ret (case row_cut E n of None \<Rightarrow> rs | Some k \<Rightarrow> take k rs)))" for n
    by (intro quiet_rules)
  then show "quiet (query_rows E cx post q)"
    unfolding query_rows_def quiet_def by blast
qed

text \<open>\<open>healthy E cx w\<close>: the server answers every call, and a transaction the context names is usable.\<close>

definition healthy :: "env \<Rightarrow> ctx \<Rightarrow> world \<Rightarrow> bool" where
  "healthy E cx w \<longleftrightarrow>
     (\<forall>n. db_fault E n = None) \<and> (cx_tx cx \<longrightarrow> tx_db w \<noteq> None \<and> \<not> tx_failed w)"

lemma healthy_tick [simp]: "healthy E cx (tick w) = healthy E cx w"
  by (simp add: healthy_def)

lemma exec_sql_healthy:
  assumes "healthy E cx w" "st (view cx w) = Inr (x, d')"
  shows "exec_sql E cx st w = (Inr x, set_view cx d' (tick w))"
  using assms by (auto simp: healthy_def exec_sql_def view_def set_view_def)

lemma set_view_same: "healthy E cx w \<Longrightarrow> set_view cx (view cx w) (tick w) = tick w"
  by (auto simp: healthy_def set_view_def view_def tick_def)

lemma fetch_healthy:
  assumes "healthy E cx w" "q (view cx w) = Inr rs"
  shows "fetch E cx post q w = (Inr (post (permute (row_order E (calls w)) rs)), tick w)"
  unfolding fetch_def
  by (subst exec_sql_healthy [OF assms(1), where d' = "view cx w"])
    (simp_all add: assms(2) set_view_same [OF assms(1)])

lemma query_row_healthy:
  assumes "healthy E cx w" "q (view cx w) = Inr [x]"
  shows "query_row E cx q w = (Inr x, tick w)"
proof -
  have "fetch E cx id q w = (Inr [x], tick w)"
    by (simp add: fetch_healthy assms)
  then show ?thesis
    by (simp add: query_row_def ret_def)
qed

lemma query_row_healthy_none:
  assumes "healthy E cx w" "q (view cx w) = Inr []"
  shows "query_row E cx q w = (Inl ErrNoRows, tick w)"
proof -
  have "permute p ([] :: 'a list) = []" for p :: "nat list"
    by simp
  then have "fetch E cx id q w = (Inr [], tick w)"
    by (simp add: fetch_healthy assms)
  then show ?thesis
    by (simp add: query_row_def raise_def)
qed

text \<open>A query all of whose rows satisfy \<open>P\<close>, and that has one, returns a row satisfying \<open>P\<close>.\<close>

lemma query_row_healthy_ex:
  assumes "healthy E cx w" "q (view cx w) = Inr rs" "rs \<noteq> []"
  shows "\<exists>x \<in> set rs. query_row E cx q w = (Inr x, tick w)"
proof -
  obtain y ys where y: "permute (row_order E (calls w)) rs = y # ys"
    using assms(3) by (metis list.exhaust permute_Nil)
  then have "fetch E cx id q w = (Inr (y # ys), tick w)"
    by (simp add: fetch_healthy assms)
  then have "query_row E cx q w = (Inr y, tick w)"
    by (simp add: query_row_def ret_def)
  moreover have "y \<in> set rs"
    using y by (metis list.set_intros(1) set_permute)
  ultimately show ?thesis
    by blast
qed

section \<open>Invariants of the databases\<close>

text \<open>\<open>dbs I\<close>: the committed database and the open transaction's both satisfy \<open>I\<close>.\<close>

definition dbs :: "(database \<Rightarrow> bool) \<Rightarrow> world \<Rightarrow> bool" where
  "dbs I w \<longleftrightarrow> I (pool_db w) \<and> (case tx_db w of None \<Rightarrow> True | Some d \<Rightarrow> I d)"

lemma dbs_simps [simp]:
  "dbs I (tick w) = dbs I w" "dbs I (w\<lparr>tx_failed := b\<rparr>) = dbs I w" "dbs I (w\<lparr>redis := r\<rparr>) = dbs I w"
  "dbs I (w\<lparr>published := p\<rparr>) = dbs I w" "dbs I (w\<lparr>cache_hits := h\<rparr>) = dbs I w"
  "dbs I (w\<lparr>cache_misses := h\<rparr>) = dbs I w"
  by (simp_all add: dbs_def)

lemma dbs_set_view: "dbs I w \<Longrightarrow> I d \<Longrightarrow> dbs I (set_view cx d w)"
  by (simp add: dbs_def set_view_def)

lemma keeps_dbs_exec:
  assumes "\<And>d x d'. I d \<Longrightarrow> st d = Inr (x, d') \<Longrightarrow> I d'"
  shows "keeps (dbs I) (exec_sql E cx st)"
proof (rule keepsI)
  fix w assume w: "dbs I w"
  obtain r w' where run: "exec_sql E cx st w = (r, w')"
    by fastforce
  then have "dbs I w'"
  proof (cases rule: exec_sql_outcome)
    case (err e)
    then show ?thesis
      using w by auto
  next
    case (ok x d')
    have "I (view cx w)"
      using w ok(4) by (auto simp: dbs_def view_def)
    then have "I d'"
      using assms ok(2) by blast
    then show ?thesis
      using w ok(3) by (simp add: dbs_set_view)
  qed
  then show "dbs I (snd (exec_sql E cx st w))"
    using run by simp
qed

lemma keeps_dbs_fetch: "keeps (dbs I) (fetch E cx post q)"
proof (rule keepsI)
  fix w assume "dbs I w"
  moreover have "keeps (dbs I) (exec_sql E cx
      (\<lambda>d. case q d of Inl e \<Rightarrow> Inl e | Inr rs \<Rightarrow> Inr (post (permute (row_order E (calls w)) rs), d)))"
    by (rule keeps_dbs_exec) (auto split: sum.splits)
  ultimately show "dbs I (snd (fetch E cx post q w))"
    unfolding fetch_def keeps_def by blast
qed

text \<open>A predicate on the world that a fetch keeps is kept by the two forms of a query.\<close>

lemma keeps_queries:
  assumes "\<And>post q. keeps I (fetch E cx post (q :: database \<Rightarrow> error + 'r list))"
  shows "keeps I (query_row E cx (q :: database \<Rightarrow> error + 'r list))"
    and "keeps I (query_rows E cx post (q :: database \<Rightarrow> error + 'r list))"
    and "keeps I (query_first E cx post (q :: database \<Rightarrow> error + 'r list))"
proof -
  have "keeps I (case rs of [] \<Rightarrow> raise ErrNoRows | r # _ \<Rightarrow> ret r)" for rs :: "'r list"
    by (cases rs) (simp_all add: keeps_rules)
  then show "keeps I (query_row E cx q)"
    unfolding query_row_def using assms by (intro keeps_bindE)
  have "keeps I (case rs of [] \<Rightarrow> raise ErrNoRows | r # _ \<Rightarrow> ret r)" for rs :: "'r list"
    by (cases rs) (simp_all add: keeps_rules)
  then show "keeps I (query_first E cx post q)"
    unfolding query_first_def using assms by (intro keeps_bindE)
  have "keeps I (bindE (fetch E cx post q)
       (\<lambda>rs. ret (case row_cut E n of None \<Rightarrow> rs | Some k \<Rightarrow> take k rs)))" for n
    using assms by (intro keeps_bindE keeps_ret)
  then show "keeps I (query_rows E cx post q)"
    unfolding query_rows_def keeps_def by blast
qed

lemmas keeps_dbs_query [keeps_rules] = keeps_queries [where I = "dbs I" for I, OF keeps_dbs_fetch]

lemma keeps_dbs_basic [keeps_rules]:
  "keeps (dbs I) (now E)" "keeps (dbs I) (new_id E)" "keeps (dbs I) (rand_read E k)"
  by (simp_all add: keeps_def)

lemma begin_tx_outcome:
  assumes "begin_tx E w = (r, w')"
  obtains e where "r = Inl e" "w' = tick w"
  | "r = Inr ()" "w' = (tick w)\<lparr>tx_db := Some (pool_db w), tx_failed := False\<rparr>"
  using assms by (cases "db_fault E (calls w)") (auto simp: begin_tx_def)

lemma commit_tx_outcome:
  assumes "commit_tx E w = (r, w')"
  obtains e where "r = Inl e" "w' = tick w" "tx_db w = None" | e where "r = Inl e" "w' = rollback_tx w"
  | d where "r = Inr ()" "tx_db w = Some d" "\<not> tx_failed w"
      "w' = (tick w)\<lparr>pool_db := d, tx_db := None, tx_failed := False\<rparr>"
  using assms
  by (cases "tx_db w"; cases "tx_failed w"; cases "db_fault E (calls w)") (auto simp: commit_tx_def)

text \<open>The ways a transaction ends.\<close>

lemma within_transaction_outcome:
  assumes "within_transaction E cx fn w = (r, w')"
  obtains e where "r = Inl e" "w' = tick w"
  | e w2 where "r = Inl e"
      "fn (cx\<lparr>cx_tx := True\<rparr>) ((tick w)\<lparr>tx_db := Some (pool_db w), tx_failed := False\<rparr>) = (Inl e, w2)"
      "w' = rollback_tx w2"
  | e x w2 where "r = Inl e"
      "fn (cx\<lparr>cx_tx := True\<rparr>) ((tick w)\<lparr>tx_db := Some (pool_db w), tx_failed := False\<rparr>) = (Inr x, w2)"
      "commit_tx E w2 = (Inl e, w')"
  | x w2 where "r = Inr x"
      "fn (cx\<lparr>cx_tx := True\<rparr>) ((tick w)\<lparr>tx_db := Some (pool_db w), tx_failed := False\<rparr>) = (Inr x, w2)"
      "commit_tx E w2 = (Inr (), w')"
proof -
  obtain r1 w1 where b: "begin_tx E w = (r1, w1)"
    by fastforce
  from b show ?thesis
  proof (cases rule: begin_tx_outcome)
    case (1 e)
    then show ?thesis
      using assms b that(1) by (auto simp: within_transaction_def)
  next
    case 2
    obtain r2 w2 where f: "fn (cx\<lparr>cx_tx := True\<rparr>) w1 = (r2, w2)"
      by fastforce
    obtain r3 w3 where c: "commit_tx E w2 = (r3, w3)"
      by fastforce
    show ?thesis
    proof (cases r2)
      case (Inl e)
      then show ?thesis
        using assms b 2 f that(2) by (auto simp: within_transaction_def)
    next
      case (Inr x)
      then show ?thesis
        using assms b 2 f c that(3,4) by (cases r3) (auto simp: within_transaction_def)
    qed
  qed
qed

lemma within_transaction_InrD:
  assumes "within_transaction E cx fn w = (Inr x, w')"
  shows "\<exists>w1 d. fn (cx\<lparr>cx_tx := True\<rparr>) ((tick w)\<lparr>tx_db := Some (pool_db w), tx_failed := False\<rparr>) = (Inr x, w1)
           \<and> tx_db w1 = Some d \<and> \<not> tx_failed w1 \<and> w' = (tick w1)\<lparr>pool_db := d, tx_db := None, tx_failed := False\<rparr>"
  using assms by (cases rule: within_transaction_outcome) (auto elim: commit_tx_outcome)

lemma dbs_closed: "dbs I w \<Longrightarrow> dbs I (w\<lparr>tx_db := None\<rparr>)"
  by (simp add: dbs_def)

lemma dbs_rollback: "dbs I w \<Longrightarrow> dbs I (rollback_tx w)"
  by (simp add: rollback_tx_def dbs_def)

lemma keeps_dbs_commit: "keeps (dbs I) (commit_tx E)"
proof (rule keepsI)
  fix w assume w: "dbs I w"
  obtain r w' where run: "commit_tx E w = (r, w')"
    by fastforce
  then have "dbs I w'"
    by (cases rule: commit_tx_outcome) (use w in \<open>auto simp: dbs_rollback\<close>, simp add: dbs_def)
  then show "dbs I (snd (commit_tx E w))"
    using run by simp
qed

lemma keeps_dbs_within_transaction [keeps_rules]:
  assumes "\<And>cx. keeps (dbs I) (fn cx)"
  shows "keeps (dbs I) (within_transaction E cx fn)"
proof (rule keepsI)
  fix w assume w: "dbs I w"
  obtain r w' where run: "within_transaction E cx fn w = (r, w')"
    by fastforce
  let ?w1 = "(tick w)\<lparr>tx_db := Some (pool_db w), tx_failed := False\<rparr>"
  have w1: "dbs I ?w1"
    using w by (simp add: dbs_def)
  from run have "dbs I w'"
  proof (cases rule: within_transaction_outcome)
    case (2 e w2)
    then show ?thesis
      using keepsD [OF assms w1] dbs_rollback by blast
  next
    case (3 e x w2)
    then show ?thesis
      using keepsD [OF assms w1] keepsD [OF keeps_dbs_commit] by blast
  next
    case (4 x w2)
    then show ?thesis
      using keepsD [OF assms w1] keepsD [OF keeps_dbs_commit] by blast
  qed (use w in simp)
  then show "dbs I (snd (within_transaction E cx fn w))"
    using run by simp
qed

text \<open>Code inside a transaction never touches the committed database.\<close>

lemma keeps_pool_exec [keeps_rules]:
  assumes "cx_tx cx"
  shows "keeps (\<lambda>w. pool_db w = d) (exec_sql E cx st)"
proof (rule keepsI)
  fix w :: world assume d: "pool_db w = d"
  obtain r w' where run: "exec_sql E cx st w = (r, w')"
    by fastforce
  then have "pool_db w' = d"
    by (cases rule: exec_sql_outcome) (use d assms in \<open>auto simp: set_view_def\<close>)
  then show "pool_db (snd (exec_sql E cx st w)) = d"
    using run by simp
qed

lemma keeps_pool_fetch: "cx_tx cx \<Longrightarrow> keeps (\<lambda>w. pool_db w = d) (fetch E cx post q)"
  using keeps_pool_exec unfolding fetch_def keeps_def by blast

lemmas keeps_pool_query [keeps_rules] =
  keeps_queries [where I = "\<lambda>w. pool_db w = d" for d, OF keeps_pool_fetch]

lemma keeps_pool_basic [keeps_rules]:
  "keeps (\<lambda>w. pool_db w = d) (now E)" "keeps (\<lambda>w. pool_db w = d) (new_id E)"
  "keeps (\<lambda>w. pool_db w = d) (rand_read E k)"
  by (simp_all add: keeps_def)

lemma within_transaction_atomic:
  assumes "within_transaction E cx fn w = (Inl e, w')"
    and "\<And>d. keeps (\<lambda>w. pool_db w = d) (fn (cx\<lparr>cx_tx := True\<rparr>))"
  shows "pool_db w' = pool_db w"
proof -
  let ?w1 = "(tick w)\<lparr>tx_db := Some (pool_db w), tx_failed := False\<rparr>"
  have body: "pool_db w2 = pool_db w" if "fn (cx\<lparr>cx_tx := True\<rparr>) ?w1 = (r, w2)" for r w2
    using keepsD [OF assms(2) _ that, of "pool_db w"] by simp
  from assms(1) show ?thesis
  proof (cases rule: within_transaction_outcome)
    case (2 e w2)
    then show ?thesis
      using body [OF 2(2)] by (simp add: rollback_tx_def)
  next
    case (3 e x w2)
    from 3(3) have "pool_db w' = pool_db w2"
      by (cases rule: commit_tx_outcome) (simp_all add: rollback_tx_def)
    then show ?thesis
      using body [OF 3(2)] by simp
  qed simp_all
qed

end
