(* ===== verification/Janus_Sql.thy ===== *)
theory Janus_Sql
  imports Janus_World
begin

text \<open>
  What PostgreSQL stores for the rows the repositories send: a UUID column takes the canonical form
  of the text (\<open>pg_uuid\<close>, none if it is not a UUID), INET the form \<open>pg_inet\<close> gives, TIMESTAMPTZ the
  time \<open>pg_time\<close> keeps. The locale \<open>sql_table\<close> states what every repository relies on from a
  table with a key: an insert appends one row whose key was free. It is interpreted on the
  statements of \<open>Janus_Schema\<close>.
\<close>

section \<open>Conversions\<close>

definition cast_row :: "'r option \<Rightarrow> ('r \<Rightarrow> unit dbop) \<Rightarrow> unit dbop" where
  "cast_row ro ins d = (case ro of None \<Rightarrow> Inl (PgError InvalidText) | Some r \<Rightarrow> ins r d)"

definition where_uuid :: "env \<Rightarrow> string \<Rightarrow> (string \<Rightarrow> 'r list) \<Rightarrow> error + 'r list" where
  "where_uuid E s f = (case pg_uuid E s of None \<Rightarrow> Inl (PgError InvalidText) | Some k \<Rightarrow> Inr (f k))"

definition uuid_opt :: "env \<Rightarrow> string option \<Rightarrow> string option option" where
  "uuid_opt E so = (case so of None \<Rightarrow> Some None | Some s \<Rightarrow> map_option Some (pg_uuid E s))"

definition inet_opt :: "env \<Rightarrow> string option \<Rightarrow> string option option" where
  "inet_opt E so = (case so of None \<Rightarrow> Some None | Some s \<Rightarrow> map_option Some (pg_inet E s))"

definition pg_tenant :: "env \<Rightarrow> tenant \<Rightarrow> tenant option" where
  "pg_tenant E t =
     map_option (\<lambda>i. t\<lparr>tnID := i, tnCreatedAt := pg_time E (tnCreatedAt t),
                       tnUpdatedAt := pg_time E (tnUpdatedAt t)\<rparr>) (pg_uuid E (tnID t))"

text \<open>INT columns hold 32 bits; a larger number is refused like a malformed UUID.\<close>

definition int4 :: "int \<Rightarrow> bool" where
  "int4 n \<longleftrightarrow> - (2 ^ 31) \<le> n \<and> n < 2 ^ 31"

definition pg_policy :: "env \<Rightarrow> policy \<Rightarrow> policy option" where
  "pg_policy E p =
     (if int4 (poPasswordMinLength p) \<and> int4 (poMaxActiveSessions p)
      then map_option (\<lambda>i. p\<lparr>poTenantID := i\<rparr>) (pg_uuid E (poTenantID p)) else None)"

definition pg_identity :: "env \<Rightarrow> identity \<Rightarrow> identity option" where
  "pg_identity E t =
     map_option (\<lambda>i. t\<lparr>iID := i, iCreatedAt := pg_time E (iCreatedAt t),
                       iUpdatedAt := pg_time E (iUpdatedAt t)\<rparr>) (pg_uuid E (iID t))"

definition pg_user :: "env \<Rightarrow> user \<Rightarrow> user option" where
  "pg_user E u =
     (case (pg_uuid E (usID u), pg_uuid E (usTenantID u), pg_uuid E (usIdentityID u)) of
        (Some i, Some t, Some d) \<Rightarrow>
          Some (u\<lparr>usID := i, usTenantID := t, usIdentityID := d, usCreatedAt := pg_time E (usCreatedAt u),
                  usUpdatedAt := pg_time E (usUpdatedAt u)\<rparr>)
      | _ \<Rightarrow> None)"

definition pg_credential :: "env \<Rightarrow> credential \<Rightarrow> credential option" where
  "pg_credential E c =
     (case (pg_uuid E (crID c), pg_uuid E (crIdentityID c)) of
        (Some i, Some d) \<Rightarrow>
          Some (c\<lparr>crID := i, crIdentityID := d, crCreatedAt := pg_time E (crCreatedAt c),
                  crUpdatedAt := pg_time E (crUpdatedAt c)\<rparr>)
      | _ \<Rightarrow> None)"

definition pg_session :: "env \<Rightarrow> session \<Rightarrow> session option" where
  "pg_session E s =
     (case (pg_uuid E (ssID s), pg_uuid E (ssTenantID s), pg_uuid E (ssIdentityID s),
            pg_uuid E (ssUserID s), uuid_opt E (ssParentSessionID s), inet_opt E (ssIPAddress s)) of
        (Some i, Some t, Some d, Some u, Some p, Some a) \<Rightarrow>
          Some (s\<lparr>ssID := i, ssTenantID := t, ssIdentityID := d, ssUserID := u, ssParentSessionID := p,
                  ssIPAddress := a, ssExpiresAt := pg_time E (ssExpiresAt s),
                  ssRevokedAt := map_option (pg_time E) (ssRevokedAt s),
                  ssCreatedAt := pg_time E (ssCreatedAt s)\<rparr>)
      | _ \<Rightarrow> None)"

definition pg_role :: "env \<Rightarrow> role \<Rightarrow> role option" where
  "pg_role E r =
     (case (pg_uuid E (rlID r), pg_uuid E (rlTenantID r)) of
        (Some i, Some t) \<Rightarrow>
          Some (r\<lparr>rlID := i, rlTenantID := t, rlCreatedAt := pg_time E (rlCreatedAt r)\<rparr>)
      | _ \<Rightarrow> None)"

definition pg_permission :: "env \<Rightarrow> permission \<Rightarrow> permission option" where
  "pg_permission E p =
     map_option (\<lambda>i. p\<lparr>pmID := i, pmCreatedAt := pg_time E (pmCreatedAt p)\<rparr>) (pg_uuid E (pmID p))"

definition pg_role_permission :: "env \<Rightarrow> role_permission \<Rightarrow> role_permission option" where
  "pg_role_permission E r =
     (case (pg_uuid E (rpRoleID r), pg_uuid E (rpPermissionID r)) of
        (Some i, Some p) \<Rightarrow> Some (r\<lparr>rpRoleID := i, rpPermissionID := p\<rparr>)
      | _ \<Rightarrow> None)"

text \<open>\<^verbatim>\<open>AssignRole\<close> does not send \<open>CreatedAt\<close>: the table has no such column, so the row keeps none.\<close>

definition pg_user_role :: "env \<Rightarrow> user_role \<Rightarrow> user_role option" where
  "pg_user_role E r =
     (case (pg_uuid E (urUserID r), pg_uuid E (urRoleID r)) of
        (Some u, Some i) \<Rightarrow> Some (r\<lparr>urUserID := u, urRoleID := i, urCreatedAt := 0\<rparr>)
      | _ \<Rightarrow> None)"

definition pg_factor :: "env \<Rightarrow> factor \<Rightarrow> factor option" where
  "pg_factor E f =
     (case (pg_uuid E (faID f), pg_uuid E (faIdentityID f)) of
        (Some i, Some d) \<Rightarrow>
          Some (f\<lparr>faID := i, faIdentityID := d, faCreatedAt := pg_time E (faCreatedAt f)\<rparr>)
      | _ \<Rightarrow> None)"

text \<open>The id column of \<^verbatim>\<open>signing_keys\<close> is TEXT.\<close>

definition pg_signing_key :: "env \<Rightarrow> signing_key \<Rightarrow> signing_key option" where
  "pg_signing_key E k = Some (k\<lparr>skCreatedAt := pg_time E (skCreatedAt k)\<rparr>)"

definition pg_client :: "env \<Rightarrow> client \<Rightarrow> client option" where
  "pg_client E c =
     (case (pg_uuid E (ocID c), pg_uuid E (ocTenantID c)) of
        (Some i, Some t) \<Rightarrow>
          Some (c\<lparr>ocID := i, ocTenantID := t, ocCreatedAt := pg_time E (ocCreatedAt c)\<rparr>)
      | _ \<Rightarrow> None)"

lemma cast_row_Inr_iff:
  "cast_row ro ins d = Inr (u, d') \<longleftrightarrow> (\<exists>r. ro = Some r \<and> ins r d = Inr (u, d'))"
  by (cases ro) (simp_all add: cast_row_def)

lemma where_uuid_Inr_iff:
  "where_uuid E s f = Inr rs \<longleftrightarrow> (\<exists>k. pg_uuid E s = Some k \<and> rs = f k)"
  by (auto simp: where_uuid_def split: option.splits)

lemma pg_session_fields:
  "pg_session E s = Some r \<Longrightarrow>
     pg_uuid E (ssID s) = Some (ssID r) \<and> pg_uuid E (ssTenantID s) = Some (ssTenantID r)
   \<and> pg_uuid E (ssIdentityID s) = Some (ssIdentityID r) \<and> pg_uuid E (ssUserID s) = Some (ssUserID r)
   \<and> ssRefreshTokenHash r = ssRefreshTokenHash s \<and> ssUserAgent r = ssUserAgent s
   \<and> uuid_opt E (ssParentSessionID s) = Some (ssParentSessionID r)
   \<and> inet_opt E (ssIPAddress s) = Some (ssIPAddress r)
   \<and> ssExpiresAt r = pg_time E (ssExpiresAt s)
   \<and> ssRevokedAt r = map_option (pg_time E) (ssRevokedAt s)
   \<and> ssCreatedAt r = pg_time E (ssCreatedAt s)"
  by (auto simp: pg_session_def split: option.splits)

section \<open>Tables with a key\<close>

locale sql_table =
  fixes rows :: "database \<Rightarrow> 'r list" and key :: "'r \<Rightarrow> 'k" and ins :: "'r \<Rightarrow> unit dbop"
  assumes appends: "ins r d = Inr (u, d') \<Longrightarrow> rows d' = rows d @ [r]"
    and fresh: "ins r d = Inr (u, d') \<Longrightarrow> key r \<notin> key ` set (rows d)"
begin

lemma keeps_unique: "ins r d = Inr (u, d') \<Longrightarrow> unique key (rows d) \<Longrightarrow> unique key (rows d')"
  using appends fresh by simp

lemma finds_inserted:
  assumes "ins r d = Inr (u, d')"
  shows "filter (\<lambda>x. key x = key r) (rows d') = [r]"
proof -
  have "filter (\<lambda>x. key x = key r) (rows d) = []"
    using fresh [OF assms] unfolding filter_empty_conv by (metis imageI)
  then show ?thesis
    using appends [OF assms] by simp
qed

lemma finds_others:
  "ins r d = Inr (u, d') \<Longrightarrow> k \<noteq> key r \<Longrightarrow>
     filter (\<lambda>x. key x = k) (rows d') = filter (\<lambda>x. key x = k) (rows d)"
  using appends by simp

lemma rejects_duplicate:
  assumes "ins r d = Inr (u, d')" "key r' = key r"
  shows "\<exists>e. ins r' d' = Inl e"
proof (cases "ins r' d'")
  case (Inr p)
  obtain u' d'' where "p = (u', d'')"
    by (cases p)
  then have "key r' \<notin> key ` set (rows d')"
    using fresh [of r' d' u' d''] Inr by simp
  then show ?thesis
    using appends [OF assms(1)] assms(2) by simp
qed simp

text \<open>A row a repository created is the one its key's query returns, as long as the server answers.\<close>

lemma create_then_get:
  assumes "exec_sql E cx (cast_row (Some r) ins) w = (Inr u, w')"
    and "\<not> cx_tx cx" "db_fault E (calls w') = None"
  shows "query_row E cx (\<lambda>d. Inr (filter (\<lambda>x. key x = key r) (rows d))) w' = (Inr r, tick w')"
proof -
  obtain d' where ins: "ins r (pool_db w) = Inr (u, d')" and w': "w' = (tick w)\<lparr>pool_db := d'\<rparr>"
    using exec_sql_InrD [OF assms(1)] assms(2) by (auto simp: cast_row_def)
  have "filter (\<lambda>x. key x = key r) (rows (pool_db w')) = [r]"
    using finds_inserted [OF ins] w' by simp
  then have "fetch E cx id (\<lambda>d. Inr (filter (\<lambda>x. key x = key r) (rows d))) w' = (Inr [r], tick w')"
    using assms(2,3) by (simp add: fetch_def exec_sql_def tick_def)
  then show ?thesis
    by (simp add: query_row_def ret_def)
qed

end

interpretation tenants_by_id: sql_table tenants tnID ins_tenant
  by unfold_locales (auto simp: ins_tenant_def)

interpretation tenants_by_slug: sql_table tenants tnSlug ins_tenant
  by unfold_locales (auto simp: ins_tenant_def)

interpretation identities_by_id: sql_table identities iID ins_identity
  by unfold_locales (auto simp: ins_identity_def)

interpretation identities_by_email: sql_table identities iPrimaryEmail ins_identity
  by unfold_locales (auto simp: ins_identity_def)

interpretation users_by_id: sql_table users usID ins_user
  by unfold_locales (auto simp: ins_user_def)

interpretation users_by_member: sql_table users user_membership ins_user
  by unfold_locales (auto simp: ins_user_def)

interpretation credentials_by_id: sql_table credentials crID ins_credential
  by unfold_locales (auto simp: ins_credential_def)

interpretation sessions_by_id: sql_table sessions ssID ins_session
  by unfold_locales (auto simp: ins_session_def)

interpretation roles_by_id: sql_table roles rlID ins_role
  by unfold_locales (auto simp: ins_role_def)

interpretation roles_by_name: sql_table roles role_name_key ins_role
  by unfold_locales (auto simp: ins_role_def)

interpretation permissions_by_name: sql_table permissions pmName ins_permission
  by unfold_locales (auto simp: ins_permission_def)

interpretation role_permissions_by_pair: sql_table role_permissions rp_key ins_role_permission
  by unfold_locales (auto simp: ins_role_permission_def)

interpretation user_roles_by_pair: sql_table user_roles ur_key ins_user_role
  by unfold_locales (auto simp: ins_user_role_def)

interpretation signing_keys_by_id: sql_table signing_keys skID ins_signing_key
  by unfold_locales (auto simp: ins_signing_key_def)

interpretation clients_by_client_id: sql_table oauth_clients ocClientID ins_client
  by unfold_locales (auto simp: ins_client_def)

interpretation factors_by_id: sql_table mfa_factors faID ins_factor
  by unfold_locales (auto simp: ins_factor_def)

section \<open>Statements the repositories run\<close>

lemma exec_cast_InrD:
  assumes "exec_sql E cx (cast_row ro ins) w = (Inr u, w')"
  shows "\<exists>r d'. ro = Some r \<and> ins r (view cx w) = Inr (u, d') \<and> w' = set_view cx d' (tick w)"
  using exec_sql_InrD [OF assms] by (auto simp: cast_row_Inr_iff)

text \<open>PostgreSQL prints a UUID in the form it reads back.\<close>

definition uuid_canonical :: "env \<Rightarrow> bool" where
  "uuid_canonical E \<longleftrightarrow> (\<forall>s k. pg_uuid E s = Some k \<longrightarrow> pg_uuid E k = Some k)"

lemma uuid_canonicalD: "uuid_canonical E \<Longrightarrow> pg_uuid E s = Some k \<Longrightarrow> pg_uuid E k = Some k"
  by (auto simp: uuid_canonical_def)

lemma query_by_uuid_InrD:
  assumes "query_row E cx (\<lambda>d. where_uuid E s (\<lambda>k. filter (P k) (rows d))) w = (Inr r, w')"
  shows "w' = tick w \<and> (\<exists>k. pg_uuid E s = Some k \<and> P k r \<and> r \<in> set (rows (view cx w)))"
  using query_row_InrD [OF assms] by (auto simp: where_uuid_Inr_iff)

section \<open>Laws of the database\<close>

text \<open>
  A predicate on databases that every statement of the requests keeps: the inserts, and the three
  updates (revoking a session, marking a factor verified, counting the use of a passkey). What the
  repositories and the use cases keep is proved once for any such law. A law of all statements also
  survives the deletes and the deactivation of signing keys.
\<close>

locale db_law =
  fixes I :: "database \<Rightarrow> bool"
  assumes law_ins_tenant: "\<And>r d u d'. I d \<Longrightarrow> ins_tenant r d = Inr (u, d') \<Longrightarrow> I d'"
    and law_ins_identity: "\<And>r d u d'. I d \<Longrightarrow> ins_identity r d = Inr (u, d') \<Longrightarrow> I d'"
    and law_ins_user: "\<And>r d u d'. I d \<Longrightarrow> ins_user r d = Inr (u, d') \<Longrightarrow> I d'"
    and law_ins_credential: "\<And>r d u d'. I d \<Longrightarrow> ins_credential r d = Inr (u, d') \<Longrightarrow> I d'"
    and law_ins_role: "\<And>r d u d'. I d \<Longrightarrow> ins_role r d = Inr (u, d') \<Longrightarrow> I d'"
    and law_ins_permission: "\<And>r d u d'. I d \<Longrightarrow> ins_permission r d = Inr (u, d') \<Longrightarrow> I d'"
    and law_ins_role_permission: "\<And>r d u d'. I d \<Longrightarrow> ins_role_permission r d = Inr (u, d') \<Longrightarrow> I d'"
    and law_ins_user_role: "\<And>r d u d'. I d \<Longrightarrow> ins_user_role r d = Inr (u, d') \<Longrightarrow> I d'"
    and law_ins_factor: "\<And>r d u d'. I d \<Longrightarrow> ins_factor r d = Inr (u, d') \<Longrightarrow> I d'"
    and law_ins_client: "\<And>r d u d'. I d \<Longrightarrow> ins_client r d = Inr (u, d') \<Longrightarrow> I d'"
    and law_ins_wa_credential: "\<And>r d u d'. I d \<Longrightarrow> ins_wa_credential r d = Inr (u, d') \<Longrightarrow> I d'"
    and law_ins_audit_row: "\<And>r d u d'. I d \<Longrightarrow> ins_audit_row r d = Inr (u, d') \<Longrightarrow> I d'"
    and law_ins_session: "\<And>r d u d'. I d \<Longrightarrow> ins_session r d = Inr (u, d') \<Longrightarrow> I d'"
    and law_upsert_policy: "\<And>r d u d'. I d \<Longrightarrow> upsert_policy r d = Inr (u, d') \<Longrightarrow> I d'"
    and law_revoke: "\<And>k t d u d'. I d \<Longrightarrow>
      upd_sessions (\<lambda>s. ssID s = k) (\<lambda>s. s\<lparr>ssRevokedAt := Some t\<rparr>) d = Inr (u, d') \<Longrightarrow> I d'"
    and law_mark_verified: "\<And>k d u d'. I d \<Longrightarrow>
      upd_factors (\<lambda>f. faID f = k) (\<lambda>f. f\<lparr>faVerified := True\<rparr>) d = Inr (u, d') \<Longrightarrow> I d'"
    and law_count_use: "\<And>k n t d u d'. I d \<Longrightarrow> upd_wa_credentials (\<lambda>c. wcID c = k)
      (\<lambda>c. c\<lparr>wcSignCount := n, wcLastUsedAt := t\<rparr>) d = Inr (u, d') \<Longrightarrow> I d'"

locale db_law_all = db_law +
  assumes law_del_sessions: "\<And>P d n d'. I d \<Longrightarrow> del_sessions P d = Inr (n, d') \<Longrightarrow> I d'"
    and law_del_factors: "\<And>P d u d'. I d \<Longrightarrow> del_factors P d = Inr (u, d') \<Longrightarrow> I d'"
    and law_del_wa_credentials: "\<And>P d u d'. I d \<Longrightarrow> del_wa_credentials P d = Inr (u, d') \<Longrightarrow> I d'"
    and law_ins_signing_key: "\<And>r d u d'. I d \<Longrightarrow> ins_signing_key r d = Inr (u, d') \<Longrightarrow> I d'"
    and law_signing_keys: "\<And>P f d u d'. I d \<Longrightarrow> upd_signing_keys P f d = Inr (u, d') \<Longrightarrow>
      (\<And>k. skID (f k) = skID k) \<Longrightarrow> I d'"

text \<open>An UPDATE or DELETE of the row with an id, on whatever text the caller sends as the id.\<close>

lemma keeps_by_uuid:
  assumes "\<And>k d x d'. I d \<Longrightarrow> st k d = Inr (x, d') \<Longrightarrow> I d'"
  shows "keeps (dbs I) (exec_sql E cx (\<lambda>d. case pg_uuid E s of None \<Rightarrow> Inl (PgError InvalidText) | Some k \<Rightarrow> st k d))"
  by (rule keeps_dbs_exec) (use assms in \<open>auto split: option.splits\<close>)

lemma keeps_cast:
  assumes "\<And>r d u d'. I d \<Longrightarrow> ins r d = Inr (u, d') \<Longrightarrow> I d'"
  shows "keeps (dbs I) (exec_sql E cx (cast_row ro ins))"
  by (rule keeps_dbs_exec) (use assms in \<open>auto simp: cast_row_Inr_iff\<close>)

context db_law
begin

lemma keeps_inserts [keeps_rules]:
  "keeps (dbs I) (exec_sql E cx (cast_row ro0 ins_tenant))"
  "keeps (dbs I) (exec_sql E cx (cast_row ro1 ins_identity))"
  "keeps (dbs I) (exec_sql E cx (cast_row ro2 ins_user))"
  "keeps (dbs I) (exec_sql E cx (cast_row ro3 ins_credential))"
  "keeps (dbs I) (exec_sql E cx (cast_row ro4 ins_role))"
  "keeps (dbs I) (exec_sql E cx (cast_row ro5 ins_permission))"
  "keeps (dbs I) (exec_sql E cx (cast_row ro6 ins_role_permission))"
  "keeps (dbs I) (exec_sql E cx (cast_row ro7 ins_user_role))"
  "keeps (dbs I) (exec_sql E cx (cast_row ro8 ins_factor))"
  "keeps (dbs I) (exec_sql E cx (cast_row ro10 ins_client))"
  "keeps (dbs I) (exec_sql E cx (cast_row ro11 ins_wa_credential))"
  "keeps (dbs I) (exec_sql E cx (cast_row ro12 ins_audit_row))"
  "keeps (dbs I) (exec_sql E cx (cast_row ro13 ins_session))"
  "keeps (dbs I) (exec_sql E cx (cast_row ro14 upsert_policy))"
  by (rule keeps_cast, erule (1) law_ins_tenant law_ins_identity law_ins_user law_ins_credential law_ins_role
      law_ins_permission law_ins_role_permission law_ins_user_role law_ins_factor law_ins_client
      law_ins_wa_credential law_ins_audit_row law_ins_session law_upsert_policy)+

lemma keeps_updates [keeps_rules]:
  "keeps (dbs I) (exec_sql E cx (\<lambda>d. case pg_uuid E s of None \<Rightarrow> Inl (PgError InvalidText)
     | Some k \<Rightarrow> upd_sessions (\<lambda>r. ssID r = k) (\<lambda>r. r\<lparr>ssRevokedAt := Some t\<rparr>) d))"
  "keeps (dbs I) (exec_sql E cx (\<lambda>d. case pg_uuid E s of None \<Rightarrow> Inl (PgError InvalidText)
     | Some k \<Rightarrow> upd_factors (\<lambda>r. faID r = k) (\<lambda>r. r\<lparr>faVerified := True\<rparr>) d))"
  "keeps (dbs I) (exec_sql E cx (\<lambda>d. case pg_uuid E s of None \<Rightarrow> Inl (PgError InvalidText)
     | Some k \<Rightarrow> upd_wa_credentials (\<lambda>r. wcID r = k) (\<lambda>r. r\<lparr>wcSignCount := n, wcLastUsedAt := to\<rparr>) d))"
  by (rule keeps_by_uuid, erule (1) law_revoke law_mark_verified law_count_use)+

end

interpretation integral: db_law_all integrity
  by unfold_locales (erule (1) integrity_insert integrity_ins_session integrity_upsert_policy
      integrity_upd_sessions integrity_factors integrity_wa_credentials integrity_del_sessions
      integrity_upd_signing_keys; simp)+

end
