(* ===== verification/Go_Sha256.thy ===== *)
theory Go_Sha256
  imports Go_Encoding
begin

unbundle bit_operations_syntax

text \<open>
  \<^verbatim>\<open>sha256.Sum256\<close> of Go's crypto/sha256 (FIPS 180-4): padding to blocks of 64 bytes, the
  message schedule and the compression function on 32-bit words, whose addition wraps around. The
  round constants are written in decimal.
\<close>

type_synonym w32 = "32 word"
type_synonym hash_state = "w32 list"

definition sha_k :: "w32 list" where
  "sha_k =
    [1116352408, 1899447441, 3049323471, 3921009573, 961987163, 1508970993,
     2453635748, 2870763221, 3624381080, 310598401, 607225278, 1426881987,
     1925078388, 2162078206, 2614888103, 3248222580, 3835390401, 4022224774,
     264347078, 604807628, 770255983, 1249150122, 1555081692, 1996064986,
     2554220882, 2821834349, 2952996808, 3210313671, 3336571891, 3584528711,
     113926993, 338241895, 666307205, 773529912, 1294757372, 1396182291,
     1695183700, 1986661051, 2177026350, 2456956037, 2730485921, 2820302411,
     3259730800, 3345764771, 3516065817, 3600352804, 4094571909, 275423344,
     430227734, 506948616, 659060556, 883997877, 958139571, 1322822218,
     1537002063, 1747873779, 1955562222, 2024104815, 2227730452, 2361852424,
     2428436474, 2756734187, 3204031479, 3329325298]"

definition sha_init :: hash_state where
  "sha_init =
    [1779033703, 3144134277, 1013904242, 2773480762, 1359893119, 2600822924,
     528734635, 1541459225]"

definition big_endian32 :: "byte list \<Rightarrow> w32" where
  "big_endian32 bs = foldl (\<lambda>w b. push_bit 8 w OR ucast b) 0 bs"

definition bytes_of_w32 :: "w32 \<Rightarrow> byte list" where
  "bytes_of_w32 w = map (\<lambda>i. ucast (drop_bit i w)) [24, 16, 8, 0]"

text \<open>\<open>nat_bytes k n\<close>: the \<open>k\<close> low bytes of \<open>n\<close>, most significant first.\<close>

fun nat_bytes :: "nat \<Rightarrow> nat \<Rightarrow> byte list" where
  "nat_bytes 0 n = []"
| "nat_bytes (Suc k) n = nat_bytes k (n div 256) @ [word_of_nat n]"

definition sha_pad :: "byte list \<Rightarrow> byte list" where
  "sha_pad m =
     m @ [128] @ replicate ((119 - length m mod 64) mod 64) 0 @ nat_bytes 8 (8 * length m)"

fun sha_words :: "byte list \<Rightarrow> w32 list" where
  "sha_words (a # b # c # d # r) = big_endian32 [a, b, c, d] # sha_words r"
| "sha_words _ = []"

text \<open>The schedule is kept newest word first; \<open>sha_extend n\<close> adds \<open>n\<close> words.\<close>

definition sha_next :: "w32 list \<Rightarrow> w32" where
  "sha_next ws =
     (let x = ws ! 14; y = ws ! 1 in
      (word_rotr 17 y XOR word_rotr 19 y XOR drop_bit 10 y) + ws ! 6
      + (word_rotr 7 x XOR word_rotr 18 x XOR drop_bit 3 x) + ws ! 15)"

fun sha_extend :: "nat \<Rightarrow> w32 list \<Rightarrow> w32 list" where
  "sha_extend 0 ws = ws"
| "sha_extend (Suc n) ws = sha_extend n (sha_next ws # ws)"

fun sha_round :: "hash_state \<Rightarrow> w32 \<times> w32 \<Rightarrow> hash_state" where
  "sha_round [a, b, c, d, e, f, g, h] (k, w) =
     (let t1 = h + (word_rotr 6 e XOR word_rotr 11 e XOR word_rotr 25 e)
                 + ((e AND f) XOR (NOT e AND g)) + k + w;
          t2 = (word_rotr 2 a XOR word_rotr 13 a XOR word_rotr 22 a)
                 + ((a AND b) XOR (a AND c) XOR (b AND c))
      in [t1 + t2, a, b, c, d + t1, e, f, g])"
| "sha_round s _ = s"

definition sha_block :: "hash_state \<Rightarrow> byte list \<Rightarrow> hash_state" where
  "sha_block hs blk =
     (let ws = rev (sha_extend 48 (rev (sha_words blk)))
      in map2 (+) hs (foldl sha_round hs (zip sha_k ws)))"

fun sha_blocks :: "nat \<Rightarrow> hash_state \<Rightarrow> byte list \<Rightarrow> hash_state" where
  "sha_blocks 0 hs m = hs"
| "sha_blocks (Suc n) hs m = sha_blocks n (sha_block hs (take 64 m)) (drop 64 m)"

definition sha256 :: "byte list \<Rightarrow> byte list" where
  "sha256 m =
     (let p = sha_pad m in concat (map bytes_of_w32 (sha_blocks (length p div 64) sha_init p)))"

text \<open>The padded message is a whole number of blocks, and the digest has 32 bytes.\<close>

lemma length_nat_bytes [simp]: "length (nat_bytes k n) = k"
  by (induction k arbitrary: n) simp_all

lemma sha_pad_blocks: "length (sha_pad m) mod 64 = 0"
proof -
  define q r where "q = length m div 64" and "r = length m mod 64"
  have n: "length m = 64 * q + r" and r: "r < 64"
    by (simp_all add: q_def r_def)
  have "(119 - r) mod 64 = (if r \<le> 55 then 55 - r else 119 - r)"
    using r by (auto simp: mod_if)
  then have "\<exists>k. length (sha_pad m) = 64 * k"
    using n r by (intro exI [of _ "if r \<le> 55 then q + 1 else q + 2"])
      (simp add: sha_pad_def r_def [symmetric])
  then show ?thesis by auto
qed

lemma length_sha_round [simp]: "length (sha_round hs kw) = length hs"
  by (cases "(hs, kw)" rule: sha_round.cases) (simp_all add: Let_def)

lemma length_sha_rounds [simp]: "length (foldl sha_round hs kws) = length hs"
  by (induction kws arbitrary: hs) simp_all

lemma length_sha_blocks [simp]: "length (sha_blocks n hs m) = length hs"
  by (induction n arbitrary: hs m) (simp_all add: sha_block_def Let_def)

lemma length_sha256 [simp]: "length (sha256 m) = 32"
proof -
  have "length (concat (map bytes_of_w32 ws)) = 4 * length ws" for ws
    by (induction ws) (simp_all add: bytes_of_w32_def)
  then show ?thesis
    by (simp add: sha256_def Let_def sha_init_def)
qed

text \<open>The test vector of FIPS 180-4 for the message \<open>abc\<close>.\<close>

lemma sha256_abc:
  "hex_encode (sha256 (bytes_of ''abc'')) =
     ''ba7816bf8f01cfea414140de5dae2223b00361a396177a9cb410ff61f20015ad''"
  by code_simp

end
