(* ===== verification/Janus_Demo.thy ===== *)
theory Janus_Demo
  imports Janus_World Go_Strings
begin

text \<open>
  A concrete environment. The examples of the component theories run the
  server's operations on them: every service answers, UUIDs and addresses are kept as they are,
  \<open>argon2_IDKey\<close> mixes its inputs into as many bytes as are asked for, and a token of the JWT library
  is a fixed text that opens to fixed claims.
\<close>

definition demo_claims :: claims where
  "demo_claims = \<lparr> clIssuer = ''iss'', clSubject = ''id-a'', clAudience = [], clIssuedAt = 0,
     clExpiresAt = 900000000000, clNotBefore = 0, clID = ''j'', clTenantID = ''t-a'', clUserID = ''u-a'',
     clSessionID = ''s-a'', clEmail = ''a@x.io'', clRoles = [''tenant_owner''],
     clPermissions = [''users:read''], clNonce = [] \<rparr>"

definition demo_unicode :: unicode where
  "demo_unicode = \<lparr> upper_ext = (\<lambda>_. False), digit_ext = (\<lambda>_. False), punct_ext = (\<lambda>_. False),
     symbol_ext = (\<lambda>_. False), lower_ext = (\<lambda>r. r) \<rparr>"

definition demo_key :: "byte list \<Rightarrow> byte list \<Rightarrow> nat \<Rightarrow> byte list" where
  "demo_key pw salt len =
     map (\<lambda>i. word_of_nat (i + sum_list (map unat pw) + 3 * sum_list (map unat salt))) [0..<len]"

definition demo_env :: env where
  "demo_env = \<lparr>
     clock_at = (\<lambda>n. int n * 1000000000),
     rand_at = (\<lambda>n. Some (\<lambda>i. word_of_nat (7 * n + i))),
     uuid_at = (\<lambda>n. ''id-'' @ itoa n),
     db_fault = (\<lambda>_. None), db_now = (\<lambda>n. int n * 1000000000),
     row_order = (\<lambda>_. []), row_cut = (\<lambda>_. None), collate_key = map of_char,
     pg_uuid = Some, pg_inet = Some, pg_time = (\<lambda>t. t),
     redis_fault = (\<lambda>_. None), redis_now = (\<lambda>n. int n * 1000000000), redis_ttl = (\<lambda>t. t),
     publish_fault = (\<lambda>_. None), uni = demo_unicode,
     argon2_IDKey = (\<lambda>pw salt _ _ _ len. demo_key pw salt len),
     totp_validate = (\<lambda>code secret _. code = secret), totp_generate = (\<lambda>_ _ _. Some (''sec'', ''otpauth'')),
     rsa_generate = (\<lambda>n bits. Some (3233, 17, 413)), ecdsa_generate = (\<lambda>n. Some (5, 7, 11)),
     pem_decode = (\<lambda>s. Some (takeWhile (\<lambda>c. c \<noteq> CHR ''|'') s, tl (dropWhile (\<lambda>c. c \<noteq> CHR ''|'') s))),
     pem_encode = (\<lambda>t s. t @ ''|'' @ s),
     x509_parse_ec_private = (\<lambda>_. None),
     x509_parse_pkcs1_private = (\<lambda>s. if s = ''priv'' then Some (RSAPriv 3233 17 413) else None),
     x509_parse_pkcs8_private = (\<lambda>_. None),
     x509_parse_pkix_public = (\<lambda>s. if s = ''pub'' then Some (RSAPub 3233 17) else None),
     x509_marshal_ec_private = (\<lambda>_. None), x509_marshal_pkcs1_private = (\<lambda>_. ''priv''),
     x509_marshal_pkix_public = (\<lambda>_. Some ''pub''),
     jwt_date = (\<lambda>t. t), jwt_sign = (\<lambda>_ _ _ _. Some ''tok''),
     jwt_unverified = (\<lambda>_. Some (''RS256'', ''k'', demo_claims)),
     jwt_signature_ok = (\<lambda>_ _ k. k = RSAPub 3233 17),
     jwt_claims_valid = (\<lambda>c t. clNotBefore c \<le> t \<and> t < clExpiresAt c) \<rparr>"

definition demo_tenant :: tenant where
  "demo_tenant = \<lparr> tnID = ''t-a'', tnSlug = ''ann'', tnDisplayName = ''ann'', tnStatus = ''active'',
     tnCreatedAt = 0, tnUpdatedAt = 0 \<rparr>"

definition world_of :: "database \<Rightarrow> world" where
  "world_of d = \<lparr> pool_db = d, tx_db = None, tx_failed = False, redis = (\<lambda>_. None), calls = 0,
     cache_hits = 0, cache_misses = 0, published = [] \<rparr>"

lemma demo_env_simps [simp]:
  "db_fault demo_env n = None" "redis_fault demo_env n = None" "pg_uuid demo_env s = Some s"
  "pg_inet demo_env s = Some s" "pg_time demo_env t = t" "publish_fault demo_env n = None"
  "row_cut demo_env n = None" "clock_at demo_env n = int n * 1000000000"
  "uuid_at demo_env n = ''id-'' @ itoa n" "rand_at demo_env n = Some (\<lambda>i. word_of_nat (7 * n + i))"
  "db_now demo_env n = int n * 1000000000" "redis_now demo_env n = int n * 1000000000"
  "redis_ttl demo_env t = t" "row_order demo_env n = []"
  by (simp_all add: demo_env_def)

lemma world_of_simps [simp]:
  "pool_db (world_of d) = d" "tx_db (world_of d) = None" "\<not> tx_failed (world_of d)"
  "redis (world_of d) = (\<lambda>_. None)" "calls (world_of d) = 0" "published (world_of d) = []"
  by (simp_all add: world_of_def)

lemma background_simps [simp]:
  "\<not> cx_tx background" "cx_principal background = None" "cx_tenant background = None"
  by (simp_all add: background_def)

lemma healthy_demo [simp]: "\<not> cx_tx cx \<Longrightarrow> healthy demo_env cx w"
  by (simp add: healthy_def)

lemma empty_db_simps [simp]:
  "tenants empty_db = []" "tenant_policies empty_db = []" "identities empty_db = []" "users empty_db = []"
  "credentials empty_db = []" "sessions empty_db = []" "roles empty_db = []" "permissions empty_db = []"
  "role_permissions empty_db = []" "user_roles empty_db = []" "mfa_factors empty_db = []"
  "signing_keys empty_db = []" "oauth_clients empty_db = []" "webauthn_credentials empty_db = []"
  "audit_events empty_db = []"
  by (simp_all add: empty_db_def)

text \<open>The rules that run an operation on a concrete world.\<close>

lemmas run_simps =
  bindE_def ret_def raise_def attempt_def or_err_def tryM_def now_def new_id_def rand_read_def
  exec_sql_def fetch_def query_row_def query_rows_def guarded.simps tick_def

end
