(* ===== verification/Janus_Shared.thy ===== *)
theory Janus_Shared
  imports Janus_World Go_Strings Go_Sha256 Janus_Demo
begin

text \<open>
  \<^verbatim>\<open>internal/shared\<close>: opaque random tokens and their hashes (\<^verbatim>\<open>token/token.go\<close>), password hashing
  (\<^verbatim>\<open>password/password.go\<close>), tenant slugs (\<^verbatim>\<open>slug/slug.go\<close>), the principal's role and permission
  tests (\<^verbatim>\<open>principal/helpers.go\<close>) and the values a request context carries
  (\<^verbatim>\<open>context/principal.go\<close>, \<^verbatim>\<open>tenancy/context.go\<close>). Argon2id is the parameter \<open>argon2_IDKey\<close> of the
  environment; SHA-256, base64 and hex are computed.
\<close>

section \<open>Random tokens\<close>

definition GenerateRandom :: "env \<Rightarrow> nat \<Rightarrow> string io" where
  "GenerateRandom E len = bindE (rand_read E len) (\<lambda>bytes. ret (raw_url_encode bytes))"

definition token_Hash :: "string \<Rightarrow> string" where
  "token_Hash token = hex_encode (sha256 (bytes_of token))"

lemma length_token_Hash [simp]: "length (token_Hash t) = 64"
  by (simp add: token_Hash_def)

lemma token_Hash_inject: "token_Hash s = token_Hash t \<longleftrightarrow> sha256 (bytes_of s) = sha256 (bytes_of t)"
  by (simp add: token_Hash_def)

lemma GenerateRandom_InrD:
  "GenerateRandom E n w = (Inr t, w') \<Longrightarrow>
     w' = tick w \<and> length t = (4 * n + 2) div 3 \<and> (\<forall>c \<in> set t. b64_alphabet c)
     \<and> (\<exists>f. rand_at E (calls w) = Some f \<and> t = raw_url_encode (map f [0..<n]))"
  unfolding GenerateRandom_def bindE_Inr_iff rand_read_Inr_iff ret_iff
  using length_raw_url_encode b64_encode_alphabet [where url = True, folded raw_url_encode_def]
  by fastforce

lemma GenerateRandom_InlD: "GenerateRandom E n w = (Inl e, w') \<Longrightarrow> w' = tick w"
  by (auto simp: GenerateRandom_def bindE_Inl_iff rand_read_def split: option.splits)

lemma GenerateRandom_eval:
  "rand_at E (calls w) = Some f \<Longrightarrow>
     GenerateRandom E n w = (Inr (raw_url_encode (map f [0..<n])), tick w)"
  by (simp add: GenerateRandom_def bindE_def rand_read_def ret_def)

lemma quiet_GenerateRandom [quiet_rules]: "quiet (GenerateRandom E n)"
  unfolding GenerateRandom_def by (intro quiet_rules)

lemma keeps_GenerateRandom [keeps_rules]: "keeps I (rand_read E n) \<Longrightarrow> keeps I (GenerateRandom E n)"
  unfolding GenerateRandom_def by (intro keeps_rules)

section \<open>Passwords\<close>

definition argon_memory :: nat where "argon_memory = 64 * 1024"
definition argon_iterations :: nat where "argon_iterations = 3"
definition argon_parallelism :: nat where "argon_parallelism = 2"
definition saltLength :: nat where "saltLength = 16"
definition keyLength :: nat where "keyLength = 32"

text \<open>\<^verbatim>\<open>argon2.IDKey\<close> with the parameters of the package, for a salt and a key length.\<close>

definition argon_key :: "env \<Rightarrow> string \<Rightarrow> byte list \<Rightarrow> nat \<Rightarrow> byte list" where
  "argon_key E pw salt len =
     argon2_IDKey E (bytes_of pw) salt argon_iterations argon_memory argon_parallelism len"

definition encode_hash :: "byte list \<Rightarrow> byte list \<Rightarrow> string" where
  "encode_hash salt hash =
     ''$argon2id$v=19$m='' @ itoa argon_memory @ '',t='' @ itoa argon_iterations
       @ '',p='' @ itoa argon_parallelism @ ''$'' @ raw_std_encode salt @ ''$'' @ raw_std_encode hash"

definition password_Hash :: "env \<Rightarrow> string \<Rightarrow> string io" where
  "password_Hash E pw =
     bindE (rand_read E saltLength)
       (\<lambda>salt. ret (encode_hash salt (argon_key E pw salt keyLength)))"

definition password_Verify :: "env \<Rightarrow> string \<Rightarrow> string \<Rightarrow> bool" where
  "password_Verify E pw encodedHash =
     (let parts = split_ch CHR ''$'' encodedHash in
      if length parts \<noteq> 6 then False
      else case raw_std_decode (parts ! 4) of
             None \<Rightarrow> False
           | Some salt \<Rightarrow>
               (case raw_std_decode (parts ! 5) of
                  None \<Rightarrow> False
                | Some expectedHash \<Rightarrow>
                    if salt = [] \<or> expectedHash = [] then False
                    else argon_key E pw salt (length expectedHash mod 2 ^ 32) = expectedHash))"

lemma b64_no_dollar [simp]: "CHR ''$'' \<notin> set (raw_std_encode bs)"
  using b64_encode_alphabet [of "CHR ''$''" False bs] by (auto simp: raw_std_encode_def b64_alphabet_def)

lemma itoa_no_dollar [simp]: "CHR ''$'' \<notin> set (itoa n)"
  using itoa_digits [of "CHR ''$''" n] by auto

definition argon_params :: string where
  "argon_params = ''m='' @ itoa argon_memory @ '',t='' @ itoa argon_iterations @ '',p='' @ itoa argon_parallelism"

lemma params_no_dollar [simp]: "CHR ''$'' \<notin> set argon_params"
  by (simp add: argon_params_def)

lemma split_encode_hash:
  "split_ch CHR ''$'' (encode_hash salt hash) =
     [[], ''argon2id'', ''v=19'', argon_params, raw_std_encode salt, raw_std_encode hash]"
proof -
  have enc: "encode_hash salt hash =
      [] @ CHR ''$'' # (''argon2id'' @ CHR ''$'' # (''v=19'' @ CHR ''$'' #
        (argon_params @ CHR ''$'' # (raw_std_encode salt @ CHR ''$'' # raw_std_encode hash))))"
    by (simp add: encode_hash_def argon_params_def)
  show ?thesis
    unfolding enc by (simp only: split_ch_append_sep [of "CHR ''$''"] params_no_dollar b64_no_dollar
        split_ch_free list.set insert_iff empty_iff char.inject simp_thms)
qed

lemma verify_encoded:
  assumes "salt \<noteq> []" "hash \<noteq> []"
  shows "password_Verify E pw (encode_hash salt hash) \<longleftrightarrow>
           argon_key E pw salt (length hash mod 2 ^ 32) = hash"
  using assms by (simp add: password_Verify_def split_encode_hash Let_def)

lemma password_Hash_InrD:
  "password_Hash E pw w = (Inr h, w') \<Longrightarrow>
     w' = tick w \<and> (\<exists>salt. length salt = 16 \<and> h = encode_hash salt (argon_key E pw salt keyLength))"
  unfolding password_Hash_def bindE_Inr_iff rand_read_Inr_iff ret_iff saltLength_def
  by (metis Inr_inject diff_zero length_map length_upt)

lemma keeps_password_Hash [keeps_rules]: "keeps I (rand_read E saltLength) \<Longrightarrow> keeps I (password_Hash E pw)"
  unfolding password_Hash_def by (intro keeps_rules)

section \<open>Slugs\<close>

definition slug_FromEmail :: "unicode \<Rightarrow> string \<Rightarrow> string" where
  "slug_FromEmail u email = replace_ch CHR ''.'' CHR ''-'' (to_lower u (hd (split_ch CHR ''@'' email)))"

section \<open>Principals\<close>

fun list_has :: "string \<Rightarrow> string list \<Rightarrow> bool" where
  "list_has x [] = False"
| "list_has x (r # rs) = (if r = x then True else list_has x rs)"

definition HasRole :: "principal \<Rightarrow> string \<Rightarrow> bool" where
  "HasRole p role = list_has role (prRoles p)"

definition HasPermission :: "principal \<Rightarrow> string \<Rightarrow> bool" where
  "HasPermission p permission = list_has permission (prPermissions p)"

definition Require :: "principal \<Rightarrow> string \<Rightarrow> bool" where
  "Require p permission = HasPermission p permission"

lemma list_has_iff [simp]: "list_has x rs \<longleftrightarrow> x \<in> set rs"
  by (induction rs) auto

section \<open>The request context\<close>

definition WithPrincipal :: "ctx \<Rightarrow> principal \<Rightarrow> ctx" where
  "WithPrincipal cx p = cx\<lparr>cx_principal := Some p\<rparr>"

definition Principal :: "ctx \<Rightarrow> principal option" where
  "Principal cx = cx_principal cx"

definition MustPrincipal :: "ctx \<Rightarrow> error + principal" where
  "MustPrincipal cx =
     (case Principal cx of None \<Rightarrow> Inl (Panic ''principal missing from context'') | Some p \<Rightarrow> Inr p)"

definition WithTenant :: "ctx \<Rightarrow> string \<Rightarrow> ctx" where
  "WithTenant cx tenantID = cx\<lparr>cx_tenant := Some tenantID\<rparr>"

definition TenantID :: "ctx \<Rightarrow> string option" where
  "TenantID cx = cx_tenant cx"

lemma context_simps [simp]:
  "Principal (WithPrincipal cx p) = Some p" "cx_tx (WithPrincipal cx p) = cx_tx cx"
  "TenantID (WithTenant cx t) = Some t" "cx_tx (WithTenant cx t) = cx_tx cx"
  "Principal (WithTenant cx t) = Principal cx"
  by (simp_all add: Principal_def WithPrincipal_def TenantID_def WithTenant_def)

section \<open>An example database\<close>

text \<open>A database with one tenant, its owner and a session.\<close>

definition demo_db :: database where
  "demo_db = empty_db\<lparr>
     tenants := [demo_tenant],
     identities := [\<lparr> iID = ''i-a'', iPrimaryEmail = ''ann@x.io'', iEmailVerified = False, iStatus = ''active'',
       iCreatedAt = 0, iUpdatedAt = 0 \<rparr>],
     users := [\<lparr> usID = ''u-a'', usTenantID = ''t-a'', usIdentityID = ''i-a'', usUsername = ''ann@x.io'',
       usDisplayName = ''ann'', usStatus = ''active'', usCreatedAt = 0, usUpdatedAt = 0 \<rparr>],
     credentials := [\<lparr> crID = ''c-a'', crIdentityID = ''i-a'', crCredentialType = ''password'',
       crPasswordHash = encode_hash [1] (argon_key demo_env ''pw'' [1] 2), crCreatedAt = 0, crUpdatedAt = 0 \<rparr>],
     roles := [\<lparr> rlID = ''r-a'', rlTenantID = ''t-a'', rlName = ''tenant_owner'', rlDescription = [],
       rlCreatedAt = 0 \<rparr>],
     permissions := [\<lparr> pmID = ''p-a'', pmName = ''users:read'', pmDescription = [], pmCreatedAt = 0 \<rparr>,
       \<lparr> pmID = ''p-b'', pmName = ''users:create'', pmDescription = [], pmCreatedAt = 0 \<rparr>],
     role_permissions := [\<lparr> rpRoleID = ''r-a'', rpPermissionID = ''p-a'' \<rparr>],
     user_roles := [\<lparr> urUserID = ''u-a'', urRoleID = ''r-a'', urCreatedAt = 0 \<rparr>],
     signing_keys := [\<lparr> skID = ''k'', skAlgorithm = ''RS256'', skPublicKey = ''PUBLIC KEY|pub'',
       skPrivateKey = ''RSA PRIVATE KEY|priv'',
       skIsActive = True, skCreatedAt = 0, skRotatedAt = None \<rparr>],
     sessions := [\<lparr> ssID = ''s-a'', ssTenantID = ''t-a'', ssIdentityID = ''i-a'', ssUserID = ''u-a'',
       ssRefreshTokenHash = ''h'', ssParentSessionID = None, ssIPAddress = Some ''10.0.0.1'', ssUserAgent = ''ua'',
       ssExpiresAt = 1000000000000, ssRevokedAt = None, ssCreatedAt = 0 \<rparr>] \<rparr>"

definition demo_world :: world where
  "demo_world = world_of demo_db"


definition demo_principal :: principal where
  "demo_principal = \<lparr> prSessionID = ''s-a'', prIdentityID = ''i-a'', prTenantID = ''t-a'', prUserID = ''u-a'',
     prEmail = ''ann@x.io'', prRoles = [''tenant_owner''], prPermissions = [''users:read''] \<rparr>"

section \<open>Properties\<close>

text \<open>
  C39: a hash the server stored for a password verifies that password, and another one exactly when
  Argon2id maps both to the same key under the stored 16-byte salt.
\<close>

theorem password_verify_hash:
  assumes "\<And>pw salt t m p n. length (argon2_IDKey E pw salt t m p n) = n"
    and "password_Hash E q w = (Inr h, w')"
  shows "password_Verify E q h
       \<and> (\<exists>salt. length salt = 16 \<and> (\<forall>pw. password_Verify E pw h \<longleftrightarrow> argon_key E pw salt 32 = argon_key E q salt 32))"
proof -
  obtain salt where salt: "length salt = 16" and h: "h = encode_hash salt (argon_key E q salt 32)"
    using password_Hash_InrD [OF assms(2)] by (auto simp: keyLength_def)
  have len: "length (argon_key E q salt 32) = 32"
    by (simp add: argon_key_def assms(1))
  have "salt \<noteq> []" "argon_key E q salt 32 \<noteq> []"
    using salt len by auto
  then have "password_Verify E pw h \<longleftrightarrow> argon_key E pw salt 32 = argon_key E q salt 32" for pw
    unfolding h by (simp add: verify_encoded len)
  then show ?thesis
    using salt by blast
qed

lemma demo_argon_length: "length (argon2_IDKey demo_env pw salt t m p n) = n"
  by (simp add: demo_env_def demo_key_def)

lemma demo_hash:
  "password_Hash demo_env ''pw'' demo_world =
     (Inr (encode_hash (map word_of_nat [0..<16]) (argon_key demo_env ''pw'' (map word_of_nat [0..<16]) 32)),
      tick demo_world)"
  by (simp add: password_Hash_def bindE_def rand_read_def ret_def demo_world_def saltLength_def keyLength_def
      cong: map_cong)

theorem password_verify_hash_witness:
  "password_Verify demo_env ''pw''
     (encode_hash (map word_of_nat [0..<16]) (argon_key demo_env ''pw'' (map word_of_nat [0..<16]) 32))"
  using password_verify_hash [OF demo_argon_length demo_hash] by blast

text \<open>
  A slug made from an email in ASCII is the part before the first \<open>@\<close>, lower-cased, with
  dashes for dots; it holds no \<open>@\<close>, no dot and no capital letter.
\<close>

theorem slug_from_email_ascii:
  assumes "ascii email"
  shows "slug_FromEmail u email =
           map (\<lambda>c. if c = CHR ''.'' then CHR ''-'' else lower_ch c) (takeWhile (\<lambda>c. c \<noteq> CHR ''@'') email)
       \<and> CHR ''@'' \<notin> set (slug_FromEmail u email) \<and> CHR ''.'' \<notin> set (slug_FromEmail u email)
       \<and> (\<forall>c \<in> set (slug_FromEmail u email). \<not> (65 \<le> (of_char c :: nat) \<and> (of_char c :: nat) \<le> 90))"
proof -
  let ?local = "takeWhile (\<lambda>c. c \<noteq> CHR ''@'') email"
  have "ascii ?local"
    using assms by (auto simp: ascii_def dest: set_takeWhileD)
  then have slug: "slug_FromEmail u email = map (\<lambda>c. if lower_ch c = CHR ''.'' then CHR ''-'' else lower_ch c) ?local"
    by (simp add: slug_FromEmail_def hd_split_ch_takeWhile to_lower_ascii replace_ch_def)
  have dot: "lower_ch c = CHR ''.'' \<longleftrightarrow> c = CHR ''.''" and at: "lower_ch c = CHR ''@'' \<longleftrightarrow> c = CHR ''@''" for c
    by (rule lower_ch_fixed, simp)+
  have local: "c \<noteq> CHR ''@''" if "c \<in> set ?local" for c
    using set_takeWhileD [OF that] by simp
  have "(if lower_ch c = CHR ''.'' then CHR ''-'' else lower_ch c) \<noteq> CHR ''@''" if "c \<in> set ?local" for c
    using local [OF that] by (simp add: at)
  then have "CHR ''@'' \<notin> set (slug_FromEmail u email)"
    unfolding slug set_map image_iff by metis
  moreover have "\<forall>c \<in> set (slug_FromEmail u email). \<not> (65 \<le> (of_char c :: nat) \<and> (of_char c :: nat) \<le> 90)"
    unfolding slug using lower_ch_not_upper by (auto split: if_splits)
  moreover have "(if lower_ch c = CHR ''.'' then CHR ''-'' else lower_ch c) \<noteq> CHR ''.''" for c
    by simp
  then have "CHR ''.'' \<notin> set (slug_FromEmail u email)"
    unfolding slug set_map image_iff by metis
  ultimately show ?thesis
    using slug unfolding dot by simp
qed

theorem slug_from_email_ascii_witness: "slug_FromEmail demo_unicode ''Ann.B@x.io'' = ''ann-b''"
  by (subst slug_from_email_ascii [THEN conjunct1]) code_simp+

end
