(* ===== verification/Janus_Http.thy ===== *)
theory Janus_Http
  imports Janus_Shared
begin

text \<open>
  What the HTTP handlers write. \<open>HttpError code msg\<close> is \<^verbatim>\<open>http.Error(w, msg, code)\<close>,
  \<open>Json code v\<close> a status and the JSON encoding of \<open>v\<close>, \<open>Empty code\<close> a status without a body,
  \<open>Redirect code url\<close> is \<^verbatim>\<open>http.Redirect\<close>. A handler reads a request and runs in the world; it
  returns no error, so its computation is written with the error type of the server and never
  raises. \<open>Panicked\<close> is a handler that panics: net/http aborts the connection. A body that fails to
  decode is \<open>None\<close>.
\<close>

datatype 'b reply =
    Json nat 'b
  | Empty nat
  | HttpError nat string
  | Redirect nat string
  | Panicked string

fun status_of :: "'b reply \<Rightarrow> nat" where
  "status_of (Json c _) = c"
| "status_of (Empty c) = c"
| "status_of (HttpError c _) = c"
| "status_of (Redirect c _) = c"
| "status_of (Panicked _) = 0"

text \<open>\<open>serve m ok err\<close>: run a use case and write the reply for its value or its error.\<close>

definition serve :: "'a io \<Rightarrow> ('a \<Rightarrow> 'b reply) \<Rightarrow> (error \<Rightarrow> 'b reply) \<Rightarrow> world \<Rightarrow> 'b reply \<times> world" where
  "serve m ok err w = (case m w of (Inl e, w') \<Rightarrow> (err e, w') | (Inr x, w') \<Rightarrow> (ok x, w'))"

type_synonym 'b handler = "ctx \<Rightarrow> world \<Rightarrow> 'b reply \<times> world"

definition reply :: "'b reply \<Rightarrow> world \<Rightarrow> 'b reply \<times> world" where
  "reply r w = (r, w)"

lemma serve_iff:
  "serve m ok err w = (r, w') \<longleftrightarrow>
     (\<exists>x. m w = (Inr x, w') \<and> r = ok x) \<or> (\<exists>e. m w = (Inl e, w') \<and> r = err e)"
  by (auto simp: serve_def split: prod.splits sum.splits)

lemma serve_eval [simp]:
  "m w = (Inr x, w1) \<Longrightarrow> serve m ok err w = (ok x, w1)"
  "m w = (Inl e, w1) \<Longrightarrow> serve m ok err w = (err e, w1)"
  by (simp_all add: serve_def)

lemma snd_serve [simp]: "snd (serve m ok err w) = snd (m w)"
  by (simp add: serve_def split: prod.splits sum.splits)

lemma reply_iff [simp]: "reply r w = (r', w') \<longleftrightarrow> r' = r \<and> w' = w"
  by (auto simp: reply_def)

end
