(* ===== verification/Janus_Tenant.thy ===== *)
theory Janus_Tenant
  imports Janus_Sql Janus_Http
begin

text \<open>
  \<^verbatim>\<open>internal/tenant\<close>: the tenant repository, the tenant's policy (repository, defaults, enforcer and
  HTTP handler), unique slugs, and the middleware that puts the principal's tenant in the context.
\<close>

section \<open>Repository\<close>

definition TenantRepo_Create :: "env \<Rightarrow> ctx \<Rightarrow> tenant \<Rightarrow> unit io" where
  "TenantRepo_Create E cx t = exec_sql E cx (cast_row (pg_tenant E t) ins_tenant)"

definition TenantRepo_GetByID :: "env \<Rightarrow> ctx \<Rightarrow> string \<Rightarrow> tenant io" where
  "TenantRepo_GetByID E cx tid =
     query_row E cx (\<lambda>d. where_uuid E tid (\<lambda>k. filter (\<lambda>t. tnID t = k) (tenants d)))"

definition TenantRepo_GetBySlug :: "env \<Rightarrow> ctx \<Rightarrow> string \<Rightarrow> tenant io" where
  "TenantRepo_GetBySlug E cx slug =
     query_row E cx (\<lambda>d. Inr (filter (\<lambda>t. tnSlug t = slug) (tenants d)))"

definition TenantRepo_ExistsBySlug :: "env \<Rightarrow> ctx \<Rightarrow> string \<Rightarrow> bool io" where
  "TenantRepo_ExistsBySlug E cx slug =
     query_row E cx (\<lambda>d. Inr [list_ex (\<lambda>t. tnSlug t = slug) (tenants d)])"

section \<open>Slugs\<close>

definition maxSlugAttempts :: nat where "maxSlugAttempts = 5"

definition slug_candidate :: "string \<Rightarrow> nat \<Rightarrow> string" where
  "slug_candidate base i = base @ ''-'' @ itoa i"

text \<open>The loop of \<^verbatim>\<open>GenerateUniqueSlug\<close>, over the values of \<^verbatim>\<open>i\<close> it has left.\<close>

fun slug_loop :: "env \<Rightarrow> ctx \<Rightarrow> string \<Rightarrow> nat list \<Rightarrow> string io" where
  "slug_loop E cx base [] = raise (ErrMsg ''slug is unavailable'')"
| "slug_loop E cx base (i # is) =
     bindE (TenantRepo_ExistsBySlug E cx (slug_candidate base i))
       (\<lambda>exists. if \<not> exists then ret (slug_candidate base i) else slug_loop E cx base is)"

definition GenerateUniqueSlug :: "env \<Rightarrow> ctx \<Rightarrow> string \<Rightarrow> string io" where
  "GenerateUniqueSlug E cx base =
     bindE (TenantRepo_ExistsBySlug E cx base)
       (\<lambda>exists. if \<not> exists then ret base else slug_loop E cx base [1..<Suc maxSlugAttempts])"

definition slug_taken :: "database \<Rightarrow> string \<Rightarrow> bool" where
  "slug_taken d s \<longleftrightarrow> s \<in> tnSlug ` set (tenants d)"

lemma ExistsBySlug_InrD:
  assumes "TenantRepo_ExistsBySlug E cx s w = (Inr b, w')"
  shows "w' = tick w \<and> (b \<longleftrightarrow> slug_taken (view cx w) s)"
  using query_row_InrD [OF assms [unfolded TenantRepo_ExistsBySlug_def]]
  by (auto simp: slug_taken_def list_ex_iff)

lemma ExistsBySlug_InlD:
  "TenantRepo_ExistsBySlug E cx s w = (Inl e, w') \<Longrightarrow> same_data w w'"
  unfolding TenantRepo_ExistsBySlug_def using query_row_InlD by blast

text \<open>\<open>ticked w w'\<close>: only the counter of external calls moved.\<close>

definition ticked :: "world \<Rightarrow> world \<Rightarrow> bool" where
  "ticked w w' \<longleftrightarrow> calls w \<le> calls w' \<and> w' = w\<lparr>calls := calls w'\<rparr>"

lemma ticked_refl [simp]: "ticked w w" and ticked_tick [simp]: "ticked w (tick w)"
  by (simp_all add: ticked_def tick_def)

lemma ticked_trans: "ticked w1 w2 \<Longrightarrow> ticked w2 w3 \<Longrightarrow> ticked w1 w3"
  unfolding ticked_def by (metis (no_types, lifting) le_trans world.surjective world.update_convs(5))

lemma ticked_fields:
  "ticked w w' \<Longrightarrow> pool_db w' = pool_db w \<and> tx_db w' = tx_db w \<and> tx_failed w' = tx_failed w
     \<and> redis w' = redis w \<and> published w' = published w \<and> view cx w' = view cx w
     \<and> cache_hits w' = cache_hits w \<and> cache_misses w' = cache_misses w"
  unfolding ticked_def view_def by (metis (no_types, lifting) world.select_convs world.surjective world.update_convs(5))

lemma slug_loop_InrD:
  assumes "slug_loop E cx base is w = (Inr s, w')"
  shows "ticked w w' \<and> (\<exists>pre i post. is = pre @ i # post \<and> s = slug_candidate base i
           \<and> \<not> slug_taken (view cx w) s \<and> (\<forall>j \<in> set pre. slug_taken (view cx w) (slug_candidate base j)))"
  using assms
proof (induction "is" arbitrary: w)
  case Nil
  then show ?case by simp
next
  case (Cons i "is")
  obtain b where ex: "TenantRepo_ExistsBySlug E cx (slug_candidate base i) w = (Inr b, tick w)"
    and rest: "(if \<not> b then ret (slug_candidate base i) else slug_loop E cx base is) (tick w) = (Inr s, w')"
    using Cons.prems ExistsBySlug_InrD unfolding slug_loop.simps bindE_Inr_iff by blast
  have b: "b \<longleftrightarrow> slug_taken (view cx w) (slug_candidate base i)"
    using ExistsBySlug_InrD [OF ex] by simp
  show ?case
  proof (cases b)
    case False
    then have "s = slug_candidate base i" "w' = tick w"
      using rest by auto
    then show ?thesis
      using b False by (intro conjI exI [of _ "[]"] exI [of _ i] exI [of _ "is"]) auto
  next
    case True
    then have "slug_loop E cx base is (tick w) = (Inr s, w')"
      using rest by simp
    from Cons.IH [OF this] obtain pre j post where
      "ticked (tick w) w'" "is = pre @ j # post" "s = slug_candidate base j"
      "\<not> slug_taken (view cx w) s" "\<forall>j \<in> set pre. slug_taken (view cx w) (slug_candidate base j)"
      by auto
    then show ?thesis
      using b True ticked_trans [OF ticked_tick]
      by (intro conjI exI [of _ "i # pre"] exI [of _ j] exI [of _ post]) auto
  qed
qed

lemma slug_candidate_inject [simp]: "slug_candidate b i = slug_candidate b j \<longleftrightarrow> i = j"
  by (simp add: slug_candidate_def)

lemma GenerateUniqueSlug_InrD:
  assumes "GenerateUniqueSlug E cx base w = (Inr s, w')"
  shows "ticked w w' \<and> \<not> slug_taken (view cx w) s
     \<and> (s = base \<or> slug_taken (view cx w) base \<and> (\<exists>i \<in> {1..5}. s = slug_candidate base i
          \<and> (\<forall>j \<in> {1..<i}. slug_taken (view cx w) (slug_candidate base j))))"
proof -
  obtain b where ex: "TenantRepo_ExistsBySlug E cx base w = (Inr b, tick w)"
    and rest: "(if \<not> b then ret base else slug_loop E cx base [1..<Suc maxSlugAttempts]) (tick w) = (Inr s, w')"
    using assms ExistsBySlug_InrD unfolding GenerateUniqueSlug_def bindE_Inr_iff by blast
  have b: "b \<longleftrightarrow> slug_taken (view cx w) base"
    using ExistsBySlug_InrD [OF ex] by simp
  show ?thesis
  proof (cases b)
    case False
    then show ?thesis
      using rest b by auto
  next
    case True
    then have "slug_loop E cx base [1..<Suc maxSlugAttempts] (tick w) = (Inr s, w')"
      using rest by simp
    from slug_loop_InrD [OF this] obtain pre i post where
      *: "ticked (tick w) w'" "[1..<Suc maxSlugAttempts] = pre @ i # post" "s = slug_candidate base i"
      "\<not> slug_taken (view cx w) s" "\<forall>j \<in> set pre. slug_taken (view cx w) (slug_candidate base j)"
      by auto
    have "1 \<le> i \<and> i < Suc maxSlugAttempts \<and> pre = [1..<i]"
      using *(2) by (rule upt_eq_split)
    then show ?thesis
      using * b True ticked_trans [OF ticked_tick] by (auto simp: maxSlugAttempts_def)
  qed
qed

lemma keeps_tenant_repo [keeps_rules]:
  "keeps (dbs I) (TenantRepo_ExistsBySlug E cx s)" "keeps (dbs I) (TenantRepo_GetByID E cx s)"
  "keeps (dbs I) (TenantRepo_GetBySlug E cx s)"
  unfolding TenantRepo_ExistsBySlug_def TenantRepo_GetByID_def TenantRepo_GetBySlug_def
  by (rule keeps_rules)+

lemma keeps_GenerateUniqueSlug [keeps_rules]:
  assumes "\<And>s. keeps I (TenantRepo_ExistsBySlug E cx s)"
  shows "keeps I (GenerateUniqueSlug E cx base)"
proof -
  have "keeps I (slug_loop E cx base is)" for "is"
    by (induction "is") (auto intro!: keeps_rules assms)
  then show ?thesis
    unfolding GenerateUniqueSlug_def by (intro keeps_rules assms)
qed

section \<open>Policies\<close>

definition DefaultPolicy :: policy where
  "DefaultPolicy = \<lparr> poTenantID = [], poPasswordMinLength = 8, poPasswordRequireUpper = False,
     poPasswordRequireDigit = False, poPasswordRequireSymbol = False, poAllowedEmailDomains = [],
     poRequireMFA = False, poMaxActiveSessions = 0 \<rparr>"

text \<open>The columns hold no tenant id of their own: the result carries the id that was asked for.\<close>

definition PolicyRepo_Get :: "env \<Rightarrow> ctx \<Rightarrow> string \<Rightarrow> policy io" where
  "PolicyRepo_Get E cx tenantID =
     bindE (attempt (query_row E cx
        (\<lambda>d. where_uuid E tenantID (\<lambda>k. filter (\<lambda>p. poTenantID p = k) (tenant_policies d)))))
       (\<lambda>r. case r of
              Inl e \<Rightarrow> if errors_is e ErrNoRows then ret (DefaultPolicy\<lparr>poTenantID := tenantID\<rparr>) else raise e
            | Inr p \<Rightarrow> ret (p\<lparr>poTenantID := tenantID\<rparr>))"

text \<open>The domain list goes through JSON, which replaces bytes that are not UTF-8.\<close>

definition PolicyRepo_Upsert :: "env \<Rightarrow> ctx \<Rightarrow> policy \<Rightarrow> unit io" where
  "PolicyRepo_Upsert E cx p =
     exec_sql E cx (cast_row
       (pg_policy E (p\<lparr>poAllowedEmailDomains := map json_string (poAllowedEmailDomains p)\<rparr>)) upsert_policy)"

text \<open>\<^verbatim>\<open>repo\<close> says whether the enforcer was built with a repository.\<close>

definition PolicyEnforcer_Get :: "env \<Rightarrow> bool \<Rightarrow> ctx \<Rightarrow> string \<Rightarrow> policy io" where
  "PolicyEnforcer_Get E repo cx tenantID =
     (if \<not> repo then ret DefaultPolicy else PolicyRepo_Get E cx tenantID)"

definition hasMatch :: "string \<Rightarrow> (nat \<Rightarrow> bool) \<Rightarrow> bool" where
  "hasMatch s f = list_ex f (runes s)"

definition isSymbol :: "unicode \<Rightarrow> nat \<Rightarrow> bool" where
  "isSymbol u r = (is_punct u r \<or> is_symbol_cat u r)"

definition ValidatePassword :: "unicode \<Rightarrow> policy option \<Rightarrow> string \<Rightarrow> error + unit" where
  "ValidatePassword u po password =
     (let p = (case po of None \<Rightarrow> DefaultPolicy | Some p \<Rightarrow> p) in
      if int (length password) < poPasswordMinLength p then Inl ErrPasswordTooShort
      else if poPasswordRequireUpper p \<and> \<not> hasMatch password (is_upper u) then Inl ErrPasswordNeedsUpper
      else if poPasswordRequireDigit p \<and> \<not> hasMatch password (is_digit u) then Inl ErrPasswordNeedsDigit
      else if poPasswordRequireSymbol p \<and> \<not> hasMatch password (isSymbol u) then Inl ErrPasswordNeedsSymbol
      else Inr ())"

fun domain_allowed :: "unicode \<Rightarrow> string \<Rightarrow> string list \<Rightarrow> error + unit" where
  "domain_allowed u domain [] = Inl ErrEmailDomainNotAllowed"
| "domain_allowed u domain (d # ds) = (if to_lower u d = domain then Inr () else domain_allowed u domain ds)"

definition ValidateEmailDomain :: "unicode \<Rightarrow> policy option \<Rightarrow> string \<Rightarrow> error + unit" where
  "ValidateEmailDomain u po email =
     (case po of
        None \<Rightarrow> Inr ()
      | Some p \<Rightarrow>
          if poAllowedEmailDomains p = [] then Inr ()
          else (case last_index CHR ''@'' email of
                  None \<Rightarrow> Inl ErrEmailDomainNotAllowed
                | Some at \<Rightarrow>
                    if at = length email - 1 then Inl ErrEmailDomainNotAllowed
                    else domain_allowed u (to_lower u (drop (at + 1) email)) (poAllowedEmailDomains p)))"

lemma domain_allowed_iff:
  "domain_allowed u dm ds = Inr () \<longleftrightarrow> (\<exists>d \<in> set ds. to_lower u d = dm)"
  by (induction ds) auto

lemma domain_allowed_cases: "domain_allowed u dm ds = Inr () \<or> domain_allowed u dm ds = Inl ErrEmailDomainNotAllowed"
  by (induction ds) auto

lemma PolicyRepo_Get_InrD:
  assumes "PolicyRepo_Get E cx tid w = (Inr p, w')"
  shows "poTenantID p = tid \<and> calls w' = Suc (calls w) \<and> same_data w w'"
proof -
  obtain r w1 where q: "query_row E cx
        (\<lambda>d. where_uuid E tid (\<lambda>k. filter (\<lambda>p. poTenantID p = k) (tenant_policies d))) w = (r, w1)"
    and rest: "(case r of
              Inl e \<Rightarrow> if errors_is e ErrNoRows then ret (DefaultPolicy\<lparr>poTenantID := tid\<rparr>) else raise e
            | Inr p \<Rightarrow> ret (p\<lparr>poTenantID := tid\<rparr>)) w1 = (Inr p, w')"
    using assms unfolding PolicyRepo_Get_def bindE_Inr_iff by auto
  show ?thesis
  proof (cases r)
    case (Inl e)
    then show ?thesis
      using query_row_InlD [OF q [unfolded Inl]] rest by (auto split: if_splits)
  next
    case (Inr x)
    then show ?thesis
      using query_row_InrD [OF q [unfolded Inr]] rest by auto
  qed
qed

lemma PolicyRepo_Get_InlD:
  assumes "PolicyRepo_Get E cx tid w = (Inl e, w')"
  shows "same_data w w'"
proof -
  obtain r w1 where q: "query_row E cx
        (\<lambda>d. where_uuid E tid (\<lambda>k. filter (\<lambda>p. poTenantID p = k) (tenant_policies d))) w = (r, w1)"
    and rest: "(case r of
              Inl e \<Rightarrow> if errors_is e ErrNoRows then ret (DefaultPolicy\<lparr>poTenantID := tid\<rparr>) else raise e
            | Inr p \<Rightarrow> ret (p\<lparr>poTenantID := tid\<rparr>)) w1 = (Inl e, w')"
    using assms unfolding PolicyRepo_Get_def bindE_Inl_iff by auto
  show ?thesis
  proof (cases r)
    case (Inl e)
    then show ?thesis
      using query_row_InlD [OF q [unfolded Inl]] rest by (auto split: if_splits)
  next
    case (Inr x)
    then show ?thesis
      using rest by simp
  qed
qed

lemma quiet_policy [quiet_rules]: "quiet (PolicyRepo_Get E cx tid)" "quiet (PolicyEnforcer_Get E repo cx tid)"
  unfolding PolicyEnforcer_Get_def PolicyRepo_Get_def by (intro quiet_rules)+

lemma keeps_policy [keeps_rules]:
  assumes "\<And>q :: database \<Rightarrow> error + policy list. keeps I (query_row E cx q)"
  shows "keeps I (PolicyRepo_Get E cx tid)" "keeps I (PolicyEnforcer_Get E repo cx tid)"
  unfolding PolicyEnforcer_Get_def PolicyRepo_Get_def by (intro keeps_rules assms)+

context db_law
begin

lemma keeps_tenant_writes [keeps_rules]:
  "keeps (dbs I) (TenantRepo_Create E cx t)" "keeps (dbs I) (PolicyRepo_Upsert E cx p)"
  unfolding TenantRepo_Create_def PolicyRepo_Upsert_def by (rule keeps_rules)+

end

text \<open>After an upsert every policy row of the tenant is the one that was sent.\<close>

lemma upsert_policy_rows:
  assumes "upsert_policy r d = Inr (u, d')"
  shows "filter (\<lambda>p. poTenantID p = poTenantID r) (tenant_policies d') \<noteq> []"
    and "p \<in> set (tenant_policies d') \<Longrightarrow> poTenantID p = poTenantID r \<Longrightarrow> p = r"
proof -
  show "filter (\<lambda>p. poTenantID p = poTenantID r) (tenant_policies d') \<noteq> []"
    using assms by (auto simp: upsert_policy_def filter_empty_conv split: if_splits)
  show "p = r" if "p \<in> set (tenant_policies d')" "poTenantID p = poTenantID r"
    using assms that by (fastforce simp: upsert_policy_def image_iff split: if_splits)
qed

section \<open>The policy handler\<close>

record policy_dto =
  pdPasswordMinLength :: int
  pdPasswordRequireUpper :: bool
  pdPasswordRequireDigit :: bool
  pdPasswordRequireSymbol :: bool
  pdAllowedEmailDomains :: "string list"
  pdRequireMFA :: bool
  pdMaxActiveSessions :: int

definition toDTO :: "policy \<Rightarrow> policy_dto" where
  "toDTO p = \<lparr> pdPasswordMinLength = poPasswordMinLength p,
     pdPasswordRequireUpper = poPasswordRequireUpper p, pdPasswordRequireDigit = poPasswordRequireDigit p,
     pdPasswordRequireSymbol = poPasswordRequireSymbol p, pdAllowedEmailDomains = poAllowedEmailDomains p,
     pdRequireMFA = poRequireMFA p, pdMaxActiveSessions = poMaxActiveSessions p \<rparr>"

definition PolicyHandler_Get :: "env \<Rightarrow> policy_dto handler" where
  "PolicyHandler_Get E cx =
     (case Principal cx of
        None \<Rightarrow> reply (HttpError 401 ''unauthorized'')
      | Some p \<Rightarrow> serve (PolicyEnforcer_Get E True cx (prTenantID p))
                   (\<lambda>pol. Json 200 (toDTO pol)) (\<lambda>_. HttpError 500 ''internal error''))"

definition policy_of_dto :: "string \<Rightarrow> policy_dto \<Rightarrow> policy" where
  "policy_of_dto tid dto = \<lparr> poTenantID = tid,
     poPasswordMinLength = (if pdPasswordMinLength dto \<le> 0 then 8 else pdPasswordMinLength dto),
     poPasswordRequireUpper = pdPasswordRequireUpper dto, poPasswordRequireDigit = pdPasswordRequireDigit dto,
     poPasswordRequireSymbol = pdPasswordRequireSymbol dto, poAllowedEmailDomains = pdAllowedEmailDomains dto,
     poRequireMFA = pdRequireMFA dto, poMaxActiveSessions = pdMaxActiveSessions dto \<rparr>"

definition PolicyHandler_Put :: "env \<Rightarrow> policy_dto option \<Rightarrow> policy_dto handler" where
  "PolicyHandler_Put E body cx =
     (case Principal cx of
        None \<Rightarrow> reply (HttpError 401 ''unauthorized'')
      | Some p \<Rightarrow>
          (case body of
             None \<Rightarrow> reply (HttpError 400 ''invalid request'')
           | Some dto \<Rightarrow>
               serve (PolicyRepo_Upsert E cx (policy_of_dto (prTenantID p) dto))
                 (\<lambda>_. Json 200 (toDTO (policy_of_dto (prTenantID p) dto)))
                 (\<lambda>_. HttpError 500 ''internal error'')))"

section \<open>Middleware\<close>

definition ResolveTenant :: "'b handler \<Rightarrow> 'b handler" where
  "ResolveTenant next_handler cx =
     (case MustPrincipal cx of
        Inl (Panic m) \<Rightarrow> reply (Panicked m)
      | Inl _ \<Rightarrow> reply (Panicked [])
      | Inr p \<Rightarrow> next_handler (WithTenant cx (prTenantID p)))"

section \<open>Properties\<close>

lemma ExistsBySlug_healthy:
  "healthy E cx w \<Longrightarrow> TenantRepo_ExistsBySlug E cx s w = (Inr (slug_taken (view cx w) s), tick w)"
  unfolding TenantRepo_ExistsBySlug_def slug_taken_def
  by (subst query_row_healthy) (auto simp: list_ex_iff)

lemma slug_loop_healthy:
  "healthy E cx w \<Longrightarrow>
     fst (slug_loop E cx base is w) =
       (case filter (\<lambda>s. \<not> slug_taken (view cx w) s) (map (slug_candidate base) is) of
          [] \<Rightarrow> Inl (ErrMsg ''slug is unavailable'') | s # _ \<Rightarrow> Inr s)"
proof (induction "is" arbitrary: w)
  case Nil
  then show ?case by (simp add: raise_def)
next
  case (Cons i "is")
  then show ?case
    by (simp add: bindE_eval_Inr [OF ExistsBySlug_healthy] ret_def)
qed

text \<open>
  When the database answers, \<^verbatim>\<open>GenerateUniqueSlug\<close> returns the first of \<open>base\<close>, \<open>base-1\<close>, ...,
  \<open>base-5\<close> that no tenant uses, and fails exactly when all six are taken.
\<close>

theorem generate_unique_slug_first_free:
  assumes "healthy E cx w"
  shows "fst (GenerateUniqueSlug E cx base w) =
    (case filter (\<lambda>s. \<not> slug_taken (view cx w) s) (base # map (slug_candidate base) [1, 2, 3, 4, 5]) of
       [] \<Rightarrow> Inl (ErrMsg ''slug is unavailable'') | s # _ \<Rightarrow> Inr s)"
proof -
  let ?sel = "\<lambda>ss. case filter (\<lambda>s. \<not> slug_taken (view cx w) s) ss of
       [] \<Rightarrow> Inl (ErrMsg ''slug is unavailable'') | s # _ \<Rightarrow> Inr s"
  have upto: "[1..<Suc maxSlugAttempts] = [1, 2, 3, 4, 5]"
    by (simp add: maxSlugAttempts_def upt_rec)
  have loop: "fst (slug_loop E cx base [1, 2, 3, 4, 5] (tick w)) = ?sel (map (slug_candidate base) [1, 2, 3, 4, 5])"
    using slug_loop_healthy [of E cx "tick w" base "[1, 2, 3, 4, 5]"] assms by (simp only: healthy_tick view_tick)
  have "GenerateUniqueSlug E cx base w =
      (if \<not> slug_taken (view cx w) base then (Inr base, tick w) else slug_loop E cx base [1, 2, 3, 4, 5] (tick w))"
    unfolding GenerateUniqueSlug_def upto
    by (simp add: bindE_def ExistsBySlug_healthy [OF assms] ret_def del: slug_loop.simps)
  then show ?thesis
    using loop by (simp del: slug_loop.simps)
qed

theorem generate_unique_slug_first_free_witness:
  "fst (GenerateUniqueSlug demo_env background ''ann'' (world_of demo_db)) = Inr ''ann-1''"
  unfolding generate_unique_slug_first_free [OF healthy_demo [OF background_simps(1)]]
  by (simp add: demo_db_def demo_tenant_def slug_taken_def slug_candidate_def)

text \<open>
  \<^verbatim>\<open>ValidatePassword\<close> accepts a password exactly when it has the minimum number of bytes and, for
  each class of characters the policy asks for, a rune of that class; the length is what is
  reported first.
\<close>

theorem validate_password_iff:
  "(ValidatePassword u (Some p) pw = Inr () \<longleftrightarrow>
      poPasswordMinLength p \<le> int (length pw)
      \<and> (poPasswordRequireUpper p \<longrightarrow> (\<exists>r \<in> set (runes pw). is_upper u r))
      \<and> (poPasswordRequireDigit p \<longrightarrow> (\<exists>r \<in> set (runes pw). is_digit u r))
      \<and> (poPasswordRequireSymbol p \<longrightarrow> (\<exists>r \<in> set (runes pw). is_punct u r \<or> is_symbol_cat u r)))
   \<and> (ValidatePassword u (Some p) pw = Inl ErrPasswordTooShort \<longleftrightarrow> int (length pw) < poPasswordMinLength p)"
  by (auto simp: ValidatePassword_def hasMatch_def isSymbol_def list_ex_iff Let_def)

theorem validate_password_iff_witness:
  "ValidatePassword demo_unicode
     (Some (DefaultPolicy\<lparr>poPasswordRequireUpper := True, poPasswordRequireSymbol := True\<rparr>)) ''Secret-pw'' = Inr ()"
  by (rule validate_password_iff [THEN conjunct1, THEN iffD2])
    (simp add: DefaultPolicy_def runes_ascii is_upper_def is_punct_def is_symbol_cat_def)

text \<open>
  Under a policy with an allow list, an email is accepted exactly when what follows its last
  \<open>@\<close> equals an entry of the list up to the case of letters; without an \<open>@\<close>, or with nothing after
  it, it is refused.
\<close>

theorem validate_email_domain_iff:
  assumes "poAllowedEmailDomains p \<noteq> []" "CHR ''@'' \<notin> set host"
  shows "(ValidateEmailDomain u (Some p) (local_part @ CHR ''@'' # host) = Inr () \<longleftrightarrow>
            host \<noteq> [] \<and> (\<exists>a \<in> set (poAllowedEmailDomains p). to_lower u a = to_lower u host))
         \<and> ValidateEmailDomain u (Some p) host = Inl ErrEmailDomainNotAllowed"
  using assms last_index_None [of "CHR ''@''" host]
  by (simp add: ValidateEmailDomain_def last_index_append domain_allowed_iff)

theorem validate_email_domain_iff_witness:
  "ValidateEmailDomain demo_unicode (Some (DefaultPolicy\<lparr>poAllowedEmailDomains := [''Acme.io'']\<rparr>))
     (''bob'' @ CHR ''@'' # ''aCME.IO'') = Inr ()"
  by (subst validate_email_domain_iff [THEN conjunct1]) (simp add: DefaultPolicy_def, simp, code_simp)

text \<open>
  A policy a tenant's administrator stores with PUT is the one GET returns afterwards, a
  minimum length of zero or less having become 8, and the domain list having gone through JSON.
\<close>

theorem policy_put_then_get:
  assumes put: "PolicyHandler_Put E (Some dto) cx w = (Json 200 out, w')"
    and ok: "healthy E cx w'" "\<not> cx_tx cx"
  shows "PolicyHandler_Get E cx w' =
           (Json 200 (out\<lparr>pdAllowedEmailDomains := map json_string (pdAllowedEmailDomains dto)\<rparr>), tick w')
         \<and> out = dto\<lparr>pdPasswordMinLength := if pdPasswordMinLength dto \<le> 0 then 8 else pdPasswordMinLength dto\<rparr>"
proof -
  obtain p where p: "Principal cx = Some p"
    using put by (auto simp: PolicyHandler_Put_def split: option.splits)
  let ?pol = "policy_of_dto (prTenantID p) dto"
  have up: "PolicyRepo_Upsert E cx ?pol w = (Inr (), w')" and out: "out = toDTO ?pol"
    using put p by (auto simp: PolicyHandler_Put_def serve_iff)
  obtain r d' where r: "pg_policy E (?pol\<lparr>poAllowedEmailDomains := map json_string (pdAllowedEmailDomains dto)\<rparr>) = Some r"
    and st: "upsert_policy r (pool_db w) = Inr ((), d')" and w': "w' = (tick w)\<lparr>pool_db := d'\<rparr>"
    using exec_cast_InrD [OF up [unfolded PolicyRepo_Upsert_def]] ok(2)
    by (auto simp: policy_of_dto_def)
  have key: "pg_uuid E (prTenantID p) = Some (poTenantID r)"
    and same: "r\<lparr>poTenantID := prTenantID p\<rparr> =
       ?pol\<lparr>poAllowedEmailDomains := map json_string (pdAllowedEmailDomains dto)\<rparr>"
    using r by (auto simp: pg_policy_def policy_of_dto_def split: if_splits)
  let ?q = "\<lambda>d. where_uuid E (prTenantID p) (\<lambda>k. filter (\<lambda>p. poTenantID p = k) (tenant_policies d))"
  have "?q (view cx w') = Inr (filter (\<lambda>p. poTenantID p = poTenantID r) (tenant_policies d'))"
    using ok(2) key w' by (simp add: where_uuid_def)
  from query_row_healthy_ex [where q = ?q, OF ok(1) this upsert_policy_rows(1) [OF st]]
  obtain x where x: "x \<in> set (filter (\<lambda>p. poTenantID p = poTenantID r) (tenant_policies d'))"
    and q: "query_row E cx ?q w' = (Inr x, tick w')"
    by blast
  have "x = r"
    using upsert_policy_rows(2) [OF st] x by auto
  with q have "PolicyRepo_Get E cx (prTenantID p) w' =
     (Inr (?pol\<lparr>poAllowedEmailDomains := map json_string (pdAllowedEmailDomains dto)\<rparr>), tick w')"
    unfolding PolicyRepo_Get_def using same by (simp add: bindE_def attempt_def ret_def)
  then show ?thesis
    using p out by (simp add: PolicyHandler_Get_def PolicyEnforcer_Get_def toDTO_def policy_of_dto_def)
qed

definition demo_dto :: policy_dto where
  "demo_dto = \<lparr> pdPasswordMinLength = 0, pdPasswordRequireUpper = True, pdPasswordRequireDigit = False,
     pdPasswordRequireSymbol = False, pdAllowedEmailDomains = [''x.io''], pdRequireMFA = True,
     pdMaxActiveSessions = 0 \<rparr>"

lemma demo_put:
  "PolicyHandler_Put demo_env (Some demo_dto) (WithPrincipal background demo_principal) demo_world =
     (Json 200 (demo_dto\<lparr>pdPasswordMinLength := 8\<rparr>),
      (tick demo_world)\<lparr>pool_db := demo_db\<lparr>tenant_policies := [policy_of_dto ''t-a'' demo_dto]\<rparr>\<rparr>)"
  by (simp add: PolicyHandler_Put_def serve_def PolicyRepo_Upsert_def exec_sql_def cast_row_def
      pg_policy_def policy_of_dto_def int4_def upsert_policy_def guarded.simps demo_db_def demo_world_def
      demo_dto_def demo_principal_def demo_tenant_def toDTO_def)

theorem policy_put_then_get_witness:
  "PolicyHandler_Get demo_env (WithPrincipal background demo_principal)
     ((tick demo_world)\<lparr>pool_db := demo_db\<lparr>tenant_policies := [policy_of_dto ''t-a'' demo_dto]\<rparr>\<rparr>) =
   (Json 200 (demo_dto\<lparr>pdPasswordMinLength := 8\<rparr>),
    tick ((tick demo_world)\<lparr>pool_db := demo_db\<lparr>tenant_policies := [policy_of_dto ''t-a'' demo_dto]\<rparr>\<rparr>))"
  using policy_put_then_get [OF demo_put healthy_demo] by (simp add: demo_dto_def)

end
