(* ===== verification/Janus_Authz.thy ===== *)
theory Janus_Authz
  imports Janus_Sql Janus_Http "HOL-Library.List_Lexorder"
begin

text \<open>
  \<^verbatim>\<open>internal/authorization\<close>: the repositories of roles, permissions and their assignments, the use
  cases over them (the owner role and its permissions, creating and listing roles, granting a
  permission to a role), the HTTP handlers and the middleware that demands a permission.
\<close>

section \<open>Repositories\<close>

definition RoleRepo_Create :: "env \<Rightarrow> ctx \<Rightarrow> role \<Rightarrow> unit io" where
  "RoleRepo_Create E cx r = exec_sql E cx (cast_row (pg_role E r) ins_role)"

definition RoleRepo_GetByID :: "env \<Rightarrow> ctx \<Rightarrow> string \<Rightarrow> role io" where
  "RoleRepo_GetByID E cx rid =
     query_row E cx (\<lambda>d. where_uuid E rid (\<lambda>k. filter (\<lambda>r. rlID r = k) (roles d)))"

definition RoleRepo_GetByTenantAndName :: "env \<Rightarrow> ctx \<Rightarrow> string \<Rightarrow> string \<Rightarrow> role io" where
  "RoleRepo_GetByTenantAndName E cx tenantID name =
     query_row E cx (\<lambda>d. where_uuid E tenantID
       (\<lambda>k. filter (\<lambda>r. rlTenantID r = k \<and> rlName r = name) (roles d)))"

definition RoleRepo_ListByTenant :: "env \<Rightarrow> ctx \<Rightarrow> string \<Rightarrow> role list io" where
  "RoleRepo_ListByTenant E cx tenantID =
     query_rows E cx (sort_key (\<lambda>r. collate_key E (rlName r)))
       (\<lambda>d. where_uuid E tenantID (\<lambda>k. filter (\<lambda>r. rlTenantID r = k) (roles d)))"

definition PermissionRepo_Create :: "env \<Rightarrow> ctx \<Rightarrow> permission \<Rightarrow> unit io" where
  "PermissionRepo_Create E cx p = exec_sql E cx (cast_row (pg_permission E p) ins_permission)"

definition PermissionRepo_GetByID :: "env \<Rightarrow> ctx \<Rightarrow> string \<Rightarrow> permission io" where
  "PermissionRepo_GetByID E cx pid =
     query_row E cx (\<lambda>d. where_uuid E pid (\<lambda>k. filter (\<lambda>p. pmID p = k) (permissions d)))"

definition PermissionRepo_GetByName :: "env \<Rightarrow> ctx \<Rightarrow> string \<Rightarrow> permission io" where
  "PermissionRepo_GetByName E cx name =
     query_row E cx (\<lambda>d. Inr (filter (\<lambda>p. pmName p = name) (permissions d)))"

definition PermissionRepo_List :: "env \<Rightarrow> ctx \<Rightarrow> permission list io" where
  "PermissionRepo_List E cx =
     query_rows E cx (sort_key (\<lambda>p. collate_key E (pmName p))) (\<lambda>d. Inr (permissions d))"

definition RolePermissionRepo_AssignPermission :: "env \<Rightarrow> ctx \<Rightarrow> role_permission \<Rightarrow> unit io" where
  "RolePermissionRepo_AssignPermission E cx rp =
     exec_sql E cx (cast_row (pg_role_permission E rp) ins_role_permission)"

text \<open>The joins: the names of the permissions of a role, those of a user's roles, a user's roles.\<close>

definition role_permission_names :: "database \<Rightarrow> string \<Rightarrow> string list" where
  "role_permission_names d rid =
     concat (map (\<lambda>rp. map pmName (filter (\<lambda>p. pmID p = rpPermissionID rp) (permissions d)))
       (filter (\<lambda>rp. rpRoleID rp = rid) (role_permissions d)))"

definition user_permission_names :: "database \<Rightarrow> string \<Rightarrow> string list" where
  "user_permission_names d uid =
     remdups (concat (map (\<lambda>ur. role_permission_names d (urRoleID ur))
       (filter (\<lambda>ur. urUserID ur = uid) (user_roles d))))"

definition user_role_names :: "database \<Rightarrow> string \<Rightarrow> string list" where
  "user_role_names d uid =
     concat (map (\<lambda>ur. map rlName (filter (\<lambda>r. rlID r = urRoleID ur) (roles d)))
       (filter (\<lambda>ur. urUserID ur = uid) (user_roles d)))"

definition GetPermissionsForRole :: "env \<Rightarrow> ctx \<Rightarrow> string \<Rightarrow> string list io" where
  "GetPermissionsForRole E cx roleID =
     query_rows E cx id (\<lambda>d. where_uuid E roleID (role_permission_names d))"

definition GetPermissionsForUser :: "env \<Rightarrow> ctx \<Rightarrow> string \<Rightarrow> string list io" where
  "GetPermissionsForUser E cx userID =
     query_rows E cx id (\<lambda>d. where_uuid E userID (user_permission_names d))"

definition UserRoleRepo_AssignRole :: "env \<Rightarrow> ctx \<Rightarrow> user_role \<Rightarrow> unit io" where
  "UserRoleRepo_AssignRole E cx ur = exec_sql E cx (cast_row (pg_user_role E ur) ins_user_role)"

definition GetRolesForUser :: "env \<Rightarrow> ctx \<Rightarrow> string \<Rightarrow> string list io" where
  "GetRolesForUser E cx userID =
     query_rows E cx id (\<lambda>d. where_uuid E userID (user_role_names d))"

lemmas authz_repo_defs =
  RoleRepo_Create_def RoleRepo_GetByID_def RoleRepo_GetByTenantAndName_def RoleRepo_ListByTenant_def
  PermissionRepo_Create_def PermissionRepo_GetByID_def PermissionRepo_GetByName_def PermissionRepo_List_def
  RolePermissionRepo_AssignPermission_def GetPermissionsForRole_def GetPermissionsForUser_def
  UserRoleRepo_AssignRole_def GetRolesForUser_def

section \<open>Use cases\<close>

definition CreateTenantOwnerRole :: "env \<Rightarrow> ctx \<Rightarrow> string \<Rightarrow> role io" where
  "CreateTenantOwnerRole E cx tenantID =
     bindE (now E) (\<lambda>now.
     bindE (new_id E) (\<lambda>rid.
       let role = \<lparr> rlID = rid, rlTenantID = tenantID, rlName = ''tenant_owner'',
                    rlDescription = ''Tenant Owner'', rlCreatedAt = now \<rparr> in
       bindE (RoleRepo_Create E cx role) (\<lambda>_. ret role)))"

definition tenantOwnerPermissions :: "(string \<times> string) list" where
  "tenantOwnerPermissions =
     [(''users:create'', ''Create users''), (''users:read'', ''Read users''),
      (''users:update'', ''Update users''), (''users:delete'', ''Delete users''),
      (''roles:create'', ''Create roles''), (''roles:read'', ''Read roles''),
      (''roles:update'', ''Update roles''), (''roles:delete'', ''Delete roles''),
      (''tenant:update'', ''Update tenant''), (''tenant:delete'', ''Delete tenant'')]"

text \<open>One round of the bootstrap loop: find the permission by name, or create it, then grant it.\<close>

definition ensure_permission :: "env \<Rightarrow> ctx \<Rightarrow> time \<Rightarrow> string \<times> string \<Rightarrow> permission io" where
  "ensure_permission E cx at p =
     bindE (attempt (PermissionRepo_GetByName E cx (fst p))) (\<lambda>r.
       case r of
         Inr permission \<Rightarrow> ret permission
       | Inl _ \<Rightarrow>
           bindE (new_id E) (\<lambda>pid.
             let permission = \<lparr> pmID = pid, pmName = fst p, pmDescription = snd p, pmCreatedAt = at \<rparr> in
             bindE (PermissionRepo_Create E cx permission) (\<lambda>_. ret permission)))"

definition grant_permission :: "env \<Rightarrow> ctx \<Rightarrow> time \<Rightarrow> string \<Rightarrow> string \<times> string \<Rightarrow> unit io" where
  "grant_permission E cx at roleID p =
     bindE (ensure_permission E cx at p) (\<lambda>permission.
       RolePermissionRepo_AssignPermission E cx \<lparr> rpRoleID = roleID, rpPermissionID = pmID permission \<rparr>)"

definition BootstrapTenantOwnerPermissions :: "env \<Rightarrow> ctx \<Rightarrow> string \<Rightarrow> unit io" where
  "BootstrapTenantOwnerPermissions E cx roleID =
     bindE (now E) (\<lambda>now. for_each (grant_permission E cx now roleID) tenantOwnerPermissions)"

text \<open>A found role is a conflict; any error of the lookup, also a failed one, counts as none found.\<close>

definition CreateRole :: "env \<Rightarrow> ctx \<Rightarrow> string \<Rightarrow> string \<Rightarrow> string \<Rightarrow> unit io" where
  "CreateRole E cx tenantID name description =
     bindE (attempt (RoleRepo_GetByTenantAndName E cx tenantID name)) (\<lambda>r.
       case r of
         Inr _ \<Rightarrow> raise ErrConflict
       | Inl _ \<Rightarrow>
           bindE (new_id E) (\<lambda>rid.
           bindE (now E) (\<lambda>now.
             RoleRepo_Create E cx \<lparr> rlID = rid, rlTenantID = tenantID, rlName = name,
               rlDescription = description, rlCreatedAt = now \<rparr>)))"

definition ListRoles :: "env \<Rightarrow> ctx \<Rightarrow> string \<Rightarrow> role list io" where
  "ListRoles E cx tenantID = RoleRepo_ListByTenant E cx tenantID"

definition AssignPermissionToRole :: "env \<Rightarrow> ctx \<Rightarrow> string \<Rightarrow> string \<Rightarrow> string \<Rightarrow> unit io" where
  "AssignPermissionToRole E cx tenantID roleID permissionName =
     bindE (RoleRepo_GetByID E cx roleID) (\<lambda>role.
       if rlTenantID role \<noteq> tenantID then raise ErrForbidden
       else
         bindE (PermissionRepo_GetByName E cx permissionName) (\<lambda>permission.
           RolePermissionRepo_AssignPermission E cx
             \<lparr> rpRoleID = rlID role, rpPermissionID = pmID permission \<rparr>))"

definition ListRolePermissions :: "env \<Rightarrow> ctx \<Rightarrow> string \<Rightarrow> string \<Rightarrow> string list io" where
  "ListRolePermissions E cx tenantID roleID =
     bindE (RoleRepo_GetByID E cx roleID) (\<lambda>role.
       if rlTenantID role \<noteq> tenantID then raise ErrForbidden
       else GetPermissionsForRole E cx roleID)"

section \<open>Handlers and middleware\<close>

record create_role_request =
  crqName :: string
  crqDescription :: string

definition authorized :: "(principal \<Rightarrow> 'b handler) \<Rightarrow> 'b handler" where
  "authorized h cx =
     (case Principal cx of None \<Rightarrow> reply (HttpError 401 ''unauthorized'') | Some p \<Rightarrow> h p cx)"

definition CreateRole_handler :: "env \<Rightarrow> create_role_request option \<Rightarrow> unit handler" where
  "CreateRole_handler E body = authorized (\<lambda>p cx.
     case body of
       None \<Rightarrow> reply (HttpError 400 ''invalid request'')
     | Some req \<Rightarrow>
         serve (CreateRole E cx (prTenantID p) (crqName req) (crqDescription req))
           (\<lambda>_. Empty 201)
           (\<lambda>e. if e = ErrConflict then HttpError 409 ''role already exists''
                else HttpError 500 ''internal error''))"

definition ListRoles_handler :: "env \<Rightarrow> role list handler" where
  "ListRoles_handler E = authorized (\<lambda>p cx.
     serve (ListRoles E cx (prTenantID p)) (Json 200) (\<lambda>_. HttpError 500 ''internal error''))"

text \<open>\<open>roleID\<close> is the URL parameter; the body holds the permission's name.\<close>

definition AssignPermission_handler :: "env \<Rightarrow> string \<Rightarrow> string option \<Rightarrow> unit handler" where
  "AssignPermission_handler E roleID body = authorized (\<lambda>p cx.
     case body of
       None \<Rightarrow> reply (HttpError 400 ''invalid request'')
     | Some permission \<Rightarrow>
         serve (AssignPermissionToRole E cx (prTenantID p) roleID permission)
           (\<lambda>_. Empty 204) (\<lambda>_. HttpError 500 ''internal error''))"

definition ListRolePermissions_handler :: "env \<Rightarrow> string \<Rightarrow> string list handler" where
  "ListRolePermissions_handler E roleID = authorized (\<lambda>p cx.
     serve (ListRolePermissions E cx (prTenantID p) roleID) (Json 200)
       (\<lambda>_. HttpError 500 ''internal error''))"

definition RequirePermission :: "string \<Rightarrow> 'b handler \<Rightarrow> 'b handler" where
  "RequirePermission permission next_handler = authorized (\<lambda>p cx.
     if \<not> HasPermission p permission then reply (HttpError 403 ''forbidden'')
     else next_handler cx)"

section \<open>What the operations keep\<close>

lemma keeps_authz_reads [keeps_rules]:
  "keeps (dbs I) (RoleRepo_GetByID E cx s)" "keeps (dbs I) (RoleRepo_GetByTenantAndName E cx s n)"
  "keeps (dbs I) (RoleRepo_ListByTenant E cx s)" "keeps (dbs I) (PermissionRepo_GetByID E cx s)"
  "keeps (dbs I) (PermissionRepo_GetByName E cx s)" "keeps (dbs I) (PermissionRepo_List E cx)"
  "keeps (dbs I) (GetPermissionsForRole E cx s)" "keeps (dbs I) (GetPermissionsForUser E cx s)"
  "keeps (dbs I) (GetRolesForUser E cx s)"
  unfolding authz_repo_defs by (rule keeps_rules)+

lemma quiet_authz [quiet_rules]:
  "quiet (RoleRepo_GetByID E cx s)" "quiet (RoleRepo_GetByTenantAndName E cx s n)"
  "quiet (RoleRepo_ListByTenant E cx s)" "quiet (PermissionRepo_GetByID E cx s)"
  "quiet (PermissionRepo_GetByName E cx s)" "quiet (PermissionRepo_List E cx)"
  "quiet (GetPermissionsForRole E cx s)" "quiet (GetPermissionsForUser E cx s)"
  "quiet (GetRolesForUser E cx s)"
  unfolding authz_repo_defs by (rule quiet_rules)+

text \<open>The same composition argument for any predicate the repositories keep.\<close>

lemma keeps_authz_use_cases:
  assumes "keeps I (now E)" "keeps I (new_id E)"
    and "\<And>s. keeps I (RoleRepo_GetByID E cx s)" "\<And>s n. keeps I (RoleRepo_GetByTenantAndName E cx s n)"
    and "\<And>n. keeps I (PermissionRepo_GetByName E cx n)" "\<And>r. keeps I (RoleRepo_Create E cx r)"
    and "\<And>p. keeps I (PermissionRepo_Create E cx p)"
    and "\<And>rp. keeps I (RolePermissionRepo_AssignPermission E cx rp)"
  shows "keeps I (CreateTenantOwnerRole E cx t)" "keeps I (BootstrapTenantOwnerPermissions E cx rid)"
    "keeps I (CreateRole E cx t n desc)" "keeps I (AssignPermissionToRole E cx t rid pn)"
  unfolding CreateTenantOwnerRole_def BootstrapTenantOwnerPermissions_def CreateRole_def
    AssignPermissionToRole_def grant_permission_def ensure_permission_def Let_def
  by (intro keeps_rules assms)+

context db_law
begin

lemma keeps_authz_writes [keeps_rules]:
  "keeps (dbs I) (RoleRepo_Create E cx r)"
  "keeps (dbs I) (PermissionRepo_Create E cx p)"
  "keeps (dbs I) (RolePermissionRepo_AssignPermission E cx rp)"
  "keeps (dbs I) (UserRoleRepo_AssignRole E cx ur)"
  unfolding authz_repo_defs by (rule keeps_rules)+

lemmas keeps_authz_ops [keeps_rules] =
  keeps_authz_use_cases [where I = "dbs I", OF keeps_dbs_basic(1) keeps_dbs_basic(2)
    keeps_authz_reads(1) keeps_authz_reads(2) keeps_authz_reads(5) keeps_authz_writes(1-3)]

end

lemma keeps_pool_authz_repo [keeps_rules]:
  assumes "cx_tx cx"
  shows "keeps (\<lambda>w. pool_db w = d) (RoleRepo_GetByID E cx s)"
    "keeps (\<lambda>w. pool_db w = d) (RoleRepo_GetByTenantAndName E cx s n)"
    "keeps (\<lambda>w. pool_db w = d) (PermissionRepo_GetByName E cx n)"
    "keeps (\<lambda>w. pool_db w = d) (RoleRepo_Create E cx r)"
    "keeps (\<lambda>w. pool_db w = d) (PermissionRepo_Create E cx p)"
    "keeps (\<lambda>w. pool_db w = d) (RolePermissionRepo_AssignPermission E cx rp)"
    "keeps (\<lambda>w. pool_db w = d) (UserRoleRepo_AssignRole E cx ur)"
  unfolding authz_repo_defs
  by (rule keeps_pool_query keeps_pool_exec, rule assms)+

lemmas keeps_pool_authz [keeps_rules] =
  keeps_authz_use_cases [where I = "\<lambda>w. pool_db w = d" for d, OF keeps_pool_basic(1,2) keeps_pool_authz_repo(1-6)]

section \<open>Outcomes of the operations\<close>

lemma RoleRepo_GetByID_InrD:
  "RoleRepo_GetByID E cx s w = (Inr r, w') \<Longrightarrow>
     w' = tick w \<and> pg_uuid E s = Some (rlID r) \<and> r \<in> set (roles (view cx w))"
  unfolding RoleRepo_GetByID_def using query_by_uuid_InrD [where P = "\<lambda>k r. rlID r = k"] by blast

lemma RoleRepo_GetByTenantAndName_InrD:
  "RoleRepo_GetByTenantAndName E cx t n w = (Inr r, w') \<Longrightarrow>
     w' = tick w \<and> pg_uuid E t = Some (rlTenantID r) \<and> rlName r = n \<and> r \<in> set (roles (view cx w))"
  unfolding RoleRepo_GetByTenantAndName_def
  using query_by_uuid_InrD [where P = "\<lambda>k r. rlTenantID r = k \<and> rlName r = n"] by blast

lemma PermissionRepo_GetByName_InrD:
  "PermissionRepo_GetByName E cx n w = (Inr p, w') \<Longrightarrow>
     w' = tick w \<and> pmName p = n \<and> p \<in> set (permissions (view cx w))"
  unfolding PermissionRepo_GetByName_def by (auto dest: query_row_InrD)

lemma authz_reads_InlD:
  "RoleRepo_GetByID E cx s w = (Inl e, w') \<Longrightarrow> same_data w w'"
  "RoleRepo_GetByTenantAndName E cx t n w = (Inl e, w') \<Longrightarrow> same_data w w'"
  "PermissionRepo_GetByName E cx n w = (Inl e, w') \<Longrightarrow> same_data w w'"
  unfolding authz_repo_defs using query_row_InlD by blast+

lemma RoleRepo_Create_InrD:
  assumes "RoleRepo_Create E cx r w = (Inr u, w')"
  shows "\<exists>row. pg_role E r = Some row \<and> rlID row \<notin> rlID ` set (roles (view cx w))
     \<and> role_name_key row \<notin> role_name_key ` set (roles (view cx w))
     \<and> w' = set_view cx ((view cx w)\<lparr>roles := roles (view cx w) @ [row]\<rparr>) (tick w)"
  using exec_cast_InrD [OF assms [unfolded RoleRepo_Create_def]] by (auto simp: ins_role_def)

lemma PermissionRepo_Create_InrD:
  assumes "PermissionRepo_Create E cx p w = (Inr u, w')"
  shows "\<exists>row. pg_permission E p = Some row
     \<and> w' = set_view cx ((view cx w)\<lparr>permissions := permissions (view cx w) @ [row]\<rparr>) (tick w)"
  using exec_cast_InrD [OF assms [unfolded PermissionRepo_Create_def]] by (auto simp: ins_permission_def)

lemma AssignPermission_InrD:
  assumes "RolePermissionRepo_AssignPermission E cx rp w = (Inr u, w')"
  shows "\<exists>row. pg_role_permission E rp = Some row \<and> row \<notin> set (role_permissions (view cx w))
     \<and> w' = set_view cx ((view cx w)\<lparr>role_permissions := role_permissions (view cx w) @ [row]\<rparr>) (tick w)"
  using exec_cast_InrD [OF assms [unfolded RolePermissionRepo_AssignPermission_def]]
  by (auto simp: ins_role_permission_def)

lemma AssignRole_InrD:
  assumes "UserRoleRepo_AssignRole E cx ur w = (Inr u, w')"
  shows "\<exists>row. pg_user_role E ur = Some row
     \<and> w' = set_view cx ((view cx w)\<lparr>user_roles := user_roles (view cx w) @ [row]\<rparr>) (tick w)"
  using exec_cast_InrD [OF assms [unfolded UserRoleRepo_AssignRole_def]] by (auto simp: ins_user_role_def)

lemma in_role_permission_names:
  "n \<in> set (role_permission_names d k) \<longleftrightarrow>
     (\<exists>rp \<in> set (role_permissions d). rpRoleID rp = k \<and>
        (\<exists>p \<in> set (permissions d). pmID p = rpPermissionID rp \<and> pmName p = n))"
  by (auto simp: role_permission_names_def)

lemma in_user_permission_names:
  "n \<in> set (user_permission_names d u) \<longleftrightarrow>
     (\<exists>ur \<in> set (user_roles d). urUserID ur = u \<and> n \<in> set (role_permission_names d (urRoleID ur)))"
  by (auto simp: user_permission_names_def)

lemma in_user_role_names:
  "n \<in> set (user_role_names d u) \<longleftrightarrow>
     (\<exists>ur \<in> set (user_roles d). urUserID ur = u \<and> (\<exists>r \<in> set (roles d). rlID r = urRoleID ur \<and> rlName r = n))"
  by (auto simp: user_role_names_def)

lemma GetPermissionsForUser_InrD:
  assumes "GetPermissionsForUser E cx u w = (Inr ps, w')"
  shows "w' = tick w \<and> (\<exists>k. pg_uuid E u = Some k \<and> set ps \<subseteq> set (user_permission_names (view cx w) k))"
  using query_rows_subset [OF assms [unfolded GetPermissionsForUser_def]]
    query_rows_InrD [OF assms [unfolded GetPermissionsForUser_def]]
  by (auto simp: where_uuid_Inr_iff)

lemma GetRolesForUser_InrD:
  assumes "GetRolesForUser E cx u w = (Inr ps, w')"
  shows "w' = tick w \<and> (\<exists>k. pg_uuid E u = Some k \<and> set ps \<subseteq> set (user_role_names (view cx w) k))"
  using query_rows_subset [OF assms [unfolded GetRolesForUser_def]]
    query_rows_InrD [OF assms [unfolded GetRolesForUser_def]]
  by (auto simp: where_uuid_Inr_iff)

lemma CreateTenantOwnerRole_InrD:
  assumes "CreateTenantOwnerRole E cx t w = (Inr role, w')"
  shows "\<exists>row. pg_role E role = Some row \<and> rlTenantID role = t \<and> rlName role = ''tenant_owner''
     \<and> rlID row \<notin> rlID ` set (roles (view cx w))
     \<and> w' = set_view cx ((view cx w)\<lparr>roles := roles (view cx w) @ [row]\<rparr>) (tick (tick (tick w)))"
  using assms by (auto simp: CreateTenantOwnerRole_def Let_def bindE_Inr_iff dest!: RoleRepo_Create_InrD)

text \<open>The permissions a database holds have ids in the form PostgreSQL prints.\<close>

definition permission_ids_canonical :: "env \<Rightarrow> database \<Rightarrow> bool" where
  "permission_ids_canonical E d \<longleftrightarrow> (\<forall>p \<in> set (permissions d). pg_uuid E (pmID p) = Some (pmID p))"

lemma ensure_permission_InrD:
  assumes run: "ensure_permission E cx at p w = (Inr q, w')"
    and canon: "uuid_canonical E" "permission_ids_canonical E (view cx w)"
  shows "\<exists>ps row. view cx w' = (view cx w)\<lparr>permissions := permissions (view cx w) @ ps\<rparr>
     \<and> row \<in> set (permissions (view cx w')) \<and> pmName row = fst p \<and> pg_uuid E (pmID q) = Some (pmID row)
     \<and> permission_ids_canonical E (view cx w')"
proof -
  obtain r w1 where look: "PermissionRepo_GetByName E cx (fst p) w = (r, w1)"
    by fastforce
  show ?thesis
  proof (cases r)
    case (Inr q')
    have hit: "w1 = tick w" "pmName q' = fst p" "q' \<in> set (permissions (view cx w))"
      using PermissionRepo_GetByName_InrD [OF look [unfolded Inr]] by auto
    moreover have "q = q'" "w' = w1"
      using run look Inr by (auto simp: ensure_permission_def bindE_def attempt_def ret_def)
    moreover have "pg_uuid E (pmID q') = Some (pmID q')"
      using canon(2) hit(3) by (simp add: permission_ids_canonical_def)
    ultimately show ?thesis
      using canon(2) by (intro exI [of _ "[]"] exI [of _ q']) simp
  next
    case (Inl e)
    have v1: "view cx w1 = view cx w"
      using authz_reads_InlD(3) [OF look [unfolded Inl]] same_data_view by blast
    let ?q = "\<lparr> pmID = uuid_at E (calls w1), pmName = fst p, pmDescription = snd p, pmCreatedAt = at \<rparr>"
    have cr: "PermissionRepo_Create E cx ?q (tick w1) = (Inr (), w')" and q: "q = ?q"
      using run look Inl
      by (auto simp: ensure_permission_def bindE_Inr_iff Let_def)
    obtain row where row: "pg_permission E ?q = Some row"
      and w': "w' = set_view cx ((view cx (tick w1))\<lparr>permissions := permissions (view cx (tick w1)) @ [row]\<rparr>)
                 (tick (tick w1))"
      using PermissionRepo_Create_InrD [OF cr] by blast
    have id: "pg_uuid E (pmID ?q) = Some (pmID row)" and name: "pmName row = fst p"
      using row by (auto simp: pg_permission_def)
    have "view cx w' = (view cx w)\<lparr>permissions := permissions (view cx w) @ [row]\<rparr>"
      using w' v1 by simp
    then show ?thesis
      using id name q canon(2) uuid_canonicalD [OF canon(1) id]
      by (intro exI [of _ "[row]"] exI [of _ row]) (auto simp: permission_ids_canonical_def)
  qed
qed

lemma grant_permission_InrD:
  assumes run: "grant_permission E cx at rid p w = (Inr u, w')"
    and canon: "uuid_canonical E" "permission_ids_canonical E (view cx w)" and rid: "pg_uuid E rid = Some k"
  shows "\<exists>ps rps. view cx w' = (view cx w)\<lparr>permissions := permissions (view cx w) @ ps,
              role_permissions := role_permissions (view cx w) @ rps\<rparr>
     \<and> (\<forall>rp \<in> set rps. rpRoleID rp = k) \<and> fst p \<in> set (role_permission_names (view cx w') k)
     \<and> permission_ids_canonical E (view cx w')"
proof -
  obtain q w1 where en: "ensure_permission E cx at p w = (Inr q, w1)"
    and ap: "RolePermissionRepo_AssignPermission E cx \<lparr> rpRoleID = rid, rpPermissionID = pmID q \<rparr> w1 = (Inr u, w')"
    using run unfolding grant_permission_def bindE_Inr_iff by blast
  obtain ps row where v1: "view cx w1 = (view cx w)\<lparr>permissions := permissions (view cx w) @ ps\<rparr>"
    and row: "row \<in> set (permissions (view cx w1))" "pmName row = fst p" "pg_uuid E (pmID q) = Some (pmID row)"
    and c1: "permission_ids_canonical E (view cx w1)"
    using ensure_permission_InrD [OF en canon] by blast
  obtain rp where rp: "pg_role_permission E \<lparr> rpRoleID = rid, rpPermissionID = pmID q \<rparr> = Some rp"
    and w': "w' = set_view cx ((view cx w1)\<lparr>role_permissions := role_permissions (view cx w1) @ [rp]\<rparr>) (tick w1)"
    using AssignPermission_InrD [OF ap] by blast
  have rp': "rpRoleID rp = k" "rpPermissionID rp = pmID row"
    using rp rid row(3) by (auto simp: pg_role_permission_def)
  have v': "view cx w' = (view cx w1)\<lparr>role_permissions := role_permissions (view cx w1) @ [rp]\<rparr>"
    using w' by simp
  have "fst p \<in> set (role_permission_names (view cx w') k)"
    unfolding in_role_permission_names v' using rp' row(1,2) by auto
  moreover have "permission_ids_canonical E (view cx w')"
    using c1 v' by (simp add: permission_ids_canonical_def)
  ultimately show ?thesis
    using v' v1 rp' by (intro exI [of _ ps] exI [of _ "[rp]"]) simp
qed

lemma role_permission_names_mono:
  "n \<in> set (role_permission_names d k) \<Longrightarrow>
   n \<in> set (role_permission_names (d\<lparr>permissions := permissions d @ ps, role_permissions := role_permissions d @ rps\<rparr>) k)"
  unfolding in_role_permission_names by fastforce

lemma grant_all_InrD:
  assumes "for_each (grant_permission E cx at rid) named w = (Inr u, w')"
    and "uuid_canonical E" "permission_ids_canonical E (view cx w)" "pg_uuid E rid = Some k"
  shows "\<exists>ps rps. view cx w' = (view cx w)\<lparr>permissions := permissions (view cx w) @ ps,
              role_permissions := role_permissions (view cx w) @ rps\<rparr>
     \<and> (\<forall>rp \<in> set rps. rpRoleID rp = k) \<and> fst ` set named \<subseteq> set (role_permission_names (view cx w') k)"
  using assms
proof (induction named arbitrary: w)
  case Nil
  then show ?case
    by (intro exI [of _ "[]"]) auto
next
  case (Cons p named)
  obtain w1 where g: "grant_permission E cx at rid p w = (Inr (), w1)"
    and rest: "for_each (grant_permission E cx at rid) named w1 = (Inr u, w')"
    using Cons.prems(1) unfolding for_each.simps bindE_Inr_iff by auto
  obtain ps rps where v1: "view cx w1 = (view cx w)\<lparr>permissions := permissions (view cx w) @ ps,
              role_permissions := role_permissions (view cx w) @ rps\<rparr>"
    and *: "\<forall>rp \<in> set rps. rpRoleID rp = k" "fst p \<in> set (role_permission_names (view cx w1) k)"
      "permission_ids_canonical E (view cx w1)"
    using grant_permission_InrD [OF g Cons.prems(2-4)] by blast
  obtain ps' rps' where v': "view cx w' = (view cx w1)\<lparr>permissions := permissions (view cx w1) @ ps',
              role_permissions := role_permissions (view cx w1) @ rps'\<rparr>"
    and **: "\<forall>rp \<in> set rps'. rpRoleID rp = k" "fst ` set named \<subseteq> set (role_permission_names (view cx w') k)"
    using Cons.IH [OF rest Cons.prems(2) *(3) Cons.prems(4)] by blast
  have "fst p \<in> set (role_permission_names (view cx w') k)"
    using role_permission_names_mono [OF *(2)] v' by simp
  then show ?case
    using v1 v' * ** by (intro exI [of _ "ps @ ps'"] exI [of _ "rps @ rps'"]) auto
qed

lemma bootstrap_InrD:
  assumes "BootstrapTenantOwnerPermissions E cx rid w = (Inr u, w')"
    and "uuid_canonical E" "permission_ids_canonical E (view cx w)" "pg_uuid E rid = Some k"
  shows "\<exists>ps rps. view cx w' = (view cx w)\<lparr>permissions := permissions (view cx w) @ ps,
              role_permissions := role_permissions (view cx w) @ rps\<rparr>
     \<and> (\<forall>rp \<in> set rps. rpRoleID rp = k)
     \<and> fst ` set tenantOwnerPermissions \<subseteq> set (role_permission_names (view cx w') k)"
proof -
  have "for_each (grant_permission E cx (clock_at E (calls w)) rid) tenantOwnerPermissions (tick w) = (Inr u, w')"
    using assms(1) by (simp add: BootstrapTenantOwnerPermissions_def bindE_def now_def)
  from grant_all_InrD [OF this] assms(2-4) show ?thesis
    by simp
qed

section \<open>Properties\<close>

text \<open>
  C22: granting a permission to a role succeeds only for a role of the caller's tenant and a
  permission of that name, and then adds exactly the row that links the two, which was not there
  before; when it fails, the database is unchanged.
\<close>

theorem assign_permission_own_tenant:
  assumes "AssignPermissionToRole E cx t rid name w = (r, w')" "\<not> cx_tx cx"
  shows "case r of
           Inl _ \<Rightarrow> pool_db w' = pool_db w
         | Inr _ \<Rightarrow> \<exists>role \<in> set (roles (pool_db w)). \<exists>p \<in> set (permissions (pool_db w)). \<exists>row.
             pg_uuid E rid = Some (rlID role) \<and> rlTenantID role = t \<and> pmName p = name
             \<and> pg_role_permission E \<lparr> rpRoleID = rlID role, rpPermissionID = pmID p \<rparr> = Some row
             \<and> row \<notin> set (role_permissions (pool_db w))
             \<and> pool_db w' = (pool_db w)\<lparr>role_permissions := role_permissions (pool_db w) @ [row]\<rparr>"
proof (cases r)
  case (Inl e)
  consider "RoleRepo_GetByID E cx rid w = (Inl e, w')"
    | role where "RoleRepo_GetByID E cx rid w = (Inr role, w')"
    | role w1 where "RoleRepo_GetByID E cx rid w = (Inr role, w1)" "PermissionRepo_GetByName E cx name w1 = (Inl e, w')"
    | role w1 p w2 where "RoleRepo_GetByID E cx rid w = (Inr role, w1)" "PermissionRepo_GetByName E cx name w1 = (Inr p, w2)"
        "RolePermissionRepo_AssignPermission E cx \<lparr> rpRoleID = rlID role, rpPermissionID = pmID p \<rparr> w2 = (Inl e, w')"
    using assms(1) Inl by (auto simp: AssignPermissionToRole_def bindE_Inl_iff split: if_splits)
  then have "pool_db w' = pool_db w"
    by cases (auto simp: same_data_def RolePermissionRepo_AssignPermission_def
        dest!: authz_reads_InlD RoleRepo_GetByID_InrD PermissionRepo_GetByName_InrD exec_sql_InlD)
  then show ?thesis
    using Inl by simp
next
  case (Inr u)
  obtain role w1 p w2 where get: "RoleRepo_GetByID E cx rid w = (Inr role, w1)" and t: "rlTenantID role = t"
    and perm: "PermissionRepo_GetByName E cx name w1 = (Inr p, w2)"
    and link: "RolePermissionRepo_AssignPermission E cx \<lparr> rpRoleID = rlID role, rpPermissionID = pmID p \<rparr> w2 = (Inr u, w')"
    using assms(1) Inr by (auto simp: AssignPermissionToRole_def bindE_Inr_iff split: if_splits)
  have "pool_db w2 = pool_db w"
    using RoleRepo_GetByID_InrD [OF get] PermissionRepo_GetByName_InrD [OF perm] by simp
  then obtain row where "pg_role_permission E \<lparr> rpRoleID = rlID role, rpPermissionID = pmID p \<rparr> = Some row"
      "row \<notin> set (role_permissions (pool_db w))"
      "pool_db w' = (pool_db w)\<lparr>role_permissions := role_permissions (pool_db w) @ [row]\<rparr>"
    using AssignPermission_InrD [OF link] assms(2) by auto
  moreover have "pg_uuid E rid = Some (rlID role)" "role \<in> set (roles (pool_db w))"
    "pmName p = name" "p \<in> set (permissions (pool_db w))"
    using RoleRepo_GetByID_InrD [OF get] PermissionRepo_GetByName_InrD [OF perm] assms(2) by auto
  ultimately show ?thesis
    using t Inr by auto
qed

lemma demo_assign:
  "AssignPermissionToRole demo_env background ''t-a'' ''r-a'' ''users:create'' demo_world =
     (Inr (), (tick (tick (tick demo_world)))\<lparr>pool_db := demo_db\<lparr>role_permissions :=
        [\<lparr> rpRoleID = ''r-a'', rpPermissionID = ''p-a'' \<rparr>, \<lparr> rpRoleID = ''r-a'', rpPermissionID = ''p-b'' \<rparr>]\<rparr>\<rparr>)"
  by (simp add: AssignPermissionToRole_def authz_repo_defs run_simps where_uuid_def cast_row_def
      pg_role_permission_def ins_role_permission_def rp_key_def demo_db_def demo_world_def)

theorem assign_permission_own_tenant_witness:
  "\<exists>role \<in> set (roles demo_db). rlID role = ''r-a'' \<and> rlTenantID role = ''t-a''"
  using assign_permission_own_tenant [OF demo_assign background_simps(1)] by (auto simp: demo_world_def)

text \<open>
  A route behind \<^verbatim>\<open>RequirePermission\<close> runs its handler exactly for a principal that holds the
  permission; without a principal it answers 401, without the permission 403, and in both cases
  touches nothing.
\<close>

theorem require_permission_guards:
  "RequirePermission perm h cx w =
     (case Principal cx of
        None \<Rightarrow> (HttpError 401 ''unauthorized'', w)
      | Some p \<Rightarrow> if perm \<in> set (prPermissions p) then h cx w else (HttpError 403 ''forbidden'', w))"
  by (simp add: RequirePermission_def authorized_def HasPermission_def reply_def split: option.split)

text \<open>
  After \<^verbatim>\<open>BootstrapTenantOwnerPermissions\<close> the role holds all ten owner permissions, whether they
  existed or had to be created; permissions and grants are only added, and every new grant is for
  this role.
\<close>

theorem bootstrap_grants_owner_permissions:
  assumes "BootstrapTenantOwnerPermissions E cx rid w = (Inr u, w')"
    and "uuid_canonical E" "permission_ids_canonical E (view cx w)" "pg_uuid E rid = Some k"
  shows "\<exists>ps rps. view cx w' = (view cx w)\<lparr>permissions := permissions (view cx w) @ ps,
              role_permissions := role_permissions (view cx w) @ rps\<rparr>
     \<and> (\<forall>rp \<in> set rps. rpRoleID rp = k)
     \<and> fst ` set tenantOwnerPermissions \<subseteq> set (role_permission_names (view cx w') k)"
  using bootstrap_InrD [OF assms] .

lemma demo_canonical [simp]: "uuid_canonical demo_env" "permission_ids_canonical demo_env d"
  by (simp_all add: uuid_canonical_def permission_ids_canonical_def)

text \<open>The bootstrap of the example's role, which already holds one of the permissions' names.\<close>

definition demo_role_db :: database where
  "demo_role_db = demo_db\<lparr>role_permissions := []\<rparr>"

lemma demo_bootstrap: "fst (BootstrapTenantOwnerPermissions demo_env background ''r-a'' (world_of demo_role_db)) = Inr ()"
  by (simp add: BootstrapTenantOwnerPermissions_def tenantOwnerPermissions_def grant_permission_def
      ensure_permission_def authz_repo_defs run_simps cast_row_def pg_role_permission_def pg_permission_def
      ins_role_permission_def ins_permission_def rp_key_def demo_role_db_def demo_db_def Let_def)

theorem bootstrap_grants_owner_permissions_witness:
  "\<exists>w'. BootstrapTenantOwnerPermissions demo_env background ''r-a'' (world_of demo_role_db) = (Inr (), w')
     \<and> fst ` set tenantOwnerPermissions \<subseteq> set (role_permission_names (view background w') ''r-a'')"
proof -
  obtain w' where run: "BootstrapTenantOwnerPermissions demo_env background ''r-a'' (world_of demo_role_db) = (Inr (), w')"
    using demo_bootstrap by (metis prod.collapse)
  have "pg_uuid demo_env ''r-a'' = Some ''r-a''"
    by simp
  from bootstrap_grants_owner_permissions [OF run demo_canonical this] run show ?thesis
    by blast
qed

end
