(* ===== verification/Janus_Identity.thy ===== *)
theory Janus_Identity
  imports Janus_Authz
begin

text \<open>
  \<^verbatim>\<open>internal/identity\<close> and the credentials of \<^verbatim>\<open>internal/auth\<close>: the repositories of identities
  (people), users (their membership of a tenant) and credentials, the use cases that create and read
  them, and their HTTP handlers.
\<close>

section \<open>Repositories\<close>

text \<open>\<^verbatim>\<open>errors.As(err, &pgErr)\<close>: the PostgreSQL error an error is or wraps.\<close>

fun as_pg :: "error \<Rightarrow> pg_code option" where
  "as_pg (PgError c) = Some c"
| "as_pg (Wrapped _ e) = as_pg e"
| "as_pg _ = None"

definition IdentityRepo_Create :: "env \<Rightarrow> ctx \<Rightarrow> identity \<Rightarrow> unit io" where
  "IdentityRepo_Create E cx i =
     bindE (attempt (exec_sql E cx (cast_row (pg_identity E i) ins_identity))) (\<lambda>r.
       case r of
         Inl e \<Rightarrow> raise (if as_pg e = Some UniqueViolation then ErrConflict else e)
       | Inr _ \<Rightarrow> ret ())"

definition IdentityRepo_GetByEmail :: "env \<Rightarrow> ctx \<Rightarrow> string \<Rightarrow> identity io" where
  "IdentityRepo_GetByEmail E cx email =
     query_row E cx (\<lambda>d. Inr (filter (\<lambda>i. iPrimaryEmail i = email) (identities d)))"

definition IdentityRepo_GetByID :: "env \<Rightarrow> ctx \<Rightarrow> string \<Rightarrow> identity io" where
  "IdentityRepo_GetByID E cx iid =
     query_row E cx (\<lambda>d. where_uuid E iid (\<lambda>k. filter (\<lambda>i. iID i = k) (identities d)))"

definition UserRepo_Create :: "env \<Rightarrow> ctx \<Rightarrow> user \<Rightarrow> unit io" where
  "UserRepo_Create E cx u = exec_sql E cx (cast_row (pg_user E u) ins_user)"

definition UserRepo_GetByID :: "env \<Rightarrow> ctx \<Rightarrow> string \<Rightarrow> user io" where
  "UserRepo_GetByID E cx uid =
     query_row E cx (\<lambda>d. where_uuid E uid (\<lambda>k. filter (\<lambda>u. usID u = k) (users d)))"

definition where_uuid2 :: "env \<Rightarrow> string \<Rightarrow> string \<Rightarrow> (string \<Rightarrow> string \<Rightarrow> 'r list) \<Rightarrow> error + 'r list" where
  "where_uuid2 E s t f =
     (case (pg_uuid E s, pg_uuid E t) of (Some j, Some k) \<Rightarrow> Inr (f j k) | _ \<Rightarrow> Inl (PgError InvalidText))"

definition UserRepo_GetByTenantAndIdentity :: "env \<Rightarrow> ctx \<Rightarrow> string \<Rightarrow> string \<Rightarrow> user io" where
  "UserRepo_GetByTenantAndIdentity E cx tenantID identityID =
     query_row E cx (\<lambda>d. where_uuid2 E tenantID identityID
       (\<lambda>t i. filter (\<lambda>u. usTenantID u = t \<and> usIdentityID u = i) (users d)))"

definition UserRepo_GetByIdentityID :: "env \<Rightarrow> ctx \<Rightarrow> string \<Rightarrow> user io" where
  "UserRepo_GetByIdentityID E cx identityID =
     query_row E cx (\<lambda>d. where_uuid E identityID (\<lambda>i. filter (\<lambda>u. usIdentityID u = i) (users d)))"

definition UserRepo_GetByTenantAndID :: "env \<Rightarrow> ctx \<Rightarrow> string \<Rightarrow> string \<Rightarrow> user io" where
  "UserRepo_GetByTenantAndID E cx tenantID userID =
     query_row E cx (\<lambda>d. where_uuid2 E tenantID userID
       (\<lambda>t i. filter (\<lambda>u. usTenantID u = t \<and> usID u = i) (users d)))"

definition UserRepo_ListByTenant :: "env \<Rightarrow> ctx \<Rightarrow> string \<Rightarrow> user list io" where
  "UserRepo_ListByTenant E cx tenantID =
     query_rows E cx (sort_key usCreatedAt)
       (\<lambda>d. where_uuid E tenantID (\<lambda>t. filter (\<lambda>u. usTenantID u = t) (users d)))"

definition CredentialRepo_Create :: "env \<Rightarrow> ctx \<Rightarrow> credential \<Rightarrow> unit io" where
  "CredentialRepo_Create E cx c = exec_sql E cx (cast_row (pg_credential E c) ins_credential)"

definition CredentialRepo_GetByIdentityID :: "env \<Rightarrow> ctx \<Rightarrow> string \<Rightarrow> credential io" where
  "CredentialRepo_GetByIdentityID E cx identityID =
     query_row E cx (\<lambda>d. where_uuid E identityID (\<lambda>i. filter (\<lambda>c. crIdentityID c = i) (credentials d)))"

lemmas identity_repo_defs =
  IdentityRepo_GetByEmail_def IdentityRepo_GetByID_def UserRepo_Create_def UserRepo_GetByID_def
  UserRepo_GetByTenantAndIdentity_def UserRepo_GetByIdentityID_def UserRepo_GetByTenantAndID_def
  UserRepo_ListByTenant_def CredentialRepo_Create_def CredentialRepo_GetByIdentityID_def

section \<open>Use cases\<close>

definition new_identity :: "string \<Rightarrow> time \<Rightarrow> string \<Rightarrow> identity" where
  "new_identity iid at email = \<lparr> iID = iid, iPrimaryEmail = email, iEmailVerified = False,
     iStatus = ''active'', iCreatedAt = at, iUpdatedAt = at \<rparr>"

definition CreateIdentity :: "env \<Rightarrow> ctx \<Rightarrow> string \<Rightarrow> identity io" where
  "CreateIdentity E cx email =
     bindE (now E) (\<lambda>at.
     bindE (new_id E) (\<lambda>iid.
       let identity = new_identity iid at email in
       bindE (IdentityRepo_Create E cx identity) (\<lambda>_. ret identity)))"

record create_user_input =
  cuTenantID :: string
  cuEmail :: string
  cuPassword :: string
  cuDisplayName :: string
  cuRoleName :: string

text \<open>The steps \<^verbatim>\<open>Register\<close> and \<^verbatim>\<open>CreateUser\<close> begin with: the identity and its password.\<close>

definition new_credential :: "string \<Rightarrow> time \<Rightarrow> string \<Rightarrow> string \<Rightarrow> credential" where
  "new_credential cid at iid hash = \<lparr> crID = cid, crIdentityID = iid, crCredentialType = ''password'',
     crPasswordHash = hash, crCreatedAt = at, crUpdatedAt = at \<rparr>"

definition create_login :: "env \<Rightarrow> ctx \<Rightarrow> string \<Rightarrow> string \<Rightarrow> (time \<times> identity) io" where
  "create_login E cx email pw =
     bindE (now E) (\<lambda>at.
     bindE (new_id E) (\<lambda>iid.
       let identity = new_identity iid at email in
       bindE (IdentityRepo_Create E cx identity) (\<lambda>_.
       bindE (password_Hash E pw) (\<lambda>hash.
       bindE (new_id E) (\<lambda>cid.
       bindE (CredentialRepo_Create E cx (new_credential cid at iid hash)) (\<lambda>_.
         ret (at, identity)))))))"

definition CreateUser_body :: "env \<Rightarrow> create_user_input \<Rightarrow> ctx \<Rightarrow> user io" where
  "CreateUser_body E inp cx =
     bindE (create_login E cx (cuEmail inp) (cuPassword inp)) (\<lambda>(at, identity).
     bindE (new_id E) (\<lambda>uid.
       let user = \<lparr> usID = uid, usTenantID = cuTenantID inp, usIdentityID = iID identity,
                    usUsername = cuEmail inp, usDisplayName = cuDisplayName inp, usStatus = ''active'',
                    usCreatedAt = at, usUpdatedAt = at \<rparr> in
       bindE (UserRepo_Create E cx user) (\<lambda>_.
       bindE (RoleRepo_GetByTenantAndName E cx (cuTenantID inp) (cuRoleName inp)) (\<lambda>role.
       bindE (UserRoleRepo_AssignRole E cx \<lparr> urUserID = uid, urRoleID = rlID role, urCreatedAt = at \<rparr>) (\<lambda>_.
         ret user)))))"

definition CreateUser :: "env \<Rightarrow> ctx \<Rightarrow> create_user_input \<Rightarrow> user io" where
  "CreateUser E cx inp = within_transaction E cx (CreateUser_body E inp)"

definition GetUser :: "env \<Rightarrow> ctx \<Rightarrow> string \<Rightarrow> string \<Rightarrow> user io" where
  "GetUser E cx tenantID userID = UserRepo_GetByTenantAndID E cx tenantID userID"

definition ListUsers :: "env \<Rightarrow> ctx \<Rightarrow> string \<Rightarrow> user list io" where
  "ListUsers E cx tenantID = UserRepo_ListByTenant E cx tenantID"

section \<open>Handlers\<close>

record create_user_request =
  curEmail :: string
  curPassword :: string
  curDisplayName :: string
  curRoleName :: string

definition CreateUser_handler :: "env \<Rightarrow> create_user_request option \<Rightarrow> user handler" where
  "CreateUser_handler E body = authorized (\<lambda>p cx.
     case body of
       None \<Rightarrow> reply (HttpError 400 ''invalid request'')
     | Some req \<Rightarrow>
         serve (CreateUser E cx \<lparr> cuTenantID = prTenantID p, cuEmail = curEmail req,
                  cuPassword = curPassword req, cuDisplayName = curDisplayName req,
                  cuRoleName = curRoleName req \<rparr>)
           (Json 201)
           (\<lambda>e. if e = ErrConflict then HttpError 409 ''email already exists''
                else HttpError 500 ''internal error''))"

definition GetUser_handler :: "env \<Rightarrow> string \<Rightarrow> user handler" where
  "GetUser_handler E userID = authorized (\<lambda>p cx.
     serve (GetUser E cx (prTenantID p) userID) (Json 200) (\<lambda>_. HttpError 404 ''user not found''))"

definition ListUsers_handler :: "env \<Rightarrow> user list handler" where
  "ListUsers_handler E = authorized (\<lambda>p cx.
     serve (ListUsers E cx (prTenantID p)) (Json 200) (\<lambda>_. HttpError 500 ''failed to list users''))"

section \<open>What the operations keep\<close>

lemma keeps_IdentityRepo_Create:
  "keeps I (exec_sql E cx (cast_row (pg_identity E i) ins_identity)) \<Longrightarrow> keeps I (IdentityRepo_Create E cx i)"
  unfolding IdentityRepo_Create_def by (intro keeps_rules)

lemma keeps_identity_reads [keeps_rules]:
  "keeps (dbs I) (IdentityRepo_GetByEmail E cx s)" "keeps (dbs I) (IdentityRepo_GetByID E cx s)"
  "keeps (dbs I) (UserRepo_GetByID E cx s)" "keeps (dbs I) (UserRepo_GetByTenantAndIdentity E cx s t)"
  "keeps (dbs I) (UserRepo_GetByIdentityID E cx s)" "keeps (dbs I) (UserRepo_GetByTenantAndID E cx s t)"
  "keeps (dbs I) (UserRepo_ListByTenant E cx s)" "keeps (dbs I) (CredentialRepo_GetByIdentityID E cx s)"
  unfolding identity_repo_defs by (rule keeps_rules)+

lemma quiet_identity [quiet_rules]:
  "quiet (IdentityRepo_GetByEmail E cx s)" "quiet (IdentityRepo_GetByID E cx s)"
  "quiet (UserRepo_GetByID E cx s)" "quiet (UserRepo_GetByTenantAndIdentity E cx s t)"
  "quiet (UserRepo_GetByIdentityID E cx s)" "quiet (UserRepo_GetByTenantAndID E cx s t)"
  "quiet (UserRepo_ListByTenant E cx s)" "quiet (CredentialRepo_GetByIdentityID E cx s)"
  unfolding identity_repo_defs by (rule quiet_rules)+

lemma keeps_pool_identity [keeps_rules]:
  assumes "cx_tx cx"
  shows "keeps (\<lambda>w. pool_db w = d) (IdentityRepo_Create E cx i)"
    "keeps (\<lambda>w. pool_db w = d) (UserRepo_Create E cx u)"
    "keeps (\<lambda>w. pool_db w = d) (CredentialRepo_Create E cx c)"
  unfolding identity_repo_defs
  by (intro keeps_IdentityRepo_Create keeps_pool_exec assms)+

lemma keeps_create_login:
  assumes "keeps I (now E)" "keeps I (new_id E)" "keeps I (rand_read E saltLength)"
    and "\<And>i. keeps I (IdentityRepo_Create E cx i)" "\<And>c. keeps I (CredentialRepo_Create E cx c)"
  shows "keeps I (create_login E cx email pw)"
  unfolding create_login_def Let_def by (intro keeps_rules assms)

lemma keeps_CreateUser_body:
  assumes "keeps I (now E)" "keeps I (new_id E)" "keeps I (rand_read E saltLength)"
    and "\<And>i. keeps I (IdentityRepo_Create E cx i)" "\<And>c. keeps I (CredentialRepo_Create E cx c)"
    and "\<And>u. keeps I (UserRepo_Create E cx u)" "\<And>t n. keeps I (RoleRepo_GetByTenantAndName E cx t n)"
    and "\<And>ur. keeps I (UserRoleRepo_AssignRole E cx ur)"
  shows "keeps I (CreateUser_body E inp cx)"
  unfolding CreateUser_body_def Let_def by (intro keeps_rules keeps_create_login assms)

context db_law
begin

lemma keeps_identity_writes [keeps_rules]:
  "keeps (dbs I) (IdentityRepo_Create E cx i)"
  "keeps (dbs I) (UserRepo_Create E cx u)"
  "keeps (dbs I) (CredentialRepo_Create E cx c)"
  unfolding identity_repo_defs by (intro keeps_IdentityRepo_Create keeps_rules)+

lemma keeps_CreateUser [keeps_rules]: "keeps (dbs I) (CreateUser E cx inp)"
  unfolding CreateUser_def by (intro keeps_dbs_within_transaction keeps_CreateUser_body keeps_rules)

end

section \<open>Outcomes of the operations\<close>

lemma IdentityRepo_Create_InrD:
  assumes "IdentityRepo_Create E cx i w = (Inr u, w')"
  shows "\<exists>row. pg_identity E i = Some row
     \<and> iPrimaryEmail row \<notin> iPrimaryEmail ` set (identities (view cx w))
     \<and> view cx w' = (view cx w)\<lparr>identities := identities (view cx w) @ [row]\<rparr>"
proof -
  obtain r w1 where ex: "exec_sql E cx (cast_row (pg_identity E i) ins_identity) w = (r, w1)"
    by fastforce
  have "r = Inr ()" "w1 = w'"
    using assms ex by (cases r; simp add: IdentityRepo_Create_def bindE_def raise_def ret_def)+
  with ex have "exec_sql E cx (cast_row (pg_identity E i) ins_identity) w = (Inr (), w')"
    by simp
  then show ?thesis
    by (auto simp: ins_identity_def dest!: exec_cast_InrD)
qed

lemma UserRepo_Create_InrD:
  assumes "UserRepo_Create E cx r w = (Inr u, w')"
  shows "\<exists>row. pg_user E r = Some row
     \<and> view cx w' = (view cx w)\<lparr>users := users (view cx w) @ [row]\<rparr>"
  using exec_cast_InrD [OF assms [unfolded UserRepo_Create_def]] by (auto simp: ins_user_def)

lemma CredentialRepo_Create_InrD:
  assumes "CredentialRepo_Create E cx r w = (Inr u, w')"
  shows "\<exists>row. pg_credential E r = Some row
     \<and> view cx w' = (view cx w)\<lparr>credentials := credentials (view cx w) @ [row]\<rparr>"
  using exec_cast_InrD [OF assms [unfolded CredentialRepo_Create_def]] by (auto simp: ins_credential_def)

lemma IdentityRepo_GetByEmail_InrD:
  "IdentityRepo_GetByEmail E cx e w = (Inr i, w') \<Longrightarrow>
     w' = tick w \<and> iPrimaryEmail i = e \<and> i \<in> set (identities (view cx w))"
  unfolding IdentityRepo_GetByEmail_def by (auto dest: query_row_InrD)

lemma IdentityRepo_GetByID_InrD:
  "IdentityRepo_GetByID E cx s w = (Inr i, w') \<Longrightarrow>
     w' = tick w \<and> pg_uuid E s = Some (iID i) \<and> i \<in> set (identities (view cx w))"
  unfolding IdentityRepo_GetByID_def using query_by_uuid_InrD [where P = "\<lambda>k i. iID i = k"] by blast

lemma UserRepo_GetByIdentityID_InrD:
  "UserRepo_GetByIdentityID E cx s w = (Inr u, w') \<Longrightarrow>
     w' = tick w \<and> pg_uuid E s = Some (usIdentityID u) \<and> u \<in> set (users (view cx w))"
  unfolding UserRepo_GetByIdentityID_def using query_by_uuid_InrD [where P = "\<lambda>k u. usIdentityID u = k"] by blast

lemma UserRepo_GetByID_InrD:
  "UserRepo_GetByID E cx s w = (Inr u, w') \<Longrightarrow>
     w' = tick w \<and> pg_uuid E s = Some (usID u) \<and> u \<in> set (users (view cx w))"
  unfolding UserRepo_GetByID_def using query_by_uuid_InrD [where P = "\<lambda>k u. usID u = k"] by blast

lemma CredentialRepo_GetByIdentityID_InrD:
  "CredentialRepo_GetByIdentityID E cx s w = (Inr c, w') \<Longrightarrow>
     w' = tick w \<and> pg_uuid E s = Some (crIdentityID c) \<and> c \<in> set (credentials (view cx w))"
  unfolding CredentialRepo_GetByIdentityID_def
  using query_by_uuid_InrD [where P = "\<lambda>k c. crIdentityID c = k"] by blast

lemma UserRepo_GetByTenantAndID_InrD:
  assumes "UserRepo_GetByTenantAndID E cx t s w = (Inr u, w')"
  shows "w' = tick w \<and> pg_uuid E t = Some (usTenantID u) \<and> pg_uuid E s = Some (usID u)
     \<and> u \<in> set (users (view cx w))"
  using query_row_InrD [OF assms [unfolded UserRepo_GetByTenantAndID_def]]
  by (auto simp: where_uuid2_def split: option.splits)

lemma identity_reads_InlD:
  "IdentityRepo_GetByEmail E cx e w = (Inl er, w') \<Longrightarrow> same_data w w'"
  "IdentityRepo_GetByID E cx s w = (Inl er, w') \<Longrightarrow> same_data w w'"
  "UserRepo_GetByID E cx s w = (Inl er, w') \<Longrightarrow> same_data w w'"
  "UserRepo_GetByIdentityID E cx s w = (Inl er, w') \<Longrightarrow> same_data w w'"
  "UserRepo_GetByTenantAndID E cx t s w = (Inl er, w') \<Longrightarrow> same_data w w'"
  "CredentialRepo_GetByIdentityID E cx s w = (Inl er, w') \<Longrightarrow> same_data w w'"
  unfolding identity_repo_defs using query_row_InlD by blast+

text \<open>A password the server has just hashed, stored for an identity, is one it will accept.\<close>

definition argon_law :: "env \<Rightarrow> bool" where
  "argon_law E \<longleftrightarrow> (\<forall>pw salt t m p n. length (argon2_IDKey E pw salt t m p n) = n)"

lemma password_Hash_verifies:
  assumes "argon_law E" "password_Hash E pw w = (Inr h, w')"
  shows "password_Verify E pw h"
proof -
  obtain salt where salt: "length salt = 16" and h: "h = encode_hash salt (argon_key E pw salt 32)"
    using password_Hash_InrD [OF assms(2)] by (auto simp: keyLength_def)
  have len: "length (argon_key E pw salt 32) = 32"
    using assms(1) by (simp add: argon_key_def argon_law_def)
  have "salt \<noteq> []" "argon_key E pw salt 32 \<noteq> []"
    using salt len by auto
  then show ?thesis
    unfolding h by (simp add: verify_encoded len)
qed

lemma create_login_InrD:
  assumes run: "create_login E cx email pw w = (Inr (at, ident), w')"
  shows "\<exists>i c. pg_identity E ident = Some i \<and> iPrimaryEmail i = email
     \<and> email \<notin> iPrimaryEmail ` set (identities (view cx w))
     \<and> crIdentityID c = iID i \<and> (argon_law E \<longrightarrow> password_Verify E pw (crPasswordHash c))
     \<and> view cx w' = (view cx w)\<lparr>identities := identities (view cx w) @ [i],
                                credentials := credentials (view cx w) @ [c]\<rparr>"
proof -
  obtain iid cid hash w1 w2 w3 where
    idc: "IdentityRepo_Create E cx (new_identity iid at email) (tick (tick w)) = (Inr (), w1)"
    and hash: "password_Hash E pw w1 = (Inr hash, w2)"
    and crc: "CredentialRepo_Create E cx (new_credential cid at iid hash) (tick w2) = (Inr (), w3)"
    and ident: "ident = new_identity iid at email" "w' = w3"
    using run by (auto simp: create_login_def Let_def bindE_Inr_iff)
  obtain i where i: "pg_identity E ident = Some i" "iPrimaryEmail i \<notin> iPrimaryEmail ` set (identities (view cx w))"
    and v1: "view cx w1 = (view cx w)\<lparr>identities := identities (view cx w) @ [i]\<rparr>"
    using IdentityRepo_Create_InrD [OF idc] ident(1) by auto
  have w2: "w2 = tick w1"
    using password_Hash_InrD [OF hash] by simp
  obtain c where c: "pg_credential E (new_credential cid at iid hash) = Some c"
    and v3: "view cx w3 = (view cx w1)\<lparr>credentials := credentials (view cx w1) @ [c]\<rparr>"
    using CredentialRepo_Create_InrD [OF crc] w2 by auto
  have "iPrimaryEmail i = email" "pg_uuid E iid = Some (iID i)"
    using i(1) ident(1) by (auto simp: pg_identity_def new_identity_def)
  moreover have "pg_uuid E iid = Some (crIdentityID c)" "crPasswordHash c = hash"
    using c by (auto simp: pg_credential_def new_credential_def split: option.splits)
  moreover have "view cx w' = (view cx w)\<lparr>identities := identities (view cx w) @ [i],
                                credentials := credentials (view cx w) @ [c]\<rparr>"
    using v1 v3 ident(2) by simp
  ultimately show ?thesis
    using i password_Hash_verifies [OF _ hash]
    by (intro exI [of _ i] exI [of _ c]) auto
qed

section \<open>Properties\<close>

lemma CreateUser_body_InrD:
  assumes "CreateUser_body E inp cx w = (Inr user, w')" "argon_law E" "uuid_canonical E"
  shows "\<exists>i c u role ur.
        pg_user E user = Some u \<and> iPrimaryEmail i = cuEmail inp
        \<and> cuEmail inp \<notin> iPrimaryEmail ` set (identities (view cx w))
        \<and> crIdentityID c = iID i \<and> password_Verify E (cuPassword inp) (crPasswordHash c)
        \<and> usIdentityID u = iID i \<and> pg_uuid E (cuTenantID inp) = Some (usTenantID u)
        \<and> role \<in> set (roles (view cx w)) \<and> rlTenantID role = usTenantID u \<and> rlName role = cuRoleName inp
        \<and> urUserID ur = usID u \<and> pg_uuid E (rlID role) = Some (urRoleID ur)
        \<and> view cx w' = (view cx w)\<lparr>identities := identities (view cx w) @ [i],
             credentials := credentials (view cx w) @ [c], users := users (view cx w) @ [u],
             user_roles := user_roles (view cx w) @ [ur]\<rparr>"
proof -
  obtain at ident uid w1 w2 w3 role where
    login: "create_login E cx (cuEmail inp) (cuPassword inp) w = (Inr (at, ident), w1)"
    and usr: "UserRepo_Create E cx user (tick w1) = (Inr (), w2)"
    and uid: "usID user = uid" "usTenantID user = cuTenantID inp" "usIdentityID user = iID ident"
    and rol: "RoleRepo_GetByTenantAndName E cx (cuTenantID inp) (cuRoleName inp) w2 = (Inr role, w3)"
    and asg: "UserRoleRepo_AssignRole E cx \<lparr> urUserID = uid, urRoleID = rlID role, urCreatedAt = at \<rparr> w3
                = (Inr (), w')"
    using assms(1) by (auto simp: CreateUser_body_def Let_def bindE_Inr_iff)
  obtain i c where i: "pg_identity E ident = Some i" "iPrimaryEmail i = cuEmail inp"
      "cuEmail inp \<notin> iPrimaryEmail ` set (identities (view cx w))"
    and c: "crIdentityID c = iID i" "password_Verify E (cuPassword inp) (crPasswordHash c)"
    and v1: "view cx w1 = (view cx w)\<lparr>identities := identities (view cx w) @ [i],
                                credentials := credentials (view cx w) @ [c]\<rparr>"
    using create_login_InrD [OF login] assms(2) by blast
  obtain u where u: "pg_user E user = Some u"
    and v2: "view cx w2 = (view cx w1)\<lparr>users := users (view cx w1) @ [u]\<rparr>"
    using UserRepo_Create_InrD [OF usr] by auto
  have role: "w3 = tick w2" "pg_uuid E (cuTenantID inp) = Some (rlTenantID role)" "rlName role = cuRoleName inp"
    "role \<in> set (roles (view cx w))"
    using RoleRepo_GetByTenantAndName_InrD [OF rol] v1 v2 by auto
  obtain ur where ur: "pg_user_role E \<lparr> urUserID = uid, urRoleID = rlID role, urCreatedAt = at \<rparr> = Some ur"
    and vd: "view cx w' = (view cx w2)\<lparr>user_roles := user_roles (view cx w2) @ [ur]\<rparr>"
    using AssignRole_InrD [OF asg] role(1) by auto
  have fields: "pg_uuid E uid = Some (usID u)" "pg_uuid E (cuTenantID inp) = Some (usTenantID u)"
    "pg_uuid E (iID ident) = Some (usIdentityID u)"
    using u uid by (auto simp: pg_user_def split: option.splits)
  have "pg_uuid E (iID ident) = Some (iID i)"
    using i(1) by (auto simp: pg_identity_def)
  then have link: "usIdentityID u = iID i"
    using fields(3) by simp
  have urs: "urUserID ur = usID u" "pg_uuid E (rlID role) = Some (urRoleID ur)"
    using ur fields(1) by (auto simp: pg_user_role_def split: option.splits)
  have "view cx w' = (view cx w)\<lparr>identities := identities (view cx w) @ [i],
             credentials := credentials (view cx w) @ [c], users := users (view cx w) @ [u],
             user_roles := user_roles (view cx w) @ [ur]\<rparr>"
    unfolding vd v2 v1 by simp
  then show ?thesis
    using u i(2,3) c role fields link urs by auto
qed

text \<open>
  C23: creating a user either fails and leaves the committed database as it was, or commits exactly
  an identity with the new email, its password credential, one user of the caller's tenant and one
  role assignment, of a role of the same tenant with the requested name; the stored hash accepts the
  password.
\<close>

theorem create_user_atomic:
  assumes run: "CreateUser E cx inp w = (r, w')"
    and laws: "argon_law E" "uuid_canonical E"
  shows "case r of
      Inl _ \<Rightarrow> pool_db w' = pool_db w
    | Inr user \<Rightarrow> \<exists>i c u role ur.
        pg_user E user = Some u \<and> iPrimaryEmail i = cuEmail inp
        \<and> cuEmail inp \<notin> iPrimaryEmail ` set (identities (pool_db w))
        \<and> crIdentityID c = iID i \<and> password_Verify E (cuPassword inp) (crPasswordHash c)
        \<and> usIdentityID u = iID i \<and> pg_uuid E (cuTenantID inp) = Some (usTenantID u)
        \<and> role \<in> set (roles (pool_db w)) \<and> rlTenantID role = usTenantID u \<and> rlName role = cuRoleName inp
        \<and> urUserID ur = usID u \<and> pg_uuid E (rlID role) = Some (urRoleID ur)
        \<and> pool_db w' = (pool_db w)\<lparr>identities := identities (pool_db w) @ [i],
             credentials := credentials (pool_db w) @ [c], users := users (pool_db w) @ [u],
             user_roles := user_roles (pool_db w) @ [ur]\<rparr>"
proof (cases r)
  case (Inl e)
  have "keeps (\<lambda>w. pool_db w = d) (CreateUser_body E inp (cx\<lparr>cx_tx := True\<rparr>))" for d
    by (intro keeps_CreateUser_body keeps_rules) simp_all
  then have "pool_db w' = pool_db w"
    using run Inl within_transaction_atomic unfolding CreateUser_def by blast
  then show ?thesis
    using Inl by simp
next
  case (Inr user)
  let ?cx = "cx\<lparr>cx_tx := True\<rparr>"
  let ?w0 = "(tick w)\<lparr>tx_db := Some (pool_db w), tx_failed := False\<rparr>"
  obtain wb d where body: "CreateUser_body E inp ?cx ?w0 = (Inr user, wb)" and d: "tx_db wb = Some d"
    and w': "w' = (tick wb)\<lparr>pool_db := d, tx_db := None, tx_failed := False\<rparr>"
    using within_transaction_InrD [OF run [unfolded Inr CreateUser_def]] by blast
  have v0: "view ?cx ?w0 = pool_db w" and vb: "view ?cx wb = pool_db w'"
    using d w' by (simp_all add: view_def)
  show ?thesis
    unfolding Inr sum.case using CreateUser_body_InrD [OF body laws] unfolding v0 vb .
qed

definition demo_user_input :: create_user_input where
  "demo_user_input = \<lparr> cuTenantID = ''t-a'', cuEmail = ''bob@x.io'', cuPassword = ''pw2'',
     cuDisplayName = ''bob'', cuRoleName = ''tenant_owner'' \<rparr>"

lemma demo_argon_law [simp]: "argon_law demo_env"
  using demo_argon_length by (simp add: argon_law_def)

lemma demo_create_user:
  "\<exists>user w'. CreateUser demo_env background demo_user_input demo_world = (Inr user, w')"
  by (simp add: CreateUser_def CreateUser_body_def within_transaction_def begin_tx_def commit_tx_def
      create_login_def IdentityRepo_Create_def identity_repo_defs authz_repo_defs password_Hash_def
      new_identity_def new_credential_def run_simps cast_row_def where_uuid_def pg_identity_def
      pg_credential_def pg_user_def pg_user_role_def ins_identity_def ins_credential_def ins_user_def
      ins_user_role_def user_membership_def user_login_def ur_key_def Let_def demo_user_input_def
      demo_world_def demo_db_def demo_tenant_def eval_nat_numeral)

theorem create_user_atomic_witness:
  "\<exists>w' u. CreateUser demo_env background demo_user_input demo_world = (Inr u, w')
     \<and> length (users (pool_db w')) = 2"
proof -
  obtain user w' where run: "CreateUser demo_env background demo_user_input demo_world = (Inr user, w')"
    using demo_create_user by blast
  have "length (users (pool_db w')) = Suc (length (users (pool_db demo_world)))"
    using create_user_atomic [OF run demo_argon_law demo_canonical(1)] by auto
  then show ?thesis
    using run by (auto simp: demo_world_def demo_db_def)
qed

text \<open>
  Reading a user by its id never crosses tenants: what \<^verbatim>\<open>GET /users/{id}\<close> returns is a user of
  the caller's tenant with that id, and the read changes no data.
\<close>

theorem get_user_same_tenant:
  assumes "GetUser_handler E userID cx w = (Json 200 u, w')" "Principal cx = Some p"
  shows "u \<in> set (users (view cx w)) \<and> pg_uuid E (prTenantID p) = Some (usTenantID u)
       \<and> pg_uuid E userID = Some (usID u) \<and> w' = tick w"
  using assms by (auto simp: GetUser_handler_def authorized_def serve_iff GetUser_def
      dest!: UserRepo_GetByTenantAndID_InrD)

lemma demo_get_user:
  "GetUser_handler demo_env ''u-a'' (WithPrincipal background demo_principal) demo_world =
     (Json 200 (hd (users demo_db)), tick demo_world)"
  by (simp add: GetUser_handler_def authorized_def serve_def GetUser_def identity_repo_defs run_simps
      where_uuid2_def demo_principal_def demo_world_def demo_db_def)

theorem get_user_same_tenant_witness: "usTenantID (hd (users demo_db)) = ''t-a''"
  using get_user_same_tenant [OF demo_get_user context_simps(1)] by (simp add: demo_principal_def)

end
