(* ===== verification/Janus_Register.thy ===== *)
theory Janus_Register
  imports Janus_Identity Janus_Tenant
begin

text \<open>
  \<^verbatim>\<open>internal/auth/app/register.go\<close>: signing up creates, in one transaction, the identity with its
  password, a tenant of its own, the user that joins the two, and the owner role with its
  permissions, which the user is given.
\<close>

record register_input =
  riEmail :: string
  riPassword :: string

definition Register_body :: "env \<Rightarrow> register_input \<Rightarrow> ctx \<Rightarrow> unit io" where
  "Register_body E inp cx =
     bindE (create_login E cx (riEmail inp) (riPassword inp)) (\<lambda>(at, identity).
     bindE (GenerateUniqueSlug E cx (slug_FromEmail (uni E) (riEmail inp))) (\<lambda>uniqueSlug.
     bindE (new_id E) (\<lambda>tid.
       let tenant = \<lparr> tnID = tid, tnSlug = uniqueSlug, tnDisplayName = riEmail inp, tnStatus = ''active'',
                      tnCreatedAt = at, tnUpdatedAt = at \<rparr> in
       bindE (TenantRepo_Create E cx tenant) (\<lambda>_.
       bindE (new_id E) (\<lambda>uid.
         let user = \<lparr> usID = uid, usTenantID = tid, usIdentityID = iID identity, usUsername = riEmail inp,
                      usDisplayName = riEmail inp, usStatus = ''active'', usCreatedAt = at, usUpdatedAt = at \<rparr> in
         bindE (UserRepo_Create E cx user) (\<lambda>_.
         bindE (CreateTenantOwnerRole E cx tid) (\<lambda>role.
         bindE (BootstrapTenantOwnerPermissions E cx (rlID role)) (\<lambda>_.
           UserRoleRepo_AssignRole E cx \<lparr> urUserID = uid, urRoleID = rlID role, urCreatedAt = at \<rparr>))))))))"

definition Register :: "env \<Rightarrow> ctx \<Rightarrow> register_input \<Rightarrow> unit io" where
  "Register E cx inp = within_transaction E cx (Register_body E inp)"

lemma TenantRepo_Create_InrD:
  assumes "TenantRepo_Create E cx t w = (Inr u, w')"
  shows "\<exists>row. pg_tenant E t = Some row
     \<and> view cx w' = (view cx w)\<lparr>tenants := tenants (view cx w) @ [row]\<rparr>"
  using exec_cast_InrD [OF assms [unfolded TenantRepo_Create_def]] by (auto simp: ins_tenant_def)

lemma keeps_Register_body:
  assumes "keeps I (now E)" "keeps I (new_id E)" "keeps I (rand_read E saltLength)"
    and "\<And>i. keeps I (IdentityRepo_Create E cx i)" "\<And>c. keeps I (CredentialRepo_Create E cx c)"
    and "\<And>s. keeps I (TenantRepo_ExistsBySlug E cx s)" "\<And>t. keeps I (TenantRepo_Create E cx t)"
    and "\<And>u. keeps I (UserRepo_Create E cx u)" "\<And>t. keeps I (CreateTenantOwnerRole E cx t)"
    and "\<And>r. keeps I (BootstrapTenantOwnerPermissions E cx r)" "\<And>ur. keeps I (UserRoleRepo_AssignRole E cx ur)"
  shows "keeps I (Register_body E inp cx)"
  unfolding Register_body_def Let_def by (intro keeps_rules keeps_create_login assms)

context db_law
begin

lemma keeps_Register [keeps_rules]: "keeps (dbs I) (Register E cx inp)"
  unfolding Register_def by (intro keeps_dbs_within_transaction keeps_Register_body keeps_rules)

end

lemma keeps_pool_tenant:
  assumes "cx_tx cx"
  shows "keeps (\<lambda>w. pool_db w = d) (TenantRepo_ExistsBySlug E cx s)"
    "keeps (\<lambda>w. pool_db w = d) (TenantRepo_Create E cx t)"
  unfolding TenantRepo_ExistsBySlug_def TenantRepo_Create_def
  by (rule keeps_pool_query keeps_pool_exec, rule assms)+

text \<open>What a committed registration added to the database \<open>d\<close>.\<close>

definition registered :: "env \<Rightarrow> register_input \<Rightarrow> database \<Rightarrow> database \<Rightarrow> bool" where
  "registered E inp d d' \<longleftrightarrow> (\<exists>i c t u r ur ps rps.
      d' = d\<lparr>identities := identities d @ [i], credentials := credentials d @ [c], tenants := tenants d @ [t],
             users := users d @ [u], roles := roles d @ [r], permissions := permissions d @ ps,
             role_permissions := role_permissions d @ rps, user_roles := user_roles d @ [ur]\<rparr>
    \<and> iPrimaryEmail i = riEmail inp \<and> riEmail inp \<notin> iPrimaryEmail ` set (identities d)
    \<and> crIdentityID c = iID i \<and> password_Verify E (riPassword inp) (crPasswordHash c)
    \<and> \<not> slug_taken d (tnSlug t)
    \<and> usTenantID u = tnID t \<and> usIdentityID u = iID i
    \<and> rlTenantID r = tnID t \<and> rlName r = ''tenant_owner''
    \<and> urUserID ur = usID u \<and> urRoleID ur = rlID r
    \<and> (\<forall>rp \<in> set rps. rpRoleID rp = rlID r)
    \<and> fst ` set tenantOwnerPermissions \<subseteq> set (role_permission_names d' (rlID r)))"

lemma Register_body_InrD:
  assumes body: "Register_body E inp cx w = (Inr x, w')"
    and laws: "argon_law E" "uuid_canonical E" "permission_ids_canonical E (view cx w)"
  shows "registered E inp (view cx w) (view cx w')"
proof -
  obtain at ident w1 slug w2 tid w3 uid w4 role w5 w6 where
    login: "create_login E cx (riEmail inp) (riPassword inp) w = (Inr (at, ident), w1)"
    and slug: "GenerateUniqueSlug E cx (slug_FromEmail (uni E) (riEmail inp)) w1 = (Inr slug, w2)"
    and ten: "TenantRepo_Create E cx \<lparr> tnID = tid, tnSlug = slug, tnDisplayName = riEmail inp,
       tnStatus = ''active'', tnCreatedAt = at, tnUpdatedAt = at \<rparr> (tick w2) = (Inr (), w3)"
    and usr: "UserRepo_Create E cx \<lparr> usID = uid, usTenantID = tid, usIdentityID = iID ident,
       usUsername = riEmail inp, usDisplayName = riEmail inp, usStatus = ''active'', usCreatedAt = at,
       usUpdatedAt = at \<rparr> (tick w3) = (Inr (), w4)"
    and rol: "CreateTenantOwnerRole E cx tid w4 = (Inr role, w5)"
    and boot: "BootstrapTenantOwnerPermissions E cx (rlID role) w5 = (Inr (), w6)"
    and asg: "UserRoleRepo_AssignRole E cx \<lparr> urUserID = uid, urRoleID = rlID role, urCreatedAt = at \<rparr> w6 = (Inr x, w')"
    using body by (auto simp: Register_body_def Let_def bindE_Inr_iff)
  obtain i c where i: "pg_identity E ident = Some i" "iPrimaryEmail i = riEmail inp"
      "riEmail inp \<notin> iPrimaryEmail ` set (identities (view cx w))"
    and c: "crIdentityID c = iID i" "password_Verify E (riPassword inp) (crPasswordHash c)"
    and v1: "view cx w1 = (view cx w)\<lparr>identities := identities (view cx w) @ [i],
                                credentials := credentials (view cx w) @ [c]\<rparr>"
    using create_login_InrD [OF login] laws(1) by blast
  have v2: "view cx w2 = view cx w1" and free: "\<not> slug_taken (view cx w) slug"
    using GenerateUniqueSlug_InrD [OF slug] ticked_fields v1 by (auto simp: slug_taken_def)
  obtain t where t0: "pg_tenant E \<lparr> tnID = tid, tnSlug = slug, tnDisplayName = riEmail inp,
       tnStatus = ''active'', tnCreatedAt = at, tnUpdatedAt = at \<rparr> = Some t"
    and v3: "view cx w3 = (view cx w2)\<lparr>tenants := tenants (view cx w2) @ [t]\<rparr>"
    using TenantRepo_Create_InrD [OF ten] by auto
  have t: "pg_uuid E tid = Some (tnID t)" "tnSlug t = slug"
    using t0 by (auto simp: pg_tenant_def)
  obtain u where u0: "pg_user E \<lparr> usID = uid, usTenantID = tid, usIdentityID = iID ident,
       usUsername = riEmail inp, usDisplayName = riEmail inp, usStatus = ''active'', usCreatedAt = at,
       usUpdatedAt = at \<rparr> = Some u"
    and v4: "view cx w4 = (view cx w3)\<lparr>users := users (view cx w3) @ [u]\<rparr>"
    using UserRepo_Create_InrD [OF usr] by auto
  have u: "pg_uuid E uid = Some (usID u)" "pg_uuid E tid = Some (usTenantID u)"
      "pg_uuid E (iID ident) = Some (usIdentityID u)"
    using u0 by (auto simp: pg_user_def split: option.splits)
  obtain r where r: "pg_role E role = Some r" "rlTenantID role = tid" "rlName role = ''tenant_owner''"
    and v5: "view cx w5 = (view cx w4)\<lparr>roles := roles (view cx w4) @ [r]\<rparr>"
    using CreateTenantOwnerRole_InrD [OF rol] by auto
  have r': "pg_uuid E (rlID role) = Some (rlID r)" "pg_uuid E tid = Some (rlTenantID r)" "rlName r = ''tenant_owner''"
    using r by (auto simp: pg_role_def split: option.splits)
  have "permission_ids_canonical E (view cx w5)"
    using laws(3) v5 v4 v3 v2 v1 by (simp add: permission_ids_canonical_def)
  from bootstrap_InrD [OF boot laws(2) this r'(1)] obtain ps rps where
    v6: "view cx w6 = (view cx w5)\<lparr>permissions := permissions (view cx w5) @ ps,
              role_permissions := role_permissions (view cx w5) @ rps\<rparr>"
    and grants: "\<forall>rp \<in> set rps. rpRoleID rp = rlID r"
      "fst ` set tenantOwnerPermissions \<subseteq> set (role_permission_names (view cx w6) (rlID r))"
    by blast
  obtain ur where ur: "pg_user_role E \<lparr> urUserID = uid, urRoleID = rlID role, urCreatedAt = at \<rparr> = Some ur"
    and v7: "view cx w' = (view cx w6)\<lparr>user_roles := user_roles (view cx w6) @ [ur]\<rparr>"
    using AssignRole_InrD [OF asg] by auto
  have ur': "urUserID ur = usID u" "urRoleID ur = rlID r"
    using ur u(1) r'(1) by (auto simp: pg_user_role_def)
  have links: "usTenantID u = tnID t" "rlTenantID r = tnID t" "usIdentityID u = iID i"
    using u t r'(2) i(1) by (auto simp: pg_identity_def)
  have "set (role_permission_names (view cx w') k) = set (role_permission_names (view cx w6) k)" for k
    by (simp add: v7 role_permission_names_def)
  then have named: "fst ` set tenantOwnerPermissions \<subseteq> set (role_permission_names (view cx w') (rlID r))"
    using grants(2) by simp
  have "view cx w' = (view cx w)\<lparr>identities := identities (view cx w) @ [i],
      credentials := credentials (view cx w) @ [c], tenants := tenants (view cx w) @ [t],
      users := users (view cx w) @ [u], roles := roles (view cx w) @ [r],
      permissions := permissions (view cx w) @ ps, role_permissions := role_permissions (view cx w) @ rps,
      user_roles := user_roles (view cx w) @ [ur]\<rparr>"
    using v7 v6 v5 v4 v3 v2 v1 by simp
  then show ?thesis
    unfolding registered_def using i c free t(2) links r'(3) ur' grants(1) named by blast
qed

section \<open>Properties\<close>

text \<open>
  C18: a registration is all or nothing: when it fails, the committed database is unchanged; when it
  succeeds, exactly the new identity, its credential (which accepts the password), a tenant with an
  unused slug, the user joining them, the owner role with the ten owner permissions and its
  assignment to the user were added.
\<close>

theorem register_all_or_nothing:
  assumes "Register E cx inp w = (r, w')"
    and "argon_law E" "uuid_canonical E" "permission_ids_canonical E (pool_db w)"
  shows "case r of Inl _ \<Rightarrow> pool_db w' = pool_db w | Inr _ \<Rightarrow> registered E inp (pool_db w) (pool_db w')"
proof (cases r)
  case (Inl e)
  have "keeps (\<lambda>w. pool_db w = d) (Register_body E inp (cx\<lparr>cx_tx := True\<rparr>))" for d
    by (intro keeps_Register_body keeps_pool_tenant keeps_rules) simp_all
  then have "pool_db w' = pool_db w"
    using assms(1) Inl within_transaction_atomic unfolding Register_def by blast
  then show ?thesis
    using Inl by simp
next
  case (Inr x)
  let ?cx = "cx\<lparr>cx_tx := True\<rparr>"
  let ?w0 = "(tick w)\<lparr>tx_db := Some (pool_db w), tx_failed := False\<rparr>"
  obtain wb d where body: "Register_body E inp ?cx ?w0 = (Inr x, wb)" and d: "tx_db wb = Some d"
    and w': "w' = (tick wb)\<lparr>pool_db := d, tx_db := None, tx_failed := False\<rparr>"
    using within_transaction_InrD [OF assms(1) [unfolded Inr Register_def]] by blast
  have "view ?cx ?w0 = pool_db w" "view ?cx wb = d"
    using d by (simp_all add: view_def)
  then show ?thesis
    using Register_body_InrD [OF body assms(2,3)] assms(4) Inr w' by simp
qed

definition demo_register_input :: register_input where
  "demo_register_input = \<lparr> riEmail = ''ann@y.io'', riPassword = ''pw3'' \<rparr>"

lemmas demo_register_defs =
  Register_def Register_body_def within_transaction_def begin_tx_def commit_tx_def create_login_def
  IdentityRepo_Create_def identity_repo_defs authz_repo_defs TenantRepo_Create_def
  GenerateUniqueSlug_def maxSlugAttempts_def TenantRepo_ExistsBySlug_def CreateTenantOwnerRole_def
  BootstrapTenantOwnerPermissions_def tenantOwnerPermissions_def grant_permission_def
  ensure_permission_def password_Hash_def new_identity_def new_credential_def cast_row_def
  where_uuid_def pg_identity_def pg_credential_def pg_user_def pg_user_role_def pg_tenant_def pg_role_def
  pg_permission_def pg_role_permission_def ins_identity_def ins_credential_def ins_user_def
  ins_user_role_def ins_tenant_def ins_role_def ins_permission_def ins_role_permission_def
  user_membership_def user_login_def ur_key_def rp_key_def role_name_key_def slug_candidate_def

lemma demo_slug: "slug_FromEmail u ''ann@y.io'' = ''ann''"
  by (subst slug_FromEmail_def, subst to_lower_ascii) (code_simp, code_simp)

lemma demo_register: "\<exists>w'. Register demo_env background demo_register_input demo_world = (Inr (), w')"
  by (simp add: demo_register_defs demo_slug run_simps Let_def demo_register_input_def demo_world_def
      demo_db_def demo_tenant_def eval_nat_numeral)

theorem register_all_or_nothing_witness:
  "\<exists>w'. Register demo_env background demo_register_input demo_world = (Inr (), w')
     \<and> registered demo_env demo_register_input demo_db (pool_db w')"
proof -
  obtain w' where run: "Register demo_env background demo_register_input demo_world = (Inr (), w')"
    using demo_register by blast
  then show ?thesis
    using register_all_or_nothing [OF run demo_argon_law demo_canonical] by (simp add: demo_world_def)
qed

end
