(* ===== verification/Janus_Store.thy ===== *)
theory Janus_Store
  imports Janus_Shared
begin

text \<open>
  What the server keeps in Redis: MFA challenges, OAuth authorization codes, WebAuthn ceremonies and
  cached principals, each under its own key prefix, with a time to live. The first three are
  one-shot: reading a key removes it (\<^verbatim>\<open>GETDEL\<close>). The locale \<open>one_shot\<close> states that contract and
  proves that nothing is ever read twice; it is interpreted on the three stores.
\<close>

section \<open>Redis\<close>

definition redis_live :: "env \<Rightarrow> world \<Rightarrow> string \<Rightarrow> redis_value option" where
  "redis_live E w key =
     (case redis w key of
        None \<Rightarrow> None
      | Some (v, t) \<Rightarrow> if redis_now E (calls w) < t then Some v else None)"

definition redis_set :: "env \<Rightarrow> string \<Rightarrow> redis_value \<Rightarrow> time \<Rightarrow> unit io" where
  "redis_set E key v ttl w =
     (case redis_fault E (calls w) of
        Some e \<Rightarrow> (Inl e, tick w)
      | None \<Rightarrow> (Inr (), (tick w)\<lparr>redis := (redis w)(key \<mapsto> (v, redis_now E (calls w) + redis_ttl E ttl))\<rparr>))"

definition redis_get :: "env \<Rightarrow> string \<Rightarrow> redis_value io" where
  "redis_get E key w =
     (case redis_fault E (calls w) of
        Some e \<Rightarrow> (Inl e, tick w)
      | None \<Rightarrow> (case redis_live E w key of None \<Rightarrow> (Inl RedisNil, tick w) | Some v \<Rightarrow> (Inr v, tick w)))"

definition redis_getdel :: "env \<Rightarrow> string \<Rightarrow> redis_value io" where
  "redis_getdel E key w =
     (case redis_fault E (calls w) of
        Some e \<Rightarrow> (Inl e, tick w)
      | None \<Rightarrow>
          (case redis_live E w key of
             None \<Rightarrow> (Inl RedisNil, tick w)
           | Some v \<Rightarrow> (Inr v, (tick w)\<lparr>redis := (redis w)(key := None)\<rparr>)))"

definition redis_del :: "env \<Rightarrow> string \<Rightarrow> unit io" where
  "redis_del E key w =
     (case redis_fault E (calls w) of
        Some e \<Rightarrow> (Inl e, tick w)
      | None \<Rightarrow> (Inr (), (tick w)\<lparr>redis := (redis w)(key := None)\<rparr>))"

text \<open>The databases are no concern of Redis.\<close>

definition db_part :: "world \<Rightarrow> database \<times> database option \<times> bool" where
  "db_part w = (pool_db w, tx_db w, tx_failed w)"

lemma db_part_simps [simp]:
  "db_part (tick w) = db_part w" "db_part (w\<lparr>redis := r\<rparr>) = db_part w"
  "db_part (w\<lparr>cache_hits := n\<rparr>) = db_part w" "db_part (w\<lparr>cache_misses := n\<rparr>) = db_part w"
  "db_part (w\<lparr>published := p\<rparr>) = db_part w"
  by (simp_all add: db_part_def)

definition db_free :: "'a io \<Rightarrow> bool" where
  "db_free m \<longleftrightarrow> (\<forall>w. db_part (snd (m w)) = db_part w)"

lemma db_free_redis [simp]:
  "db_free (redis_set E k v ttl)" "db_free (redis_get E k)" "db_free (redis_getdel E k)"
  "db_free (redis_del E k)"
  by (auto simp: db_free_def redis_set_def redis_get_def redis_getdel_def redis_del_def split: option.splits)

lemma db_freeD: "db_free m \<Longrightarrow> m w = (r, w') \<Longrightarrow> pool_db w' = pool_db w \<and> view cx w' = view cx w"
  unfolding db_free_def db_part_def view_def by (metis (no_types, lifting) prod.inject snd_conv)

lemma db_free_bind:
  assumes "db_free m" "\<And>x. db_free (f x)"
  shows "db_free (bindE m f)"
  unfolding db_free_def
proof
  fix w
  show "db_part (snd (bindE m f w)) = db_part w"
    using assms by (cases "m w"; cases "fst (m w)") (auto simp: db_free_def bindE_def, (metis snd_conv)+)
qed

lemma db_free_basic [simp]:
  "db_free (ret x)" "db_free (raise e)" "db_free (now E)" "db_free (new_id E)" "db_free (rand_read E n)"
  by (simp_all add: db_free_def ret_def raise_def)

lemma db_free_attempt [simp]: "db_free (attempt m) = db_free m" "db_free (tryM m) = db_free m"
  "db_free (or_err e m) = db_free m"
  by (simp_all add: db_free_def)

text \<open>A predicate on the databases is kept by whatever leaves them alone.\<close>

lemma keeps_db_free [keeps_rules]: "db_free m \<Longrightarrow> keeps (dbs I) m"
  unfolding keeps_def db_free_def dbs_def db_part_def by (metis prod.inject)

section \<open>JSON\<close>

text \<open>Values are stored as JSON, whose encoder replaces bytes that are not UTF-8 in strings.\<close>

definition json_challenge :: "challenge \<Rightarrow> challenge" where
  "json_challenge c = \<lparr> chToken = json_string (chToken c), chIdentityID = json_string (chIdentityID c),
     chTenantID = json_string (chTenantID c), chUserID = json_string (chUserID c),
     chIPAddress = json_string (chIPAddress c), chUserAgent = json_string (chUserAgent c),
     chExpiresAt = chExpiresAt c \<rparr>"

definition json_code :: "auth_code \<Rightarrow> auth_code" where
  "json_code c = \<lparr> acCode = json_string (acCode c), acClientID = json_string (acClientID c),
     acTenantID = json_string (acTenantID c), acIdentityID = json_string (acIdentityID c),
     acUserID = json_string (acUserID c), acScopes = map json_string (acScopes c),
     acRedirectURI = json_string (acRedirectURI c), acCodeChallenge = json_string (acCodeChallenge c),
     acCodeChallengeMethod = json_string (acCodeChallengeMethod c), acNonce = json_string (acNonce c),
     acExpiresAt = acExpiresAt c \<rparr>"

definition json_principal :: "principal \<Rightarrow> principal" where
  "json_principal p = \<lparr> prSessionID = json_string (prSessionID p), prIdentityID = json_string (prIdentityID p),
     prTenantID = json_string (prTenantID p), prUserID = json_string (prUserID p),
     prEmail = json_string (prEmail p), prRoles = map json_string (prRoles p),
     prPermissions = map json_string (prPermissions p) \<rparr>"

section \<open>The one-shot stores\<close>

definition challengePrefix :: string where "challengePrefix = ''mfa:challenge:''"
definition codePrefix :: string where "codePrefix = ''oauth:code:''"
definition webauthnPrefix :: string where "webauthnPrefix = ''webauthn:session:''"
definition cachePrefix :: string where "cachePrefix = ''auth:principal:''"

definition ChallengeStore_Store :: "env \<Rightarrow> challenge \<Rightarrow> unit io" where
  "ChallengeStore_Store E c =
     redis_set E (challengePrefix @ chToken c) (RvChallenge (json_challenge c)) (5 * minute)"

text \<open>\<^verbatim>\<open>GETDEL\<close>: a missing or expired key is \<open>ErrNotFound\<close>; a value of another kind fails to decode.\<close>

definition consume :: "env \<Rightarrow> string \<Rightarrow> (redis_value \<Rightarrow> 'v option) \<Rightarrow> 'v io" where
  "consume E key decode =
     bindE (attempt (redis_getdel E key)) (\<lambda>r.
       case r of
         Inl e \<Rightarrow> raise (if e = RedisNil then ErrNotFound else e)
       | Inr v \<Rightarrow> (case decode v of None \<Rightarrow> raise ErrJSON | Some x \<Rightarrow> ret x))"

fun as_challenge :: "redis_value \<Rightarrow> challenge option" where
  "as_challenge (RvChallenge c) = Some c"
| "as_challenge _ = None"

fun as_code :: "redis_value \<Rightarrow> auth_code option" where
  "as_code (RvCode c) = Some c"
| "as_code _ = None"

fun as_wa_session :: "redis_value \<Rightarrow> wa_session option" where
  "as_wa_session (RvWaSession c) = Some c"
| "as_wa_session _ = None"

fun as_principal :: "redis_value \<Rightarrow> principal option" where
  "as_principal (RvPrincipal c) = Some c"
| "as_principal _ = None"

definition ChallengeStore_Consume :: "env \<Rightarrow> string \<Rightarrow> challenge io" where
  "ChallengeStore_Consume E token = consume E (challengePrefix @ token) as_challenge"

definition CodeStore_Store :: "env \<Rightarrow> auth_code \<Rightarrow> unit io" where
  "CodeStore_Store E code =
     bindE (now E) (\<lambda>now.
       let ttl = acExpiresAt code - now in
       if ttl \<le> 0 then raise (ErrMsg ''code already expired'')
       else redis_set E (codePrefix @ acCode code) (RvCode (json_code code)) ttl)"

definition CodeStore_Consume :: "env \<Rightarrow> string \<Rightarrow> auth_code io" where
  "CodeStore_Consume E code = consume E (codePrefix @ code) as_code"

definition WaSessionStore_Store :: "env \<Rightarrow> string \<Rightarrow> wa_session \<Rightarrow> unit io" where
  "WaSessionStore_Store E key data = redis_set E (webauthnPrefix @ key) (RvWaSession data) (5 * minute)"

definition WaSessionStore_Consume :: "env \<Rightarrow> string \<Rightarrow> wa_session io" where
  "WaSessionStore_Consume E key = consume E (webauthnPrefix @ key) as_wa_session"

section \<open>The principal cache\<close>

definition cache_miss :: "(principal option) io" where
  "cache_miss w = (Inr None, w\<lparr>cache_misses := cache_misses w + 1\<rparr>)"

definition cache_hit :: "principal \<Rightarrow> (principal option) io" where
  "cache_hit p w = (Inr (Some p), w\<lparr>cache_hits := cache_hits w + 1\<rparr>)"

text \<open>\<^verbatim>\<open>cached\<close> says whether the cache was built with a Redis client; a nil cache holds nothing.\<close>

definition PrincipalCache_Get :: "env \<Rightarrow> bool \<Rightarrow> string \<Rightarrow> (principal option) io" where
  "PrincipalCache_Get E cached sessionID =
     (if \<not> cached then ret None
      else bindE (attempt (redis_get E (cachePrefix @ sessionID))) (\<lambda>r.
             case r of
               Inl _ \<Rightarrow> cache_miss
             | Inr v \<Rightarrow> (case as_principal v of None \<Rightarrow> cache_miss | Some p \<Rightarrow> cache_hit p)))"

definition PrincipalCache_Put :: "env \<Rightarrow> bool \<Rightarrow> principal \<Rightarrow> unit io" where
  "PrincipalCache_Put E cached p =
     (if \<not> cached \<or> prSessionID p = [] then ret ()
      else tryM (redis_set E (cachePrefix @ prSessionID p) (RvPrincipal (json_principal p)) (5 * minute)))"

definition PrincipalCache_Delete :: "env \<Rightarrow> bool \<Rightarrow> string \<Rightarrow> unit io" where
  "PrincipalCache_Delete E cached sessionID =
     (if \<not> cached then ret () else tryM (redis_del E (cachePrefix @ sessionID)))"

lemma db_free_consume [simp]: "db_free (consume E key decode)"
  unfolding consume_def by (intro db_free_bind) (auto split: sum.split option.split)

lemma db_free_stores [simp]:
  "db_free (ChallengeStore_Store E c)" "db_free (ChallengeStore_Consume E t)" "db_free (CodeStore_Store E code)"
  "db_free (CodeStore_Consume E t)" "db_free (WaSessionStore_Store E t data)" "db_free (WaSessionStore_Consume E t)"
  "db_free (PrincipalCache_Get E b s)" "db_free (PrincipalCache_Put E b p)" "db_free (PrincipalCache_Delete E b s)"
proof -
  have "db_free cache_miss" "\<And>p. db_free (cache_hit p)"
    by (simp_all add: db_free_def cache_miss_def cache_hit_def)
  then show "db_free (PrincipalCache_Get E b s)"
    unfolding PrincipalCache_Get_def
    by (cases b) (auto intro!: db_free_bind split: sum.split option.split)
qed (auto simp: ChallengeStore_Store_def ChallengeStore_Consume_def CodeStore_Store_def CodeStore_Consume_def
    WaSessionStore_Store_def WaSessionStore_Consume_def PrincipalCache_Put_def PrincipalCache_Delete_def Let_def
    intro!: db_free_bind)

section \<open>The contract of a one-shot store\<close>

text \<open>\<open>StoreOp k v\<close> puts a value under a key, \<open>ConsumeOp k\<close> takes it.\<close>

datatype ('k, 'v) store_op = StoreOp 'k 'v | ConsumeOp 'k

fun run_ops :: "('k \<Rightarrow> 'v \<Rightarrow> unit io) \<Rightarrow> ('k \<Rightarrow> 'v io) \<Rightarrow> ('k, 'v) store_op list \<Rightarrow> world \<Rightarrow> world" where
  "run_ops put get [] w = w"
| "run_ops put get (StoreOp k v # ops) w = run_ops put get ops (snd (put k v w))"
| "run_ops put get (ConsumeOp k # ops) w = run_ops put get ops (snd (get k w))"

fun stores_key :: "'k \<Rightarrow> ('k, 'v) store_op \<Rightarrow> bool" where
  "stores_key k (StoreOp k' v) \<longleftrightarrow> k' = k"
| "stores_key k (ConsumeOp k') \<longleftrightarrow> False"

locale one_shot =
  fixes put :: "'k \<Rightarrow> 'v \<Rightarrow> unit io" and get :: "'k \<Rightarrow> 'v io" and holds :: "'k \<Rightarrow> world \<Rightarrow> bool"
  assumes get_needs: "get k w = (Inr v, w') \<Longrightarrow> holds k w"
    and get_removes: "get k w = (Inr v, w') \<Longrightarrow> \<not> holds k w'"
    and get_adds_none: "\<not> holds k w \<Longrightarrow> \<not> holds k (snd (get k' w))"
    and put_adds_one: "k' \<noteq> k \<Longrightarrow> \<not> holds k w \<Longrightarrow> \<not> holds k (snd (put k' v w))"
begin

lemma run_ops_adds_none:
  "\<not> holds k w \<Longrightarrow> \<forall>op \<in> set ops. \<not> stores_key k op \<Longrightarrow> \<not> holds k (run_ops put get ops w)"
proof (induction ops arbitrary: w)
  case Nil
  then show ?case by simp
next
  case (Cons op ops)
  then show ?case
    using get_adds_none put_adds_one by (cases op) auto
qed

text \<open>What was taken once is not taken again, whatever else is stored and taken meanwhile.\<close>

lemma no_replay:
  assumes "get k w = (Inr v, w')" "\<forall>op \<in> set ops. \<not> stores_key k op"
  shows "get k (run_ops put get ops w') \<noteq> (Inr v', w'')"
  using run_ops_adds_none [OF get_removes [OF assms(1)] assms(2)] get_needs by blast

lemma only_stored_is_taken:
  assumes "\<not> holds k w" "get k (run_ops put get ops w) = (Inr v, w')"
  shows "\<exists>op \<in> set ops. stores_key k op"
  using run_ops_adds_none [OF assms(1)] get_needs [OF assms(2)] by blast

end

text \<open>A Redis key is set, expired or not.\<close>

definition key_set :: "string \<Rightarrow> world \<Rightarrow> bool" where
  "key_set key w \<longleftrightarrow> redis w key \<noteq> None"

lemma redis_getdel_InrD:
  "redis_getdel E key w = (Inr v, w') \<Longrightarrow>
     redis_live E w key = Some v \<and> w' = (tick w)\<lparr>redis := (redis w)(key := None)\<rparr>"
  by (auto simp: redis_getdel_def split: option.splits)

lemma redis_getdel_state:
  "redis (snd (redis_getdel E key w)) = redis w \<or> redis (snd (redis_getdel E key w)) = (redis w)(key := None)"
  by (auto simp: redis_getdel_def split: option.splits)

lemma redis_set_state:
  "redis (snd (redis_set E key v ttl w)) = redis w \<or>
     (\<exists>t. redis (snd (redis_set E key v ttl w)) = (redis w)(key \<mapsto> (v, t)))"
  by (auto simp: redis_set_def split: option.splits)

lemma consume_InrD:
  assumes "consume E key decode w = (Inr x, w')"
  shows "\<exists>v. redis_live E w key = Some v \<and> decode v = Some x \<and> w' = (tick w)\<lparr>redis := (redis w)(key := None)\<rparr>"
proof -
  obtain r w1 where g: "redis_getdel E key w = (r, w1)"
    by fastforce
  obtain v where r: "r = Inr v"
    using assms g by (cases r) (auto simp: consume_def bindE_def attempt_def raise_def)
  then have "decode v = Some x" "w' = w1"
    using assms g by (auto simp: consume_def bindE_def attempt_def raise_def ret_def split: option.splits)
  then show ?thesis
    using redis_getdel_InrD [OF g [unfolded r]] by blast
qed

lemma consume_state:
  "redis (snd (consume E key decode w)) = redis w \<or> redis (snd (consume E key decode w)) = (redis w)(key := None)"
proof -
  obtain r w1 where g: "redis_getdel E key w = (r, w1)"
    by fastforce
  have "snd (consume E key decode w) = w1"
    using g by (auto simp: consume_def bindE_def attempt_def raise_def ret_def split: sum.splits option.splits)
  then show ?thesis
    using redis_getdel_state [of E key w] g by simp
qed

lemma consume_adds_none: "\<not> key_set k w \<Longrightarrow> \<not> key_set k (snd (consume E k' decode w))"
  using consume_state [of E k' decode w] by (metis fun_upd_def key_set_def)

lemma set_adds_one: "k' \<noteq> k \<Longrightarrow> \<not> key_set k w \<Longrightarrow> \<not> key_set k (snd (redis_set E k' v ttl w))"
  using redis_set_state [of E k' v ttl w] by (metis fun_upd_def key_set_def)

lemma key_set_tick [simp]: "key_set k (tick w) = key_set k w"
  by (simp add: key_set_def)

lemma consume_key:
  assumes "consume E k decode w = (Inr x, w')"
  shows "key_set k w" "\<not> key_set k w'"
  using consume_InrD [OF assms] by (auto simp: key_set_def redis_live_def split: option.splits)

lemma CodeStore_Store_adds_one:
  assumes "codePrefix @ acCode c \<noteq> k" "\<not> key_set k w"
  shows "\<not> key_set k (snd (CodeStore_Store E c w))"
  using set_adds_one [OF assms(1), where w = "tick w"] assms(2)
  by (simp add: CodeStore_Store_def bindE_def now_def Let_def raise_def)

interpretation challenges: one_shot "\<lambda>k c. ChallengeStore_Store E (c\<lparr>chToken := k\<rparr>)"
    "ChallengeStore_Consume E" "\<lambda>k. key_set (challengePrefix @ k)" for E
  unfolding ChallengeStore_Consume_def ChallengeStore_Store_def
  by unfold_locales (erule consume_key(1), erule consume_key(2), erule consume_adds_none, rule set_adds_one, simp_all)

interpretation codes: one_shot "\<lambda>k c. CodeStore_Store E (c\<lparr>acCode := k\<rparr>)"
    "CodeStore_Consume E" "\<lambda>k. key_set (codePrefix @ k)" for E
  unfolding CodeStore_Consume_def
  by unfold_locales (erule consume_key(1), erule consume_key(2), erule consume_adds_none,
      rule CodeStore_Store_adds_one, simp_all)

interpretation ceremonies: one_shot "WaSessionStore_Store E" "WaSessionStore_Consume E"
    "\<lambda>k. key_set (webauthnPrefix @ k)" for E
  unfolding WaSessionStore_Consume_def WaSessionStore_Store_def
  by unfold_locales (erule consume_key(1), erule consume_key(2), erule consume_adds_none, rule set_adds_one, simp_all)

section \<open>Which kind of value a key holds\<close>

fun prefix_of :: "redis_value \<Rightarrow> string" where
  "prefix_of (RvChallenge _) = challengePrefix"
| "prefix_of (RvCode _) = codePrefix"
| "prefix_of (RvWaSession _) = webauthnPrefix"
| "prefix_of (RvPrincipal _) = cachePrefix"

definition redis_typed :: "world \<Rightarrow> bool" where
  "redis_typed w \<longleftrightarrow> (\<forall>k v t. redis w k = Some (v, t) \<longrightarrow> has_prefix k (prefix_of v))"

lemmas prefix_defs = challengePrefix_def codePrefix_def webauthnPrefix_def cachePrefix_def

lemma redis_typed_kind:
  assumes "redis_typed w" "redis w k = Some (v, t)"
  shows "has_prefix k challengePrefix \<Longrightarrow> \<exists>c. v = RvChallenge c"
    and "has_prefix k codePrefix \<Longrightarrow> \<exists>c. v = RvCode c"
    and "has_prefix k webauthnPrefix \<Longrightarrow> \<exists>c. v = RvWaSession c"
    and "has_prefix k cachePrefix \<Longrightarrow> \<exists>p. v = RvPrincipal p"
proof -
  have "has_prefix k (prefix_of v)"
    using assms by (auto simp: redis_typed_def)
  then show "has_prefix k challengePrefix \<Longrightarrow> \<exists>c. v = RvChallenge c"
    and "has_prefix k codePrefix \<Longrightarrow> \<exists>c. v = RvCode c"
    and "has_prefix k webauthnPrefix \<Longrightarrow> \<exists>c. v = RvWaSession c"
    and "has_prefix k cachePrefix \<Longrightarrow> \<exists>p. v = RvPrincipal p"
    by (cases v; auto simp: has_prefix_iff prefix_defs)+
qed

lemma typed_set:
  "has_prefix k (prefix_of v) \<Longrightarrow> redis_typed w \<Longrightarrow> redis_typed (snd (redis_set E k v ttl w))"
  using redis_set_state [of E k v ttl w] by (auto simp: redis_typed_def split: if_splits)

lemma typed_tick [simp]: "redis_typed (tick w) = redis_typed w"
  by (simp add: redis_typed_def)

lemma typed_unset: "redis_typed w \<Longrightarrow> redis w' = redis w \<or> redis w' = (redis w)(k := None) \<Longrightarrow> redis_typed w'"
  by (auto simp: redis_typed_def split: if_splits)

lemma keeps_typed_set: "has_prefix k (prefix_of v) \<Longrightarrow> keeps redis_typed (redis_set E k v ttl)"
  by (rule keepsI) (rule typed_set)

lemma keeps_typed_basic: "keeps redis_typed (now E)" "keeps redis_typed (redis_get E k)"
  "keeps redis_typed (redis_del E k)" "keeps redis_typed (consume E k decode)"
  "keeps redis_typed cache_miss" "keeps redis_typed (cache_hit p)"
proof -
  show "keeps redis_typed (redis_del E k)"
    by (rule keepsI) (auto simp: redis_typed_def redis_del_def split: option.splits)
  show "keeps redis_typed (consume E k decode)"
    by (rule keepsI) (rule typed_unset [OF _ consume_state])
  show "keeps redis_typed (redis_get E k)"
    by (rule keepsI) (auto simp: redis_typed_def redis_get_def split: option.splits)
qed (auto simp: keeps_def redis_typed_def cache_miss_def cache_hit_def)

lemma keeps_typed_stores [keeps_rules]:
  "keeps redis_typed (ChallengeStore_Store E c)" "keeps redis_typed (ChallengeStore_Consume E t)"
  "keeps redis_typed (CodeStore_Store E code)" "keeps redis_typed (CodeStore_Consume E t)"
  "keeps redis_typed (WaSessionStore_Store E t data)" "keeps redis_typed (WaSessionStore_Consume E t)"
  "keeps redis_typed (PrincipalCache_Get E b s)" "keeps redis_typed (PrincipalCache_Put E b p)"
  "keeps redis_typed (PrincipalCache_Delete E b s)"
  unfolding ChallengeStore_Store_def ChallengeStore_Consume_def CodeStore_Store_def CodeStore_Consume_def
    WaSessionStore_Store_def WaSessionStore_Consume_def PrincipalCache_Get_def PrincipalCache_Put_def
    PrincipalCache_Delete_def Let_def
  by (intro keeps_rules keeps_typed_basic keeps_typed_set; simp)+

section \<open>Properties\<close>

text \<open>
  An authorization code is redeemed at most once: after it was consumed, consuming it again
  fails, whatever other codes are stored and consumed in between.
\<close>

theorem code_redeemed_once:
  assumes "CodeStore_Consume E code w = (Inr c, w')"
    and "\<forall>op \<in> set ops. \<not> stores_key code op"
  shows "CodeStore_Consume E code
           (run_ops (\<lambda>k c. CodeStore_Store E (c\<lparr>acCode := k\<rparr>)) (CodeStore_Consume E) ops w') \<noteq> (Inr c', w'')"
  using assms by (rule codes.no_replay)

definition demo_code :: auth_code where
  "demo_code = \<lparr> acCode = ''abc'', acClientID = ''cl'', acTenantID = ''t-a'', acIdentityID = ''i-a'',
     acUserID = ''u-a'', acScopes = [''openid''], acRedirectURI = ''https://app/cb'', acCodeChallenge = ''ch'',
     acCodeChallengeMethod = ''S256'', acNonce = [], acExpiresAt = 60000000000 \<rparr>"

definition demo_code_world :: world where
  "demo_code_world = demo_world\<lparr>redis := [''oauth:code:abc'' \<mapsto> (RvCode demo_code, 60000000000)]\<rparr>"

lemma demo_consume:
  "CodeStore_Consume demo_env ''abc'' demo_code_world =
     (Inr demo_code, (tick demo_code_world)\<lparr>redis := Map.empty\<rparr>)"
  by (simp add: CodeStore_Consume_def consume_def run_simps redis_getdel_def redis_live_def codePrefix_def
      demo_code_world_def demo_world_def)

theorem code_redeemed_once_witness:
  "\<not> (\<exists>c' w''. CodeStore_Consume demo_env ''abc'' (run_ops (\<lambda>k c. CodeStore_Store demo_env (c\<lparr>acCode := k\<rparr>))
     (CodeStore_Consume demo_env) [StoreOp ''xyz'' demo_code, ConsumeOp ''xyz'']
     ((tick demo_code_world)\<lparr>redis := Map.empty\<rparr>)) = (Inr c', w''))"
  using code_redeemed_once [OF demo_consume, of "[StoreOp ''xyz'' demo_code, ConsumeOp ''xyz'']"] by simp

text \<open>
  An MFA challenge is answered at most once: after its token was consumed, consuming it again
  fails, whatever other challenges are stored and consumed in between.
\<close>

theorem challenge_answered_once:
  assumes "ChallengeStore_Consume E token w = (Inr c, w')"
    and "\<forall>op \<in> set ops. \<not> stores_key token op"
  shows "ChallengeStore_Consume E token
           (run_ops (\<lambda>k c. ChallengeStore_Store E (c\<lparr>chToken := k\<rparr>)) (ChallengeStore_Consume E) ops w')
         \<noteq> (Inr c', w'')"
  using assms by (rule challenges.no_replay)

definition demo_challenge :: challenge where
  "demo_challenge = \<lparr> chToken = ''tok'', chIdentityID = ''i-a'', chTenantID = ''t-a'', chUserID = ''u-a'',
     chIPAddress = ''10.0.0.1'', chUserAgent = ''ua'', chExpiresAt = 300000000000 \<rparr>"

definition demo_challenge_world :: world where
  "demo_challenge_world =
     demo_world\<lparr>redis := [''mfa:challenge:tok'' \<mapsto> (RvChallenge demo_challenge, 300000000000)]\<rparr>"

lemma demo_consume_challenge:
  "ChallengeStore_Consume demo_env ''tok'' demo_challenge_world =
     (Inr demo_challenge, (tick demo_challenge_world)\<lparr>redis := Map.empty\<rparr>)"
  by (simp add: ChallengeStore_Consume_def consume_def run_simps redis_getdel_def redis_live_def
      challengePrefix_def demo_challenge_world_def demo_world_def)

theorem challenge_answered_once_witness:
  "\<not> (\<exists>c' w''. ChallengeStore_Consume demo_env ''tok'' (run_ops (\<lambda>k c. ChallengeStore_Store demo_env (c\<lparr>chToken := k\<rparr>))
     (ChallengeStore_Consume demo_env) [StoreOp ''new'' demo_challenge]
     ((tick demo_challenge_world)\<lparr>redis := Map.empty\<rparr>)) = (Inr c', w''))"
  using challenge_answered_once [OF demo_consume_challenge, of "[StoreOp ''new'' demo_challenge]"] by simp

text \<open>
  C29: the four kinds of values never meet under one key: every store writes its own kind under its
  own prefix, so no read ever finds a value of another kind, and a consumer never fails to decode
  what it took.
\<close>

theorem stores_keep_kinds_apart:
  assumes "redis_typed w"
  shows "redis_typed (snd (ChallengeStore_Store E ch w)) \<and> redis_typed (snd (CodeStore_Store E code w))
       \<and> redis_typed (snd (WaSessionStore_Store E k data w)) \<and> redis_typed (snd (PrincipalCache_Put E b p w))
       \<and> redis_typed (snd (ChallengeStore_Consume E k w)) \<and> redis_typed (snd (CodeStore_Consume E k w))
       \<and> redis_typed (snd (WaSessionStore_Consume E k w)) \<and> redis_typed (snd (PrincipalCache_Get E b k w))
       \<and> redis_typed (snd (PrincipalCache_Delete E b k w))
       \<and> (CodeStore_Consume E k w = (Inl e, w') \<longrightarrow> e = ErrNotFound \<or> redis_fault E (calls w) = Some e)
       \<and> (ChallengeStore_Consume E k w = (Inl e, w') \<longrightarrow> e = ErrNotFound \<or> redis_fault E (calls w) = Some e)
       \<and> (WaSessionStore_Consume E k w = (Inl e, w') \<longrightarrow> e = ErrNotFound \<or> redis_fault E (calls w) = Some e)"
proof -
  have err: "e = ErrNotFound \<or> redis_fault E (calls w) = Some e"
    if "consume E key decode w = (Inl e, w')" "\<And>v t. redis w key = Some (v, t) \<Longrightarrow> decode v \<noteq> None"
    for key :: string and decode :: "redis_value \<Rightarrow> 'v option"
    using that by (auto simp: consume_def bindE_def attempt_def raise_def ret_def redis_getdel_def redis_live_def
        split: option.splits if_splits prod.splits)
  note kinds = redis_typed_kind [OF assms]
  show ?thesis
  proof (intro conjI keeps_snd [where I = redis_typed] keeps_typed_stores impI assms)
    show "e = ErrNotFound \<or> redis_fault E (calls w) = Some e" if "CodeStore_Consume E k w = (Inl e, w')"
      using err [OF that [unfolded CodeStore_Consume_def]] kinds(2) by fastforce
    show "e = ErrNotFound \<or> redis_fault E (calls w) = Some e" if "ChallengeStore_Consume E k w = (Inl e, w')"
      using err [OF that [unfolded ChallengeStore_Consume_def]] kinds(1) by fastforce
    show "e = ErrNotFound \<or> redis_fault E (calls w) = Some e" if "WaSessionStore_Consume E k w = (Inl e, w')"
      using err [OF that [unfolded WaSessionStore_Consume_def]] kinds(3) by fastforce
  qed
qed

theorem stores_keep_kinds_apart_witness:
  "redis_typed (snd (CodeStore_Consume demo_env ''abc'' demo_code_world))"
proof -
  have "redis_typed demo_code_world"
    by (simp add: redis_typed_def demo_code_world_def codePrefix_def has_prefix_def)
  from stores_keep_kinds_apart [OF this] show ?thesis
    by blast
qed

end
