(* ===== verification/Janus_Token.thy ===== *)
theory Janus_Token
  imports Janus_Sql Janus_Http Janus_Store
begin

text \<open>
  \<^verbatim>\<open>internal/token\<close> and \<^verbatim>\<open>cmd/key-rotator\<close>: the repository of signing keys, issuing and verifying
  access tokens, generating and rotating keys, and the JWKS document. The JWT, PEM and X.509
  libraries are parameters; \<open>jwt_library\<close> and \<open>x509_library\<close> state what the code relies on.
\<close>

section \<open>Signing keys\<close>

definition newest_first :: "signing_key list \<Rightarrow> signing_key list" where
  "newest_first = sort_key (\<lambda>k. - skCreatedAt k)"

text \<open>\<^verbatim>\<open>if errors.Is(err, pgx.ErrNoRows) { return nil, ErrNotFound }\<close>\<close>

definition no_rows_not_found :: "'a io \<Rightarrow> 'a io" where
  "no_rows_not_found m =
     bindE (attempt m) (\<lambda>r. case r of
         Inl e \<Rightarrow> raise (if errors_is e ErrNoRows then ErrNotFound else e)
       | Inr x \<Rightarrow> ret x)"

definition KeyRepo_GetActive :: "env \<Rightarrow> ctx \<Rightarrow> signing_key io" where
  "KeyRepo_GetActive E cx =
     no_rows_not_found (query_first E cx newest_first (\<lambda>d. Inr (filter skIsActive (signing_keys d))))"

definition KeyRepo_GetByID :: "env \<Rightarrow> ctx \<Rightarrow> string \<Rightarrow> signing_key io" where
  "KeyRepo_GetByID E cx kid =
     no_rows_not_found (query_row E cx (\<lambda>d. Inr (filter (\<lambda>k. skID k = kid) (signing_keys d))))"

definition KeyRepo_Create :: "env \<Rightarrow> ctx \<Rightarrow> signing_key \<Rightarrow> unit io" where
  "KeyRepo_Create E cx key =
     exec_sql E cx (cast_row (pg_signing_key E (key\<lparr>skRotatedAt := None\<rparr>)) ins_signing_key)"

definition deactivate :: "time \<Rightarrow> signing_key \<Rightarrow> signing_key" where
  "deactivate t k = k\<lparr>skIsActive := False, skRotatedAt := Some t\<rparr>"

definition KeyRepo_DeactivateAll :: "env \<Rightarrow> ctx \<Rightarrow> unit io" where
  "KeyRepo_DeactivateAll E cx w =
     exec_sql E cx (upd_signing_keys skIsActive (deactivate (db_now E (calls w)))) w"

text \<open>This loop does read \<^verbatim>\<open>rows.Err()\<close>: a broken result is an error.\<close>

definition KeyRepo_ListPublic :: "env \<Rightarrow> ctx \<Rightarrow> signing_key list io" where
  "KeyRepo_ListPublic E cx w =
     bindE (fetch E cx newest_first
        (\<lambda>d. Inr (filter (\<lambda>k. case skRotatedAt k of None \<Rightarrow> True
                              | Some t \<Rightarrow> t > db_now E (calls w) - 7 * 24 * hour) (signing_keys d))))
       (\<lambda>ks. case row_cut E (calls w) of None \<Rightarrow> ret ks | Some _ \<Rightarrow> raise ErrConn) w"

section \<open>Parsing keys\<close>

definition parsePrivateKey :: "env \<Rightarrow> signing_key \<Rightarrow> error + (priv_key \<times> string)" where
  "parsePrivateKey E k =
     (case pem_decode E (skPrivateKey k) of
        None \<Rightarrow> Inl (ErrMsg ''invalid private key PEM'')
      | Some (_, block) \<Rightarrow>
          if skAlgorithm k = ''ES256'' then
            (case x509_parse_ec_private E block of
               Some priv \<Rightarrow> Inr (priv, ''ES256'')
             | None \<Rightarrow>
                 (case x509_parse_pkcs8_private E block of
                    None \<Rightarrow> Inl ErrLibrary
                  | Some (ECPriv x y d) \<Rightarrow> Inr (ECPriv x y d, ''ES256'')
                  | Some _ \<Rightarrow> Inl (ErrMsg ''not an ECDSA key'')))
          else if skAlgorithm k = ''RS256'' then
            (case x509_parse_pkcs1_private E block of
               Some priv \<Rightarrow> Inr (priv, ''RS256'')
             | None \<Rightarrow>
                 (case x509_parse_pkcs8_private E block of
                    None \<Rightarrow> Inl ErrLibrary
                  | Some (RSAPriv n e d) \<Rightarrow> Inr (RSAPriv n e d, ''RS256'')
                  | Some _ \<Rightarrow> Inl (ErrMsg ''not an RSA key'')))
          else Inl (ErrMsg (''unsupported algorithm: '' @ skAlgorithm k)))"

definition parsePublicKey :: "env \<Rightarrow> signing_key \<Rightarrow> error + (pub_key \<times> string)" where
  "parsePublicKey E k =
     (case pem_decode E (skPublicKey k) of
        None \<Rightarrow> Inl (ErrMsg ''invalid public key PEM'')
      | Some (_, block) \<Rightarrow>
          (case x509_parse_pkix_public E block of
             None \<Rightarrow> Inl ErrLibrary
           | Some pub \<Rightarrow>
               if skAlgorithm k = ''ES256'' then
                 (case pub of ECPub x y \<Rightarrow> Inr (pub, ''ES256'')
                  | _ \<Rightarrow> Inl (ErrMsg ''not an ECDSA public key''))
               else if skAlgorithm k = ''RS256'' then
                 (case pub of RSAPub n e \<Rightarrow> Inr (pub, ''RS256'')
                  | _ \<Rightarrow> Inl (ErrMsg ''not an RSA public key''))
               else Inl (ErrMsg (''unsupported algorithm: '' @ skAlgorithm k))))"

section \<open>Issuing and verifying\<close>

record issue_options =
  ioAudience :: "string list"
  ioTTL :: time
  ioNonce :: string

definition claims_for :: "env \<Rightarrow> string \<Rightarrow> principal \<Rightarrow> issue_options \<Rightarrow> time \<Rightarrow> string \<Rightarrow> claims" where
  "claims_for E issuer p opts at jti = \<lparr> clIssuer = issuer, clSubject = prIdentityID p,
     clAudience = ioAudience opts, clIssuedAt = jwt_date E at, clExpiresAt = jwt_date E (at + ioTTL opts),
     clNotBefore = jwt_date E at, clID = jti, clTenantID = prTenantID p, clUserID = prUserID p,
     clSessionID = prSessionID p, clEmail = prEmail p, clRoles = prRoles p,
     clPermissions = prPermissions p, clNonce = ioNonce opts \<rparr>"

definition JWT_Issue :: "env \<Rightarrow> string \<Rightarrow> ctx \<Rightarrow> principal \<Rightarrow> issue_options \<Rightarrow> string io" where
  "JWT_Issue E issuer cx p opts =
     bindE (attempt (KeyRepo_GetActive E cx)) (\<lambda>r. case r of
       Inl e \<Rightarrow> raise (Wrapped ''no active signing key'' e)
     | Inr key \<Rightarrow>
         bindE (now E) (\<lambda>now.
         bindE (new_id E) (\<lambda>jti.
         bindE (of_result (parsePrivateKey E key)) (\<lambda>(signer, meth).
           case jwt_sign E meth signer (skID key) (claims_for E issuer p opts now jti) of
             None \<Rightarrow> raise ErrLibrary
           | Some token \<Rightarrow> ret token))))"

text \<open>
  \<^verbatim>\<open>jwt.ParseWithClaims\<close> with the key function of \<^verbatim>\<open>Verify\<close>: the token is taken apart, its algorithm
  checked against the two allowed ones, the key fetched by the \<^verbatim>\<open>kid\<close> header, the signature checked,
  then the claims against the clock. Every failure is \<open>ErrUnauthorized\<close>.
\<close>

definition JWT_Verify :: "env \<Rightarrow> ctx \<Rightarrow> string \<Rightarrow> claims io" where
  "JWT_Verify E cx tokenStr = or_err ErrUnauthorized
     (case jwt_unverified E tokenStr of
        None \<Rightarrow> raise ErrLibrary
      | Some (alg, kid, claims) \<Rightarrow>
          if alg \<notin> {''ES256'', ''RS256''} then raise ErrLibrary
          else if kid = [] then raise (ErrMsg ''missing kid header'')
          else
            bindE (KeyRepo_GetByID E cx kid) (\<lambda>key.
            bindE (of_result (parsePublicKey E key)) (\<lambda>(pub, _).
              if \<not> jwt_signature_ok E alg tokenStr pub then raise ErrLibrary
              else bindE (now E) (\<lambda>now.
                     if jwt_claims_valid E claims now then ret claims else raise ErrLibrary))))"

text \<open>The principal \<^verbatim>\<open>fromBearer\<close> builds from verified claims.\<close>

definition principal_of_claims :: "claims \<Rightarrow> principal" where
  "principal_of_claims c = \<lparr> prSessionID = clSessionID c, prIdentityID = clSubject c,
     prTenantID = clTenantID c, prUserID = clUserID c, prEmail = clEmail c, prRoles = clRoles c,
     prPermissions = clPermissions c \<rparr>"

section \<open>Key generation and rotation\<close>

definition generateES256 :: "env \<Rightarrow> signing_key io" where
  "generateES256 E w =
     (case ecdsa_generate E (calls w) of
        None \<Rightarrow> (Inl ErrRandom, tick w)
      | Some (x, y, d) \<Rightarrow>
          (case x509_marshal_ec_private E (ECPriv x y d) of
             None \<Rightarrow> (Inl ErrLibrary, tick w)
           | Some privBytes \<Rightarrow>
               (case x509_marshal_pkix_public E (ECPub x y) of
                  None \<Rightarrow> (Inl ErrLibrary, tick w)
                | Some pubBytes \<Rightarrow>
                    bindE (new_id E) (\<lambda>kid. bindE (now E) (\<lambda>now.
                      ret \<lparr> skID = kid, skAlgorithm = ''ES256'',
                            skPublicKey = pem_encode E ''PUBLIC KEY'' pubBytes,
                            skPrivateKey = pem_encode E ''EC PRIVATE KEY'' privBytes,
                            skIsActive = True, skCreatedAt = now, skRotatedAt = None \<rparr>)) (tick w))))"

definition generateRS256 :: "env \<Rightarrow> signing_key io" where
  "generateRS256 E w =
     (case rsa_generate E (calls w) 2048 of
        None \<Rightarrow> (Inl ErrRandom, tick w)
      | Some (n, e, d) \<Rightarrow>
          (case x509_marshal_pkix_public E (RSAPub n e) of
             None \<Rightarrow> (Inl ErrLibrary, tick w)
           | Some pubBytes \<Rightarrow>
               bindE (new_id E) (\<lambda>kid. bindE (now E) (\<lambda>now.
                 ret \<lparr> skID = kid, skAlgorithm = ''RS256'',
                       skPublicKey = pem_encode E ''PUBLIC KEY'' pubBytes,
                       skPrivateKey = pem_encode E ''RSA PRIVATE KEY'' (x509_marshal_pkcs1_private E (RSAPriv n e d)),
                       skIsActive = True, skCreatedAt = now, skRotatedAt = None \<rparr>)) (tick w)))"

definition GenerateKey :: "env \<Rightarrow> string \<Rightarrow> signing_key io" where
  "GenerateKey E algorithm =
     (if algorithm = ''ES256'' then generateES256 E
      else if algorithm = ''RS256'' then generateRS256 E
      else raise (ErrMsg (''unsupported algorithm: '' @ algorithm)))"

text \<open>\<^verbatim>\<open>main\<close> of the key rotator after it has connected; an error ends the process.\<close>

definition rotate_key :: "env \<Rightarrow> string \<Rightarrow> unit io" where
  "rotate_key E alg =
     bindE (GenerateKey E alg) (\<lambda>key.
     bindE (KeyRepo_DeactivateAll E background) (\<lambda>_.
       KeyRepo_Create E background key))"

section \<open>JWKS\<close>

record jwk =
  jwKty :: string
  jwUse :: string
  jwAlg :: string
  jwKid :: string
  jwCrv :: string
  jwX :: string
  jwY :: string
  jwN :: string
  jwE :: string

text \<open>\<^verbatim>\<open>big.Int.Bytes\<close>: the big-endian bytes of a number without leading zeros.\<close>

fun big_bytes :: "nat \<Rightarrow> byte list" where
  "big_bytes n = (if n = 0 then [] else big_bytes (n div 256) @ [word_of_nat (n mod 256)])"

declare big_bytes.simps [simp del]

text \<open>The loop of \<^verbatim>\<open>bigIntBytes\<close>; a number that is not positive gives the single byte 0.\<close>

fun big_int_loop :: "nat \<Rightarrow> byte list \<Rightarrow> byte list" where
  "big_int_loop n b = (if 0 < n then big_int_loop (n div 256) (word_of_nat (n mod 256) # b) else b)"

declare big_int_loop.simps [simp del]

definition bigIntBytes :: "int \<Rightarrow> byte list" where
  "bigIntBytes n = (let b = big_int_loop (nat n) [] in if b = [] then [0] else b)"

definition toJWK :: "env \<Rightarrow> signing_key \<Rightarrow> error + jwk" where
  "toJWK E k =
     (case pem_decode E (skPublicKey k) of
        None \<Rightarrow> Inl ErrBodyNotAllowed
      | Some (_, block) \<Rightarrow>
          (case x509_parse_pkix_public E block of
             None \<Rightarrow> Inl ErrLibrary
           | Some pub \<Rightarrow>
               if skAlgorithm k = ''ES256'' then
                 (case pub of
                    ECPub x y \<Rightarrow> Inr \<lparr> jwKty = ''EC'', jwUse = ''sig'', jwAlg = ''ES256'', jwKid = skID k,
                      jwCrv = ''P-256'', jwX = raw_url_encode (big_bytes x), jwY = raw_url_encode (big_bytes y),
                      jwN = [], jwE = [] \<rparr>
                  | _ \<Rightarrow> Inl ErrBodyNotAllowed)
               else if skAlgorithm k = ''RS256'' then
                 (case pub of
                    RSAPub n e \<Rightarrow> Inr \<lparr> jwKty = ''RSA'', jwUse = ''sig'', jwAlg = ''RS256'', jwKid = skID k,
                      jwCrv = [], jwX = [], jwY = [], jwN = raw_url_encode (big_bytes n),
                      jwE = raw_url_encode (bigIntBytes (int e)) \<rparr>
                  | _ \<Rightarrow> Inl ErrBodyNotAllowed)
               else Inl ErrBodyNotAllowed))"

fun jwks_of :: "env \<Rightarrow> signing_key list \<Rightarrow> jwk list" where
  "jwks_of E [] = []"
| "jwks_of E (k # ks) = (case toJWK E k of Inl _ \<Rightarrow> jwks_of E ks | Inr j \<Rightarrow> j # jwks_of E ks)"

definition JWKS_handler :: "env \<Rightarrow> jwk list handler" where
  "JWKS_handler E cx =
     serve (KeyRepo_ListPublic E cx) (\<lambda>keys. Json 200 (jwks_of E keys)) (\<lambda>_. HttpError 500 ''internal error'')"

section \<open>What the operations keep\<close>

lemma keeps_no_rows_not_found: "keeps I m \<Longrightarrow> keeps I (no_rows_not_found m)"
  unfolding no_rows_not_found_def by (intro keeps_rules)

lemma keeps_key_reads [keeps_rules]:
  "keeps (dbs I) (KeyRepo_GetActive E cx)" "keeps (dbs I) (KeyRepo_GetByID E cx kid)"
  unfolding KeyRepo_GetActive_def KeyRepo_GetByID_def
  by (intro keeps_no_rows_not_found keeps_rules)+

lemma keeps_JWT_Issue:
  assumes "keeps I (KeyRepo_GetActive E cx)" "keeps I (now E)" "keeps I (new_id E)"
  shows "keeps I (JWT_Issue E issuer cx p opts)"
  unfolding JWT_Issue_def by (intro keeps_rules assms)

lemma keeps_JWT_Verify:
  assumes "\<And>kid. keeps I (KeyRepo_GetByID E cx kid)" "keeps I (now E)"
  shows "keeps I (JWT_Verify E cx tok)"
  unfolding JWT_Verify_def by (intro keeps_rules assms)

lemma keeps_dbs_jwt [keeps_rules]:
  "keeps (dbs I) (JWT_Issue E issuer cx p opts)" "keeps (dbs I) (JWT_Verify E cx tok)"
  by (intro keeps_JWT_Issue keeps_JWT_Verify keeps_rules)+

lemma db_free_GenerateKey: "db_free (GenerateKey E alg)"
proof -
  have "db_free (generateES256 E)" "db_free (generateRS256 E)"
    by (auto simp: db_free_def generateES256_def generateRS256_def Let_def ret_def split: option.split prod.split)
  then show ?thesis
    by (auto simp: GenerateKey_def)
qed

context db_law_all
begin

lemma keeps_key_writes [keeps_rules]:
  "keeps (dbs I) (KeyRepo_Create E cx k)" "keeps (dbs I) (KeyRepo_DeactivateAll E cx)"
proof -
  show "keeps (dbs I) (KeyRepo_Create E cx k)"
    unfolding KeyRepo_Create_def by (rule keeps_cast, erule (1) law_ins_signing_key)
  have "keeps (dbs I) (exec_sql E cx (upd_signing_keys P (deactivate t)))" for P t
    by (rule keeps_dbs_exec, erule (1) law_signing_keys) (simp add: deactivate_def)
  then show "keeps (dbs I) (KeyRepo_DeactivateAll E cx)"
    by (intro keepsI) (unfold KeyRepo_DeactivateAll_def, erule keeps_snd [rotated])
qed

lemma keeps_rotate_key [keeps_rules]: "keeps (dbs I) (rotate_key E alg)"
  unfolding rotate_key_def by (intro keeps_bindE keeps_key_writes keeps_db_free [OF db_free_GenerateKey])

end

text \<open>Reads of the database leave the data alone, whatever they return.\<close>

lemma no_rows_not_found_InrD: "no_rows_not_found m w = (Inr x, w') \<Longrightarrow> m w = (Inr x, w')"
  by (cases "m w"; cases "fst (m w)") (auto simp: no_rows_not_found_def bindE_def attempt_def)

lemma GetActive_InrD:
  assumes "KeyRepo_GetActive E cx w = (Inr k, w')"
  shows "w' = tick w \<and> k \<in> set (signing_keys (view cx w)) \<and> skIsActive k"
proof -
  obtain p ys where "w' = tick w" "newest_first (permute p (filter skIsActive (signing_keys (view cx w)))) = k # ys"
    using query_first_InrD [OF no_rows_not_found_InrD [OF assms [unfolded KeyRepo_GetActive_def]]] by auto
  moreover have "set (newest_first xs) = set xs" for xs
    by (simp add: newest_first_def)
  ultimately show ?thesis
    by (metis (no_types, lifting) filter_is_subset list.set_intros(1) mem_Collect_eq set_filter set_permute)
qed

lemma KeyRepo_GetByID_InrD:
  assumes "KeyRepo_GetByID E cx kid w = (Inr k, w')"
  shows "w' = tick w \<and> k \<in> set (signing_keys (view cx w)) \<and> skID k = kid"
  using query_row_InrD [OF no_rows_not_found_InrD [OF assms [unfolded KeyRepo_GetByID_def]]] by auto

lemma JWT_Issue_InrD:
  assumes "JWT_Issue E issuer cx p opts w = (Inr tok, w')"
  shows "\<exists>key priv meth. w' = tick (tick (tick w)) \<and> key \<in> set (signing_keys (view cx w)) \<and> skIsActive key
     \<and> parsePrivateKey E key = Inr (priv, meth)
     \<and> jwt_sign E meth priv (skID key)
          (claims_for E issuer p opts (clock_at E (Suc (calls w))) (uuid_at E (Suc (Suc (calls w))))) = Some tok"
proof -
  obtain r w1 where ga: "KeyRepo_GetActive E cx w = (r, w1)"
    by fastforce
  obtain key where r: "r = Inr key"
    using assms ga by (cases r) (auto simp: JWT_Issue_def bindE_def attempt_def raise_def)
  note active = GetActive_InrD [OF ga [unfolded r]]
  obtain priv meth where pk: "parsePrivateKey E key = Inr (priv, meth)"
    using assms ga r by (cases "parsePrivateKey E key")
      (auto simp: JWT_Issue_def bindE_def attempt_def now_def new_id_def of_result_def)
  have "jwt_sign E meth priv (skID key)
          (claims_for E issuer p opts (clock_at E (Suc (calls w))) (uuid_at E (Suc (Suc (calls w))))) = Some tok
      \<and> w' = tick (tick w1)"
    using assms ga r pk active
    by (auto simp: JWT_Issue_def bindE_def attempt_def now_def new_id_def of_result_def raise_def ret_def
        split: option.splits)
  then show ?thesis
    using active pk by blast
qed

lemma quiet_no_rows_not_found [quiet_rules]: "quiet m \<Longrightarrow> quiet (no_rows_not_found m)"
  unfolding no_rows_not_found_def by (intro quiet_rules)

lemma quiet_keys [quiet_rules]:
  "quiet (KeyRepo_GetActive E cx)" "quiet (KeyRepo_GetByID E cx kid)" "quiet (JWT_Issue E issuer cx p opts)"
  "quiet (JWT_Verify E cx tok)"
  unfolding JWT_Issue_def JWT_Verify_def KeyRepo_GetActive_def KeyRepo_GetByID_def by (intro quiet_rules)+

section \<open>What the libraries promise\<close>

text \<open>
  The claims after a trip through JSON. The law of the JWT library: a token it signed opens to the
  algorithm, key id and claims it was made from and its signature holds under the signer's public
  key; claims are valid from \<^verbatim>\<open>nbf\<close> until before \<^verbatim>\<open>exp\<close>; a \<^verbatim>\<open>NumericDate\<close> is not after its time.
\<close>

definition json_claims :: "claims \<Rightarrow> claims" where
  "json_claims c = \<lparr> clIssuer = json_string (clIssuer c), clSubject = json_string (clSubject c),
     clAudience = map json_string (clAudience c), clIssuedAt = clIssuedAt c, clExpiresAt = clExpiresAt c,
     clNotBefore = clNotBefore c, clID = json_string (clID c), clTenantID = json_string (clTenantID c),
     clUserID = json_string (clUserID c), clSessionID = json_string (clSessionID c),
     clEmail = json_string (clEmail c), clRoles = map json_string (clRoles c),
     clPermissions = map json_string (clPermissions c), clNonce = json_string (clNonce c) \<rparr>"

definition jwt_library :: "env \<Rightarrow> bool" where
  "jwt_library E \<longleftrightarrow>
     (\<forall>alg priv kid c tok. jwt_sign E alg priv kid c = Some tok \<longrightarrow>
        jwt_unverified E tok = Some (alg, json_string kid, json_claims c)
        \<and> jwt_signature_ok E alg tok (public_of priv))
   \<and> (\<forall>c t. jwt_claims_valid E c t \<longleftrightarrow> clNotBefore c \<le> t \<and> t < clExpiresAt c)
   \<and> (\<forall>t. jwt_date E t \<le> t)"

text \<open>A stored key whose two halves belong together; every key \<open>GenerateKey\<close> makes is one.\<close>

definition key_ok :: "env \<Rightarrow> signing_key \<Rightarrow> bool" where
  "key_ok E k \<longleftrightarrow> skID k \<noteq> [] \<and> ascii (skID k)
     \<and> (\<forall>priv alg. parsePrivateKey E k = Inr (priv, alg) \<longrightarrow> parsePublicKey E k = Inr (public_of priv, alg))"

text \<open>The laws of \<^verbatim>\<open>encoding/pem\<close> and \<^verbatim>\<open>crypto/x509\<close>: what was encoded is decoded again.\<close>

definition x509_library :: "env \<Rightarrow> bool" where
  "x509_library E \<longleftrightarrow>
     (\<forall>t b. t \<in> {''PUBLIC KEY'', ''EC PRIVATE KEY'', ''RSA PRIVATE KEY''} \<longrightarrow>
        pem_decode E (pem_encode E t b) = Some (t, b))
   \<and> (\<forall>i x y d b. ecdsa_generate E i = Some (x, y, d) \<longrightarrow> x509_marshal_ec_private E (ECPriv x y d) = Some b \<longrightarrow>
        x509_parse_ec_private E b = Some (ECPriv x y d))
   \<and> (\<forall>i x y d b. ecdsa_generate E i = Some (x, y, d) \<longrightarrow> x509_marshal_pkix_public E (ECPub x y) = Some b \<longrightarrow>
        x509_parse_pkix_public E b = Some (ECPub x y))
   \<and> (\<forall>i l n e d. rsa_generate E i l = Some (n, e, d) \<longrightarrow>
        x509_parse_pkcs1_private E (x509_marshal_pkcs1_private E (RSAPriv n e d)) = Some (RSAPriv n e d))
   \<and> (\<forall>i l n e d b. rsa_generate E i l = Some (n, e, d) \<longrightarrow> x509_marshal_pkix_public E (RSAPub n e) = Some b \<longrightarrow>
        x509_parse_pkix_public E b = Some (RSAPub n e))"

lemma x509_libraryD:
  assumes "x509_library E"
  shows "t \<in> {''PUBLIC KEY'', ''EC PRIVATE KEY'', ''RSA PRIVATE KEY''} \<Longrightarrow>
      pem_decode E (pem_encode E t b) = Some (t, b)"
    and "ecdsa_generate E i = Some (x, y, d) \<Longrightarrow> x509_marshal_ec_private E (ECPriv x y d) = Some b \<Longrightarrow>
      x509_parse_ec_private E b = Some (ECPriv x y d)"
    and "ecdsa_generate E i = Some (x, y, d) \<Longrightarrow> x509_marshal_pkix_public E (ECPub x y) = Some b \<Longrightarrow>
      x509_parse_pkix_public E b = Some (ECPub x y)"
    and "rsa_generate E i l = Some (n, e, d) \<Longrightarrow>
      x509_parse_pkcs1_private E (x509_marshal_pkcs1_private E (RSAPriv n e d)) = Some (RSAPriv n e d)"
    and "rsa_generate E i l = Some (n, e, d) \<Longrightarrow> x509_marshal_pkix_public E (RSAPub n e) = Some b \<Longrightarrow>
      x509_parse_pkix_public E b = Some (RSAPub n e)"
proof -
  note laws = assms [unfolded x509_library_def]
  show "t \<in> {''PUBLIC KEY'', ''EC PRIVATE KEY'', ''RSA PRIVATE KEY''} \<Longrightarrow>
      pem_decode E (pem_encode E t b) = Some (t, b)"
    by (rule laws [THEN conjunct1, rule_format])
  show "ecdsa_generate E i = Some (x, y, d) \<Longrightarrow> x509_marshal_ec_private E (ECPriv x y d) = Some b \<Longrightarrow>
      x509_parse_ec_private E b = Some (ECPriv x y d)"
    by (rule laws [THEN conjunct2, THEN conjunct1, rule_format])
  show "ecdsa_generate E i = Some (x, y, d) \<Longrightarrow> x509_marshal_pkix_public E (ECPub x y) = Some b \<Longrightarrow>
      x509_parse_pkix_public E b = Some (ECPub x y)"
    by (rule laws [THEN conjunct2, THEN conjunct2, THEN conjunct1, rule_format])
  show "rsa_generate E i l = Some (n, e, d) \<Longrightarrow>
      x509_parse_pkcs1_private E (x509_marshal_pkcs1_private E (RSAPriv n e d)) = Some (RSAPriv n e d)"
    by (rule laws [THEN conjunct2, THEN conjunct2, THEN conjunct2, THEN conjunct1, rule_format])
  show "rsa_generate E i l = Some (n, e, d) \<Longrightarrow> x509_marshal_pkix_public E (RSAPub n e) = Some b \<Longrightarrow>
      x509_parse_pkix_public E b = Some (RSAPub n e)"
    by (rule laws [THEN conjunct2, THEN conjunct2, THEN conjunct2, THEN conjunct2, rule_format])
qed

section \<open>Outcomes\<close>

lemma parsePublicKey_alg: "parsePublicKey E k = Inr (pub, alg) \<Longrightarrow> alg = skAlgorithm k"
  by (auto simp: parsePublicKey_def split: option.splits prod.splits if_splits pub_key.splits)

lemma parsePrivateKey_alg: "parsePrivateKey E k = Inr (priv, alg) \<Longrightarrow> alg = skAlgorithm k \<and> alg \<in> {''ES256'', ''RS256''}"
  by (auto simp: parsePrivateKey_def split: option.splits prod.splits if_splits priv_key.splits)

lemma JWT_Verify_InrD:
  assumes "JWT_Verify E cx tok w = (Inr c, w')"
  shows "\<exists>alg key pub m. jwt_unverified E tok = Some (alg, skID key, c) \<and> alg \<in> {''ES256'', ''RS256''}
     \<and> skID key \<noteq> [] \<and> key \<in> set (signing_keys (view cx w)) \<and> parsePublicKey E key = Inr (pub, m)
     \<and> jwt_signature_ok E alg tok pub \<and> jwt_claims_valid E c (clock_at E (Suc (calls w)))
     \<and> w' = tick (tick w)"
proof -
  obtain alg kid cl where un: "jwt_unverified E tok = Some (alg, kid, cl)"
    using assms by (cases "jwt_unverified E tok") (auto simp: JWT_Verify_def)
  have alg: "alg \<in> {''ES256'', ''RS256''}" and kid: "kid \<noteq> []"
    using assms un by (auto simp: JWT_Verify_def split: if_splits)
  obtain key w1 where get: "KeyRepo_GetByID E cx kid w = (Inr key, w1)"
    and rest: "bindE (of_result (parsePublicKey E key)) (\<lambda>(pub, _).
              if \<not> jwt_signature_ok E alg tok pub then raise ErrLibrary
              else bindE (now E) (\<lambda>now. if jwt_claims_valid E cl now then ret cl else raise ErrLibrary)) w1 = (Inr c, w')"
    using assms un alg kid unfolding JWT_Verify_def or_err_Inr_iff
    by (simp del: insert_iff) (auto simp: bindE_Inr_iff [of "KeyRepo_GetByID E cx kid"])
  note key = KeyRepo_GetByID_InrD [OF get]
  obtain pub m where pub: "parsePublicKey E key = Inr (pub, m)"
    using rest by (cases "parsePublicKey E key") (auto simp: bindE_def of_result_def)
  have "jwt_signature_ok E alg tok pub" "jwt_claims_valid E cl (clock_at E (Suc (calls w)))" "c = cl" "w' = tick (tick w)"
    using rest pub key by (auto simp: bindE_def of_result_def now_def split: if_splits)
  then show ?thesis
    using un alg kid key pub by blast
qed

lemma JWT_Verify_InlD: "JWT_Verify E cx tok w = (Inl e, w') \<Longrightarrow> e = ErrUnauthorized"
  by (simp add: JWT_Verify_def)

section \<open>Properties\<close>

text \<open>
  C8: an access token is accepted only if its algorithm is ES256 or RS256, its key id names a stored
  key, the signature holds under that key's public half and the clock is within its validity; the
  claims returned are the ones it carries, nothing is changed, and every failure is the one error
  \<open>ErrUnauthorized\<close>.
\<close>

theorem jwt_verify_sound:
  assumes "JWT_Verify E cx tok w = (r, w')"
  shows "case r of
           Inl e \<Rightarrow> e = ErrUnauthorized
         | Inr c \<Rightarrow> w' = tick (tick w) \<and> (\<exists>alg key pub m. jwt_unverified E tok = Some (alg, skID key, c)
             \<and> alg \<in> {''ES256'', ''RS256''} \<and> skID key \<noteq> [] \<and> key \<in> set (signing_keys (view cx w))
             \<and> parsePublicKey E key = Inr (pub, m) \<and> jwt_signature_ok E alg tok pub
             \<and> jwt_claims_valid E c (clock_at E (Suc (calls w))))"
proof (cases r)
  case (Inl e)
  then show ?thesis
    using JWT_Verify_InlD assms by auto
next
  case (Inr c)
  then show ?thesis
    using JWT_Verify_InrD [OF assms [unfolded Inr]] by auto
qed

definition demo_signing_key :: signing_key where
  "demo_signing_key = \<lparr> skID = ''k'', skAlgorithm = ''RS256'', skPublicKey = ''PUBLIC KEY|pub'',
     skPrivateKey = ''RSA PRIVATE KEY|priv'', skIsActive = True, skCreatedAt = 0, skRotatedAt = None \<rparr>"

definition demo_key_world :: world where
  "demo_key_world = world_of (demo_db\<lparr>signing_keys := [demo_signing_key]\<rparr>)"

lemma demo_parse [simp]:
  "parsePublicKey demo_env demo_signing_key = Inr (RSAPub 3233 17, ''RS256'')"
  "parsePrivateKey demo_env demo_signing_key = Inr (RSAPriv 3233 17 413, ''RS256'')"
  by (simp_all add: parsePublicKey_def parsePrivateKey_def demo_env_def demo_signing_key_def)

lemma demo_verify: "JWT_Verify demo_env background ''tok'' demo_key_world = (Inr demo_claims, tick (tick demo_key_world))"
proof -
  have "KeyRepo_GetByID demo_env background ''k'' demo_key_world = (Inr demo_signing_key, tick demo_key_world)"
    by (simp add: KeyRepo_GetByID_def no_rows_not_found_def run_simps demo_key_world_def)
      (simp add: demo_signing_key_def)
  moreover have "jwt_unverified demo_env ''tok'' = Some (''RS256'', ''k'', demo_claims)"
    "jwt_signature_ok demo_env ''RS256'' ''tok'' (RSAPub 3233 17)"
    "jwt_claims_valid demo_env demo_claims 1000000000"
    by (simp_all add: demo_env_def demo_claims_def)
  ultimately show ?thesis
    by (simp add: JWT_Verify_def bindE_def of_result_def now_def ret_def or_err_def demo_key_world_def tick_def)
qed

theorem jwt_verify_sound_witness:
  "\<exists>key. jwt_unverified demo_env ''tok'' = Some (''RS256'', skID key, demo_claims)
     \<and> key \<in> set (signing_keys (pool_db demo_key_world))"
proof -
  have "jwt_unverified demo_env ''tok'' = Some (''RS256'', ''k'', demo_claims)"
    by (simp add: demo_env_def)
  then show ?thesis
    using jwt_verify_sound [OF demo_verify] by auto
qed

text \<open>A later database still knows a key: its id is there once, with the same public half.\<close>

definition keys_kept :: "database \<Rightarrow> database \<Rightarrow> bool" where
  "keys_kept d d' \<longleftrightarrow> (\<forall>k \<in> set (signing_keys d). \<exists>k'.
     filter (\<lambda>x. skID x = skID k) (signing_keys d') = [k'] \<and> skAlgorithm k' = skAlgorithm k
     \<and> skPublicKey k' = skPublicKey k)"

lemma parsePublicKey_cong:
  "skAlgorithm k' = skAlgorithm k \<Longrightarrow> skPublicKey k' = skPublicKey k \<Longrightarrow> parsePublicKey E k' = parsePublicKey E k"
  by (simp only: parsePublicKey_def)

lemma principal_of_json_claims:
  "principal_of_claims (json_claims (claims_for E issuer p opts at jti)) = json_principal p"
  by (simp add: principal_of_claims_def json_claims_def claims_for_def json_principal_def)

lemma KeyRepo_GetByID_healthy:
  assumes "healthy E cx w" "filter (\<lambda>k. skID k = kid) (signing_keys (view cx w)) = [k]"
  shows "KeyRepo_GetByID E cx kid w = (Inr k, tick w)"
proof -
  have "query_row E cx (\<lambda>d. Inr (filter (\<lambda>k. skID k = kid) (signing_keys d))) w = (Inr k, tick w)"
    by (rule query_row_healthy [OF assms(1)]) (simp add: assms(2))
  then show ?thesis
    by (simp add: KeyRepo_GetByID_def no_rows_not_found_def ret_def)
qed

lemma JWT_Verify_eval:
  assumes "jwt_unverified E tok = Some (alg, kid, c)" "alg \<in> {''ES256'', ''RS256''}" "kid \<noteq> []"
    and "KeyRepo_GetByID E cx kid w = (Inr k, tick w)" "parsePublicKey E k = Inr (pub, m)"
    and "jwt_signature_ok E alg tok pub" "jwt_claims_valid E c (clock_at E (Suc (calls w)))"
  shows "JWT_Verify E cx tok w = (Inr c, tick (tick w))"
  using assms unfolding JWT_Verify_def or_err_Inr_iff
  by (simp del: insert_iff add: of_result_def bindE_def [of "of_result _"] now_def ret_def)

text \<open>
  C16: a token issued for a principal is accepted by every server that still has the key it was signed
  with, also after that key was rotated, from the moment it was issued until it expires, and yields
  the same principal, issuer, audience and nonce.
\<close>

theorem jwt_issue_then_verify:
  assumes "JWT_Issue E issuer cx p opts w = (Inr tok, w1)" "jwt_library E"
    and "\<forall>k \<in> set (signing_keys (view cx w)). key_ok E k"
    and "keys_kept (view cx w) (view cx2 w2)" "healthy E cx2 w2"
    and "clock_at E (Suc (calls w)) \<le> clock_at E (Suc (calls w2))"
    and "clock_at E (Suc (calls w2)) < jwt_date E (clock_at E (Suc (calls w)) + ioTTL opts)"
  shows "\<exists>c. JWT_Verify E cx2 tok w2 = (Inr c, tick (tick w2)) \<and> principal_of_claims c = json_principal p
     \<and> clIssuer c = json_string issuer \<and> clAudience c = map json_string (ioAudience opts)
     \<and> clNonce c = json_string (ioNonce opts)"
proof -
  let ?C = "claims_for E issuer p opts (clock_at E (Suc (calls w))) (uuid_at E (Suc (Suc (calls w))))"
  obtain key priv alg where key: "key \<in> set (signing_keys (view cx w))" "parsePrivateKey E key = Inr (priv, alg)"
    and signed: "jwt_sign E alg priv (skID key) ?C = Some tok"
    using JWT_Issue_InrD [OF assms(1)] by blast
  have ok: "skID key \<noteq> []" "json_string (skID key) = skID key" "parsePublicKey E key = Inr (public_of priv, alg)"
    using assms(3) key json_string_ascii by (auto simp: key_ok_def)
  have opens: "jwt_unverified E tok = Some (alg, skID key, json_claims ?C)" "jwt_signature_ok E alg tok (public_of priv)"
    using assms(2) signed ok(2) unfolding jwt_library_def by metis+
  obtain k where k: "filter (\<lambda>x. skID x = skID key) (signing_keys (view cx2 w2)) = [k]"
      "skAlgorithm k = skAlgorithm key" "skPublicKey k = skPublicKey key"
    using assms(4) key(1) unfolding keys_kept_def by blast
  have "jwt_claims_valid E (json_claims ?C) (clock_at E (Suc (calls w2)))"
    using assms(2,6,7) unfolding jwt_library_def
    by (auto simp: json_claims_def claims_for_def intro: order_trans)
  then have "JWT_Verify E cx2 tok w2 = (Inr (json_claims ?C), tick (tick w2))"
    using JWT_Verify_eval [OF opens(1) _ ok(1) KeyRepo_GetByID_healthy [OF assms(5) k(1)]]
      parsePublicKey_cong [OF k(2,3)] ok(3) opens(2) parsePrivateKey_alg [OF key(2)] by metis
  then show ?thesis
    using principal_of_json_claims by (auto simp: json_claims_def claims_for_def)
qed

definition demo_options :: issue_options where
  "demo_options = \<lparr> ioAudience = [''app''], ioTTL = 15 * minute, ioNonce = [] \<rparr>"

definition demo_issued :: claims where
  "demo_issued = claims_for demo_env ''iss'' demo_principal demo_options 1000000000 (''id-'' @ itoa 2)"

definition demo_jwt_env :: env where
  "demo_jwt_env = demo_env\<lparr>jwt_sign := (\<lambda>alg priv kid c.
       if (alg, priv, kid, c) = (''RS256'', RSAPriv 3233 17 413, ''k'', demo_issued) then Some ''tok'' else None),
     jwt_unverified := (\<lambda>_. Some (''RS256'', ''k'', json_claims demo_issued))\<rparr>"

lemma demo_jwt_env_simps [simp]:
  "db_fault demo_jwt_env n = None" "clock_at demo_jwt_env n = int n * 1000000000" "jwt_date demo_jwt_env t = t"
  "uuid_at demo_jwt_env n = ''id-'' @ itoa n" "row_order demo_jwt_env n = []"
  by (simp_all add: demo_jwt_env_def demo_env_def)

lemma demo_jwt_parse [simp]:
  "parsePublicKey demo_jwt_env demo_signing_key = Inr (RSAPub 3233 17, ''RS256'')"
  "parsePrivateKey demo_jwt_env demo_signing_key = Inr (RSAPriv 3233 17 413, ''RS256'')"
  by (simp_all add: parsePublicKey_def parsePrivateKey_def demo_jwt_env_def demo_env_def demo_signing_key_def)

lemma demo_jwt_library: "jwt_library demo_jwt_env"
  by (simp add: jwt_library_def demo_jwt_env_def demo_env_def json_string_ascii ascii_def)

lemma demo_key_ok: "key_ok demo_jwt_env demo_signing_key"
  by (simp add: key_ok_def) (simp add: demo_signing_key_def ascii_def)

lemma demo_issue:
  "JWT_Issue demo_jwt_env ''iss'' background demo_principal demo_options demo_key_world =
     (Inr ''tok'', tick (tick (tick demo_key_world)))"
proof -
  have "KeyRepo_GetActive demo_jwt_env background demo_key_world = (Inr demo_signing_key, tick demo_key_world)"
    by (simp add: KeyRepo_GetActive_def no_rows_not_found_def query_first_def run_simps demo_key_world_def newest_first_def)
      (simp add: demo_signing_key_def)
  moreover have "claims_for demo_jwt_env ''iss'' demo_principal demo_options 1000000000 (''id-'' @ itoa 2) = demo_issued"
    by (simp add: demo_issued_def claims_for_def) (simp add: demo_env_def)
  moreover have "jwt_sign demo_jwt_env ''RS256'' (RSAPriv 3233 17 413) ''k'' demo_issued = Some ''tok''"
    by (simp add: demo_jwt_env_def)
  ultimately show ?thesis
    by (simp add: JWT_Issue_def bindE_def attempt_def of_result_def now_def new_id_def ret_def demo_key_world_def
        tick_def eval_nat_numeral)
      (simp add: demo_signing_key_def)
qed

theorem jwt_issue_then_verify_witness:
  "\<exists>c w'. JWT_Verify demo_jwt_env background ''tok'' (demo_key_world\<lparr>calls := 500\<rparr>) = (Inr c, w')
     \<and> principal_of_claims c = json_principal demo_principal"
proof -
  let ?w2 = "demo_key_world\<lparr>calls := 500\<rparr>"
  have keys: "signing_keys (view background demo_key_world) = [demo_signing_key]"
      "signing_keys (view background ?w2) = [demo_signing_key]"
    by (simp_all add: demo_key_world_def)
  have "\<forall>k \<in> set (signing_keys (view background demo_key_world)). key_ok demo_jwt_env k"
    using demo_key_ok keys by simp
  moreover have "keys_kept (view background demo_key_world) (view background ?w2)"
    using keys by (simp add: keys_kept_def)
  moreover have "healthy demo_jwt_env background ?w2"
    by (simp add: healthy_def)
  moreover have "clock_at demo_jwt_env (Suc (calls demo_key_world)) \<le> clock_at demo_jwt_env (Suc (calls ?w2))"
    "clock_at demo_jwt_env (Suc (calls ?w2)) <
       jwt_date demo_jwt_env (clock_at demo_jwt_env (Suc (calls demo_key_world)) + ioTTL demo_options)"
    by (simp_all add: demo_key_world_def demo_options_def duration_defs)
  ultimately show ?thesis
    using jwt_issue_then_verify [OF demo_issue demo_jwt_library] by blast
qed

lemma GenerateKey_state: "GenerateKey E alg w = (r, w') \<Longrightarrow> pool_db w' = pool_db w"
  by (auto simp: GenerateKey_def generateES256_def generateRS256_def bindE_def now_def new_id_def ret_def
      split: option.splits if_splits)

lemma GenerateKey_InrD:
  assumes "GenerateKey E alg w = (Inr k, w')"
  shows "skIsActive k \<and> skAlgorithm k = alg \<and> skRotatedAt k = None \<and> (\<exists>n. skID k = uuid_at E n)"
  using assms
  by (auto simp: GenerateKey_def generateES256_def generateRS256_def bindE_def now_def new_id_def
      split: option.splits if_splits)

lemma GenerateKey_parses:
  assumes "GenerateKey E alg w = (Inr k, w')" "x509_library E"
  shows "\<exists>priv. parsePrivateKey E k = Inr (priv, alg) \<and> parsePublicKey E k = Inr (public_of priv, alg)"
proof -
  note laws = x509_libraryD [OF assms(2)]
  consider "alg = ''ES256''" "generateES256 E w = (Inr k, w')" | "alg = ''RS256''" "generateRS256 E w = (Inr k, w')"
    using assms(1) by (auto simp: GenerateKey_def split: if_splits)
  then show ?thesis
  proof cases
    case 1
    then obtain x y d pb qb where "ecdsa_generate E (calls w) = Some (x, y, d)"
        "x509_marshal_ec_private E (ECPriv x y d) = Some pb" "x509_marshal_pkix_public E (ECPub x y) = Some qb"
        "skAlgorithm k = ''ES256''" "skPublicKey k = pem_encode E ''PUBLIC KEY'' qb"
        "skPrivateKey k = pem_encode E ''EC PRIVATE KEY'' pb"
      by (auto simp: generateES256_def bindE_def now_def new_id_def split: option.splits)
    then show ?thesis
      using 1(1) laws(2,3)
      by (intro exI [of _ "ECPriv x y d"]) (simp add: parsePrivateKey_def parsePublicKey_def laws(1))
  next
    case 2
    then obtain n e d qb where "rsa_generate E (calls w) 2048 = Some (n, e, d)"
        "x509_marshal_pkix_public E (RSAPub n e) = Some qb"
        "skAlgorithm k = ''RS256''" "skPublicKey k = pem_encode E ''PUBLIC KEY'' qb"
        "skPrivateKey k = pem_encode E ''RSA PRIVATE KEY'' (x509_marshal_pkcs1_private E (RSAPriv n e d))"
      by (auto simp: generateRS256_def bindE_def now_def new_id_def split: option.splits)
    then show ?thesis
      using 2(1) laws(4,5)
      by (intro exI [of _ "RSAPriv n e d"]) (simp add: parsePrivateKey_def parsePublicKey_def laws(1))
  qed
qed

text \<open>
  A generated key is active, of the asked algorithm, and its two halves parse and belong
  together, so that tokens it signs can be verified with its public half.
\<close>

theorem generate_key_pairs:
  assumes "GenerateKey E alg w = (Inr k, w')" "x509_library E"
    and "\<And>n. uuid_at E n \<noteq> [] \<and> ascii (uuid_at E n)"
  shows "key_ok E k \<and> skIsActive k \<and> skAlgorithm k = alg
     \<and> (\<exists>priv. parsePrivateKey E k = Inr (priv, alg) \<and> parsePublicKey E k = Inr (public_of priv, alg))"
proof -
  obtain priv where priv: "parsePrivateKey E k = Inr (priv, alg)" "parsePublicKey E k = Inr (public_of priv, alg)"
    using GenerateKey_parses [OF assms(1,2)] by blast
  moreover obtain n where "skID k = uuid_at E n"
    using GenerateKey_InrD [OF assms(1)] by blast
  then have "key_ok E k"
    using priv assms(3) [of n] by (simp add: key_ok_def)
  ultimately show ?thesis
    using GenerateKey_InrD [OF assms(1)] by blast
qed

definition demo_rsa_env :: env where
  "demo_rsa_env = demo_env\<lparr>ecdsa_generate := (\<lambda>_. None), uuid_at := (\<lambda>_. ''k'')\<rparr>"

lemma demo_x509: "x509_library demo_rsa_env"
  by (simp add: x509_library_def demo_rsa_env_def demo_env_def)

lemma demo_generate:
  "GenerateKey demo_rsa_env ''RS256'' demo_world =
     (Inr (demo_signing_key\<lparr>skCreatedAt := 2000000000\<rparr>), tick (tick (tick demo_world)))"
  by (simp add: GenerateKey_def generateRS256_def demo_rsa_env_def demo_env_def run_simps demo_world_def
      demo_signing_key_def)

theorem generate_key_pairs_witness:
  "\<exists>priv. parsePrivateKey demo_rsa_env (demo_signing_key\<lparr>skCreatedAt := 2000000000\<rparr>) = Inr (priv, ''RS256'')"
proof -
  have "uuid_at demo_rsa_env n \<noteq> [] \<and> ascii (uuid_at demo_rsa_env n)" for n
    by (simp add: demo_rsa_env_def ascii_def)
  from generate_key_pairs [OF demo_generate demo_x509 this] show ?thesis
    by blast
qed

text \<open>What \<^verbatim>\<open>DeactivateAll\<close> makes of the stored keys.\<close>

definition deactivated :: "time \<Rightarrow> signing_key list \<Rightarrow> signing_key list" where
  "deactivated t ks = map (\<lambda>k. if skIsActive k then deactivate t k else k) ks"

lemma deactivated_simps:
  "filter skIsActive (deactivated t ks) = []" "map skID (deactivated t ks) = map skID ks"
  by (auto simp: deactivated_def deactivate_def filter_empty_conv)

lemma DeactivateAll_outcome:
  assumes "KeyRepo_DeactivateAll E background w = (r, w')"
  shows "case r of Inl _ \<Rightarrow> pool_db w' = pool_db w
    | Inr _ \<Rightarrow> w' = (tick w)\<lparr>pool_db := (pool_db w)\<lparr>signing_keys := deactivated (db_now E (calls w)) (signing_keys (pool_db w))\<rparr>\<rparr>"
  using assms
  by (auto simp: KeyRepo_DeactivateAll_def exec_sql_def upd_signing_keys_def deactivated_def split: option.splits)

lemma KeyRepo_Create_outcome:
  assumes "KeyRepo_Create E background k w = (r, w')"
  shows "case r of Inl _ \<Rightarrow> pool_db w' = pool_db w
    | Inr _ \<Rightarrow> skID k \<notin> skID ` set (signing_keys (pool_db w)) \<and> pool_db w' = (pool_db w)\<lparr>signing_keys :=
        signing_keys (pool_db w) @ [k\<lparr>skRotatedAt := None, skCreatedAt := pg_time E (skCreatedAt k)\<rparr>]\<rparr>"
proof (cases r)
  case (Inl e)
  then show ?thesis
    using exec_sql_InlD assms by (fastforce simp: KeyRepo_Create_def same_data_def)
next
  case (Inr u)
  then show ?thesis
    using exec_cast_InrD [OF assms [unfolded Inr KeyRepo_Create_def]]
    by (auto simp: pg_signing_key_def ins_signing_key_def)
qed

lemma keys_kept_extend:
  assumes "unique skID (signing_keys d)" "signing_keys d' = deactivated t (signing_keys d) @ [k]"
    and "skID k \<notin> skID ` set (deactivated t (signing_keys d))"
  shows "keys_kept d d'"
  unfolding keys_kept_def
proof
  fix x assume x: "x \<in> set (signing_keys d)"
  let ?x = "if skIsActive x then deactivate t x else x"
  have "?x \<in> set (deactivated t (signing_keys d))" "skID ?x = skID x"
    using x by (auto simp: deactivated_def deactivate_def)
  moreover have "distinct (map skID (deactivated t (signing_keys d)))"
    using assms(1) by (simp add: deactivated_simps unique_def)
  ultimately have "filter (\<lambda>y. skID y = skID x) (deactivated t (signing_keys d)) = [?x]"
    using filter_unique_key [of skID "deactivated t (signing_keys d)" ?x] by simp
  moreover have "skID k \<noteq> skID x"
    using assms(3) x by (metis deactivated_simps(2) image_eqI set_map)
  ultimately show "\<exists>k'. filter (\<lambda>y. skID y = skID x) (signing_keys d') = [k'] \<and> skAlgorithm k' = skAlgorithm x
      \<and> skPublicKey k' = skPublicKey x"
    using assms(2) by (auto simp: deactivate_def)
qed

text \<open>Inserting a new key after the old ones were deactivated.\<close>

lemma insert_rotated:
  assumes "KeyRepo_Create E background k w2 = (Inr u, w')" "unique skID (signing_keys d)"
    and "pool_db w2 = d\<lparr>signing_keys := deactivated t (signing_keys d)\<rparr>" "skIsActive k"
  shows "\<exists>k'. filter skIsActive (signing_keys (pool_db w')) = [k'] \<and> skAlgorithm k' = skAlgorithm k
     \<and> signing_keys (pool_db w') = deactivated t (signing_keys d) @ [k'] \<and> keys_kept d (pool_db w')"
proof -
  let ?k = "k\<lparr>skRotatedAt := None, skCreatedAt := pg_time E (skCreatedAt k)\<rparr>"
  have new: "skID ?k \<notin> skID ` set (deactivated t (signing_keys d))"
      "signing_keys (pool_db w') = deactivated t (signing_keys d) @ [?k]"
    using KeyRepo_Create_outcome [OF assms(1)] assms(3) by simp_all
  then have "keys_kept d (pool_db w')"
    using assms(2) by (metis keys_kept_extend)
  moreover have "filter skIsActive (signing_keys (pool_db w')) = [?k]"
    using assms(4) unfolding new(2) filter_append deactivated_simps by simp
  ultimately show ?thesis
    using new(2) by (intro exI [of _ ?k]) simp
qed

text \<open>
  C25: a rotation that succeeds leaves exactly one active key, the new one, and keeps every older key,
  inactive, under its id with its public half, so that tokens it signed still verify. A rotation that
  fails changes nothing or, when the insert fails after the deactivation, leaves no active key.
\<close>

theorem rotate_key_outcomes:
  assumes "rotate_key E alg w = (r, w')" "integrity (pool_db w)"
  shows "case r of
           Inr _ \<Rightarrow> \<exists>k t. filter skIsActive (signing_keys (pool_db w')) = [k] \<and> skAlgorithm k = alg
             \<and> signing_keys (pool_db w') = deactivated t (signing_keys (pool_db w)) @ [k]
             \<and> keys_kept (pool_db w) (pool_db w')
         | Inl _ \<Rightarrow> pool_db w' = pool_db w \<or> filter skIsActive (signing_keys (pool_db w')) = []"
proof -
  obtain rg w1 where gen: "GenerateKey E alg w = (rg, w1)"
    by fastforce
  obtain rd w2 where deact: "KeyRepo_DeactivateAll E background w1 = (rd, w2)"
    by fastforce
  note g = GenerateKey_state [OF gen]
  note d = DeactivateAll_outcome [OF deact]
  show ?thesis
  proof (cases "\<exists>k u. rg = Inr k \<and> rd = Inr u")
    case False
    then have "pool_db w' = pool_db w \<and> (\<exists>e. r = Inl e)"
      using assms(1) gen deact g d
      by (cases rg; cases rd) (auto simp: rotate_key_def bindE_def)
    then show ?thesis
      by auto
  next
    case True
    then obtain k where k: "rg = Inr k" and ins: "KeyRepo_Create E background k w2 = (r, w')"
      using assms(1) gen deact by (auto simp: rotate_key_def bindE_def)
    define t where "t = db_now E (calls w1)"
    have w2: "pool_db w2 = (pool_db w)\<lparr>signing_keys := deactivated t (signing_keys (pool_db w))\<rparr>"
      using d True g by (auto simp: t_def)
    show ?thesis
    proof (cases r)
      case (Inl e)
      then show ?thesis
        using KeyRepo_Create_outcome [OF ins] w2 by (simp add: deactivated_simps)
    next
      case (Inr u)
      have "unique skID (signing_keys (pool_db w))"
        using assms(2) by (simp add: integrity_def)
      from insert_rotated [OF ins [unfolded Inr] this w2] show ?thesis
        using GenerateKey_InrD [OF gen [unfolded k]] unfolding Inr sum.case by blast
    qed
  qed
qed

text \<open>A rotation whose insert fails.\<close>

definition demo_gap_env :: env where
  "demo_gap_env = demo_env\<lparr>db_fault := (\<lambda>n. if n = 4 then Some ErrConn else None)\<rparr>"

definition demo_gap_world :: world where
  "demo_gap_world = (tick (tick (tick (tick (tick demo_key_world)))))\<lparr>pool_db :=
     demo_db\<lparr>signing_keys := [deactivate 3000000000 demo_signing_key]\<rparr>\<rparr>"

lemma demo_rotation_gap: "rotate_key demo_gap_env ''RS256'' demo_key_world = (Inl ErrConn, demo_gap_world)"
  by (simp add: rotate_key_def GenerateKey_def generateRS256_def KeyRepo_DeactivateAll_def KeyRepo_Create_def
      run_simps demo_gap_env_def demo_env_def demo_key_world_def demo_gap_world_def upd_signing_keys_def)
    (simp add: demo_signing_key_def)

lemma demo_integrity_keys: "integrity (pool_db demo_key_world)"
  by (simp add: integrity_def unique_def refers_def has_key_def orphaned_def demo_key_world_def demo_db_def demo_tenant_def
      user_membership_def user_login_def role_name_key_def rp_key_def ur_key_def)

theorem rotate_key_outcomes_witness:
  "pool_db demo_gap_world = pool_db demo_key_world \<or> filter skIsActive (signing_keys (pool_db demo_gap_world)) = []"
  using rotate_key_outcomes [OF demo_rotation_gap demo_integrity_keys] by simp

text \<open>
  Without an active signing key no token can be issued: \<^verbatim>\<open>Issue\<close> fails before it reads the
  clock. This is the state a failed rotation can leave.
\<close>

theorem issue_needs_active_key:
  assumes "filter skIsActive (signing_keys (view cx w)) = []"
  shows "\<exists>e. JWT_Issue E issuer cx p opts w = (Inl (Wrapped ''no active signing key'' e), snd (KeyRepo_GetActive E cx w))"
proof -
  obtain r w1 where ga: "KeyRepo_GetActive E cx w = (r, w1)"
    by fastforce
  have "r \<noteq> Inr k" for k
  proof
    assume "r = Inr k"
    then have "k \<in> set (filter skIsActive (signing_keys (view cx w)))"
      using GetActive_InrD [of E cx w k w1] ga by simp
    then show False
      using assms by simp
  qed
  then obtain e where "r = Inl e"
    by (cases r) auto
  then show ?thesis
    using ga by (simp add: JWT_Issue_def bindE_def attempt_def raise_def)
qed

theorem issue_needs_active_key_witness:
  "\<exists>e. fst (JWT_Issue demo_env ''iss'' background demo_principal demo_options demo_gap_world) = Inl e"
proof -
  have "filter skIsActive (signing_keys (view background demo_gap_world)) = []"
    by (simp add: demo_gap_world_def deactivate_def)
  from issue_needs_active_key [OF this, of demo_env "''iss''" demo_principal demo_options] show ?thesis
    by (metis fst_conv)
qed

text \<open>The number a byte string denotes, most significant byte first.\<close>

definition be_value :: "byte list \<Rightarrow> nat" where
  "be_value bs = foldl (\<lambda>a b. 256 * a + unat b) 0 bs"

lemma be_value_simps [simp]: "be_value [] = 0" "be_value (bs @ [b]) = 256 * be_value bs + unat b"
  by (simp_all add: be_value_def)

lemma big_bytes_0 [simp]: "big_bytes 0 = []"
  by (subst big_bytes.simps) simp

lemma big_bytes_pos: "0 < n \<Longrightarrow> big_bytes n = big_bytes (n div 256) @ [word_of_nat (n mod 256)]"
  by (subst big_bytes.simps) simp

lemma big_bytes_value: "be_value (big_bytes n) = n"
proof (induction n rule: big_bytes.induct)
  case (1 n)
  have "unat (word_of_nat (n mod 256) :: byte) = n mod 256"
    by (simp add: unat_of_nat)
  then show ?case
    using 1 by (cases "n = 0") (auto simp: big_bytes_pos)
qed

lemma big_bytes_length: "length (big_bytes n) \<le> k \<longleftrightarrow> n < 256 ^ k"
proof (induction n arbitrary: k rule: big_bytes.induct)
  case (1 n)
  show ?case
  proof (cases "n = 0")
    case False
    then show ?thesis
    proof (cases k)
      case 0
      then show ?thesis
        using False by (simp add: big_bytes_pos)
    next
      case (Suc j)
      have "length (big_bytes (n div 256)) \<le> j \<longleftrightarrow> n div 256 < 256 ^ j"
        using 1 False by simp
      also have "\<dots> \<longleftrightarrow> n < 256 ^ Suc j"
        by (auto simp: div_less_iff_less_mult mult.commute)
      finally show ?thesis
        using False Suc by (simp add: big_bytes_pos)
    qed
  qed simp
qed

lemma big_bytes_hd: "0 < n \<Longrightarrow> hd (big_bytes n) \<noteq> 0"
proof (induction n rule: big_bytes.induct)
  case (1 n)
  show ?case
  proof (cases "n div 256 = 0")
    case True
    then have "n mod 256 = n" "n < 256"
      by auto
    moreover have "unat (word_of_nat n :: byte) = n"
      using \<open>n < 256\<close> by (simp add: unat_of_nat)
    ultimately show ?thesis
      using 1(2) True by (auto simp: big_bytes_pos)
  next
    case False
    then have "big_bytes (n div 256) \<noteq> []"
      using big_bytes_pos [of "n div 256"] by simp
    moreover have "hd (big_bytes (n div 256)) \<noteq> 0"
      using 1 False by simp
    ultimately show ?thesis
      using big_bytes_pos [OF 1(2)] by simp
  qed
qed

lemma big_int_loop_bytes: "big_int_loop n b = big_bytes n @ b"
proof (induction n b rule: big_int_loop.induct)
  case (1 n b)
  then show ?case
    by (subst big_int_loop.simps) (simp add: big_bytes_pos)
qed

text \<open>
  C40: \<^verbatim>\<open>bigIntBytes\<close>, the loop that encodes an RSA exponent, yields the big-endian digits of its
  argument: reading them back gives the number (0 for a negative one), the first byte is zero only
  for 0, and there are at most \<open>k\<close> bytes exactly when the number is below \<open>256 ^ k\<close>.
\<close>

theorem big_int_bytes_digits:
  "be_value (bigIntBytes n) = nat n \<and> bigIntBytes n \<noteq> []
     \<and> (hd (bigIntBytes n) = 0 \<longleftrightarrow> n \<le> 0) \<and> (length (bigIntBytes n) \<le> Suc k \<longleftrightarrow> nat n < 256 ^ Suc k)"
proof (cases "0 < n")
  case True
  then have "big_bytes (nat n) \<noteq> []"
    by (simp add: big_bytes_pos)
  then have "bigIntBytes n = big_bytes (nat n)"
    by (simp add: bigIntBytes_def big_int_loop_bytes)
  then show ?thesis
    using True big_bytes_value big_bytes_hd [of "nat n"] big_bytes_length \<open>big_bytes (nat n) \<noteq> []\<close> by simp
next
  case False
  then have "bigIntBytes n = [0]"
    by (simp add: bigIntBytes_def big_int_loop_bytes)
  then show ?thesis
    using False by (simp add: be_value_def)
qed

lemma toJWK_iff: "(\<exists>j. toJWK E k = Inr j) \<longleftrightarrow> (\<exists>pub alg. parsePublicKey E k = Inr (pub, alg))"
  by (auto simp: toJWK_def parsePublicKey_def split: option.splits prod.splits pub_key.splits)


definition demo_ec_env :: env where
  "demo_ec_env = demo_env\<lparr>x509_parse_pkix_public := (\<lambda>_. Some (ECPub 5 7))\<rparr>"


end
