(* ===== verification/Janus_Steps.thy ===== *)
theory Janus_Steps
  imports Janus_Prelude
begin

text \<open>
  Requests that run at the same time. An operation as a tree of its steps, each of them one call of a
  service: \<open>steps\<close>. Running the tree alone is the operation (\<open>run_steps\<close>); a \<open>schedule\<close> runs several of them
  with their steps in any order, and lets the rest of the world move in between. What is shown of all
  schedules rests on two predicates of a tree: it keeps a state predicate at every step (\<open>safe\<close>), it succeeds
  only by taking what is there (\<open>needs\<close>).
\<close>

named_theorems safe_rules \<open>trees of steps that keep a state predicate\<close>

section \<open>Operations as trees of steps\<close>

datatype ('w, 'e, 'a) steps = Done "'e + 'a" | Step "'w \<Rightarrow> ('w, 'e, 'a) steps \<times> 'w"

primrec run_steps :: "('w, 'e, 'a) steps \<Rightarrow> ('w, 'e, 'a) comp" where
  "run_steps (Done r) = (\<lambda>w. (r, w))"
| "run_steps (Step f) = (\<lambda>w. case map_prod run_steps id (f w) of (m, w') \<Rightarrow> m w')"

primrec bindS :: "('w, 'e, 'a) steps \<Rightarrow> ('a \<Rightarrow> ('w, 'e, 'b) steps) \<Rightarrow> ('w, 'e, 'b) steps" where
  "bindS (Done r) g = (case r of Inl e \<Rightarrow> Done (Inl e) | Inr x \<Rightarrow> g x)"
| "bindS (Step f) g = Step (\<lambda>w. map_prod (\<lambda>p. bindS p g) id (f w))"

primrec attemptS :: "('w, 'e, 'a) steps \<Rightarrow> ('w, 'e, 'e + 'a) steps" where
  "attemptS (Done r) = Done (Inr r)"
| "attemptS (Step f) = Step (\<lambda>w. map_prod attemptS id (f w))"

primrec or_errS :: "'e \<Rightarrow> ('w, 'e, 'a) steps \<Rightarrow> ('w, 'e, 'a) steps" where
  "or_errS e (Done r) = Done (case r of Inl _ \<Rightarrow> Inl e | Inr x \<Rightarrow> Inr x)"
| "or_errS e (Step f) = Step (\<lambda>w. map_prod (or_errS e) id (f w))"

definition mapS :: "('a \<Rightarrow> 'b) \<Rightarrow> ('w, 'e, 'a) steps \<Rightarrow> ('w, 'e, 'b) steps" where
  "mapS f p = bindS p (\<lambda>x. Done (Inr (f x)))"

definition atomic :: "('w, 'e, 'a) comp \<Rightarrow> ('w, 'e, 'a) steps" where
  "atomic m = Step (\<lambda>w. case m w of (r, w') \<Rightarrow> (Done r, w'))"

lemma run_Step: "run_steps (Step f) w = run_steps (fst (f w)) (snd (f w))"
  by (simp add: map_prod_def split: prod.split)

lemma run_bindS [simp]: "run_steps (bindS p g) = bindE (run_steps p) (\<lambda>x. run_steps (g x))"
proof (induction p)
  case (Done r)
  then show ?case by (cases r) (auto simp: bindE_def)
next
  case (Step f)
  have "run_steps (bindS (fst (f w)) g) = bindE (run_steps (fst (f w))) (\<lambda>x. run_steps (g x))" for w
    by (rule Step.IH [of "f w"]) (auto simp: prod_set_defs fsts.simps intro: rangeI)
  then show ?case
    by (intro ext) (simp add: run_Step bindE_def del: run_steps.simps(2))
qed

lemma run_atomic [simp]: "run_steps (atomic m) = m"
  by (rule ext) (simp add: atomic_def split: prod.split)

lemma run_attemptS [simp]: "run_steps (attemptS p) = attempt (run_steps p)"
proof (induction p)
  case (Done r)
  then show ?case by (auto simp: attempt_def)
next
  case (Step f)
  have "run_steps (attemptS (fst (f w))) = attempt (run_steps (fst (f w)))" for w
    by (rule Step.IH [of "f w"]) (auto simp: prod_set_defs fsts.simps intro: rangeI)
  then show ?case
    by (intro ext) (simp add: run_Step attempt_def del: run_steps.simps(2))
qed

lemma run_or_errS [simp]: "run_steps (or_errS e p) = or_err e (run_steps p)"
proof (induction p)
  case (Done r)
  then show ?case by (cases r) (auto simp: or_err_def)
next
  case (Step f)
  have "run_steps (or_errS e (fst (f w))) = or_err e (run_steps (fst (f w)))" for w
    by (rule Step.IH [of "f w"]) (auto simp: prod_set_defs fsts.simps intro: rangeI)
  then show ?case
    by (intro ext) (simp add: run_Step or_err_def del: run_steps.simps(2))
qed

lemma bindS_assoc: "bindS (bindS p g) h = bindS p (\<lambda>x. bindS (g x) h)"
proof (induction p)
  case (Done r)
  then show ?case by (cases r) auto
next
  case (Step f)
  have "bindS (bindS (fst (f w)) g) h = bindS (fst (f w)) (\<lambda>x. bindS (g x) h)" for w
    by (rule Step.IH [of "f w"]) (auto simp: prod_set_defs fsts.simps)
  then show ?case
    by (auto simp: fun_eq_iff map_prod_def split: prod.split) (metis fst_conv)
qed

lemma mapS_bindS: "mapS f (bindS p g) = bindS p (\<lambda>x. mapS f (g x))"
  by (simp add: mapS_def bindS_assoc)

lemma mapS_Done [simp]: "mapS f (Done (Inr x)) = Done (Inr (f x))" "mapS f (Done (Inl e)) = Done (Inl e)"
  by (simp_all add: mapS_def)

lemma bindS_atomic: "bindS (atomic m) g = Step (\<lambda>w. case m w of (Inl e, w') \<Rightarrow> (Done (Inl e), w') | (Inr x, w') \<Rightarrow> (g x, w'))"
  by (auto simp: atomic_def fun_eq_iff split: prod.split sum.split)

lemma attemptS_bind: "attemptS (bindS (atomic m) g)
    = Step (\<lambda>w. case m w of (Inl e, w') \<Rightarrow> (Done (Inr (Inl e)), w') | (Inr x, w') \<Rightarrow> (attemptS (g x), w'))"
  by (auto simp: bindS_atomic fun_eq_iff split: prod.split sum.split)

section \<open>Schedules\<close>

inductive schedule ::
  "('w \<Rightarrow> 'w \<Rightarrow> bool) \<Rightarrow> ('w, 'e, 'a) steps list \<times> 'w \<Rightarrow> ('w, 'e, 'a) steps list \<times> 'w \<Rightarrow> bool" for R where
    own: "i < length ts \<Longrightarrow> ts ! i = Step f \<Longrightarrow> f w = (p, w') \<Longrightarrow> schedule R (ts, w) (ts[i := p], w')"
  | other: "R w w' \<Longrightarrow> schedule R (ts, w) (ts, w')"

inductive_cases scheduleE: "schedule R (ts, w) (ts', w')"

text \<open>One request can be run on, while the others wait.\<close>

lemma schedule_run_bind:
  "run_steps p w = (Inr x, w') \<Longrightarrow> i < length ts \<Longrightarrow> ts ! i = bindS p g \<Longrightarrow>
     (schedule R)\<^sup>*\<^sup>* (ts, w) (ts[i := g x], w')"
proof (induction p arbitrary: ts w)
  case (Done r)
  then show ?case by (cases r) (auto simp: list_update_same_conv [symmetric])
next
  case (Step f)
  let ?q = "bindS (fst (f w)) g"
  have "schedule R (ts, w) (ts[i := ?q], snd (f w))"
    by (rule own [of i ts "\<lambda>w. map_prod (\<lambda>p. bindS p g) id (f w)"])
      (use Step.prems in \<open>auto simp: map_prod_def split: prod.splits\<close>)
  also have "(schedule R)\<^sup>*\<^sup>* (ts[i := ?q], snd (f w)) (ts[i := ?q, i := g x], w')"
    by (rule Step.IH [of "f w"]) (use Step.prems in \<open>auto simp: run_Step prod_set_defs fsts.simps simp del: run_steps.simps(2)\<close>)
  finally show ?case
    by simp
qed

lemma bindS_Done [simp]: "bindS p (\<lambda>x. Done (Inr x)) = p"
proof (induction p)
  case (Done r)
  then show ?case by (cases r) auto
next
  case (Step f)
  have "bindS (fst (f w)) (\<lambda>x. Done (Inr x)) = fst (f w)" for w
    by (rule Step.IH [of "f w"]) (auto simp: prod_set_defs fsts.simps)
  then show ?case
    by (auto simp: fun_eq_iff map_prod_def split: prod.split) (metis fst_conv)
qed

lemma schedule_run:
  assumes "run_steps p w = (Inr x, w')" "i < length ts" "ts ! i = p"
  shows "(schedule R)\<^sup>*\<^sup>* (ts, w) (ts[i := Done (Inr x)], w')"
  using schedule_run_bind [OF assms(1,2), where R = R and g = "\<lambda>x. Done (Inr x)"] assms(3) by simp

text \<open>For two requests: either runs on through its first part.\<close>

lemma schedule_first:
  assumes "run_steps p w = (Inr x, w')"
  shows "(schedule R)\<^sup>*\<^sup>* ([bindS p g, t], w) ([g x, t], w')"
  using schedule_run_bind [OF assms, of 0 "[bindS p g, t]" g R] by simp

lemma schedule_second:
  assumes "run_steps p w = (Inr x, w')"
  shows "(schedule R)\<^sup>*\<^sup>* ([t, bindS p g], w) ([t, g x], w')"
  using schedule_run_bind [OF assms, of 1 "[t, bindS p g]" g R] by simp

section \<open>A state predicate every step keeps\<close>

inductive safe :: "('w \<Rightarrow> bool) \<Rightarrow> ('w, 'e, 'a) steps \<Rightarrow> bool" for J where
    safe_Done: "safe J (Done r)"
  | safe_Step: "\<forall>w. (J w \<longrightarrow> J (snd (f w))) \<and> safe J (fst (f w)) \<Longrightarrow> safe J (Step f)"

inductive_simps safe_simps [simp]: "safe J (Done r)" "safe J (Step f)"

lemma safe_bindS [safe_rules]: "safe J p \<Longrightarrow> (\<And>x. safe J (g x)) \<Longrightarrow> safe J (bindS p g)"
  by (induction rule: safe.induct) (auto split: sum.split)

lemma safe_atomic [safe_rules]: "keeps J m \<Longrightarrow> safe J (atomic m)"
  by (auto simp: atomic_def split: prod.splits dest: keepsD)

lemma safe_or_errS [safe_rules]: "safe J p \<Longrightarrow> safe J (or_errS e p)"
  by (induction rule: safe.induct) auto

lemma safe_attemptS [safe_rules]: "safe J p \<Longrightarrow> safe J (attemptS p)"
  by (induction rule: safe.induct) auto

lemma safe_mapS [safe_rules]: "safe J p \<Longrightarrow> safe J (mapS f p)"
  unfolding mapS_def by (rule safe_bindS) auto

lemma safe_if [safe_rules]: "safe J p \<Longrightarrow> safe J q \<Longrightarrow> safe J (if b then p else q)"
  by simp

lemma safe_case_sum [safe_rules]:
  "(\<And>e. safe J (f e)) \<Longrightarrow> (\<And>x. safe J (g x)) \<Longrightarrow> safe J (case r of Inl e \<Rightarrow> f e | Inr x \<Rightarrow> g x)"
  by (cases r) auto

lemma safe_case_option [safe_rules]:
  "safe J p \<Longrightarrow> (\<And>x. safe J (g x)) \<Longrightarrow> safe J (case r of None \<Rightarrow> p | Some x \<Rightarrow> g x)"
  by (cases r) auto

lemma safe_case_prod [safe_rules]: "(\<And>a b. safe J (f a b)) \<Longrightarrow> safe J (case p of (a, b) \<Rightarrow> f a b)"
  by (cases p) auto

lemmas [safe_rules] = safe_Done

lemma rtranclp_keeps: "r\<^sup>*\<^sup>* a b \<Longrightarrow> P a \<Longrightarrow> (\<And>x y. r x y \<Longrightarrow> P x \<Longrightarrow> P y) \<Longrightarrow> P b"
  by (induction rule: rtranclp_induct) blast+

lemma schedule_invariant:
  assumes "(schedule R)\<^sup>*\<^sup>* (ts, w) (ts', w')" "P ts w"
    and step: "\<And>ts w ts' w'. schedule R (ts, w) (ts', w') \<Longrightarrow> P ts w \<Longrightarrow> P ts' w'"
  shows "P ts' w'"
proof -
  have "case_prod P y" if "schedule R x y" "case_prod P x" for x y
    using that step by (cases x; cases y) simp
  from rtranclp_keeps [where P = "case_prod P", OF assms(1) _ this] show ?thesis
    using assms(2) by simp
qed

lemma safe_step:
  assumes "schedule R (ts, w) (ts', w')" "J w \<and> (\<forall>t \<in> set ts. safe J t)" "\<And>v v'. R v v' \<Longrightarrow> J v \<Longrightarrow> J v'"
  shows "J w' \<and> (\<forall>t \<in> set ts'. safe J t)"
proof -
  have own: "J w' \<and> safe J p" if "i < length ts" "ts ! i = Step f" "f w = (p, w')" for i f p
  proof -
    have "safe J (Step f)"
      using assms(2) that(1,2) nth_mem by metis
    then have "(J w \<longrightarrow> J (snd (f w))) \<and> safe J (fst (f w))"
      unfolding safe_simps by (rule spec)
    then show ?thesis
      using that(3) assms(2) by simp
  qed
  show ?thesis
    using assms(1)
  proof (rule scheduleE)
    fix i f p assume "ts' = ts[i := p]" "i < length ts" "ts ! i = Step f" "f w = (p, w')"
    then show ?thesis
      using own assms(2) set_update_subset_insert [of ts i p] by auto
  qed (use assms(2,3) in auto)
qed

lemma schedule_keeps:
  assumes "(schedule R)\<^sup>*\<^sup>* (ts, w) (ts', w')" "\<forall>t \<in> set ts. safe J t" "J w" "\<And>v v'. R v v' \<Longrightarrow> J v \<Longrightarrow> J v'"
  shows "J w'"
proof -
  have step: "J v' \<and> (\<forall>t \<in> set us'. safe J t)"
    if "schedule R (us, v) (us', v')" "J v \<and> (\<forall>t \<in> set us. safe J t)" for us v us' v'
    by (rule safe_step [OF that]) (rule assms(4))
  have "J w' \<and> (\<forall>t \<in> set ts'. safe J t)"
    by (rule schedule_invariant [where P = "\<lambda>ts w. J w \<and> (\<forall>t \<in> set ts. safe J t)", OF assms(1) _ step]) (use assms(2,3) in auto)
  then show ?thesis
    by blast
qed

section \<open>What only one can take\<close>

text \<open>\<open>H\<close>: the thing is there. An operation that \<open>needs\<close> it takes it on its way, or fails; it never puts it there.\<close>

abbreviation absent :: "('w \<Rightarrow> bool) \<Rightarrow> 'w \<Rightarrow> bool" where
  "absent H w \<equiv> \<not> H w"

inductive needs :: "('w \<Rightarrow> bool) \<Rightarrow> ('w, 'e, 'a) steps \<Rightarrow> bool" for H where
    needs_failed: "needs H (Done (Inl e))"
  | needs_Step: "\<forall>w. needs H (fst (f w)) \<and> (\<not> H w \<longrightarrow> \<not> H (snd (f w)))
      \<or> H w \<and> \<not> H (snd (f w)) \<and> safe (absent H) (fst (f w)) \<Longrightarrow> needs H (Step f)"

inductive_simps needs_simps [simp]: "needs H (Done r)" "needs H (Step f)"

text \<open>
  \<open>N\<close>: the operations that need it. \<open>h\<close>: which of them has taken it, if any has; from then on it is gone.
\<close>

definition taken_by :: "('w \<Rightarrow> bool) \<Rightarrow> nat set \<Rightarrow> ('w, 'e, 'a) steps list \<Rightarrow> 'w \<Rightarrow> nat option \<Rightarrow> bool" where
  "taken_by H N ts w h \<longleftrightarrow> (h \<noteq> None \<longrightarrow> \<not> H w)
     \<and> (\<forall>j < length ts. if j \<in> N \<and> h \<noteq> Some j then needs H (ts ! j) else safe (absent H) (ts ! j))"

lemma taken_byD:
  "taken_by H N ts w h \<Longrightarrow> j < length ts \<Longrightarrow> if j \<in> N \<and> h \<noteq> Some j then needs H (ts ! j) else safe (absent H) (ts ! j)"
  unfolding taken_by_def by blast

lemma taken_by_own:
  assumes inv: "taken_by H N ts w h" and i: "i < length ts" "ts ! i = Step f" and fw: "f w = (p, w')"
  shows "\<exists>h'. taken_by H N (ts[i := p]) w' h'"
proof (cases "i \<in> N \<and> h \<noteq> Some i")
  case True
  then have "needs H (Step f)"
    using taken_byD [OF inv i(1)] i(2) by simp
  then have "needs H (fst (f w)) \<and> (\<not> H w \<longrightarrow> \<not> H (snd (f w))) \<or> H w \<and> \<not> H (snd (f w)) \<and> safe (absent H) (fst (f w))"
    unfolding needs_simps by (rule spec)
  then consider "needs H p \<and> (\<not> H w \<longrightarrow> \<not> H w')" | "H w \<and> \<not> H w' \<and> safe (absent H) p"
    unfolding fw by auto
  then show ?thesis
  proof cases
    case 1
    then have "taken_by H N (ts[i := p]) w' h"
      using inv i(1) True by (auto simp: taken_by_def nth_list_update)
    then show ?thesis ..
  next
    case 2
    then have "taken_by H N (ts[i := p]) w' (Some i)"
      using inv i(1) by (auto simp: taken_by_def nth_list_update)
    then show ?thesis ..
  qed
next
  case False
  then have "safe (absent H) (Step f)"
    unfolding i(2) [symmetric] using taken_byD [OF inv i(1)] by (simp only: if_False)
  then have "(absent H w \<longrightarrow> absent H (snd (f w))) \<and> safe (absent H) (fst (f w))"
    unfolding safe_simps by (rule spec)
  then have "taken_by H N (ts[i := p]) w' h"
    using inv i(1) False fw by (auto simp: taken_by_def nth_list_update)
  then show ?thesis ..
qed

lemma taken_by_step:
  assumes "schedule R (ts, w) (ts', w')" "\<exists>h. taken_by H N ts w h" "\<And>v v'. R v v' \<Longrightarrow> \<not> H v \<Longrightarrow> \<not> H v'"
  shows "\<exists>h. taken_by H N ts' w' h"
  using assms(1)
proof (rule scheduleE)
  fix i f p assume own: "ts' = ts[i := p]" "i < length ts" "ts ! i = Step f" "f w = (p, w')"
  obtain h where "taken_by H N ts w h"
    using assms(2) ..
  then show ?thesis
    unfolding own(1) using own(2-4) by (rule taken_by_own)
next
  assume other: "ts' = ts" "R w w'"
  obtain h where "taken_by H N ts w h"
    using assms(2) ..
  then have "taken_by H N ts w' h"
    unfolding taken_by_def using assms(3) [OF other(2)] by simp
  then show ?thesis
    unfolding other(1) ..
qed

definition succeeded :: "('w, 'e, 'a) steps \<Rightarrow> bool" where
  "succeeded t \<longleftrightarrow> (\<exists>x. t = Done (Inr x))"

lemma at_most_one:
  assumes run: "(schedule R)\<^sup>*\<^sup>* (ts, w) (ts', w')"
    and needs: "\<And>j. j < length ts \<Longrightarrow> if j \<in> N then needs H (ts ! j) else safe (absent H) (ts ! j)"
    and others: "\<And>v v'. R v v' \<Longrightarrow> \<not> H v \<Longrightarrow> \<not> H v'"
  shows "\<exists>h. \<forall>j \<in> N. j < length ts' \<longrightarrow> succeeded (ts' ! j) \<longrightarrow> j = h"
proof -
  have "\<exists>h. taken_by H N ts w h"
    using needs by (intro exI [of _ None]) (auto simp: taken_by_def)
  moreover have "\<exists>h. taken_by H N us' v' h" if "schedule R (us, v) (us', v')" "\<exists>h. taken_by H N us v h" for us v us' v'
    by (rule taken_by_step [OF that]) (rule others)
  ultimately obtain h where "taken_by H N ts' w' h"
    using schedule_invariant [where P = "\<lambda>ts w. \<exists>h. taken_by H N ts w h", OF run] by blast
  have "h = Some j" if "j \<in> N" "j < length ts'" "ts' ! j = Done (Inr x)" for j x
  proof (rule ccontr)
    assume "h \<noteq> Some j"
    then have "needs H (Done (Inr x))"
      using taken_byD [OF \<open>taken_by H N ts' w' h\<close> that(2)] that(1,3) by simp
    then show False
      by simp
  qed
  then show ?thesis
    by (intro exI [of _ "the h"]) (auto simp: succeeded_def)
qed

lemma needs_bind: "keeps (absent H) m \<Longrightarrow> (\<And>x. needs H (g x)) \<Longrightarrow> needs H (bindS (atomic m) g)"
  by (auto simp: bindS_atomic split: prod.splits sum.splits dest: keepsD)

lemma needs_take:
  assumes "keeps (absent H) m" "\<And>x w w'. m w = (Inr x, w') \<Longrightarrow> H w \<and> \<not> H w'" "\<And>x. safe (absent H) (g x)"
  shows "needs H (bindS (atomic m) g)"
  using assms(2,3) keepsD [OF assms(1)] by (fastforce simp: bindS_atomic split: prod.splits sum.splits)

lemma needs_bindS: "needs H p \<Longrightarrow> (\<And>x. safe (absent H) (g x)) \<Longrightarrow> needs H (bindS p g)"
proof (induction rule: needs.induct)
  case (needs_Step f)
  have "needs H (bindS (fst (f w)) g) \<and> (\<not> H w \<longrightarrow> \<not> H (snd (f w)))
      \<or> H w \<and> \<not> H (snd (f w)) \<and> safe (absent H) (bindS (fst (f w)) g)" for w
    using needs_Step.IH [rule_format, of w] needs_Step.prems safe_bindS [of "absent H" _ g] by blast
  then show ?case
    by simp
qed simp

lemma needs_mapS: "needs H p \<Longrightarrow> needs H (mapS f p)"
  unfolding mapS_def by (rule needs_bindS) auto

lemma needs_if: "needs H p \<Longrightarrow> needs H q \<Longrightarrow> needs H (if b then p else q)"
  by simp

end
