(* ===== verification/Janus_Session.thy ===== *)
theory Janus_Session
  imports Janus_Identity Janus_Token
begin

text \<open>
  \<^verbatim>\<open>internal/session\<close> and what the logins share: the repository of sessions, opening a session for a
  user (the common end of the password, MFA, WebAuthn and authorization-code logins) and replacing
  one by its successor (the common part of the two refresh grants).
\<close>

section \<open>Repository\<close>

definition SessionRepo_Create :: "env \<Rightarrow> ctx \<Rightarrow> session \<Rightarrow> unit io" where
  "SessionRepo_Create E cx s = exec_sql E cx (cast_row (pg_session E s) ins_session)"

definition SessionRepo_GetByID :: "env \<Rightarrow> ctx \<Rightarrow> string \<Rightarrow> session io" where
  "SessionRepo_GetByID E cx sid =
     query_row E cx (\<lambda>d. where_uuid E sid (\<lambda>k. filter (\<lambda>s. ssID s = k) (sessions d)))"

definition SessionRepo_GetByRefreshTokenHash :: "env \<Rightarrow> ctx \<Rightarrow> string \<Rightarrow> session io" where
  "SessionRepo_GetByRefreshTokenHash E cx hash =
     query_row E cx (\<lambda>d. Inr (filter (\<lambda>s. ssRefreshTokenHash s = hash) (sessions d)))"

definition SessionRepo_Revoke :: "env \<Rightarrow> ctx \<Rightarrow> string \<Rightarrow> unit io" where
  "SessionRepo_Revoke E cx sid w =
     exec_sql E cx (\<lambda>d. case pg_uuid E sid of
         None \<Rightarrow> Inl (PgError InvalidText)
       | Some k \<Rightarrow> upd_sessions (\<lambda>s. ssID s = k) (\<lambda>s. s\<lparr>ssRevokedAt := Some (db_now E (calls w))\<rparr>) d) w"

definition stale :: "time \<Rightarrow> session \<Rightarrow> bool" where
  "stale cutoff s \<longleftrightarrow>
     ssExpiresAt s < cutoff \<or> (case ssRevokedAt s of None \<Rightarrow> False | Some t \<Rightarrow> t < cutoff)"

definition SessionRepo_DeleteExpiredOrRevoked :: "env \<Rightarrow> ctx \<Rightarrow> time \<Rightarrow> nat io" where
  "SessionRepo_DeleteExpiredOrRevoked E cx olderThan =
     exec_sql E cx (del_sessions (stale (pg_time E olderThan)))"

lemmas session_repo_defs = SessionRepo_Create_def SessionRepo_GetByID_def
  SessionRepo_GetByRefreshTokenHash_def SessionRepo_Revoke_def SessionRepo_DeleteExpiredOrRevoked_def

section \<open>Opening a session\<close>

definition accessTokenTTL :: time where "accessTokenTTL = 15 * minute"
definition refreshTokenTTL :: time where "refreshTokenTTL = 7 * 24 * hour"

text \<open>Whom a session is for, and what the server tells about the client.\<close>

record session_for =
  sfTenantID :: string
  sfIdentityID :: string
  sfUserID :: string
  sfEmail :: string
  sfIPAddress :: "string option"
  sfUserAgent :: string

definition fresh_session ::
  "session_for \<Rightarrow> string option \<Rightarrow> string \<Rightarrow> string \<Rightarrow> time \<Rightarrow> session" where
  "fresh_session f parent sid hash at = \<lparr> ssID = sid, ssTenantID = sfTenantID f,
     ssIdentityID = sfIdentityID f, ssUserID = sfUserID f, ssRefreshTokenHash = hash,
     ssParentSessionID = parent, ssIPAddress = sfIPAddress f, ssUserAgent = sfUserAgent f,
     ssExpiresAt = at + refreshTokenTTL, ssRevokedAt = None, ssCreatedAt = at \<rparr>"

definition principal_for :: "session_for \<Rightarrow> string \<Rightarrow> string list \<Rightarrow> string list \<Rightarrow> principal" where
  "principal_for f sid rls prms = \<lparr> prSessionID = sid, prIdentityID = sfIdentityID f,
     prTenantID = sfTenantID f, prUserID = sfUserID f, prEmail = sfEmail f, prRoles = rls,
     prPermissions = prms \<rparr>"

text \<open>The fields the logins return in common; \<^verbatim>\<open>ExpiresIn\<close> is always 900 seconds.\<close>

record login_result =
  lrPrincipal :: principal
  lrAccessToken :: string
  lrExpiresIn :: int
  lrRefreshToken :: string

definition issue_for :: "env \<Rightarrow> string \<Rightarrow> ctx \<Rightarrow> string list \<Rightarrow> principal \<Rightarrow> string io" where
  "issue_for E issuer cx aud p =
     JWT_Issue E issuer cx p \<lparr> ioAudience = aud, ioTTL = accessTokenTTL, ioNonce = [] \<rparr>"

definition open_session :: "env \<Rightarrow> string \<Rightarrow> ctx \<Rightarrow> string list \<Rightarrow> session_for \<Rightarrow> login_result io" where
  "open_session E issuer cx aud f =
     bindE (GetRolesForUser E cx (sfUserID f)) (\<lambda>roles.
     bindE (GetPermissionsForUser E cx (sfUserID f)) (\<lambda>perms.
     bindE (GenerateRandom E 32) (\<lambda>refresh.
     bindE (now E) (\<lambda>at.
     bindE (new_id E) (\<lambda>sid.
     bindE (SessionRepo_Create E cx (fresh_session f None sid (token_Hash refresh) at)) (\<lambda>_.
       let p = principal_for f sid roles perms in
       bindE (issue_for E issuer cx aud p) (\<lambda>access.
         ret \<lparr> lrPrincipal = p, lrAccessToken = access, lrExpiresIn = accessTokenTTL div second,
               lrRefreshToken = refresh \<rparr>)))))))"

section \<open>Replacing a session\<close>

text \<open>The subject of an existing session; the email is only known later.\<close>

definition heir_of :: "session \<Rightarrow> string \<Rightarrow> session_for" where
  "heir_of s email = \<lparr> sfTenantID = ssTenantID s, sfIdentityID = ssIdentityID s, sfUserID = ssUserID s,
     sfEmail = email, sfIPAddress = ssIPAddress s, sfUserAgent = ssUserAgent s \<rparr>"

text \<open>\<open>find_refreshable\<close>: the session of a refresh token, if it may still be refreshed.\<close>

definition find_refreshable :: "env \<Rightarrow> ctx \<Rightarrow> error \<Rightarrow> string \<Rightarrow> session io" where
  "find_refreshable E cx e refresh =
     bindE (or_err e (SessionRepo_GetByRefreshTokenHash E cx (token_Hash refresh))) (\<lambda>s.
       if ssRevokedAt s \<noteq> None then raise e
       else bindE (now E) (\<lambda>at. if ssExpiresAt s < at then raise e else ret s))"

text \<open>
  \<open>replace_session\<close>: revoke the session, run \<open>invalidate\<close> (only the refresh endpoint has one), store
  the successor, then read what the new access token needs and issue it.
\<close>

definition replace_session ::
  "env \<Rightarrow> string \<Rightarrow> ctx \<Rightarrow> (string \<Rightarrow> unit io) \<Rightarrow> string list \<Rightarrow> session \<Rightarrow> login_result io" where
  "replace_session E issuer cx invalidate aud s =
     bindE (SessionRepo_Revoke E cx (ssID s)) (\<lambda>_.
     bindE (invalidate (ssID s)) (\<lambda>_.
     bindE (GenerateRandom E 32) (\<lambda>refresh.
     bindE (now E) (\<lambda>at.
     bindE (new_id E) (\<lambda>sid.
     bindE (SessionRepo_Create E cx (fresh_session (heir_of s []) (Some (ssID s)) sid (token_Hash refresh) at)) (\<lambda>_.
     bindE (IdentityRepo_GetByID E cx (ssIdentityID s)) (\<lambda>identity.
     bindE (GetRolesForUser E cx (ssUserID s)) (\<lambda>roles.
     bindE (GetPermissionsForUser E cx (ssUserID s)) (\<lambda>perms.
       let p = principal_for (heir_of s (iPrimaryEmail identity)) sid roles perms in
       bindE (issue_for E issuer cx aud p) (\<lambda>access.
         ret \<lparr> lrPrincipal = p, lrAccessToken = access, lrExpiresIn = accessTokenTTL div second,
               lrRefreshToken = refresh \<rparr>))))))))))"

section \<open>What the operations keep\<close>

lemma keeps_session_reads [keeps_rules]:
  "keeps (dbs I) (SessionRepo_GetByID E cx sid)" "keeps (dbs I) (SessionRepo_GetByRefreshTokenHash E cx h)"
  "keeps (dbs I) (find_refreshable E cx e tok)"
  unfolding find_refreshable_def session_repo_defs by (intro keeps_rules)+

lemma keeps_open_session:
  assumes "keeps I (GetRolesForUser E cx (sfUserID f))" "keeps I (GetPermissionsForUser E cx (sfUserID f))"
    and "keeps I (GenerateRandom E 32)" "keeps I (now E)" "keeps I (new_id E)"
    and "\<And>sid h at. keeps I (SessionRepo_Create E cx (fresh_session f None sid h at))"
    and "\<And>p opts. keeps I (JWT_Issue E issuer cx p opts)"
  shows "keeps I (open_session E issuer cx aud f)"
  unfolding open_session_def issue_for_def Let_def by (intro keeps_rules assms)

lemma keeps_replace_session:
  assumes "keeps I (SessionRepo_Revoke E cx (ssID s))" "keeps I (invalidate (ssID s))"
    and "keeps I (GenerateRandom E 32)" "keeps I (now E)" "keeps I (new_id E)"
    and "\<And>sid h at. keeps I (SessionRepo_Create E cx (fresh_session (heir_of s []) (Some (ssID s)) sid h at))"
    and "keeps I (IdentityRepo_GetByID E cx (ssIdentityID s))"
    and "keeps I (GetRolesForUser E cx (ssUserID s))" "keeps I (GetPermissionsForUser E cx (ssUserID s))"
    and "\<And>p opts. keeps I (JWT_Issue E issuer cx p opts)"
  shows "keeps I (replace_session E issuer cx invalidate aud s)"
  unfolding replace_session_def issue_for_def Let_def by (intro keeps_rules assms)

context db_law
begin

lemma keeps_session_writes [keeps_rules]:
  "keeps (dbs I) (SessionRepo_Create E cx s)" "keeps (dbs I) (SessionRepo_Revoke E cx sid)"
proof -
  show "keeps (dbs I) (SessionRepo_Create E cx s)"
    unfolding session_repo_defs by (rule keeps_rules)
  show "keeps (dbs I) (SessionRepo_Revoke E cx sid)"
    by (rule keepsI) (unfold SessionRepo_Revoke_def, erule keeps_snd [OF keeps_updates(1)])
qed

lemma keeps_opened_session: "keeps (dbs I) (open_session E issuer cx aud f)"
  by (intro keeps_open_session keeps_rules)

lemma keeps_replaced_session:
  "keeps (dbs I) (invalidate (ssID s)) \<Longrightarrow> keeps (dbs I) (replace_session E issuer cx invalidate aud s)"
  by (rule keeps_replace_session) (assumption | rule keeps_session_writes keeps_dbs_basic keeps_GenerateRandom
      keeps_identity_reads keeps_authz_reads keeps_dbs_jwt)+

end

context db_law_all
begin

lemma keeps_session_cleanup [keeps_rules]: "keeps (dbs I) (SessionRepo_DeleteExpiredOrRevoked E cx t)"
  unfolding session_repo_defs by (rule keeps_dbs_exec) (rule law_del_sessions)

end

section \<open>Outcomes\<close>

lemma quiet_sessions [quiet_rules]:
  "quiet (SessionRepo_GetByID E cx sid)" "quiet (SessionRepo_GetByRefreshTokenHash E cx h)"
  "quiet (find_refreshable E cx e tok)" "quiet (issue_for E issuer cx aud p)"
  unfolding find_refreshable_def session_repo_defs issue_for_def by (intro quiet_rules)+

lemma SessionRepo_GetByID_InrD:
  "SessionRepo_GetByID E cx sid w = (Inr s, w') \<Longrightarrow>
     w' = tick w \<and> pg_uuid E sid = Some (ssID s) \<and> s \<in> set (sessions (view cx w))"
  unfolding SessionRepo_GetByID_def using query_by_uuid_InrD [where P = "\<lambda>k s. ssID s = k"] by blast

lemma SessionRepo_GetByRefreshTokenHash_InrD:
  "SessionRepo_GetByRefreshTokenHash E cx h w = (Inr s, w') \<Longrightarrow>
     w' = tick w \<and> ssRefreshTokenHash s = h \<and> s \<in> set (sessions (view cx w))"
  unfolding SessionRepo_GetByRefreshTokenHash_def by (auto dest: query_row_InrD)

lemma SessionRepo_Create_InrD:
  assumes "SessionRepo_Create E cx s w = (Inr u, w')"
  shows "\<exists>row. pg_session E s = Some row \<and> ins_session row (view cx w) = Inr ((), (view cx w)\<lparr>sessions := sessions (view cx w) @ [row]\<rparr>)
     \<and> w' = set_view cx ((view cx w)\<lparr>sessions := sessions (view cx w) @ [row]\<rparr>) (tick w)"
  using exec_cast_InrD [OF assms [unfolded SessionRepo_Create_def]] by (auto simp: ins_session_def)

definition revoke :: "string \<Rightarrow> time \<Rightarrow> session list \<Rightarrow> session list" where
  "revoke k t ss = map (\<lambda>s. if ssID s = k then s\<lparr>ssRevokedAt := Some t\<rparr> else s) ss"

lemma in_revoke:
  "s \<in> set (revoke k t ss) \<longleftrightarrow>
     (\<exists>s0 \<in> set ss. s = (if ssID s0 = k then s0\<lparr>ssRevokedAt := Some t\<rparr> else s0))"
  by (simp only: revoke_def set_map image_iff)

lemma map_ssID_revoke [simp]: "map ssID (revoke k t ss) = map ssID ss"
  unfolding revoke_def by (rule map_key_update) simp

lemma image_ssID_revoke [simp]: "ssID ` set (revoke k t ss) = ssID ` set ss"
  by (metis list.set_map map_ssID_revoke)

lemma SessionRepo_Revoke_InrD:
  assumes "SessionRepo_Revoke E cx sid w = (Inr u, w')"
  shows "\<exists>k. pg_uuid E sid = Some k
     \<and> w' = set_view cx ((view cx w)\<lparr>sessions := revoke k (db_now E (calls w)) (sessions (view cx w))\<rparr>) (tick w)"
  using exec_sql_InrD [OF assms [unfolded SessionRepo_Revoke_def]]
  by (auto simp: upd_sessions_def revoke_def split: option.splits)

lemma SessionRepo_Revoke_InlD:
  "SessionRepo_Revoke E cx sid w = (Inl e, w') \<Longrightarrow> same_data w w'"
  unfolding SessionRepo_Revoke_def using exec_sql_InlD by blast

lemma SessionRepo_Create_InlD:
  "SessionRepo_Create E cx s w = (Inl e, w') \<Longrightarrow> same_data w w'"
  unfolding SessionRepo_Create_def using exec_sql_InlD by blast

lemma find_refreshable_InrD:
  assumes "find_refreshable E cx e tok w = (Inr s, w')"
  shows "w' = tick (tick w) \<and> s \<in> set (sessions (view cx w)) \<and> ssRefreshTokenHash s = token_Hash tok
     \<and> ssRevokedAt s = None \<and> clock_at E (Suc (calls w)) \<le> ssExpiresAt s"
proof -
  obtain w1 where get: "SessionRepo_GetByRefreshTokenHash E cx (token_Hash tok) w = (Inr s, w1)"
    and "ssRevokedAt s = None" "w' = tick w1" "\<not> ssExpiresAt s < clock_at E (calls w1)"
    using assms by (auto simp: find_refreshable_def bindE_Inr_iff split: if_splits)
  then show ?thesis
    using SessionRepo_GetByRefreshTokenHash_InrD [OF get] by auto
qed

lemma find_refreshable_InlD: "find_refreshable E cx e tok w = (Inl e', w') \<Longrightarrow> e' = e"
  by (auto simp: find_refreshable_def bindE_Inl_iff split: if_splits)

text \<open>What an opened session leaves behind: one new row, made from its subject.\<close>

definition opened :: "env \<Rightarrow> session_for \<Rightarrow> login_result \<Rightarrow> database \<Rightarrow> database \<Rightarrow> bool" where
  "opened E f out d d' \<longleftrightarrow> (\<exists>row at k.
     d' = d\<lparr>sessions := sessions d @ [row]\<rparr>
   \<and> pg_session E (fresh_session f None (prSessionID (lrPrincipal out)) (token_Hash (lrRefreshToken out)) at) = Some row
   \<and> ins_session row d = Inr ((), d') \<and> pg_uuid E (sfUserID f) = Some k
   \<and> lrPrincipal out = principal_for f (prSessionID (lrPrincipal out)) (prRoles (lrPrincipal out)) (prPermissions (lrPrincipal out))
   \<and> set (prRoles (lrPrincipal out)) \<subseteq> set (user_role_names d k)
   \<and> set (prPermissions (lrPrincipal out)) \<subseteq> set (user_permission_names d k)
   \<and> length (lrRefreshToken out) = 43)"

lemma open_session_InrD:
  assumes run: "open_session E issuer cx aud f w = (Inr out, w')" and cx: "\<not> cx_tx cx"
  shows "opened E f out (pool_db w) (pool_db w') \<and> redis w' = redis w
    \<and> (\<exists>w1 w2. issue_for E issuer cx aud (lrPrincipal out) w1 = (Inr (lrAccessToken out), w2))"
proof -
  obtain rls w1 prms w2 tok w3 w4 where
    r: "GetRolesForUser E cx (sfUserID f) w = (Inr rls, w1)"
    and p: "GetPermissionsForUser E cx (sfUserID f) w1 = (Inr prms, w2)"
    and g: "GenerateRandom E 32 w2 = (Inr tok, w3)"
    and c: "SessionRepo_Create E cx (fresh_session f None (uuid_at E (calls (tick w3))) (token_Hash tok)
        (clock_at E (calls w3))) (tick (tick w3)) = (Inr (), w4)"
    and rest: "bindE (issue_for E issuer cx aud (principal_for f (uuid_at E (calls (tick w3))) rls prms))
       (\<lambda>access. ret \<lparr> lrPrincipal = principal_for f (uuid_at E (calls (tick w3))) rls prms,
          lrAccessToken = access, lrExpiresIn = accessTokenTTL div second, lrRefreshToken = tok \<rparr>) w4 = (Inr out, w')"
    using run unfolding open_session_def Let_def bindE_Inr_iff now_iff new_id_iff by auto
  obtain access where i: "issue_for E issuer cx aud (principal_for f (uuid_at E (calls (tick w3))) rls prms) w4 = (Inr access, w')"
    and out: "out = \<lparr> lrPrincipal = principal_for f (uuid_at E (calls (tick w3))) rls prms,
          lrAccessToken = access, lrExpiresIn = accessTokenTTL div second, lrRefreshToken = tok \<rparr>"
    using rest by (auto simp: bindE_Inr_iff)
  note r' = GetRolesForUser_InrD [OF r] and p' = GetPermissionsForUser_InrD [OF p] and g' = GenerateRandom_InrD [OF g]
  have same: "pool_db w3 = pool_db w" "redis w3 = redis w" "pool_db w1 = pool_db w"
    using r' p' g' by simp_all
  obtain row where row: "pg_session E (fresh_session f None (uuid_at E (calls (tick w3))) (token_Hash tok) (clock_at E (calls w3))) = Some row"
      "ins_session row (pool_db w) = Inr ((), (pool_db w)\<lparr>sessions := sessions (pool_db w) @ [row]\<rparr>)"
    and w4: "w4 = (tick (tick (tick w3)))\<lparr>pool_db := (pool_db w)\<lparr>sessions := sessions (pool_db w) @ [row]\<rparr>\<rparr>"
    using SessionRepo_Create_InrD [OF c] cx same by auto
  have "pool_db w' = pool_db w4" "redis w' = redis w4"
    using quietD [OF quiet_sessions(4) i] by (auto simp: same_data_def)
  moreover obtain k where "pg_uuid E (sfUserID f) = Some k" "set rls \<subseteq> set (user_role_names (pool_db w) k)"
      "set prms \<subseteq> set (user_permission_names (pool_db w) k)"
    using r' p' cx same by auto
  ultimately show ?thesis
    using row w4 same i g' unfolding opened_def out by (auto simp: principal_for_def)
qed

text \<open>Where a login that fails can leave the sessions: as they were, or with a row nobody got a token for.\<close>

definition at_most_one_more :: "database \<Rightarrow> database \<Rightarrow> bool" where
  "at_most_one_more d d' \<longleftrightarrow> d' = d \<or> (\<exists>row. d' = d\<lparr>sessions := sessions d @ [row]\<rparr>)"

lemma triple_quiet:
  "quiet m \<Longrightarrow> (\<And>w. P (pool_db w) \<Longrightarrow> Er w) \<Longrightarrow> triple (\<lambda>w. P (pool_db w)) m (\<lambda>_ w. P (pool_db w)) Er"
  by (rule tripleI) (metis quiet_pool)+

lemma open_session_any:
  assumes run: "open_session E issuer cx aud f w = (r, w')" and cx: "\<not> cx_tx cx"
  shows "at_most_one_more (pool_db w) (pool_db w')"
proof -
  let ?d = "pool_db w"
  let ?E = "\<lambda>w. at_most_one_more ?d (pool_db w)"
  have quiet: "triple (\<lambda>w. pool_db w = ?d) m (\<lambda>_ w. pool_db w = ?d) ?E" if "quiet m" for m :: "'a io"
    using triple_quiet [OF that, of "\<lambda>d. d = ?d" ?E] by (simp add: at_most_one_more_def)
  have create: "triple (\<lambda>w. pool_db w = ?d) (SessionRepo_Create E cx s) (\<lambda>_. ?E) ?E" for s
    using cx by (intro tripleI)
      (auto dest!: SessionRepo_Create_InrD SessionRepo_Create_InlD simp: same_data_def at_most_one_more_def)
  have last: "triple ?E m (\<lambda>_. ?E) ?E" if "quiet m" for m :: "'b io"
    using triple_quiet [OF that, of "at_most_one_more ?d" ?E] by simp
  have "triple (\<lambda>w. pool_db w = ?d) (open_session E issuer cx aud f) (\<lambda>_. ?E) ?E"
    unfolding open_session_def Let_def
    by (intro triple_bindE [OF quiet] triple_bindE [OF create] last quiet_rules)
  then show ?thesis
    using run by (cases r) (auto dest: triple_InrD triple_InlD)
qed

text \<open>What a replaced session leaves behind: its rows revoked, and one new row that names it as parent.\<close>

definition replaced :: "env \<Rightarrow> session \<Rightarrow> login_result \<Rightarrow> database \<Rightarrow> database \<Rightarrow> bool" where
  "replaced E s out d d' \<longleftrightarrow> (\<exists>row t at k i.
     d' = d\<lparr>sessions := revoke k t (sessions d) @ [row]\<rparr> \<and> pg_uuid E (ssID s) = Some k
   \<and> pg_session E (fresh_session (heir_of s []) (Some (ssID s)) (prSessionID (lrPrincipal out))
       (token_Hash (lrRefreshToken out)) at) = Some row
   \<and> ins_session row (d\<lparr>sessions := revoke k t (sessions d)\<rparr>) = Inr ((), d')
   \<and> i \<in> set (identities d) \<and> pg_uuid E (ssIdentityID s) = Some (iID i)
   \<and> lrPrincipal out = principal_for (heir_of s (iPrimaryEmail i)) (prSessionID (lrPrincipal out))
       (prRoles (lrPrincipal out)) (prPermissions (lrPrincipal out))
   \<and> length (lrRefreshToken out) = 43)"

lemma replace_session_InrD:
  assumes run: "replace_session E issuer cx invalidate aud s w = (Inr out, w')" and cx: "\<not> cx_tx cx"
    and inv: "db_free (invalidate (ssID s))"
  shows "replaced E s out (pool_db w) (pool_db w')
    \<and> (\<exists>w1 w2 u. invalidate (ssID s) w1 = (Inr u, w2) \<and> redis w1 = redis w \<and> redis w' = redis w2)
    \<and> (\<exists>w3 w4. issue_for E issuer cx aud (lrPrincipal out) w3 = (Inr (lrAccessToken out), w4))"
proof -
  obtain w1 u w2 tok w3 w4 idn w5 rls w6 prms w7 where
    rv: "SessionRepo_Revoke E cx (ssID s) w = (Inr (), w1)"
    and iv: "invalidate (ssID s) w1 = (Inr u, w2)"
    and g: "GenerateRandom E 32 w2 = (Inr tok, w3)"
    and c: "SessionRepo_Create E cx (fresh_session (heir_of s []) (Some (ssID s)) (uuid_at E (calls (tick w3)))
        (token_Hash tok) (clock_at E (calls w3))) (tick (tick w3)) = (Inr (), w4)"
    and ge: "IdentityRepo_GetByID E cx (ssIdentityID s) w4 = (Inr idn, w5)"
    and r: "GetRolesForUser E cx (ssUserID s) w5 = (Inr rls, w6)"
    and p: "GetPermissionsForUser E cx (ssUserID s) w6 = (Inr prms, w7)"
    and rest: "bindE (issue_for E issuer cx aud (principal_for (heir_of s (iPrimaryEmail idn)) (uuid_at E (calls (tick w3))) rls prms))
       (\<lambda>access. ret \<lparr> lrPrincipal = principal_for (heir_of s (iPrimaryEmail idn)) (uuid_at E (calls (tick w3))) rls prms,
          lrAccessToken = access, lrExpiresIn = accessTokenTTL div second, lrRefreshToken = tok \<rparr>) w7 = (Inr out, w')"
    using run unfolding replace_session_def Let_def bindE_Inr_iff now_iff new_id_iff by auto
  let ?p = "principal_for (heir_of s (iPrimaryEmail idn)) (uuid_at E (calls (tick w3))) rls prms"
  obtain access where i: "issue_for E issuer cx aud ?p w7 = (Inr access, w')"
    and out: "out = \<lparr> lrPrincipal = ?p, lrAccessToken = access, lrExpiresIn = accessTokenTTL div second, lrRefreshToken = tok \<rparr>"
    using rest by (auto simp: bindE_Inr_iff)
  obtain k where k: "pg_uuid E (ssID s) = Some k"
    and w1: "w1 = (tick w)\<lparr>pool_db := (pool_db w)\<lparr>sessions := revoke k (db_now E (calls w)) (sessions (pool_db w))\<rparr>\<rparr>"
    using SessionRepo_Revoke_InrD [OF rv] cx by auto
  let ?d = "(pool_db w)\<lparr>sessions := revoke k (db_now E (calls w)) (sessions (pool_db w))\<rparr>"
  have w3: "pool_db w3 = ?d" "redis w3 = redis w2"
    using GenerateRandom_InrD [OF g] db_freeD [OF inv iv] w1 by auto
  obtain row where row: "pg_session E (fresh_session (heir_of s []) (Some (ssID s)) (uuid_at E (calls (tick w3)))
        (token_Hash tok) (clock_at E (calls w3))) = Some row"
      "ins_session row ?d = Inr ((), ?d\<lparr>sessions := sessions ?d @ [row]\<rparr>)"
    and w4: "w4 = (tick (tick (tick w3)))\<lparr>pool_db := ?d\<lparr>sessions := sessions ?d @ [row]\<rparr>\<rparr>"
    using SessionRepo_Create_InrD [OF c] cx w3 by auto
  have "same_data w4 w'"
    using quietD [OF quiet_identity(2) ge] quietD [OF quiet_authz(9) r] quietD [OF quiet_authz(8) p]
      quietD [OF quiet_sessions(4) i] same_data_trans by blast
  then have w': "pool_db w' = pool_db w4" "redis w' = redis w2"
    using w4 w3 by (auto simp: same_data_def)
  have idn: "pg_uuid E (ssIdentityID s) = Some (iID idn)" "idn \<in> set (identities (pool_db w))"
    using IdentityRepo_GetByID_InrD [OF ge] cx w4 by auto
  have "replaced E s out (pool_db w) (pool_db w')"
    unfolding replaced_def out using row w4 w' k idn GenerateRandom_InrD [OF g]
    by (intro exI [of _ row] exI [of _ "db_now E (calls w)"] exI [of _ "clock_at E (calls w3)"] exI [of _ k]
        exI [of _ idn]) (auto simp: principal_for_def)
  moreover have "redis w1 = redis w"
    using w1 by simp
  ultimately show ?thesis
    using iv w'(2) i out by auto
qed

text \<open>A refresh token is spent when no live session has its hash; it then opens nothing.\<close>

definition spent :: "string \<Rightarrow> database \<Rightarrow> bool" where
  "spent tok d \<longleftrightarrow> (\<forall>s \<in> set (sessions d). ssRefreshTokenHash s = token_Hash tok \<longrightarrow> ssRevokedAt s \<noteq> None)"

lemma find_refreshable_spent:
  assumes "spent tok (view cx w)"
  shows "fst (find_refreshable E cx e tok w) = Inl e"
proof (cases "find_refreshable E cx e tok w")
  case (Pair r w')
  then show ?thesis
    using assms find_refreshable_InlD [of E cx e tok w] find_refreshable_InrD [of E cx e tok w]
    by (cases r) (auto simp: spent_def)
qed

lemma fst_bind_Inl: "fst (m w) = Inl e \<Longrightarrow> fst (bindE m f w) = Inl e"
  by (cases "m w") (simp add: bindE_def)

lemma replaced_spent:
  assumes rep: "replaced E s out d d'"
    and one: "filter (\<lambda>s. ssRefreshTokenHash s = token_Hash tok) (sessions d) = [s]"
    and id: "pg_uuid E (ssID s) = Some (ssID s)" and new: "token_Hash (lrRefreshToken out) \<noteq> token_Hash tok"
  shows "spent tok d'"
proof -
  obtain row t at where d': "sessions d' = revoke (ssID s) t (sessions d) @ [row]"
    and row: "pg_session E (fresh_session (heir_of s []) (Some (ssID s)) (prSessionID (lrPrincipal out))
       (token_Hash (lrRefreshToken out)) at) = Some row"
    using rep id unfolding replaced_def by auto
  have "ssRefreshTokenHash row \<noteq> token_Hash tok"
    using pg_session_fields [OF row] new by (simp add: fresh_session_def)
  moreover have "s0 = s" if "s0 \<in> set (sessions d)" "ssRefreshTokenHash s0 = token_Hash tok" for s0
  proof -
    have "s0 \<in> set (filter (\<lambda>s. ssRefreshTokenHash s = token_Hash tok) (sessions d))"
      using that by simp
    then show ?thesis
      unfolding one by simp
  qed
  ultimately show ?thesis
    unfolding spent_def d' revoke_def by auto
qed

section \<open>Properties\<close>


definition demo_session :: session where
  "demo_session = \<lparr> ssID = ''s-a'', ssTenantID = ''t-a'', ssIdentityID = ''i-a'', ssUserID = ''u-a'',
     ssRefreshTokenHash = token_Hash ''r'', ssParentSessionID = None, ssIPAddress = None, ssUserAgent = ''ua'',
     ssExpiresAt = 600000000000, ssRevokedAt = None, ssCreatedAt = 0 \<rparr>"

text \<open>An expired session whose successor is still alive.\<close>

definition demo_lineage :: database where
  "demo_lineage = demo_db\<lparr>sessions :=
     [demo_session, demo_session\<lparr>ssID := ''s-b'', ssParentSessionID := Some ''s-a'', ssExpiresAt := 900000000000\<rparr>]\<rparr>"

lemma demo_cleanup:
  "SessionRepo_DeleteExpiredOrRevoked demo_env background 700000000000 (world_of demo_lineage) =
     (Inl (PgError ForeignKeyViolation), tick (world_of demo_lineage))"
  by (simp add: SessionRepo_DeleteExpiredOrRevoked_def exec_sql_def del_sessions_def Let_def stale_def orphaned_def
      demo_lineage_def demo_session_def)


end
