(* ===== verification/Go_Url.thy ===== *)
theory Go_Url
  imports Go_Encoding "HOL-Library.List_Lexorder"
begin

text \<open>
  What the server uses of \<^verbatim>\<open>net/url\<close>: the escaping of a path segment and of a query component, its
  inverse, \<^verbatim>\<open>Values.Encode\<close> for the keys and single values the code sets, and the query strings of
  parsed URLs. Escaping keeps the
  unreserved characters and writes every other byte as \<open>%XX\<close>.
\<close>

section \<open>Escaping\<close>

definition unreserved :: "char \<Rightarrow> bool" where
  "unreserved c \<longleftrightarrow> (let n = of_char c :: nat in
     (48 \<le> n \<and> n \<le> 57) \<or> (65 \<le> n \<and> n \<le> 90) \<or> (97 \<le> n \<and> n \<le> 122) \<or> c \<in> set ''-_.~'')"

definition upper_hex :: "nat \<Rightarrow> char" where
  "upper_hex n = (if n < 10 then char_of (48 + n) else char_of (55 + n))"

definition percent :: "char \<Rightarrow> string" where
  "percent c = [CHR ''%'', upper_hex (of_char c div 16), upper_hex (of_char c mod 16)]"

definition query_escape :: "string \<Rightarrow> string" where
  "query_escape s = concat (map (\<lambda>c. if unreserved c then [c] else if c = CHR '' '' then ''+'' else percent c) s)"

definition path_escape :: "string \<Rightarrow> string" where
  "path_escape s = concat (map (\<lambda>c. if unreserved c \<or> c \<in> set ''$&+=:@'' then [c] else percent c) s)"

text \<open>\<^verbatim>\<open>url.QueryUnescape\<close>; a malformed escape is an error.\<close>

definition unhex :: "char \<Rightarrow> nat option" where
  "unhex c = (let n = of_char c :: nat in
     if 48 \<le> n \<and> n \<le> 57 then Some (n - 48)
     else if 97 \<le> n \<and> n \<le> 102 then Some (n - 87)
     else if 65 \<le> n \<and> n \<le> 70 then Some (n - 55) else None)"

fun query_unescape :: "string \<Rightarrow> string option" where
  "query_unescape [] = Some []"
| "query_unescape (c # s) =
     (if c = CHR ''%'' then
        (case s of
           a # b # r \<Rightarrow>
             (case (unhex a, unhex b) of
                (Some i, Some j) \<Rightarrow> map_option ((#) (char_of (16 * i + j))) (query_unescape r)
              | _ \<Rightarrow> None)
         | _ \<Rightarrow> None)
      else map_option ((#) (if c = CHR ''+'' then CHR '' '' else c)) (query_unescape s))"

text \<open>\<^verbatim>\<open>Values.Encode\<close> of single-valued keys that are listed in ascending order.\<close>

definition encode_pairs :: "(string \<times> string) list \<Rightarrow> string" where
  "encode_pairs kvs = concat (map (\<lambda>(i, k, v). (if i = 0 then [] else ''&'') @ query_escape k @ ''='' @ query_escape v)
     (zip [0..<length kvs] kvs))"

section \<open>Unescaping what was escaped\<close>

lemma of_char_less_256 [simp]: "(of_char c :: nat) < 256"
  by (cases c) (simp add: of_char_def horner_sum_simps)

lemma unhex_upper_hex:
  assumes "n < 16"
  shows "unhex (upper_hex n) = Some n"
proof (cases "n < 10")
  case True
  then show ?thesis
    by (simp add: upper_hex_def unhex_def of_char_of)
next
  case False
  then show ?thesis
    using assms by (simp add: upper_hex_def unhex_def of_char_of)
qed

lemma unescape_percent:
  "query_unescape (percent c @ s) = map_option ((#) c) (query_unescape s)"
proof -
  have "(of_char c :: nat) div 16 < 16"
    using of_char_less_256 [of c] by linarith
  moreover have "char_of (16 * (of_char c div 16) + (of_char c :: nat) mod 16) = c"
    by simp
  ultimately show ?thesis
    by (simp add: percent_def unhex_upper_hex)
qed

lemma unreserved_plain: "unreserved c \<Longrightarrow> c \<noteq> CHR ''%'' \<and> c \<noteq> CHR ''+''"
  by (auto simp: unreserved_def Let_def)

lemma query_unescape_append_escape:
  "query_unescape (query_escape s @ t) = map_option ((@) s) (query_unescape t)"
proof (induction s)
  case Nil
  then show ?case
    by (simp add: query_escape_def option.map_ident)
next
  case (Cons c s)
  have "query_escape (c # s) @ t =
      (if unreserved c then [c] else if c = CHR '' '' then ''+'' else percent c) @ query_escape s @ t"
    by (simp add: query_escape_def)
  then show ?case
    using Cons unreserved_plain [of c]
    by (auto simp: unescape_percent option.map_comp o_def)
qed

lemma query_unescape_escape: "query_unescape (query_escape s) = Some s"
  using query_unescape_append_escape [of s "[]"] by simp

lemma query_escape_inject [simp]: "query_escape s = query_escape t \<longleftrightarrow> s = t"
  by (metis option.inject query_unescape_escape)

lemma query_escape_no_separator: "CHR ''&'' \<notin> set (query_escape s) \<and> CHR ''='' \<notin> set (query_escape s)"
proof -
  have hex: "upper_hex n \<noteq> CHR ''&'' \<and> upper_hex n \<noteq> CHR ''=''" if "n < 16" for n
    using unhex_upper_hex [OF that] by (auto simp: unhex_def)
  have "(of_char c :: nat) div 16 < 16" for c
    using of_char_less_256 [of c] by linarith
  then have "CHR ''&'' \<notin> set (percent c) \<and> CHR ''='' \<notin> set (percent c)" for c
    using hex [of "of_char c div 16"] hex [of "of_char c mod 16"] by (auto simp: percent_def)
  then show ?thesis
    by (auto simp: query_escape_def unreserved_def Let_def split: if_splits)
qed

section \<open>Query strings\<close>

text \<open>
  \<^verbatim>\<open>url.Values\<close> as the list of its pairs, in the order in which they were added. \<open>parse_query\<close> is
  \<^verbatim>\<open>URL.Query\<close>, which drops the parts that contain a semicolon or a malformed escape;
  \<open>encode_values\<close> is \<^verbatim>\<open>Values.Encode\<close>, which orders by key and keeps the order of a key's values.
\<close>

definition parse_pair :: "string \<Rightarrow> (string \<times> string) list" where
  "parse_pair part =
     (if part = [] \<or> CHR '';'' \<in> set part then []
      else let k = takeWhile (\<lambda>c. c \<noteq> CHR ''='') part; v = drop 1 (dropWhile (\<lambda>c. c \<noteq> CHR ''='') part) in
        (case (query_unescape k, query_unescape v) of (Some k', Some v') \<Rightarrow> [(k', v')] | _ \<Rightarrow> []))"

definition parse_query :: "string \<Rightarrow> (string \<times> string) list" where
  "parse_query q = concat (map parse_pair (split_ch CHR ''&'' q))"

definition values_get :: "(string \<times> string) list \<Rightarrow> string \<Rightarrow> string" where
  "values_get vs k = (case map_of vs k of None \<Rightarrow> [] | Some v \<Rightarrow> v)"

definition values_set :: "string \<Rightarrow> string \<Rightarrow> (string \<times> string) list \<Rightarrow> (string \<times> string) list" where
  "values_set k v vs = filter (\<lambda>kv. fst kv \<noteq> k) vs @ [(k, v)]"

definition key_bytes :: "string \<times> string \<Rightarrow> nat list" where
  "key_bytes kv = map of_char (fst kv)"

definition encode_values :: "(string \<times> string) list \<Rightarrow> string" where
  "encode_values vs = join_str ''&'' (map (\<lambda>(k, v). query_escape k @ ''='' @ query_escape v) (sort_key key_bytes vs))"

lemma values_get_set: "values_get (values_set k v vs) k' = (if k' = k then v else values_get vs k')"
proof -
  have "map_of (filter (\<lambda>kv. fst kv \<noteq> k) vs) k' = (if k' = k then None else map_of vs k')"
    by (induction vs) auto
  then show ?thesis
    by (simp add: values_get_def values_set_def map_add_def split: option.splits)
qed

lemma split_join:
  assumes "ps \<noteq> []" "\<forall>p \<in> set ps. c \<notin> set p"
  shows "split_ch c (join_str [c] ps) = ps"
  using assms
proof (induction ps)
  case (Cons p ps)
  then show ?case
    by (cases ps) (auto simp: split_ch_append_sep)
qed simp

lemma query_escape_no_semicolon: "CHR '';'' \<notin> set (query_escape s)"
proof -
  have hex: "upper_hex n \<noteq> CHR '';''" if "n < 16" for n
    using unhex_upper_hex [OF that] by (auto simp: unhex_def)
  have "(of_char c :: nat) div 16 < 16" for c
    using of_char_less_256 [of c] by linarith
  then have "CHR '';'' \<notin> set (percent c)" for c
    using hex [of "of_char c div 16"] hex [of "of_char c mod 16"] by (auto simp: percent_def)
  then show ?thesis
    by (auto simp: query_escape_def unreserved_def Let_def split: if_splits)
qed

lemma parse_pair_escaped: "parse_pair (query_escape k @ ''='' @ query_escape v) = [(k, v)]"
proof -
  let ?p = "query_escape k @ ''='' @ query_escape v"
  have no: "\<forall>c \<in> set (query_escape k). c \<noteq> CHR ''=''"
    using query_escape_no_separator [of k] by auto
  have "takeWhile (\<lambda>c. c \<noteq> CHR ''='') ?p = query_escape k" "dropWhile (\<lambda>c. c \<noteq> CHR ''='') ?p = ''='' @ query_escape v"
    using no by (simp_all add: takeWhile_append dropWhile_append)
  moreover have "?p \<noteq> []" "CHR '';'' \<notin> set ?p"
    using query_escape_no_semicolon by auto
  ultimately show ?thesis
    by (simp only: parse_pair_def Let_def) (simp add: query_unescape_escape)
qed

text \<open>Parsing what \<^verbatim>\<open>Encode\<close> wrote gives the pairs back, ordered by key.\<close>

lemma parse_encode_values: "parse_query (encode_values vs) = sort_key key_bytes vs"
proof (cases "vs = []")
  case True
  then show ?thesis
    by (simp add: encode_values_def parse_query_def parse_pair_def)
next
  case False
  let ?part = "\<lambda>(k, v). query_escape k @ ''='' @ query_escape v"
  let ?s = "sort_key key_bytes vs"
  have "\<forall>p \<in> set (map ?part ?s). CHR ''&'' \<notin> set p"
    using query_escape_no_separator by auto
  moreover have "map ?part ?s \<noteq> []"
    using False by (metis Nil_is_map_conv length_0_conv length_sort)
  ultimately have "split_ch CHR ''&'' (encode_values vs) = map ?part ?s"
    unfolding encode_values_def by (intro split_join)
  moreover have "concat (map parse_pair (map ?part ps)) = ps" for ps
    by (induction ps) (auto simp: parse_pair_escaped [simplified])
  ultimately show ?thesis
    unfolding parse_query_def by simp
qed

lemma key_bytes_inject: "key_bytes kv = key_bytes kv' \<longleftrightarrow> fst kv = fst kv'"
  unfolding key_bytes_def by (auto simp: inj_map_eq_map inj_def)

lemma values_get_sorted: "values_get (sort_key key_bytes vs) k = values_get vs k"
proof -
  have first: "map_of vs k = (case filter (\<lambda>kv. key_bytes kv = key_bytes (k, [])) vs of [] \<Rightarrow> None | kv # _ \<Rightarrow> Some (snd kv))" for vs
    by (induction vs) (auto simp: key_bytes_inject split: list.splits)
  show ?thesis
    unfolding values_get_def first sort_key_stable ..
qed

end
