(* ===== verification/Janus_Mfa.thy ===== *)
theory Janus_Mfa
  imports Janus_Session Go_Url
begin

text \<open>
  \<^verbatim>\<open>internal/mfa\<close>: the repository of second factors, the TOTP service (enrolling, verifying, listing,
  removing), completing a login that was challenged for a second factor, and the HTTP handlers. The
  TOTP library is a parameter: \<open>totp_generate\<close> makes a secret, \<open>totp_validate\<close> judges a code at a time.
\<close>

section \<open>Repository\<close>

text \<open>Loops over rows that do read \<^verbatim>\<open>rows.Err()\<close>: a broken result is an error.\<close>

definition query_all ::
  "env \<Rightarrow> ctx \<Rightarrow> ('r list \<Rightarrow> 'r list) \<Rightarrow> (database \<Rightarrow> error + 'r list) \<Rightarrow> 'r list io" where
  "query_all E cx post q w =
     bindE (fetch E cx post q) (\<lambda>rs. case row_cut E (calls w) of None \<Rightarrow> ret rs | Some _ \<Rightarrow> raise ErrConn) w"

definition newest_factor :: "factor list \<Rightarrow> factor list" where
  "newest_factor = sort_key (\<lambda>f. - faCreatedAt f)"

definition FactorRepo_Create :: "env \<Rightarrow> ctx \<Rightarrow> factor \<Rightarrow> unit io" where
  "FactorRepo_Create E cx f = exec_sql E cx (cast_row (pg_factor E f) ins_factor)"

definition FactorRepo_GetByID :: "env \<Rightarrow> ctx \<Rightarrow> string \<Rightarrow> factor io" where
  "FactorRepo_GetByID E cx fid =
     no_rows_not_found (query_row E cx (\<lambda>d. where_uuid E fid (\<lambda>k. filter (\<lambda>f. faID f = k) (mfa_factors d))))"

definition FactorRepo_GetByIdentity :: "env \<Rightarrow> ctx \<Rightarrow> string \<Rightarrow> factor list io" where
  "FactorRepo_GetByIdentity E cx identityID =
     query_all E cx newest_factor
       (\<lambda>d. where_uuid E identityID (\<lambda>k. filter (\<lambda>f. faIdentityID f = k) (mfa_factors d)))"

definition FactorRepo_GetVerifiedByIdentity :: "env \<Rightarrow> ctx \<Rightarrow> string \<Rightarrow> factor list io" where
  "FactorRepo_GetVerifiedByIdentity E cx identityID =
     query_all E cx newest_factor
       (\<lambda>d. where_uuid E identityID (\<lambda>k. filter (\<lambda>f. faIdentityID f = k \<and> faVerified f) (mfa_factors d)))"

definition FactorRepo_MarkVerified :: "env \<Rightarrow> ctx \<Rightarrow> string \<Rightarrow> unit io" where
  "FactorRepo_MarkVerified E cx fid =
     exec_sql E cx (\<lambda>d. case pg_uuid E fid of
         None \<Rightarrow> Inl (PgError InvalidText)
       | Some k \<Rightarrow> upd_factors (\<lambda>f. faID f = k) (\<lambda>f. f\<lparr>faVerified := True\<rparr>) d)"

definition FactorRepo_Delete :: "env \<Rightarrow> ctx \<Rightarrow> string \<Rightarrow> unit io" where
  "FactorRepo_Delete E cx fid =
     exec_sql E cx (\<lambda>d. case pg_uuid E fid of
         None \<Rightarrow> Inl (PgError InvalidText) | Some k \<Rightarrow> del_factors (\<lambda>f. faID f = k) d)"

lemmas factor_repo_defs = FactorRepo_Create_def FactorRepo_GetByID_def FactorRepo_GetByIdentity_def
  FactorRepo_GetVerifiedByIdentity_def FactorRepo_MarkVerified_def FactorRepo_Delete_def

section \<open>The TOTP service\<close>

record enrollment_result =
  erFactorID :: string
  erSecret :: string
  erQRURL :: string

definition buildOtpauthURL :: "string \<Rightarrow> string \<Rightarrow> string \<Rightarrow> string" where
  "buildOtpauthURL issuer account secret =
     ''otpauth://totp/'' @ path_escape (issuer @ '':'' @ account) @ ''?'' @
     encode_pairs [(''algorithm'', ''SHA1''), (''digits'', ''6''), (''issuer'', issuer), (''period'', ''30''),
                   (''secret'', secret)]"

definition totp_key :: "env \<Rightarrow> string \<Rightarrow> string \<Rightarrow> string io" where
  "totp_key E issuer account w =
     (case totp_generate E (calls w) issuer account of
        None \<Rightarrow> (Inl ErrLibrary, tick w) | Some (secret, _) \<Rightarrow> (Inr secret, tick w))"

definition TOTP_Enroll :: "env \<Rightarrow> string \<Rightarrow> ctx \<Rightarrow> string \<Rightarrow> string \<Rightarrow> string \<Rightarrow> enrollment_result io" where
  "TOTP_Enroll E issuer cx identityID email label =
     bindE (totp_key E issuer email) (\<lambda>secret.
     bindE (new_id E) (\<lambda>fid.
     bindE (now E) (\<lambda>at.
     bindE (FactorRepo_Create E cx \<lparr> faID = fid, faIdentityID = identityID, faFactorType = ''totp'',
         faSecretEncrypted = secret, faLabel = (if label = [] then ''Authenticator'' else label),
         faVerified = False, faCreatedAt = at \<rparr>) (\<lambda>_.
       ret \<lparr> erFactorID = fid, erSecret = secret, erQRURL = buildOtpauthURL issuer email secret \<rparr>))))"

text \<open>\<^verbatim>\<open>totp.Validate\<close> reads the clock.\<close>

definition TOTP_VerifyEnrollment :: "env \<Rightarrow> ctx \<Rightarrow> string \<Rightarrow> string \<Rightarrow> unit io" where
  "TOTP_VerifyEnrollment E cx factorID code =
     bindE (or_err ErrFactorNotFound (FactorRepo_GetByID E cx factorID)) (\<lambda>f.
     bindE (now E) (\<lambda>at.
       if \<not> totp_validate E code (faSecretEncrypted f) at then raise ErrInvalidCode
       else FactorRepo_MarkVerified E cx (faID f)))"

fun verify_any :: "env \<Rightarrow> string \<Rightarrow> factor list \<Rightarrow> unit io" where
  "verify_any E code [] = raise ErrInvalidCode"
| "verify_any E code (f # fs) =
     (if faFactorType f \<noteq> ''totp'' then verify_any E code fs
      else bindE (now E) (\<lambda>at.
             if totp_validate E code (faSecretEncrypted f) at then ret () else verify_any E code fs))"

definition TOTP_Verify :: "env \<Rightarrow> ctx \<Rightarrow> string \<Rightarrow> string \<Rightarrow> unit io" where
  "TOTP_Verify E cx identityID code =
     bindE (FactorRepo_GetVerifiedByIdentity E cx identityID) (verify_any E code)"

definition TOTP_Unenroll :: "env \<Rightarrow> ctx \<Rightarrow> string \<Rightarrow> unit io" where
  "TOTP_Unenroll E cx factorID = FactorRepo_Delete E cx factorID"

definition TOTP_List :: "env \<Rightarrow> ctx \<Rightarrow> string \<Rightarrow> factor list io" where
  "TOTP_List E cx identityID = FactorRepo_GetByIdentity E cx identityID"

section \<open>Completing a challenged login\<close>

definition challenge_subject :: "challenge \<Rightarrow> string \<Rightarrow> session_for" where
  "challenge_subject c email = \<lparr> sfTenantID = chTenantID c, sfIdentityID = chIdentityID c,
     sfUserID = chUserID c, sfEmail = email, sfIPAddress = Some (chIPAddress c),
     sfUserAgent = chUserAgent c \<rparr>"

definition MFA_Complete :: "env \<Rightarrow> string \<Rightarrow> ctx \<Rightarrow> string \<Rightarrow> string \<Rightarrow> login_result io" where
  "MFA_Complete E issuer cx mfaToken code =
     bindE (or_err ErrInvalidCode (ChallengeStore_Consume E mfaToken)) (\<lambda>c.
     bindE (now E) (\<lambda>at.
       if chExpiresAt c < at then raise ErrInvalidCode
       else
         bindE (or_err ErrInvalidCode (TOTP_Verify E cx (chIdentityID c) code)) (\<lambda>_.
         bindE (IdentityRepo_GetByID E cx (chIdentityID c)) (\<lambda>identity.
           open_session E issuer cx [] (challenge_subject c (iPrimaryEmail identity))))))"

section \<open>Handlers\<close>

text \<open>A body that does not decode counts as an empty label.\<close>

definition EnrollTOTP_handler :: "env \<Rightarrow> string \<Rightarrow> string option \<Rightarrow> enrollment_result handler" where
  "EnrollTOTP_handler E issuer body = authorized (\<lambda>p cx.
     serve (TOTP_Enroll E issuer cx (prIdentityID p) (prEmail p) (case body of None \<Rightarrow> [] | Some l \<Rightarrow> l))
       (Json 201) (\<lambda>_. HttpError 500 ''internal error''))"

definition VerifyEnrollment_handler :: "env \<Rightarrow> (string \<times> string) option \<Rightarrow> unit handler" where
  "VerifyEnrollment_handler E body = authorized (\<lambda>p cx.
     case body of
       None \<Rightarrow> reply (HttpError 400 ''invalid request'')
     | Some (factorID, code) \<Rightarrow>
         serve (TOTP_VerifyEnrollment E cx factorID code) (\<lambda>_. Empty 204)
           (\<lambda>e. if errors_is e ErrInvalidCode then HttpError 401 ''invalid code''
                else HttpError 500 ''internal error''))"

definition MFAComplete_handler :: "env \<Rightarrow> string \<Rightarrow> (string \<times> string) option \<Rightarrow> login_result handler" where
  "MFAComplete_handler E issuer body cx =
     (case body of
        None \<Rightarrow> reply (HttpError 400 ''invalid request'')
      | Some (mfaToken, code) \<Rightarrow>
          if mfaToken = [] \<or> code = [] then reply (HttpError 400 ''mfa_token and code required'')
          else serve (MFA_Complete E issuer cx mfaToken code) (Json 200)
                 (\<lambda>_. HttpError 401 ''invalid mfa challenge or code''))"

record factor_view =
  fvID :: string
  fvFactorType :: string
  fvLabel :: string
  fvVerified :: bool

definition view_factor :: "factor \<Rightarrow> factor_view" where
  "view_factor f = \<lparr> fvID = faID f, fvFactorType = faFactorType f, fvLabel = faLabel f, fvVerified = faVerified f \<rparr>"

definition ListFactors_handler :: "env \<Rightarrow> factor_view list handler" where
  "ListFactors_handler E = authorized (\<lambda>p cx.
     serve (TOTP_List E cx (prIdentityID p)) (\<lambda>fs. Json 200 (map view_factor fs))
       (\<lambda>_. HttpError 500 ''internal error''))"

section \<open>What the operations keep\<close>

lemma quiet_query_all [quiet_rules]: "quiet (query_all E cx post q)"
proof -
  have "quiet (bindE (fetch E cx post q) (\<lambda>rs. case row_cut E n of None \<Rightarrow> ret rs | Some _ \<Rightarrow> raise ErrConn))" for n
    by (intro quiet_rules)
  then show ?thesis
    unfolding query_all_def quiet_def by blast
qed

lemma query_all_InrD:
  assumes "query_all E cx post q w = (Inr rs, w')"
  shows "w' = tick w \<and> (\<exists>rs0 p. q (view cx w) = Inr rs0 \<and> rs = post (permute p rs0))"
proof -
  have "fetch E cx post q w = (Inr rs, w')"
    using assms by (auto simp: query_all_def bindE_Inr_iff split: option.splits)
  then show ?thesis
    using fetch_InrD by blast
qed

lemma set_newest_factor: "set (newest_factor xs) = set xs"
  by (simp add: newest_factor_def)

lemma GetVerified_InrD:
  assumes "FactorRepo_GetVerifiedByIdentity E cx i w = (Inr fs, w')"
  shows "w' = tick w \<and> (\<exists>k. pg_uuid E i = Some k
     \<and> set fs = {f \<in> set (mfa_factors (view cx w)). faIdentityID f = k \<and> faVerified f})"
  using query_all_InrD [OF assms [unfolded FactorRepo_GetVerifiedByIdentity_def]]
  by (auto simp: where_uuid_Inr_iff set_newest_factor)

lemma quiet_verify_any [quiet_rules]: "quiet (verify_any E code fs)"
  by (induction fs) (auto intro!: quiet_rules)

lemma quiet_factors [quiet_rules]:
  "quiet (FactorRepo_GetByID E cx s)" "quiet (FactorRepo_GetByIdentity E cx s)"
  "quiet (FactorRepo_GetVerifiedByIdentity E cx s)" "quiet (TOTP_Verify E cx s code)" "quiet (TOTP_List E cx s)"
  "quiet (totp_key E issuer email)"
proof -
  show "quiet (totp_key E issuer email)"
    by (auto simp: quiet_def totp_key_def split: option.split)
qed (unfold TOTP_Verify_def TOTP_List_def factor_repo_defs, (intro quiet_rules)+)

text \<open>What leaves the databases alone keeps every predicate on them.\<close>

lemma keeps_dbs_quiet: "quiet m \<Longrightarrow> keeps (dbs I) m"
  unfolding keeps_def quiet_def same_data_def dbs_def by metis

context db_law
begin

lemma keeps_factor_writes [keeps_rules]:
  "keeps (dbs I) (FactorRepo_Create E cx f)" "keeps (dbs I) (FactorRepo_MarkVerified E cx s)"
  unfolding factor_repo_defs by (rule keeps_rules)+

lemma keeps_mfa_ops [keeps_rules]:
  "keeps (dbs I) (TOTP_Enroll E issuer cx i email label)"
  "keeps (dbs I) (TOTP_VerifyEnrollment E cx fid code)"
  "keeps (dbs I) (MFA_Complete E issuer cx tok code)"
  unfolding TOTP_Enroll_def TOTP_VerifyEnrollment_def MFA_Complete_def
  by (intro keeps_rules keeps_opened_session keeps_dbs_quiet [OF quiet_factors(1)] keeps_dbs_quiet [OF quiet_factors(4)]
      keeps_dbs_quiet [OF quiet_factors(6)] db_free_stores; simp)+

end

context db_law_all
begin

lemma keeps_factor_deletes [keeps_rules]:
  "keeps (dbs I) (FactorRepo_Delete E cx s)" "keeps (dbs I) (TOTP_Unenroll E cx fid)"
proof -
  show del: "keeps (dbs I) (FactorRepo_Delete E cx s)" for s
    unfolding factor_repo_defs by (rule keeps_by_uuid) (erule (1) law_del_factors)
  show "keeps (dbs I) (TOTP_Unenroll E cx fid)"
    unfolding TOTP_Unenroll_def by (intro keeps_rules del)
qed

end

section \<open>Outcomes\<close>

lemma verify_any_InrD:
  "verify_any E code fs w = (Inr u, w') \<Longrightarrow>
     \<exists>f \<in> set fs. faFactorType f = ''totp'' \<and> (\<exists>t. totp_validate E code (faSecretEncrypted f) t)"
proof (induction fs arbitrary: w)
  case Nil
  then show ?case by simp
next
  case (Cons f fs)
  show ?case
  proof (cases "faFactorType f = ''totp'' \<and> totp_validate E code (faSecretEncrypted f) (clock_at E (calls w))")
    case True
    then show ?thesis
      by auto
  next
    case False
    then have "\<exists>w1. verify_any E code fs w1 = (Inr u, w')"
      using Cons.prems by (auto simp: bindE_Inr_iff split: if_splits)
    then show ?thesis
      using Cons.IH by auto
  qed
qed

text \<open>A code is good for an identity: a verified TOTP factor of it accepts the code at some time.\<close>

definition good_code :: "env \<Rightarrow> database \<Rightarrow> string \<Rightarrow> string \<Rightarrow> bool" where
  "good_code E d identityID code \<longleftrightarrow> (\<exists>f \<in> set (mfa_factors d). pg_uuid E identityID = Some (faIdentityID f)
     \<and> faVerified f \<and> faFactorType f = ''totp'' \<and> (\<exists>t. totp_validate E code (faSecretEncrypted f) t))"

lemma TOTP_Verify_InrD:
  assumes "TOTP_Verify E cx i code w = (Inr u, w')"
  shows "good_code E (view cx w) i code"
proof -
  obtain fs w1 where "FactorRepo_GetVerifiedByIdentity E cx i w = (Inr fs, w1)" "verify_any E code fs w1 = (Inr u, w')"
    using assms by (auto simp: TOTP_Verify_def bindE_Inr_iff)
  then show ?thesis
    using GetVerified_InrD [of E cx i w fs w1] verify_any_InrD [of E code fs w1] unfolding good_code_def by auto
qed

lemma ChallengeStore_Consume_InrD:
  assumes "ChallengeStore_Consume E tok w = (Inr c, w')"
  shows "redis_live E w (challengePrefix @ tok) = Some (RvChallenge c) \<and> pool_db w' = pool_db w
     \<and> redis w' = (redis w)(challengePrefix @ tok := None) \<and> calls w' = Suc (calls w)"
proof -
  obtain v where v: "redis_live E w (challengePrefix @ tok) = Some v" "as_challenge v = Some c"
      "w' = (tick w)\<lparr>redis := (redis w)(challengePrefix @ tok := None)\<rparr>"
    using consume_InrD [OF assms [unfolded ChallengeStore_Consume_def]] by blast
  then show ?thesis
    by (cases v) auto
qed

lemma consume_used_up:
  assumes "consume E key decode w = (r, w')" "redis_fault E (calls w) = None"
  shows "redis w' key = None \<or> redis_live E w key = None"
  using assms
  by (auto simp: consume_def bindE_def attempt_def raise_def ret_def redis_getdel_def split: option.splits)

lemma quiet_redis: "quiet m \<Longrightarrow> m w = (r, w') \<Longrightarrow> redis w' = redis w"
  using quietD unfolding same_data_def by blast

lemma keeps_redis_exec: "keeps (\<lambda>w. redis w = x) (exec_sql E cx st)"
proof (rule keepsI)
  fix w :: world assume x: "redis w = x"
  obtain r w' where run: "exec_sql E cx st w = (r, w')"
    by fastforce
  have "redis w' = redis w"
    using run by (rule exec_sql_outcome) auto
  then show "redis (snd (exec_sql E cx st w)) = x"
    using run x by simp
qed

lemma open_session_redis: "open_session E issuer cx aud f w = (r, w') \<Longrightarrow> redis w' = redis w"
proof -
  have quiet: "keeps (\<lambda>w. redis w = x) m" if "quiet m" for x and m :: "'a io"
    using quiet_redis [OF that] by (intro keepsI) (metis prod.collapse)
  assume run: "open_session E issuer cx aud f w = (r, w')"
  have "keeps (\<lambda>v. redis v = redis w) (open_session E issuer cx aud f)"
    unfolding open_session_def Let_def SessionRepo_Create_def
    by ((rule keeps_bindE, ((rule quiet, rule quiet_authz quiet_GenerateRandom quiet_basic quiet_sessions)
          | rule keeps_redis_exec))+, rule keeps_ret)
  from keepsD [OF this _ run] show ?thesis
    by simp
qed

text \<open>Completing a challenge, once it is taken.\<close>

lemma complete_taken:
  fixes c :: challenge
  assumes run: "bindE (or_err ErrInvalidCode (TOTP_Verify E cx (chIdentityID c) code)) (\<lambda>_.
      bindE (IdentityRepo_GetByID E cx (chIdentityID c)) (\<lambda>identity.
        open_session E issuer cx [] (challenge_subject c (iPrimaryEmail identity)))) w = (r, w')" and cx: "\<not> cx_tx cx"
  shows "redis w' = redis w \<and> (case r of
      Inr out \<Rightarrow> good_code E (pool_db w) (chIdentityID c) code
        \<and> (\<exists>email. opened E (challenge_subject c email) out (pool_db w) (pool_db w'))
    | Inl _ \<Rightarrow> at_most_one_more (pool_db w) (pool_db w'))"
proof -
  obtain rv w2 where ver: "TOTP_Verify E cx (chIdentityID c) code w = (rv, w2)"
    by fastforce
  obtain ri w3 where idn: "IdentityRepo_GetByID E cx (chIdentityID c) w2 = (ri, w3)"
    by fastforce
  have same: "pool_db w2 = pool_db w" "pool_db w3 = pool_db w" "redis w2 = redis w" "redis w3 = redis w"
    using quietD [OF quiet_factors(4) ver] quietD [OF quiet_identity(2) idn] by (auto simp: same_data_def)
  show ?thesis
  proof (cases "\<exists>u i. rv = Inr u \<and> ri = Inr i")
    case True
    then obtain i where i: "ri = Inr i"
      by blast
    have op: "open_session E issuer cx [] (challenge_subject c (iPrimaryEmail i)) w3 = (r, w')"
      using run ver idn True i by auto
    have "good_code E (pool_db w) (chIdentityID c) code"
      using TOTP_Verify_InrD ver True cx by fastforce
    moreover have "opened E (challenge_subject c (iPrimaryEmail i)) out (pool_db w) (pool_db w')" if "r = Inr out" for out
      using open_session_InrD [OF op [unfolded that] cx] same by simp
    moreover have "at_most_one_more (pool_db w) (pool_db w')"
      using open_session_any [OF op cx] same by simp
    ultimately show ?thesis
      using open_session_redis [OF op] same by (cases r) auto
  next
    case False
    then have "pool_db w' = pool_db w" "redis w' = redis w" "\<exists>e. r = Inl e"
      using run ver idn same by (cases rv; cases ri; auto)+
    then show ?thesis
      by (auto simp: at_most_one_more_def)
  qed
qed

section \<open>Properties\<close>

text \<open>
  C14: a challenged login is completed only with a live, unexpired challenge and a code that a verified
  TOTP factor of its identity accepts; it then opens exactly one session, for the challenge's tenant,
  identity and user. Whatever the outcome, the challenge is used up as long as Redis answered, so a
  challenge allows a single attempt at the code.
\<close>

theorem mfa_complete_outcome:
  assumes "MFA_Complete E issuer cx tok code w = (r, w')" "\<not> cx_tx cx"
  shows "(case r of
            Inr out \<Rightarrow> \<exists>c email. redis_live E w (challengePrefix @ tok) = Some (RvChallenge c)
              \<and> clock_at E (Suc (calls w)) \<le> chExpiresAt c \<and> good_code E (pool_db w) (chIdentityID c) code
              \<and> opened E (challenge_subject c email) out (pool_db w) (pool_db w')
          | Inl _ \<Rightarrow> at_most_one_more (pool_db w) (pool_db w'))
       \<and> (redis_fault E (calls w) = None \<longrightarrow>
            redis w' (challengePrefix @ tok) = None \<or> redis_live E w (challengePrefix @ tok) = None)"
proof -
  obtain rc w1 where cons: "ChallengeStore_Consume E tok w = (rc, w1)"
    by fastforce
  have d1: "pool_db w1 = pool_db w"
    using db_freeD [OF db_free_stores(2) cons] by simp
  have used: "redis_fault E (calls w) = None \<Longrightarrow>
      redis w1 (challengePrefix @ tok) = None \<or> redis_live E w (challengePrefix @ tok) = None"
    by (rule consume_used_up [OF cons [unfolded ChallengeStore_Consume_def]])
  show ?thesis
  proof (cases rc)
    case (Inl e)
    then have "r = Inl ErrInvalidCode" "w' = w1"
      using assms(1) cons by (auto simp: MFA_Complete_def bindE_def)
    then show ?thesis
      using used d1 by (simp add: at_most_one_more_def)
  next
    case (Inr c)
    let ?rest = "bindE (or_err ErrInvalidCode (TOTP_Verify E cx (chIdentityID c) code)) (\<lambda>_.
        bindE (IdentityRepo_GetByID E cx (chIdentityID c)) (\<lambda>identity.
          open_session E issuer cx [] (challenge_subject c (iPrimaryEmail identity))))"
    have run: "(if chExpiresAt c < clock_at E (calls w1) then raise ErrInvalidCode else ?rest) (tick w1) = (r, w')"
      using assms(1) cons Inr by (simp add: MFA_Complete_def bindE_def [of "now E"] now_def)
    have live: "redis_live E w (challengePrefix @ tok) = Some (RvChallenge c)" "calls w1 = Suc (calls w)"
      using ChallengeStore_Consume_InrD cons Inr by blast+
    show ?thesis
    proof (cases "chExpiresAt c < clock_at E (calls w1)")
      case True
      then show ?thesis
        using run used d1 by (auto simp: at_most_one_more_def)
    next
      case False
      then have "?rest (tick w1) = (r, w')"
        using run by simp
      from complete_taken [OF this assms(2)] show ?thesis
        using used live d1 False by (cases r) (auto simp: not_less)
    qed
  qed
qed

definition demo_mfa_db :: database where
  "demo_mfa_db = demo_db\<lparr>signing_keys := [demo_signing_key], mfa_factors := [\<lparr> faID = ''f-a'', faIdentityID = ''i-a'',
     faFactorType = ''totp'', faSecretEncrypted = ''123456'', faLabel = ''phone'', faVerified = True, faCreatedAt = 0 \<rparr>]\<rparr>"

definition demo_mfa_world :: world where
  "demo_mfa_world = (world_of demo_mfa_db)\<lparr>redis := [''mfa:challenge:tok'' \<mapsto> (RvChallenge demo_challenge, 300000000000)]\<rparr>"

lemmas demo_session_defs =
  open_session_def issue_for_def session_repo_defs GenerateRandom_def cast_row_def where_uuid_def pg_session_def
  uuid_opt_def inet_opt_def fresh_session_def principal_for_def ins_session_def JWT_Issue_def
  KeyRepo_GetActive_def no_rows_not_found_def query_first_def newest_first_def of_result_def
  GetRolesForUser_def GetPermissionsForUser_def

lemma demo_sign [simp]: "jwt_sign demo_env alg k kid c = Some ''tok''"
  by (simp add: demo_env_def)

lemma demo_key_active [simp]: "skIsActive demo_signing_key" "skCreatedAt demo_signing_key = 0"
  by (simp_all add: demo_signing_key_def)

lemma demo_totp [simp]: "totp_validate demo_env code secret t = (code = secret)"
  by (simp add: demo_env_def)

lemma demo_mfa_complete:
  "\<exists>out w'. MFA_Complete demo_env ''iss'' background ''tok'' ''123456'' demo_mfa_world = (Inr out, w')"
  by (simp add: MFA_Complete_def ChallengeStore_Consume_def consume_def redis_getdel_def redis_live_def
      challengePrefix_def TOTP_Verify_def FactorRepo_GetVerifiedByIdentity_def query_all_def newest_factor_def
      IdentityRepo_GetByID_def challenge_subject_def demo_session_defs run_simps Let_def
      demo_mfa_world_def demo_mfa_db_def demo_challenge_def demo_db_def demo_tenant_def)

theorem mfa_complete_outcome_witness:
  "\<exists>out w'. MFA_Complete demo_env ''iss'' background ''tok'' ''123456'' demo_mfa_world = (Inr out, w')
     \<and> good_code demo_env demo_mfa_db ''i-a'' ''123456''"
proof -
  obtain out w' where run: "MFA_Complete demo_env ''iss'' background ''tok'' ''123456'' demo_mfa_world = (Inr out, w')"
    using demo_mfa_complete by blast
  have "redis_live demo_env demo_mfa_world (challengePrefix @ ''tok'') = Some (RvChallenge demo_challenge)"
    by (simp add: redis_live_def challengePrefix_def demo_mfa_world_def)
  then show ?thesis
    using mfa_complete_outcome [OF run background_simps(1)] run
    by (auto simp: demo_mfa_world_def demo_challenge_def)
qed

lemma FactorRepo_GetByID_InrD:
  "FactorRepo_GetByID E cx s w = (Inr f, w') \<Longrightarrow>
     w' = tick w \<and> pg_uuid E s = Some (faID f) \<and> f \<in> set (mfa_factors (view cx w))"
  unfolding FactorRepo_GetByID_def
  by (drule no_rows_not_found_InrD) (use query_by_uuid_InrD [where P = "\<lambda>k f. faID f = k"] in blast)

lemma MarkVerified_outcome:
  assumes "FactorRepo_MarkVerified E cx fid w = (r, w')" "\<not> cx_tx cx"
  shows "case r of Inl _ \<Rightarrow> pool_db w' = pool_db w
    | Inr _ \<Rightarrow> \<exists>k. pg_uuid E fid = Some k \<and> pool_db w' = (pool_db w)\<lparr>mfa_factors :=
        map (\<lambda>f. if faID f = k then f\<lparr>faVerified := True\<rparr> else f) (mfa_factors (pool_db w))\<rparr>"
  using assms
  by (auto simp: FactorRepo_MarkVerified_def exec_sql_def upd_factors_def split: option.splits)

text \<open>
  An enrolled factor starts unverified and becomes verified only by \<^verbatim>\<open>VerifyEnrollment\<close> with a
  code its own secret accepts; a call that fails changes nothing.
\<close>

theorem verify_enrollment_needs_code:
  assumes "TOTP_VerifyEnrollment E cx fid code w = (r, w')" "\<not> cx_tx cx"
  shows "case r of
           Inl _ \<Rightarrow> pool_db w' = pool_db w
         | Inr _ \<Rightarrow> \<exists>f \<in> set (mfa_factors (pool_db w)). \<exists>k t. pg_uuid E fid = Some (faID f)
             \<and> totp_validate E code (faSecretEncrypted f) t \<and> pg_uuid E (faID f) = Some k
             \<and> pool_db w' = (pool_db w)\<lparr>mfa_factors :=
                  map (\<lambda>f. if faID f = k then f\<lparr>faVerified := True\<rparr> else f) (mfa_factors (pool_db w))\<rparr>"
proof -
  obtain rf w1 where get: "FactorRepo_GetByID E cx fid w = (rf, w1)"
    by fastforce
  have same: "pool_db w1 = pool_db w"
    using quiet_pool [OF quiet_factors(1) get] .
  show ?thesis
  proof (cases rf)
    case (Inl e)
    then show ?thesis
      using assms(1) get same by (auto simp: TOTP_VerifyEnrollment_def bindE_def)
  next
    case (Inr f)
    note f = FactorRepo_GetByID_InrD [OF get [unfolded Inr]]
    show ?thesis
    proof (cases "totp_validate E code (faSecretEncrypted f) (clock_at E (calls w1))")
      case False
      then show ?thesis
        using assms(1) get Inr same by (auto simp: TOTP_VerifyEnrollment_def bindE_def now_def raise_def)
    next
      case True
      then have mark: "FactorRepo_MarkVerified E cx (faID f) (tick w1) = (r, w')"
        using assms(1) get Inr by (simp add: TOTP_VerifyEnrollment_def bindE_def [of "now E"] now_def)
      show ?thesis
        using MarkVerified_outcome [OF mark assms(2)] f True same assms(2) by (cases r) auto
    qed
  qed
qed

definition demo_unverified :: database where
  "demo_unverified = demo_mfa_db\<lparr>mfa_factors := map (faVerified_update (\<lambda>_. False)) (mfa_factors demo_mfa_db)\<rparr>"

lemma demo_verify_enrollment:
  "TOTP_VerifyEnrollment demo_env background ''f-a'' ''123456'' (world_of demo_unverified) =
     (Inr (), (tick (tick (tick (world_of demo_unverified))))\<lparr>pool_db := demo_mfa_db\<rparr>)"
  by (simp add: TOTP_VerifyEnrollment_def factor_repo_defs no_rows_not_found_def where_uuid_def run_simps
      upd_factors_def demo_unverified_def demo_mfa_db_def)

theorem verify_enrollment_needs_code_witness:
  "\<exists>f \<in> set (mfa_factors demo_unverified). totp_validate demo_env ''123456'' (faSecretEncrypted f) 0 \<and> \<not> faVerified f"
  using verify_enrollment_needs_code [OF demo_verify_enrollment background_simps(1)]
  by (auto simp: demo_unverified_def demo_mfa_db_def)

text \<open>No statement depends on the principal a context carries.\<close>

lemma exec_sql_principal:
  "exec_sql E (cx\<lparr>cx_principal := p\<rparr>) = exec_sql E cx" "fetch E (cx\<lparr>cx_principal := p\<rparr>) = fetch E cx"
  "query_row E (cx\<lparr>cx_principal := p\<rparr>) = query_row E cx"
proof -
  show ex: "exec_sql E (cx\<lparr>cx_principal := p\<rparr>) = exec_sql E cx" for cx p and E
    by (intro ext) (simp add: exec_sql_def)
  show fe: "fetch E (cx\<lparr>cx_principal := p\<rparr>) = fetch E cx" for cx p and E
    by (intro ext) (simp add: fetch_def ex)
  show "query_row E (cx\<lparr>cx_principal := p\<rparr>) = query_row E cx"
    by (intro ext) (simp add: query_row_def fe)
qed

text \<open>
  Verifying an enrollment does not look at whose factor it is: any two authenticated callers get
  the same answer and make the same change for the same factor id and code.
\<close>

theorem verify_enrollment_ignores_caller:
  "VerifyEnrollment_handler E body (WithPrincipal cx p) w = VerifyEnrollment_handler E body (WithPrincipal cx q) w"
  by (auto simp: VerifyEnrollment_handler_def authorized_def Principal_def WithPrincipal_def
      TOTP_VerifyEnrollment_def factor_repo_defs exec_sql_principal cong: if_cong split: option.split)

end
