(* ===== verification/Janus_Auth.thy ===== *)
theory Janus_Auth
  imports Janus_Mfa Janus_Register
begin

text \<open>
  The rest of \<^verbatim>\<open>internal/auth\<close>: logging in with a password, refreshing, logging out, the profile of
  a session, the middleware that authenticates a request by its bearer token or its session header,
  and the HTTP handlers with the cookies they set.
\<close>

section \<open>Logging in\<close>

record login_input =
  liEmail :: string
  liPassword :: string
  liIPAddress :: string
  liUserAgent :: string

text \<open>\<^verbatim>\<open>LoginOutput\<close> is filled in one of two ways: with a session's fields or with the MFA token.\<close>

datatype login_output = LoggedIn login_result | MFARequired string

definition login_subject :: "login_input \<Rightarrow> identity \<Rightarrow> user \<Rightarrow> session_for" where
  "login_subject inp identity user = \<lparr> sfTenantID = usTenantID user, sfIdentityID = iID identity,
     sfUserID = usID user, sfEmail = iPrimaryEmail identity, sfIPAddress = Some (liIPAddress inp),
     sfUserAgent = liUserAgent inp \<rparr>"

text \<open>The first steps: whose email it is and whether the password is theirs.\<close>

definition check_password :: "env \<Rightarrow> ctx \<Rightarrow> login_input \<Rightarrow> identity io" where
  "check_password E cx inp =
     bindE (or_err ErrInvalidCredentials (IdentityRepo_GetByEmail E cx (liEmail inp))) (\<lambda>identity.
     bindE (or_err ErrInvalidCredentials (CredentialRepo_GetByIdentityID E cx (iID identity))) (\<lambda>credential.
       if \<not> password_Verify E (liPassword inp) (crPasswordHash credential) then raise ErrInvalidCredentials
       else ret identity))"

definition challenge_for :: "string \<Rightarrow> session_for \<Rightarrow> time \<Rightarrow> challenge" where
  "challenge_for tok f at = \<lparr> chToken = tok, chIdentityID = sfIdentityID f, chTenantID = sfTenantID f,
     chUserID = sfUserID f, chIPAddress = (case sfIPAddress f of None \<Rightarrow> [] | Some ip \<Rightarrow> ip),
     chUserAgent = sfUserAgent f, chExpiresAt = at + 5 * minute \<rparr>"

definition open_challenge :: "env \<Rightarrow> session_for \<Rightarrow> string io" where
  "open_challenge E f =
     bindE (GenerateRandom E 32) (\<lambda>tok.
     bindE (now E) (\<lambda>at.
     bindE (ChallengeStore_Store E (challenge_for tok f at)) (\<lambda>_. ret tok)))"

definition Login :: "env \<Rightarrow> string \<Rightarrow> bool \<Rightarrow> ctx \<Rightarrow> login_input \<Rightarrow> login_output io" where
  "Login E issuer repo cx inp =
     bindE (check_password E cx inp) (\<lambda>identity.
     bindE (UserRepo_GetByIdentityID E cx (iID identity)) (\<lambda>user.
     bindE (PolicyEnforcer_Get E repo cx (usTenantID user)) (\<lambda>policy.
     bindE (FactorRepo_GetVerifiedByIdentity E cx (iID identity)) (\<lambda>factors.
       if poRequireMFA policy \<and> factors = [] then raise ErrMFAEnrollmentRequired
       else if factors \<noteq> [] then
         bindE (open_challenge E (login_subject inp identity user)) (\<lambda>tok. ret (MFARequired tok))
       else
         bindE (open_session E issuer cx [] (login_subject inp identity user)) (\<lambda>out. ret (LoggedIn out))))))"

section \<open>Refreshing, logging out, the profile\<close>

definition Refresh :: "env \<Rightarrow> string \<Rightarrow> bool \<Rightarrow> ctx \<Rightarrow> string \<Rightarrow> login_result io" where
  "Refresh E issuer cached cx refreshToken =
     bindE (find_refreshable E cx ErrUnauthorized refreshToken)
       (replace_session E issuer cx (PrincipalCache_Delete E cached) [])"

definition Logout :: "env \<Rightarrow> bool \<Rightarrow> ctx \<Rightarrow> string \<Rightarrow> unit io" where
  "Logout E cached cx sessionID =
     bindE (or_err ErrNotFound (SessionRepo_GetByID E cx sessionID)) (\<lambda>s.
       if ssRevokedAt s \<noteq> None then PrincipalCache_Delete E cached sessionID
       else bindE (SessionRepo_Revoke E cx (ssID s)) (\<lambda>_. PrincipalCache_Delete E cached sessionID))"

record me_output =
  meIdentityID :: string
  meUserID :: string
  meTenantID :: string
  meEmail :: string
  meRoles :: "string list"

definition Me :: "env \<Rightarrow> ctx \<Rightarrow> string \<Rightarrow> me_output io" where
  "Me E cx sessionID =
     bindE (SessionRepo_GetByID E cx sessionID) (\<lambda>s.
     bindE (IdentityRepo_GetByID E cx (ssIdentityID s)) (\<lambda>identity.
     bindE (UserRepo_GetByID E cx (ssUserID s)) (\<lambda>user.
     bindE (GetRolesForUser E cx (usID user)) (\<lambda>rls.
       ret \<lparr> meIdentityID = iID identity, meUserID = usID user, meTenantID = usTenantID user,
             meEmail = iPrimaryEmail identity, meRoles = rls \<rparr>))))"

section \<open>Authenticating a request\<close>

definition fromBearer :: "env \<Rightarrow> ctx \<Rightarrow> string \<Rightarrow> principal option io" where
  "fromBearer E cx authz =
     (if \<not> has_prefix authz ''Bearer '' then ret None
      else let tokenStr = trim_prefix authz ''Bearer '' in
        if tokenStr = [] then ret None
        else bindE (attempt (JWT_Verify E cx tokenStr)) (\<lambda>r. case r of
               Inl _ \<Rightarrow> ret None
             | Inr claims \<Rightarrow> ret (Some (principal_of_claims claims))))"

text \<open>The principal of a live session; every failure makes \<^verbatim>\<open>fromSessionHeader\<close> return nil.\<close>

definition load_principal :: "env \<Rightarrow> ctx \<Rightarrow> string \<Rightarrow> principal io" where
  "load_principal E cx sessionID =
     bindE (SessionRepo_GetByID E cx sessionID) (\<lambda>s.
       if ssRevokedAt s \<noteq> None then raise ErrUnauthorized
       else
         bindE (now E) (\<lambda>at.
           if ssExpiresAt s < at then raise ErrUnauthorized
           else
             bindE (IdentityRepo_GetByID E cx (ssIdentityID s)) (\<lambda>identity.
             bindE (GetRolesForUser E cx (ssUserID s)) (\<lambda>rls.
             bindE (GetPermissionsForUser E cx (ssUserID s)) (\<lambda>prms.
               ret (principal_for (heir_of s (iPrimaryEmail identity)) (ssID s) rls prms))))))"

definition fromSessionHeader :: "env \<Rightarrow> bool \<Rightarrow> ctx \<Rightarrow> string \<Rightarrow> principal option io" where
  "fromSessionHeader E cached cx sessionID =
     (if sessionID = [] then ret None
      else
        bindE (PrincipalCache_Get E cached sessionID) (\<lambda>hit. case hit of
          Some p \<Rightarrow> ret (Some p)
        | None \<Rightarrow>
            bindE (attempt (load_principal E cx sessionID)) (\<lambda>r. case r of
              Inl _ \<Rightarrow> ret None
            | Inr p \<Rightarrow> bindE (PrincipalCache_Put E cached p) (\<lambda>_. ret (Some p)))))"

text \<open>\<open>authz\<close> and \<open>sid\<close> are the Authorization and X-Session-ID headers, empty when absent.\<close>

definition request_principal :: "env \<Rightarrow> bool \<Rightarrow> string \<Rightarrow> string \<Rightarrow> ctx \<Rightarrow> principal option io" where
  "request_principal E cached authz sid cx =
     bindE (fromBearer E cx authz) (\<lambda>b. case b of
       Some p \<Rightarrow> ret (Some p) | None \<Rightarrow> fromSessionHeader E cached cx sid)"

definition Authenticate :: "env \<Rightarrow> bool \<Rightarrow> string \<Rightarrow> string \<Rightarrow> 'b handler \<Rightarrow> 'b handler" where
  "Authenticate E cached authz sid next_handler cx w =
     (case request_principal E cached authz sid cx w of
        (Inr (Some p), w1) \<Rightarrow> next_handler (WithPrincipal cx p) w1
      | (_, w1) \<Rightarrow> (HttpError 401 ''unauthorized'', w1))"

section \<open>Handlers\<close>

text \<open>The one cookie the server sets; its path is the root, it is HttpOnly and SameSite=Strict.\<close>

record cookie =
  ckName :: string
  ckValue :: string
  ckMaxAge :: int

definition refreshCookieName :: string where "refreshCookieName = ''refresh_token''"
definition refreshCookieMaxAge :: int where "refreshCookieMaxAge = 7 * 24 * 60 * 60"

definition setRefreshCookie :: "string \<Rightarrow> cookie" where
  "setRefreshCookie tok = \<lparr> ckName = refreshCookieName, ckValue = tok, ckMaxAge = refreshCookieMaxAge \<rparr>"

definition clearRefreshCookie :: cookie where
  "clearRefreshCookie = \<lparr> ckName = refreshCookieName, ckValue = [], ckMaxAge = -1 \<rparr>"

type_synonym 'b cookie_reply = "'b reply \<times> cookie option"

definition serve_cookie ::
  "'a io \<Rightarrow> ('a \<Rightarrow> 'b cookie_reply) \<Rightarrow> (error \<Rightarrow> 'b reply) \<Rightarrow> world \<Rightarrow> 'b cookie_reply \<times> world" where
  "serve_cookie m ok err w =
     (case m w of (Inl e, w') \<Rightarrow> ((err e, None), w') | (Inr x, w') \<Rightarrow> (ok x, w'))"

definition plain_reply :: "'b reply \<Rightarrow> world \<Rightarrow> 'b cookie_reply \<times> world" where
  "plain_reply r w = ((r, None), w)"

definition isValidEmail :: "string \<Rightarrow> bool" where
  "isValidEmail email = (case split_ch CHR ''@'' email of
       [local, domain] \<Rightarrow> local \<noteq> [] \<and> domain \<noteq> [] \<and> CHR ''.'' \<in> set domain
     | _ \<Rightarrow> False)"

text \<open>\<open>parse\<close> is \<^verbatim>\<open>netip.ParseAddrPort\<close> and the printing of its address.\<close>

definition extractIP :: "(string \<Rightarrow> string option) \<Rightarrow> string \<Rightarrow> string \<Rightarrow> string \<Rightarrow> string" where
  "extractIP parse xff xri remote =
     (let first = trim_space (takeWhile (\<lambda>c. c \<noteq> CHR '','') xff) in
      if xff \<noteq> [] \<and> first \<noteq> [] then first
      else if xri \<noteq> [] then trim_space xri
      else (case parse remote of Some addr \<Rightarrow> addr | None \<Rightarrow> remote))"

definition Register_handler :: "env \<Rightarrow> (string \<times> string) option \<Rightarrow> string handler" where
  "Register_handler E body cx =
     (case body of
        None \<Rightarrow> reply (HttpError 400 ''invalid request body'')
      | Some (email, pw) \<Rightarrow>
          if email = [] \<or> pw = [] then reply (HttpError 400 ''email and password are required'')
          else if \<not> isValidEmail email then reply (HttpError 400 ''invalid email format'')
          else if length pw < 8 then reply (HttpError 400 ''password must be at least 8 characters'')
          else serve (Register E cx \<lparr> riEmail = email, riPassword = pw \<rparr>)
                 (\<lambda>_. Json 201 ''registration successful'')
                 (\<lambda>e. if e = ErrConflict then HttpError 409 ''email already registered''
                      else HttpError 500 ''internal error''))"

fun refresh_token_of :: "login_output \<Rightarrow> string" where
  "refresh_token_of (LoggedIn out) = lrRefreshToken out"
| "refresh_token_of (MFARequired _) = []"

definition Login_handler ::
  "env \<Rightarrow> string \<Rightarrow> bool \<Rightarrow> string \<Rightarrow> string \<Rightarrow> (string \<times> string) option \<Rightarrow> ctx \<Rightarrow> world
     \<Rightarrow> login_output cookie_reply \<times> world" where
  "Login_handler E issuer repo ip ua body cx =
     (case body of
        None \<Rightarrow> plain_reply (HttpError 400 ''invalid request body'')
      | Some (email, pw) \<Rightarrow>
          if email = [] \<or> pw = [] then plain_reply (HttpError 400 ''email and password are required'')
          else serve_cookie (Login E issuer repo cx \<lparr> liEmail = email, liPassword = pw, liIPAddress = ip, liUserAgent = ua \<rparr>)
                 (\<lambda>out. (Json 200 out, Some (setRefreshCookie (refresh_token_of out))))
                 (\<lambda>e. if e = ErrInvalidCredentials then HttpError 401 ''invalid credentials''
                      else if e = ErrMFAEnrollmentRequired then HttpError 403 ''mfa enrollment required''
                      else HttpError 500 ''internal error''))"

text \<open>\<open>cookie\<close> is the value of the refresh cookie, if the request has one; \<open>body\<close> the decoded token.\<close>

definition Refresh_handler ::
  "env \<Rightarrow> string \<Rightarrow> bool \<Rightarrow> string option \<Rightarrow> string option \<Rightarrow> ctx \<Rightarrow> world
     \<Rightarrow> login_result cookie_reply \<times> world" where
  "Refresh_handler E issuer cached from_cookie body cx =
     (let fromCookie = (case from_cookie of None \<Rightarrow> [] | Some v \<Rightarrow> v);
          fromBody = (case body of None \<Rightarrow> [] | Some t \<Rightarrow> t);
          tok = (if fromBody = [] then fromCookie else fromBody) in
      if body = None \<and> fromCookie = [] then plain_reply (HttpError 400 ''invalid request'')
      else if tok = [] then plain_reply (HttpError 400 ''refresh_token required'')
      else serve_cookie (Refresh E issuer cached cx tok)
             (\<lambda>out. (Json 200 out, Some (setRefreshCookie (lrRefreshToken out))))
             (\<lambda>e. if e = ErrUnauthorized then HttpError 401 ''invalid credentials''
                  else HttpError 500 ''internal error''))"

definition Logout_handler :: "env \<Rightarrow> bool \<Rightarrow> ctx \<Rightarrow> world \<Rightarrow> unit cookie_reply \<times> world" where
  "Logout_handler E cached cx =
     (case Principal cx of
        None \<Rightarrow> plain_reply (HttpError 401 ''unauthorized'')
      | Some p \<Rightarrow> serve_cookie (Logout E cached cx (prSessionID p))
          (\<lambda>_. (Empty 204, Some clearRefreshCookie)) (\<lambda>_. HttpError 500 ''internal error''))"

definition Me_handler :: "principal handler" where
  "Me_handler = authorized (\<lambda>p cx. reply (Json 200 p))"

section \<open>What the operations keep\<close>

lemma quiet_auth [quiet_rules]:
  "quiet (check_password E cx inp)" "quiet (Me E cx sid)" "quiet (fromBearer E cx authz)" "quiet (load_principal E cx sid)"
  unfolding check_password_def Me_def fromBearer_def load_principal_def Let_def by (intro quiet_rules)+

lemma db_free_open_challenge [simp]: "db_free (open_challenge E f)"
  unfolding open_challenge_def GenerateRandom_def by (intro db_free_bind) simp_all

context db_law
begin

lemma keeps_auth_ops [keeps_rules]:
  "keeps (dbs I) (Login E issuer repo cx inp)"
  "keeps (dbs I) (Refresh E issuer cached cx tok)"
  "keeps (dbs I) (Logout E cached cx sid)"
  unfolding Login_def Refresh_def Logout_def
  by (intro keeps_rules keeps_opened_session keeps_replaced_session keeps_dbs_quiet [OF quiet_auth(1)]
      keeps_dbs_quiet [OF quiet_policy(2)] keeps_dbs_quiet [OF quiet_factors(3)] db_free_open_challenge db_free_stores)+

end

section \<open>Outcomes\<close>

lemma check_password_InrD:
  assumes "check_password E cx inp w = (Inr i, w')"
  shows "i \<in> set (identities (view cx w)) \<and> iPrimaryEmail i = liEmail inp
     \<and> (\<exists>c \<in> set (credentials (view cx w)). pg_uuid E (iID i) = Some (crIdentityID c)
          \<and> password_Verify E (liPassword inp) (crPasswordHash c))"
proof -
  obtain w1 c where i: "IdentityRepo_GetByEmail E cx (liEmail inp) w = (Inr i, w1)"
    and c: "CredentialRepo_GetByIdentityID E cx (iID i) w1 = (Inr c, w')" "password_Verify E (liPassword inp) (crPasswordHash c)"
    using assms by (auto simp: check_password_def bindE_Inr_iff split: if_splits)
  show ?thesis
    using IdentityRepo_GetByEmail_InrD [OF i] CredentialRepo_GetByIdentityID_InrD [OF c(1)] c(2) by auto
qed

text \<open>Who logs in: an identity with the email, a credential that accepts the password, a user of it.\<close>

definition logs_in :: "env \<Rightarrow> database \<Rightarrow> login_input \<Rightarrow> identity \<Rightarrow> user \<Rightarrow> bool" where
  "logs_in E d inp i u \<longleftrightarrow> i \<in> set (identities d) \<and> iPrimaryEmail i = liEmail inp
     \<and> (\<exists>c \<in> set (credentials d). pg_uuid E (iID i) = Some (crIdentityID c)
          \<and> password_Verify E (liPassword inp) (crPasswordHash c))
     \<and> u \<in> set (users d) \<and> pg_uuid E (iID i) = Some (usIdentityID u)"

definition has_factor :: "env \<Rightarrow> database \<Rightarrow> string \<Rightarrow> bool" where
  "has_factor E d identityID \<longleftrightarrow>
     (\<exists>f \<in> set (mfa_factors d). pg_uuid E identityID = Some (faIdentityID f) \<and> faVerified f)"

lemma chToken_challenge_for [simp]: "chToken (challenge_for tok f at) = tok"
  by (simp add: challenge_for_def)

lemma open_challenge_InrD:
  assumes "open_challenge E f w = (Inr tok, w')"
  shows "pool_db w' = pool_db w \<and> (\<exists>at t. redis w' = (redis w)(challengePrefix @ tok \<mapsto>
     (RvChallenge (json_challenge (challenge_for tok f at)), t)))"
proof -
  obtain w1 where g: "GenerateRandom E 32 w = (Inr tok, w1)"
    and s: "ChallengeStore_Store E (challenge_for tok f (clock_at E (calls w1))) (tick w1) = (Inr (), w')"
    using assms by (auto simp: open_challenge_def bindE_Inr_iff)
  have "redis w1 = redis w" "pool_db w1 = pool_db w"
    using GenerateRandom_InrD [OF g] by simp_all
  then show ?thesis
    using s chToken_challenge_for
    by (simp add: ChallengeStore_Store_def redis_set_def split: option.splits) (drule sym, auto)
qed

text \<open>The steps before the branching, in one piece.\<close>

lemma Login_cases:
  assumes run: "Login E issuer repo cx inp w = (r, w')" and cx: "\<not> cx_tx cx"
  obtains (refused) e where "r = Inl e" "same_data w w'"
  | (challenged) i u rt w1 where "logs_in E (pool_db w) inp i u" "has_factor E (pool_db w) (iID i)"
      "same_data w w1" "open_challenge E (login_subject inp i u) w1 = (rt, w')"
      "r = map_sum id MFARequired rt"
  | (opened) i u ro w1 where "logs_in E (pool_db w) inp i u" "\<not> has_factor E (pool_db w) (iID i)"
      "same_data w w1" "open_session E issuer cx [] (login_subject inp i u) w1 = (ro, w')"
      "r = map_sum id LoggedIn ro"
proof -
  obtain ri w1 where ck: "check_password E cx inp w = (ri, w1)"
    by fastforce
  note s1 = quietD [OF quiet_auth(1) ck]
  show ?thesis
  proof (cases ri)
    case (Inl e)
    then have "r = Inl e" "w1 = w'"
      using run ck by (simp_all add: Login_def)
    then show ?thesis
      using s1 refused by blast
  next
    case (Inr i)
    obtain ru w2 where us: "UserRepo_GetByIdentityID E cx (iID i) w1 = (ru, w2)"
      by fastforce
    note s2 = same_data_trans [OF s1 quietD [OF quiet_identity(5) us]]
    show ?thesis
    proof (cases ru)
      case (Inl e)
      then have "r = Inl e" "w2 = w'"
        using run ck \<open>ri = Inr i\<close> us by (simp_all add: Login_def)
      then show ?thesis
        using s2 refused by blast
    next
      case u: (Inr u)
      obtain rp w3 where po: "PolicyEnforcer_Get E repo cx (usTenantID u) w2 = (rp, w3)"
        by fastforce
      obtain rf w4 where fa: "FactorRepo_GetVerifiedByIdentity E cx (iID i) w3 = (rf, w4)"
        by fastforce
      note s3 = same_data_trans [OF s2 quietD [OF quiet_policy(2) po]]
      note s4 = same_data_trans [OF s3 quietD [OF quiet_factors(3) fa]]
      show ?thesis
      proof (cases "\<exists>p fs. rp = Inr p \<and> rf = Inr fs")
        case False
        then have "(\<exists>e. r = Inl e) \<and> (w' = w3 \<or> w' = w4)"
          using run ck Inr us u po fa by (cases rp; cases rf) (auto simp: Login_def)
        then show ?thesis
          using s3 s4 refused by blast
      next
        case True
        then obtain p fs where p: "rp = Inr p" "rf = Inr fs"
          by blast
        have li: "logs_in E (pool_db w) inp i u"
          using check_password_InrD ck Inr UserRepo_GetByIdentityID_InrD us u cx s1
          unfolding logs_in_def same_data_def by fastforce
        obtain k where k: "pg_uuid E (iID i) = Some k"
          "set fs = {f \<in> set (mfa_factors (pool_db w)). faIdentityID f = k \<and> faVerified f}"
          using GetVerified_InrD fa p(2) cx s3 unfolding same_data_def by fastforce
        have hf: "has_factor E (pool_db w) (iID i) \<longleftrightarrow> fs \<noteq> []"
          using k unfolding has_factor_def by (cases fs) auto
        have rest: "(if poRequireMFA p \<and> fs = [] then raise ErrMFAEnrollmentRequired
            else if fs \<noteq> [] then bindE (open_challenge E (login_subject inp i u)) (\<lambda>tok. ret (MFARequired tok))
            else bindE (open_session E issuer cx [] (login_subject inp i u)) (\<lambda>out. ret (LoggedIn out))) w4 = (r, w')"
          using run ck Inr us u po fa p by (simp add: Login_def)
        consider "poRequireMFA p \<and> fs = []" | "fs \<noteq> []" | "\<not> poRequireMFA p" "fs = []"
          by blast
        then show ?thesis
        proof cases
          case 1
          then show ?thesis
            using rest s4 refused by auto
        next
          case 2
          obtain rt w5 where oc: "open_challenge E (login_subject inp i u) w4 = (rt, w5)"
            by fastforce
          then have "r = map_sum id MFARequired rt \<and> w5 = w'"
            using rest 2 by (cases rt) (auto simp: bindE_def)
          then show ?thesis
            using challenged li hf 2 s4 oc by auto
        next
          case 3
          obtain ro w5 where os: "open_session E issuer cx [] (login_subject inp i u) w4 = (ro, w5)"
            by fastforce
          then have "r = map_sum id LoggedIn ro \<and> w5 = w'"
            using rest 3 by (cases ro) (auto simp: bindE_def)
          then show ?thesis
            using opened li hf 3 s4 os by auto
        qed
      qed
    qed
  qed
qed

section \<open>Properties\<close>

text \<open>
  C5: a login succeeds only for an email, a password the stored credential accepts and a user of that
  identity. Without a verified second factor it opens exactly one session for that user; with one it
  changes no table and leaves a challenge for exactly that tenant, identity and user. A login that
  fails leaves at most one session nobody received a token for.
\<close>

theorem login_outcome:
  assumes "Login E issuer repo cx inp w = (r, w')" "\<not> cx_tx cx"
  shows "case r of
           Inr (LoggedIn out) \<Rightarrow> \<exists>i u. logs_in E (pool_db w) inp i u \<and> \<not> has_factor E (pool_db w) (iID i)
             \<and> opened E (login_subject inp i u) out (pool_db w) (pool_db w')
         | Inr (MFARequired tok) \<Rightarrow> pool_db w' = pool_db w \<and> (\<exists>i u at t. logs_in E (pool_db w) inp i u
             \<and> has_factor E (pool_db w) (iID i) \<and> redis w' = (redis w)(challengePrefix @ tok \<mapsto>
                 (RvChallenge (json_challenge (challenge_for tok (login_subject inp i u) at)), t)))
         | Inl _ \<Rightarrow> at_most_one_more (pool_db w) (pool_db w')"
  using assms
proof (cases rule: Login_cases)
  case (refused e)
  then show ?thesis
    by (simp add: same_data_def at_most_one_more_def)
next
  case (challenged i u rt w1)
  have "pool_db w' = pool_db w"
    using db_freeD [OF db_free_open_challenge challenged(4)] challenged(3) by (simp add: same_data_def)
  moreover have "rt = Inr tok \<Longrightarrow> \<exists>at t. redis w' = (redis w)(challengePrefix @ tok \<mapsto>
      (RvChallenge (json_challenge (challenge_for tok (login_subject inp i u) at)), t))" for tok
    using open_challenge_InrD [of E "login_subject inp i u" w1 tok w'] challenged(3,4) by (simp add: same_data_def)
  ultimately show ?thesis
    using challenged(1,2,5) by (cases rt) (simp add: at_most_one_more_def, simp, metis)
next
  case (opened i u ro w1)
  then show ?thesis
    using open_session_InrD [of E issuer cx "[]" _ w1 _ w'] open_session_any [OF opened(4) assms(2)] assms(2)
    by (cases ro) (auto simp: same_data_def)
qed

definition demo_login :: login_input where
  "demo_login = \<lparr> liEmail = ''ann@x.io'', liPassword = ''pw'', liIPAddress = ''10.0.0.1'', liUserAgent = ''ua'' \<rparr>"

lemma demo_password [simp]: "password_Verify demo_env ''pw'' (encode_hash [1] (argon_key demo_env ''pw'' [1] 2))"
proof -
  have len: "length (argon_key demo_env ''pw'' [1] 2) = 2"
    by (simp add: argon_key_def demo_argon_length)
  then have "argon_key demo_env ''pw'' [1] 2 \<noteq> []"
    by auto
  then show ?thesis
    by (simp add: verify_encoded len)
qed

lemmas demo_login_defs =
  Login_def check_password_def identity_repo_defs PolicyEnforcer_Get_def PolicyRepo_Get_def
  FactorRepo_GetVerifiedByIdentity_def query_all_def newest_factor_def login_subject_def demo_session_defs

lemma demo_logs_in:
  "\<exists>out w'. Login demo_env ''iss'' False background demo_login (world_of demo_db) = (Inr (LoggedIn out), w')"
  by (simp add: demo_login_defs run_simps Let_def demo_login_def demo_db_def demo_tenant_def DefaultPolicy_def
      demo_signing_key_def [symmetric])

theorem login_outcome_witness:
  "\<exists>out w'. Login demo_env ''iss'' False background demo_login (world_of demo_db) = (Inr (LoggedIn out), w')
     \<and> (\<exists>i u. logs_in demo_env demo_db demo_login i u)"
proof -
  obtain out w' where run: "Login demo_env ''iss'' False background demo_login (world_of demo_db) = (Inr (LoggedIn out), w')"
    using demo_logs_in by blast
  show ?thesis
    using login_outcome [OF run background_simps(1)] run by auto
qed

text \<open>
  C11: refreshing rotates the session: the token's session must be known, not revoked and not expired;
  afterwards it is revoked and exactly one new session, with a new token, the same tenant, identity
  and user and the old one as parent, has been added.
\<close>

theorem refresh_outcome:
  assumes "Refresh E issuer cached cx tok w = (Inr out, w')" "\<not> cx_tx cx"
  shows "\<exists>s \<in> set (sessions (pool_db w)). ssRefreshTokenHash s = token_Hash tok \<and> ssRevokedAt s = None
     \<and> clock_at E (Suc (calls w)) \<le> ssExpiresAt s \<and> replaced E s out (pool_db w) (pool_db w')"
proof -
  obtain s w1 where find: "find_refreshable E cx ErrUnauthorized tok w = (Inr s, w1)"
    and rep: "replace_session E issuer cx (PrincipalCache_Delete E cached) [] s w1 = (Inr out, w')"
    using assms(1) by (auto simp: Refresh_def bindE_Inr_iff)
  note f = find_refreshable_InrD [OF find]
  have "replaced E s out (pool_db w) (pool_db w')"
    using replace_session_InrD [OF rep assms(2)] f by simp
  then show ?thesis
    using f assms(2) by auto
qed

definition demo_refresh_db :: database where
  "demo_refresh_db = demo_db\<lparr>sessions := [demo_session]\<rparr>"

lemmas demo_refresh_defs =
  Refresh_def find_refreshable_def replace_session_def heir_of_def PrincipalCache_Delete_def
  upd_sessions_def identity_repo_defs demo_session_defs

lemma demo_refresh:
  "\<exists>out w'. Refresh demo_env ''iss'' False background ''r'' (world_of demo_refresh_db) = (Inr out, w')"
  by (simp add: demo_refresh_defs run_simps Let_def demo_refresh_db_def demo_session_def demo_db_def demo_tenant_def
      demo_signing_key_def [symmetric])

theorem refresh_outcome_witness:
  "\<exists>out w'. Refresh demo_env ''iss'' False background ''r'' (world_of demo_refresh_db) = (Inr out, w')
     \<and> replaced demo_env demo_session out demo_refresh_db (pool_db w')"
proof -
  obtain out w' where run: "Refresh demo_env ''iss'' False background ''r'' (world_of demo_refresh_db) = (Inr out, w')"
    using demo_refresh by blast
  have "sessions demo_refresh_db = [demo_session]"
    by (simp add: demo_refresh_db_def)
  then show ?thesis
    using refresh_outcome [OF run background_simps(1)] run by auto
qed

text \<open>
  C6: a refresh token works once. If one session has the token's hash, then after a successful refresh
  the token is spent: with any database in which it is spent, refreshing with it again is unauthorized,
  also when services fail.
\<close>

theorem refresh_token_single_use:
  assumes "Refresh E issuer cached cx tok w = (Inr out, w')" "\<not> cx_tx cx"
    and "filter (\<lambda>s. ssRefreshTokenHash s = token_Hash tok) (sessions (pool_db w)) = [s]"
    and "pg_uuid E (ssID s) = Some (ssID s)" "token_Hash (lrRefreshToken out) \<noteq> token_Hash tok"
  shows "spent tok (pool_db w') \<and>
    (spent tok (view cx' v) \<longrightarrow> fst (Refresh E issuer' cached' cx' tok v) = Inl ErrUnauthorized)"
proof -
  obtain s0 w1 where find: "find_refreshable E cx ErrUnauthorized tok w = (Inr s0, w1)"
    and rep: "replace_session E issuer cx (PrincipalCache_Delete E cached) [] s0 w1 = (Inr out, w')"
    using assms(1) by (auto simp: Refresh_def bindE_Inr_iff)
  note f = find_refreshable_InrD [OF find]
  have "s0 \<in> set (filter (\<lambda>s. ssRefreshTokenHash s = token_Hash tok) (sessions (pool_db w)))"
    using f assms(2) by simp
  then have "s0 = s"
    unfolding assms(3) by simp
  then have "replaced E s out (pool_db w) (pool_db w')"
    using replace_session_InrD [OF rep assms(2)] f assms(2) by simp
  then have "spent tok (pool_db w')"
    by (rule replaced_spent [OF _ assms(3-5)])
  then show ?thesis
    unfolding Refresh_def by (auto intro: fst_bind_Inl find_refreshable_spent)
qed

lemma replace_session_token:
  "replace_session E issuer cx f aud s w = (Inr out, w') \<Longrightarrow>
     \<exists>w1 u w2 w3. SessionRepo_Revoke E cx (ssID s) w = (Inr (), w1) \<and> f (ssID s) w1 = (Inr u, w2)
       \<and> GenerateRandom E 32 w2 = (Inr (lrRefreshToken out), w3)"
  unfolding replace_session_def Let_def bindE_Inr_iff by auto

lemma demo_rotation_token:
  assumes find: "find_refreshable demo_env background e ''r'' w = (Inr s, w1)" and w: "calls w = 0"
    and rep: "replace_session demo_env issuer background f aud s w1 = (Inr out, w')" and f: "\<And>sid w. f sid w = (Inr (), w)"
  shows "lrRefreshToken out = raw_url_encode (map (\<lambda>i. word_of_nat (21 + i)) [0..<32])"
proof -
  obtain w2 w3 where rv: "SessionRepo_Revoke demo_env background (ssID s) w1 = (Inr (), w2)"
    and g: "GenerateRandom demo_env 32 w2 = (Inr (lrRefreshToken out), w3)"
    using replace_session_token [OF rep] by (auto simp: f)
  have "calls w1 = 2"
    using find_refreshable_InrD [OF find] w by simp
  then have "calls w2 = 3"
    using SessionRepo_Revoke_InrD [OF rv] by auto
  then show ?thesis
    using GenerateRandom_InrD [OF g] by (simp del: upt_rec_numeral)
qed

lemma demo_refresh_token:
  assumes run: "Refresh demo_env ''iss'' False background ''r'' (world_of demo_refresh_db) = (Inr out, w')"
  shows "lrRefreshToken out = raw_url_encode (map (\<lambda>i. word_of_nat (21 + i)) [0..<32])"
proof -
  obtain s w1 where find: "find_refreshable demo_env background ErrUnauthorized ''r'' (world_of demo_refresh_db) = (Inr s, w1)"
    and rep: "replace_session demo_env ''iss'' background (PrincipalCache_Delete demo_env False) [] s w1 = (Inr out, w')"
    using run by (auto simp: Refresh_def bindE_Inr_iff)
  show ?thesis
    by (rule demo_rotation_token [OF find _ rep]) (simp_all add: PrincipalCache_Delete_def ret_def)
qed

lemma demo_token:
  "raw_url_encode (map (\<lambda>i. word_of_nat (21 + i)) [0..<32]) = ''FRYXGBkaGxwdHh8gISIjJCUmJygpKissLS4vMDEyMzQ''"
  by code_simp

lemma demo_token_hash1: "token_Hash ''r'' = ''454349e422f05297191ead13e21d3db520e5abef52055e4964b82fb213f593a1''"
  unfolding token_Hash_def by code_simp

lemma demo_token_hash2: "token_Hash ''FRYXGBkaGxwdHh8gISIjJCUmJygpKissLS4vMDEyMzQ'' =
     ''5dcf3b00110892df98656dd8c06bad5ed0920e679a0b47c554113de63a03e6ac''"
  unfolding token_Hash_def by code_simp

theorem refresh_token_single_use_witness:
  "\<exists>out w'. Refresh demo_env ''iss'' False background ''r'' (world_of demo_refresh_db) = (Inr out, w')
     \<and> fst (Refresh demo_env ''iss'' False background ''r'' w') = Inl ErrUnauthorized"
proof -
  obtain out w' where run: "Refresh demo_env ''iss'' False background ''r'' (world_of demo_refresh_db) = (Inr out, w')"
    using demo_refresh by blast
  have "filter (\<lambda>s. ssRefreshTokenHash s = token_Hash ''r'') (sessions (pool_db (world_of demo_refresh_db))) = [demo_session]"
    by (simp add: demo_refresh_db_def demo_session_def)
  moreover have "token_Hash (lrRefreshToken out) \<noteq> token_Hash ''r''"
    unfolding demo_refresh_token [OF run] demo_token demo_token_hash1 demo_token_hash2 by simp
  ultimately have "spent ''r'' (pool_db w')
      \<and> (spent ''r'' (view background w') \<longrightarrow> fst (Refresh demo_env ''iss'' False background ''r'' w') = Inl ErrUnauthorized)"
    by (intro refresh_token_single_use [OF run background_simps(1)]) simp_all
  then show ?thesis
    using run by auto
qed

lemma PrincipalCache_Delete_healthy:
  assumes "\<And>n. redis_fault E n = None" "PrincipalCache_Delete E cached sid w = (r, w')"
  shows "pool_db w' = pool_db w \<and> (cached \<longrightarrow> redis w' (cachePrefix @ sid) = None)"
  using assms(2) db_freeD [OF db_free_stores(9) assms(2)]
  by (auto simp: PrincipalCache_Delete_def redis_del_def assms(1))

lemma PrincipalCache_Get_absent:
  assumes "cached \<longrightarrow> redis w (cachePrefix @ sid) = None"
  shows "\<exists>w1. PrincipalCache_Get E cached sid w = (Inr None, w1) \<and> pool_db w1 = pool_db w"
  using assms
  by (auto simp: PrincipalCache_Get_def redis_get_def redis_live_def bindE_def cache_miss_def attempt_def ret_def
      split: option.splits)

lemma PrincipalCache_Get_hit:
  assumes "PrincipalCache_Get E cached sid w = (Inr (Some p), w')"
  shows "cached \<and> redis_live E w (cachePrefix @ sid) = Some (RvPrincipal p)"
proof -
  have "cached"
    using assms by (cases cached) (auto simp: PrincipalCache_Get_def)
  then obtain r w1 where "redis_get E (cachePrefix @ sid) w = (r, w1)"
      "(case r of Inl _ \<Rightarrow> cache_miss
        | Inr v \<Rightarrow> (case as_principal v of None \<Rightarrow> cache_miss | Some p \<Rightarrow> cache_hit p)) w1 = (Inr (Some p), w')"
    using assms by (auto simp: PrincipalCache_Get_def bindE_Inr_iff)
  then obtain v where "redis_live E w (cachePrefix @ sid) = Some v" "as_principal v = Some p"
    by (cases r) (auto simp: cache_miss_def cache_hit_def redis_get_def split: option.splits)
  then show ?thesis
    using \<open>cached\<close> by (cases v) auto
qed

lemma Logout_InrD:
  assumes run: "Logout E cached cx sid w = (Inr (), w')" and cx: "\<not> cx_tx cx"
    and can: "uuid_canonical E" and red: "\<And>n. redis_fault E n = None"
    and id: "unique ssID (sessions (pool_db w))"
  shows "\<exists>k. pg_uuid E sid = Some k \<and> (\<forall>s \<in> set (sessions (pool_db w')). ssID s = k \<longrightarrow> ssRevokedAt s \<noteq> None)
     \<and> (pool_db w' = pool_db w \<or> (\<exists>t. pool_db w' = (pool_db w)\<lparr>sessions := revoke k t (sessions (pool_db w))\<rparr>))
     \<and> (cached \<longrightarrow> redis w' (cachePrefix @ sid) = None)"
proof -
  obtain s w1 where get: "SessionRepo_GetByID E cx sid w = (Inr s, w1)"
    and rest: "(if ssRevokedAt s \<noteq> None then PrincipalCache_Delete E cached sid
       else bindE (SessionRepo_Revoke E cx (ssID s)) (\<lambda>_. PrincipalCache_Delete E cached sid)) w1 = (Inr (), w')"
    using run unfolding Logout_def bindE_Inr_iff or_err_Inr_iff by blast
  have s: "w1 = tick w" "pg_uuid E sid = Some (ssID s)" "s \<in> set (sessions (pool_db w))"
    using SessionRepo_GetByID_InrD [OF get] cx by simp_all
  show ?thesis
  proof (cases "ssRevokedAt s = None")
    case False
    have "s0 = s" if "s0 \<in> set (sessions (pool_db w))" "ssID s0 = ssID s" for s0
      using that s(3) id by (auto simp: unique_def inj_on_def distinct_map)
    then show ?thesis
      using PrincipalCache_Delete_healthy [OF red] rest False s by fastforce
  next
    case True
    obtain w2 where rv: "SessionRepo_Revoke E cx (ssID s) w1 = (Inr (), w2)"
      and del: "PrincipalCache_Delete E cached sid w2 = (Inr (), w')"
      using rest True by (auto simp: bindE_Inr_iff)
    obtain t where "pool_db w2 = (pool_db w)\<lparr>sessions := revoke (ssID s) t (sessions (pool_db w))\<rparr>"
      using SessionRepo_Revoke_InrD [OF rv] uuid_canonicalD [OF can s(2)] s(1) cx by auto
    then have "pool_db w' = (pool_db w)\<lparr>sessions := revoke (ssID s) t (sessions (pool_db w))\<rparr>"
      using PrincipalCache_Delete_healthy [OF red del] by simp
    then show ?thesis
      using PrincipalCache_Delete_healthy [OF red del] s(2) by (auto simp: revoke_def)
  qed
qed

text \<open>A principal the session header yields without the cache is that of a live session.\<close>

lemma load_principal_InrD:
  assumes "load_principal E cx sid w = (Inr p, w')"
  shows "\<exists>s \<in> set (sessions (view cx w)). pg_uuid E sid = Some (ssID s) \<and> ssRevokedAt s = None
     \<and> clock_at E (Suc (calls w)) \<le> ssExpiresAt s
     \<and> (\<exists>i \<in> set (identities (view cx w)). pg_uuid E (ssIdentityID s) = Some (iID i)
          \<and> p = principal_for (heir_of s (iPrimaryEmail i)) (ssID s) (prRoles p) (prPermissions p))"
proof -
  obtain s w1 i w2 where get: "SessionRepo_GetByID E cx sid w = (Inr s, w1)" and live: "ssRevokedAt s = None"
    and exp: "\<not> ssExpiresAt s < clock_at E (calls w1)"
    and idn: "IdentityRepo_GetByID E cx (ssIdentityID s) (tick w1) = (Inr i, w2)"
    and p: "p = principal_for (heir_of s (iPrimaryEmail i)) (ssID s) (prRoles p) (prPermissions p)"
    using assms by (auto simp: load_principal_def bindE_Inr_iff principal_for_def split: if_splits)
  show ?thesis
    using SessionRepo_GetByID_InrD [OF get] IdentityRepo_GetByID_InrD [OF idn] live exp p by auto
qed

lemma fromSessionHeader_cases:
  assumes "fromSessionHeader E cached cx sid w = (Inr (Some p), w')"
  shows "(cached \<and> redis_live E w (cachePrefix @ sid) = Some (RvPrincipal p)) \<or>
     (\<exists>w1. pool_db w1 = pool_db w \<and> view cx w1 = view cx w \<and> (\<exists>w2. load_principal E cx sid w1 = (Inr p, w2)))"
proof -
  obtain hit w1 where get: "PrincipalCache_Get E cached sid w = (Inr hit, w1)"
    and rest: "(case hit of Some p \<Rightarrow> ret (Some p)
        | None \<Rightarrow> bindE (attempt (load_principal E cx sid)) (\<lambda>r. case r of
              Inl _ \<Rightarrow> ret None
            | Inr p \<Rightarrow> bindE (PrincipalCache_Put E cached p) (\<lambda>_. ret (Some p)))) w1 = (Inr (Some p), w')"
    using assms by (auto simp: fromSessionHeader_def bindE_Inr_iff split: if_splits)
  show ?thesis
  proof (cases hit)
    case None
    obtain r w2 where lp: "load_principal E cx sid w1 = (r, w2)"
      by fastforce
    then have "r = Inr p"
      using rest None by (cases r) (auto simp: bindE_def ret_def split: prod.splits sum.splits)
    then show ?thesis
      using lp db_freeD [OF db_free_stores(7) get] by blast
  next
    case (Some q)
    then have "cached \<and> redis_live E w (cachePrefix @ sid) = Some (RvPrincipal p)"
      using PrincipalCache_Get_hit [of E cached sid w q w1] get rest by auto
    then show ?thesis by blast
  qed
qed

lemma fromSessionHeader_NoneI:
  assumes "cached \<longrightarrow> redis w (cachePrefix @ sid) = None"
    and "\<And>w1 p. pool_db w1 = pool_db w \<Longrightarrow> fst (load_principal E cx sid w1) \<noteq> Inr p"
  shows "fst (fromSessionHeader E cached cx sid w) = Inr None"
proof -
  obtain w1 where get: "PrincipalCache_Get E cached sid w = (Inr None, w1)" "pool_db w1 = pool_db w"
    using PrincipalCache_Get_absent [OF assms(1)] by blast
  obtain e w2 where "load_principal E cx sid w1 = (Inl e, w2)"
    using assms(2) [OF get(2)] by (cases "load_principal E cx sid w1"; cases "fst (load_principal E cx sid w1)") auto
  then show ?thesis
    using get by (simp add: fromSessionHeader_def ret_def)
qed



lemma demo_integrity: "integrity demo_db"
  by (simp add: integrity_def unique_def refers_def has_key_def orphaned_def user_membership_def user_login_def
     role_name_key_def rp_key_def ur_key_def demo_db_def demo_tenant_def)

lemma demo_logout:
  "\<exists>w'. Logout demo_env True background ''s-a'' (world_of demo_db) = (Inr (), w')"
  by (simp add: Logout_def session_repo_defs upd_sessions_def where_uuid_def PrincipalCache_Delete_def run_simps demo_db_def)


lemma fromBearer_SomeD:
  assumes "fromBearer E cx authz w = (Inr (Some p), w')"
  shows "\<exists>tok c w1. authz = ''Bearer '' @ tok \<and> tok \<noteq> [] \<and> JWT_Verify E cx tok w = (Inr c, w1) \<and> p = principal_of_claims c"
proof -
  obtain tok where tok: "authz = ''Bearer '' @ tok" "tok \<noteq> []"
    and run: "bindE (attempt (JWT_Verify E cx tok)) (\<lambda>r. case r of
               Inl _ \<Rightarrow> ret None
             | Inr claims \<Rightarrow> ret (Some (principal_of_claims claims))) w = (Inr (Some p), w')"
    using assms by (auto simp: fromBearer_def has_prefix_iff trim_prefix_append Let_def simp del: append_Cons split: if_splits)
  obtain r w1 where v: "JWT_Verify E cx tok w = (r, w1)"
    by fastforce
  then show ?thesis
    using run tok by (cases r) auto
qed

text \<open>
  C12: the principal of a request comes from a bearer token that verifies, or else from the session header:
  from a cache entry that has not expired, or from a session that is neither revoked nor expired, with
  that session's ids and its identity's email.
\<close>

theorem request_principal_sound:
  assumes "request_principal E cached authz sid cx w = (Inr (Some p), w')"
  shows "(\<exists>tok c w1. authz = ''Bearer '' @ tok \<and> tok \<noteq> [] \<and> JWT_Verify E cx tok w = (Inr c, w1) \<and> p = principal_of_claims c)
     \<or> cached \<and> (\<exists>t n. redis w (cachePrefix @ sid) = Some (RvPrincipal p, t) \<and> redis_now E n < t)
     \<or> (\<exists>s \<in> set (sessions (view cx w)). pg_uuid E sid = Some (ssID s) \<and> ssRevokedAt s = None
         \<and> (\<exists>n. clock_at E n \<le> ssExpiresAt s)
         \<and> (\<exists>i \<in> set (identities (view cx w)). pg_uuid E (ssIdentityID s) = Some (iID i)
              \<and> p = principal_for (heir_of s (iPrimaryEmail i)) (ssID s) (prRoles p) (prPermissions p)))"
proof -
  obtain b w1 where fb: "fromBearer E cx authz w = (Inr b, w1)"
    and rest: "(case b of Some p \<Rightarrow> ret (Some p) | None \<Rightarrow> fromSessionHeader E cached cx sid) w1 = (Inr (Some p), w')"
    using assms by (auto simp: request_principal_def bindE_Inr_iff)
  have same: "same_data w w1"
    by (rule quietD [OF quiet_auth(3) fb])
  show ?thesis
  proof (cases b)
    case (Some q)
    then have "q = p"
      using rest by simp
    then show ?thesis
      using fromBearer_SomeD [of E cx authz w p w1] fb Some by auto
  next
    case None
    then have "fromSessionHeader E cached cx sid w1 = (Inr (Some p), w')"
      using rest by simp
    then consider "cached" "redis_live E w1 (cachePrefix @ sid) = Some (RvPrincipal p)"
      | w2 w3 where "view cx w2 = view cx w1" "load_principal E cx sid w2 = (Inr p, w3)"
      using fromSessionHeader_cases by blast
    then show ?thesis
    proof cases
      case 1
      then have "\<exists>t n. redis w (cachePrefix @ sid) = Some (RvPrincipal p, t) \<and> redis_now E n < t"
        using same unfolding redis_live_def same_data_def by (auto split: option.splits if_splits)
      then show ?thesis
        using 1 by blast
    next
      case 2
      then show ?thesis
        using load_principal_InrD [OF 2(2)] same_data_view [OF same] by auto
    qed
  qed
qed

lemma demo_request:
  "\<exists>p w'. request_principal demo_env True [] ''s-a'' background (world_of demo_db) = (Inr (Some p), w')"
  by (simp add: request_principal_def fromBearer_def has_prefix_def fromSessionHeader_def PrincipalCache_Get_def
      PrincipalCache_Put_def redis_get_def redis_live_def cache_miss_def load_principal_def session_repo_defs
      identity_repo_defs GetRolesForUser_def GetPermissionsForUser_def where_uuid_def run_simps demo_db_def)

theorem request_principal_sound_witness:
  "\<exists>p w'. request_principal demo_env True [] ''s-a'' background (world_of demo_db) = (Inr (Some p), w')
     \<and> prTenantID p = ''t-a'' \<and> prUserID p = ''u-a''"
proof -
  obtain p w' where run: "request_principal demo_env True [] ''s-a'' background (world_of demo_db) = (Inr (Some p), w')"
    using demo_request by blast
  have "prTenantID p = ''t-a'' \<and> prUserID p = ''u-a''"
    using request_principal_sound [OF run] by (cases p) (auto simp: demo_db_def principal_for_def heir_of_def)
  then show ?thesis
    using run by blast
qed

text \<open>
  An address passes as an email exactly if it has one at sign, something on both sides of it and a
  dot after it.
\<close>

theorem is_valid_email_iff:
  "isValidEmail email \<longleftrightarrow> (\<exists>l d. email = l @ ''@'' @ d \<and> CHR ''@'' \<notin> set l \<and> CHR ''@'' \<notin> set d
     \<and> l \<noteq> [] \<and> d \<noteq> [] \<and> CHR ''.'' \<in> set d)"
proof
  assume "isValidEmail email"
  then obtain l d where split: "split_ch CHR ''@'' email = [l, d]" and ok: "l \<noteq> []" "d \<noteq> []" "CHR ''.'' \<in> set d"
    by (auto simp: isValidEmail_def split: list.splits)
  have "email = l @ ''@'' @ d"
    using join_split_ch [of "CHR ''@''" email] unfolding split by simp
  moreover have "CHR ''@'' \<notin> set l" "CHR ''@'' \<notin> set d"
    using split_ch_no_sep [of _ "CHR ''@''" email] unfolding split by simp_all
  ultimately show "\<exists>l d. email = l @ ''@'' @ d \<and> CHR ''@'' \<notin> set l \<and> CHR ''@'' \<notin> set d
     \<and> l \<noteq> [] \<and> d \<noteq> [] \<and> CHR ''.'' \<in> set d"
    using ok by blast
next
  assume "\<exists>l d. email = l @ ''@'' @ d \<and> CHR ''@'' \<notin> set l \<and> CHR ''@'' \<notin> set d
     \<and> l \<noteq> [] \<and> d \<noteq> [] \<and> CHR ''.'' \<in> set d"
  then show "isValidEmail email"
    by (auto simp: isValidEmail_def split_ch_append_sep)
qed

text \<open>Opening a session always succeeds in the example environment.\<close>

lemma demo_open_session_gen:
  assumes "pool_db w = demo_db\<lparr>sessions := [], oauth_clients := cs, webauthn_credentials := ws\<rparr>"
  shows "\<exists>out w'. open_session demo_env ''iss'' background aud
     \<lparr> sfTenantID = ''t-a'', sfIdentityID = ''i-a'', sfUserID = ''u-a'', sfEmail = email, sfIPAddress = None, sfUserAgent = ua \<rparr> w =
     (Inr out, w') \<and> pool_db w' = (pool_db w)\<lparr>sessions := sessions (pool_db w')\<rparr>"
  using assms
  by (simp add: demo_session_defs run_simps Let_def demo_db_def demo_tenant_def demo_signing_key_def [symmetric])

end
