(* ===== verification/Janus_Oauth.thy ===== *)
theory Janus_Oauth
  imports Janus_Auth
begin

text \<open>
  \<^verbatim>\<open>internal/oauth\<close> and \<^verbatim>\<open>internal/oidc\<close>: the client repository, the authorization endpoint (codes bound
  to a client, a redirect URI and a PKCE challenge), the token endpoint with its two grants, ID tokens,
  the discovery document and the userinfo endpoint.
\<close>

section \<open>Clients\<close>

definition HasGrantType :: "client \<Rightarrow> string \<Rightarrow> bool" where
  "HasGrantType c g = list_has g (ocGrantTypes c)"

definition HasRedirectURI :: "client \<Rightarrow> string \<Rightarrow> bool" where
  "HasRedirectURI c u = list_has u (ocRedirectURIs c)"

definition AllowsScope :: "client \<Rightarrow> string \<Rightarrow> bool" where
  "AllowsScope c s = list_has s (ocScopes c)"

text \<open>The lists are JSON columns; an empty secret hash is stored as NULL and read back as empty.\<close>

definition ClientRepo_GetByClientID :: "env \<Rightarrow> ctx \<Rightarrow> string \<Rightarrow> client io" where
  "ClientRepo_GetByClientID E cx clientID =
     no_rows_not_found (query_row E cx (\<lambda>d. Inr (filter (\<lambda>c. ocClientID c = clientID) (oauth_clients d))))"

definition ClientRepo_Create :: "env \<Rightarrow> ctx \<Rightarrow> client \<Rightarrow> unit io" where
  "ClientRepo_Create E cx c =
     exec_sql E cx (cast_row (pg_client E (c\<lparr>ocRedirectURIs := map json_string (ocRedirectURIs c),
       ocGrantTypes := map json_string (ocGrantTypes c), ocScopes := map json_string (ocScopes c)\<rparr>)) ins_client)"

section \<open>Authorization\<close>

definition codeTTL :: time where "codeTTL = 10 * minute"

record authorize_input =
  aiClientID :: string
  aiRedirectURI :: string
  aiResponseType :: string
  aiScope :: string
  aiState :: string
  aiCodeChallenge :: string
  aiCodeChallengeMethod :: string
  aiNonce :: string
  aiPrincipal :: principal

record authorize_output =
  aoCode :: string
  aoState :: string
  aoRedirectURI :: string

definition splitScopes :: "string \<Rightarrow> string list" where
  "splitScopes s = (if s = [] then [] else Go_Strings.fields s)"

text \<open>What the client must allow, in the order of the checks.\<close>

definition client_check :: "client \<Rightarrow> authorize_input \<Rightarrow> error + unit" where
  "client_check c inp =
     (if \<not> HasRedirectURI c (aiRedirectURI inp) then Inl ErrInvalidRedirectURI
      else if \<not> HasGrantType c ''authorization_code'' then Inl ErrUnsupportedGrant
      else if \<not> list_all (AllowsScope c) (splitScopes (aiScope inp)) then Inl ErrInvalidScope
      else if ocTenantID c \<noteq> prTenantID (aiPrincipal inp) then Inl ErrInvalidClient
      else Inr ())"

definition code_for :: "client \<Rightarrow> authorize_input \<Rightarrow> string \<Rightarrow> time \<Rightarrow> auth_code" where
  "code_for c inp codeStr at = \<lparr> acCode = codeStr, acClientID = ocClientID c, acTenantID = ocTenantID c,
     acIdentityID = prIdentityID (aiPrincipal inp), acUserID = prUserID (aiPrincipal inp),
     acScopes = splitScopes (aiScope inp), acRedirectURI = aiRedirectURI inp,
     acCodeChallenge = aiCodeChallenge inp, acCodeChallengeMethod = aiCodeChallengeMethod inp,
     acNonce = aiNonce inp, acExpiresAt = at + codeTTL \<rparr>"

definition Authorize :: "env \<Rightarrow> ctx \<Rightarrow> authorize_input \<Rightarrow> authorize_output io" where
  "Authorize E cx inp =
     (if aiResponseType inp \<noteq> ''code'' then raise ErrUnsupportedResponse
      else if aiCodeChallenge inp = [] then raise ErrMissingPKCE
      else if aiCodeChallengeMethod inp \<noteq> ''S256'' then raise ErrUnsupportedChallenge
      else
        bindE (or_err ErrInvalidClient (ClientRepo_GetByClientID E cx (aiClientID inp))) (\<lambda>c.
        bindE (of_result (client_check c inp)) (\<lambda>_.
        bindE (GenerateRandom E 32) (\<lambda>codeStr.
        bindE (now E) (\<lambda>at.
        bindE (CodeStore_Store E (code_for c inp codeStr at)) (\<lambda>_.
          ret \<lparr> aoCode = codeStr, aoState = aiState inp, aoRedirectURI = aiRedirectURI inp \<rparr>))))))"

section \<open>ID tokens\<close>

text \<open>An ID token carries the ids and the email, but no roles and no permissions.\<close>

definition id_principal :: "principal \<Rightarrow> principal" where
  "id_principal p = p\<lparr>prRoles := [], prPermissions := []\<rparr>"

definition IssueIDToken :: "env \<Rightarrow> string \<Rightarrow> ctx \<Rightarrow> principal \<Rightarrow> string \<Rightarrow> string \<Rightarrow> time \<Rightarrow> string io" where
  "IssueIDToken E issuer cx p clientID nonce ttl =
     JWT_Issue E issuer cx (id_principal p) \<lparr> ioAudience = [clientID], ioTTL = ttl, ioNonce = nonce \<rparr>"

section \<open>Tokens\<close>

record token_input =
  tiGrantType :: string
  tiCode :: string
  tiRedirectURI :: string
  tiClientID :: string
  tiClientSecret :: string
  tiCodeVerifier :: string
  tiRefreshToken :: string
  tiScope :: string

record token_output =
  toAccessToken :: string
  toTokenType :: string
  toExpiresIn :: int
  toRefreshToken :: string
  toIDToken :: string
  toScope :: string

definition verifyPKCE :: "string \<Rightarrow> string \<Rightarrow> bool" where
  "verifyPKCE verifier ch \<longleftrightarrow> raw_url_encode (sha256 (bytes_of verifier)) = ch"

definition hasScope :: "string list \<Rightarrow> string \<Rightarrow> bool" where
  "hasScope scopes target = list_has target scopes"

definition client_authenticated :: "client \<Rightarrow> token_input \<Rightarrow> bool" where
  "client_authenticated c inp \<longleftrightarrow> (ocConfidential c \<longrightarrow>
     tiClientSecret inp \<noteq> [] \<and> token_Hash (tiClientSecret inp) = ocClientSecretHash c)"

definition code_subject :: "auth_code \<Rightarrow> string \<Rightarrow> session_for" where
  "code_subject c email = \<lparr> sfTenantID = acTenantID c, sfIdentityID = acIdentityID c,
     sfUserID = acUserID c, sfEmail = email, sfIPAddress = None, sfUserAgent = [] \<rparr>"

definition code_matches :: "auth_code \<Rightarrow> token_input \<Rightarrow> bool" where
  "code_matches c inp \<longleftrightarrow> acClientID c = tiClientID inp \<and> acRedirectURI c = tiRedirectURI inp
     \<and> verifyPKCE (tiCodeVerifier inp) (acCodeChallenge c)"

text \<open>\<open>id_tokens\<close>: whether the server was given an issuer of ID tokens.\<close>

definition code_output :: "auth_code \<Rightarrow> login_result \<Rightarrow> string \<Rightarrow> token_output" where
  "code_output c out idt = \<lparr> toAccessToken = lrAccessToken out, toTokenType = ''Bearer'',
     toExpiresIn = lrExpiresIn out, toRefreshToken = lrRefreshToken out, toIDToken = idt,
     toScope = join_str '' '' (acScopes c) \<rparr>"

definition authorizationCodeGrant :: "env \<Rightarrow> string \<Rightarrow> bool \<Rightarrow> ctx \<Rightarrow> token_input \<Rightarrow> token_output io" where
  "authorizationCodeGrant E issuer id_tokens cx inp =
     bindE (or_err ErrInvalidClient (ClientRepo_GetByClientID E cx (tiClientID inp))) (\<lambda>client.
       if \<not> client_authenticated client inp then raise ErrInvalidClient
       else
         bindE (or_err ErrInvalidGrant (CodeStore_Consume E (tiCode inp))) (\<lambda>c.
         bindE (now E) (\<lambda>at.
           if acExpiresAt c < at \<or> \<not> code_matches c inp then raise ErrInvalidGrant
           else
             bindE (IdentityRepo_GetByID E cx (acIdentityID c)) (\<lambda>identity.
             bindE (open_session E issuer cx [tiClientID inp] (code_subject c (iPrimaryEmail identity))) (\<lambda>out.
               if hasScope (acScopes c) ''openid'' \<and> id_tokens then
                 bindE (IssueIDToken E issuer cx (lrPrincipal out) (tiClientID inp) (acNonce c) accessTokenTTL) (\<lambda>idt.
                   ret (code_output c out idt))
               else ret (code_output c out []))))))"

text \<open>The refresh grant reads the client's id for the audience only.\<close>

definition refreshTokenGrant :: "env \<Rightarrow> string \<Rightarrow> ctx \<Rightarrow> token_input \<Rightarrow> token_output io" where
  "refreshTokenGrant E issuer cx inp =
     bindE (find_refreshable E cx ErrInvalidGrant (tiRefreshToken inp)) (\<lambda>s.
     bindE (replace_session E issuer cx (\<lambda>_. ret ()) [tiClientID inp] s) (\<lambda>out.
       ret \<lparr> toAccessToken = lrAccessToken out, toTokenType = ''Bearer'', toExpiresIn = lrExpiresIn out,
             toRefreshToken = lrRefreshToken out, toIDToken = [], toScope = [] \<rparr>))"

definition Token :: "env \<Rightarrow> string \<Rightarrow> bool \<Rightarrow> ctx \<Rightarrow> token_input \<Rightarrow> token_output io" where
  "Token E issuer id_tokens cx inp =
     (if tiGrantType inp = ''authorization_code'' then authorizationCodeGrant E issuer id_tokens cx inp
      else if tiGrantType inp = ''refresh_token'' then refreshTokenGrant E issuer cx inp
      else raise ErrUnsupportedGrant)"

section \<open>Handlers\<close>

text \<open>
  An OAuth error reply is its code and description. \<open>text_of\<close> stands for \<^verbatim>\<open>Error()\<close> of the errors that
  are not the package's own; \<open>parse\<close> for \<^verbatim>\<open>url.Parse\<close>: the query of the URL and the URL with another
  query.
\<close>

type_synonym oauth_error = "string \<times> string"

fun error_text :: "(error \<Rightarrow> string) \<Rightarrow> error \<Rightarrow> string" where
  "error_text text_of ErrInvalidClient = ''invalid_client''"
| "error_text text_of ErrInvalidRedirectURI = ''invalid_redirect_uri''"
| "error_text text_of ErrUnsupportedResponse = ''unsupported_response_type''"
| "error_text text_of ErrInvalidScope = ''invalid_scope''"
| "error_text text_of ErrMissingPKCE = ''missing_pkce''"
| "error_text text_of ErrUnsupportedChallenge = ''unsupported_challenge_method''"
| "error_text text_of ErrInvalidGrant = ''invalid_grant''"
| "error_text text_of ErrUnsupportedGrant = ''unsupported_grant_type''"
| "error_text text_of e = text_of e"

definition mapErrorCode :: "error \<Rightarrow> string" where
  "mapErrorCode e =
     (if errors_is e ErrInvalidClient then ''invalid_client''
      else if errors_is e ErrInvalidRedirectURI then ''invalid_request''
      else if errors_is e ErrUnsupportedResponse then ''unsupported_response_type''
      else if errors_is e ErrInvalidScope then ''invalid_scope''
      else if errors_is e ErrMissingPKCE \<or> errors_is e ErrUnsupportedChallenge then ''invalid_request''
      else if errors_is e ErrUnsupportedGrant then ''unsupported_grant_type''
      else ''server_error'')"

type_synonym url_parser = "string \<Rightarrow> (string \<times> (string \<Rightarrow> string)) option"

definition with_query :: "url_parser \<Rightarrow> string \<Rightarrow> (string \<times> string) list \<Rightarrow> string option" where
  "with_query parse uri kvs =
     (case parse uri of
        None \<Rightarrow> None
      | Some (q, render) \<Rightarrow>
          Some (render (encode_values (foldl (\<lambda>vs (k, v). values_set k v vs) (parse_query q) kvs))))"

definition state_param :: "string \<Rightarrow> (string \<times> string) list" where
  "state_param st = (if st = [] then [] else [(''state'', st)])"

definition oauthErrorRedirect ::
  "(error \<Rightarrow> string) \<Rightarrow> url_parser \<Rightarrow> string \<Rightarrow> string \<Rightarrow> error \<Rightarrow> oauth_error reply" where
  "oauthErrorRedirect text_of parse redirectURI st e =
     (if redirectURI = [] then Json 400 (mapErrorCode e, error_text text_of e)
      else (case with_query parse redirectURI
                   ([(''error'', mapErrorCode e), (''error_description'', error_text text_of e)] @ state_param st) of
              None \<Rightarrow> Json 400 (''invalid_request'', ''bad redirect_uri'')
            | Some u \<Rightarrow> Redirect 302 u))"

definition Authorize_handler ::
  "env \<Rightarrow> (error \<Rightarrow> string) \<Rightarrow> url_parser \<Rightarrow> (string \<times> string) list \<Rightarrow> oauth_error handler" where
  "Authorize_handler E text_of parse q = authorized (\<lambda>p cx.
     serve (Authorize E cx \<lparr> aiClientID = values_get q ''client_id'', aiRedirectURI = values_get q ''redirect_uri'',
         aiResponseType = values_get q ''response_type'', aiScope = values_get q ''scope'',
         aiState = values_get q ''state'', aiCodeChallenge = values_get q ''code_challenge'',
         aiCodeChallengeMethod = values_get q ''code_challenge_method'', aiNonce = values_get q ''nonce'',
         aiPrincipal = p \<rparr>)
       (\<lambda>out. case with_query parse (aoRedirectURI out) ((''code'', aoCode out) # state_param (aoState out)) of
          None \<Rightarrow> HttpError 400 ''invalid redirect_uri''
        | Some u \<Rightarrow> Redirect 302 u)
       (oauthErrorRedirect text_of parse (values_get q ''redirect_uri'') (values_get q ''state'')))"

text \<open>\<open>basic\<close> is what \<^verbatim>\<open>BasicAuth\<close> returns; a form that does not parse is \<open>None\<close>.\<close>

definition extractClientCreds :: "(string \<times> string) option \<Rightarrow> (string \<times> string) list \<Rightarrow> string \<times> string" where
  "extractClientCreds basic form = (case basic of Some (cid, secret) \<Rightarrow> (cid, secret)
     | None \<Rightarrow> (values_get form ''client_id'', values_get form ''client_secret''))"

definition Token_handler ::
  "env \<Rightarrow> string \<Rightarrow> bool \<Rightarrow> (string \<times> string) option \<Rightarrow> (string \<times> string) list option
     \<Rightarrow> (token_output + oauth_error) handler" where
  "Token_handler E issuer id_tokens basic posted cx =
     (case posted of
        None \<Rightarrow> reply (Json 400 (Inr (''invalid_request'', ''malformed form'')))
      | Some form \<Rightarrow>
          (let (clientID, clientSecret) = extractClientCreds basic form in
           serve (Token E issuer id_tokens cx \<lparr> tiGrantType = values_get form ''grant_type'',
               tiCode = values_get form ''code'', tiRedirectURI = values_get form ''redirect_uri'',
               tiClientID = clientID, tiClientSecret = clientSecret,
               tiCodeVerifier = values_get form ''code_verifier'',
               tiRefreshToken = values_get form ''refresh_token'', tiScope = values_get form ''scope'' \<rparr>)
             (\<lambda>out. Json 200 (Inl out))
             (\<lambda>e. if errors_is e ErrInvalidClient then Json 401 (Inr (''invalid_client'', ''invalid_client''))
                  else if errors_is e ErrInvalidGrant then Json 400 (Inr (''invalid_grant'', ''invalid_grant''))
                  else if errors_is e ErrUnsupportedGrant
                  then Json 400 (Inr (''unsupported_grant_type'', ''unsupported_grant_type''))
                  else Json 500 (Inr (''server_error'', ''internal error'')))))"

section \<open>Discovery and userinfo\<close>

record discovery_doc =
  ddIssuer :: string
  ddAuthorizationEndpoint :: string
  ddTokenEndpoint :: string
  ddUserinfoEndpoint :: string
  ddJwksURI :: string
  ddResponseTypesSupported :: "string list"
  ddGrantTypesSupported :: "string list"
  ddSubjectTypesSupported :: "string list"
  ddIDTokenSigningAlgValuesSupported :: "string list"
  ddScopesSupported :: "string list"
  ddTokenEndpointAuthMethodsSupported :: "string list"
  ddCodeChallengeMethodsSupported :: "string list"
  ddClaimsSupported :: "string list"

definition Discovery :: "string \<Rightarrow> discovery_doc" where
  "Discovery issuer = \<lparr> ddIssuer = issuer,
     ddAuthorizationEndpoint = issuer @ ''/oauth/authorize'', ddTokenEndpoint = issuer @ ''/oauth/token'',
     ddUserinfoEndpoint = issuer @ ''/oauth/userinfo'', ddJwksURI = issuer @ ''/.well-known/jwks.json'',
     ddResponseTypesSupported = [''code''],
     ddGrantTypesSupported = [''authorization_code'', ''refresh_token''],
     ddSubjectTypesSupported = [''public''],
     ddIDTokenSigningAlgValuesSupported = [''ES256'', ''RS256''],
     ddScopesSupported = [''openid'', ''profile'', ''email''],
     ddTokenEndpointAuthMethodsSupported = [''client_secret_basic'', ''client_secret_post'', ''none''],
     ddCodeChallengeMethodsSupported = [''S256''],
     ddClaimsSupported = [''sub'', ''iss'', ''aud'', ''exp'', ''iat'', ''nonce'', ''email'', ''email_verified''] \<rparr>"

record user_info =
  uiSub :: string
  uiEmail :: string
  uiEmailVerified :: bool

definition UserInfo :: "env \<Rightarrow> user_info handler" where
  "UserInfo E = authorized (\<lambda>p cx w.
     case IdentityRepo_GetByID E cx (prIdentityID p) w of
       (Inl _, w') \<Rightarrow> (Json 200 \<lparr> uiSub = prIdentityID p, uiEmail = prEmail p, uiEmailVerified = False \<rparr>, w')
     | (Inr i, w') \<Rightarrow>
         (Json 200 \<lparr> uiSub = prIdentityID p, uiEmail = (if prEmail p = [] then iPrimaryEmail i else prEmail p),
            uiEmailVerified = iEmailVerified i \<rparr>, w'))"

section \<open>What the operations keep\<close>

lemma ClientRepo_GetByClientID_InrD:
  assumes "ClientRepo_GetByClientID E cx cid w = (Inr c, w')"
  shows "w' = tick w \<and> ocClientID c = cid \<and> c \<in> set (oauth_clients (view cx w))"
  using query_row_InrD [OF no_rows_not_found_InrD [OF assms [unfolded ClientRepo_GetByClientID_def]]] by auto

lemma quiet_clients [quiet_rules]: "quiet (ClientRepo_GetByClientID E cx cid)"
  unfolding ClientRepo_GetByClientID_def no_rows_not_found_def by (intro quiet_rules)

lemma quiet_id_token [quiet_rules]: "quiet (IssueIDToken E issuer cx p cid nonce ttl)"
  unfolding IssueIDToken_def by (intro quiet_rules)

context db_law
begin

lemma keeps_oauth_ops [keeps_rules]:
  "keeps (dbs I) (ClientRepo_Create E cx c)" "keeps (dbs I) (Authorize E cx inp)"
  "keeps (dbs I) (Token E issuer idt cx ti)"
proof -
  note steps = keeps_bindE keeps_if keeps_ret keeps_raise keeps_or_err keeps_of_result
    keeps_dbs_quiet [OF quiet_clients] keeps_dbs_quiet [OF quiet_id_token] keeps_dbs_quiet [OF quiet_identity(2)]
    keeps_dbs_quiet [OF quiet_sessions(3)] keeps_dbs_quiet [OF quiet_GenerateRandom]
    keeps_dbs_basic keeps_db_free [OF db_free_stores(3)] keeps_db_free [OF db_free_stores(4)]
    keeps_opened_session keeps_replaced_session
  show "keeps (dbs I) (ClientRepo_Create E cx c)"
    unfolding ClientRepo_Create_def by (intro keeps_rules)
  show "keeps (dbs I) (Authorize E cx inp)"
    unfolding Authorize_def by (intro steps)
  show "keeps (dbs I) (Token E issuer idt cx ti)"
    unfolding Token_def authorizationCodeGrant_def refreshTokenGrant_def by (intro steps)
qed

end

section \<open>Outcomes\<close>

text \<open>What an authorization request must satisfy for a client to get a code.\<close>

definition may_authorize :: "client \<Rightarrow> authorize_input \<Rightarrow> bool" where
  "may_authorize c inp \<longleftrightarrow> aiResponseType inp = ''code'' \<and> aiCodeChallenge inp \<noteq> [] \<and> aiCodeChallengeMethod inp = ''S256''
     \<and> ocClientID c = aiClientID inp \<and> aiRedirectURI inp \<in> set (ocRedirectURIs c)
     \<and> ''authorization_code'' \<in> set (ocGrantTypes c) \<and> set (splitScopes (aiScope inp)) \<subseteq> set (ocScopes c)
     \<and> ocTenantID c = prTenantID (aiPrincipal inp)"

lemma client_check_iff:
  "client_check c inp = Inr () \<longleftrightarrow> aiRedirectURI inp \<in> set (ocRedirectURIs c)
     \<and> ''authorization_code'' \<in> set (ocGrantTypes c) \<and> set (splitScopes (aiScope inp)) \<subseteq> set (ocScopes c)
     \<and> ocTenantID c = prTenantID (aiPrincipal inp)"
  by (auto simp: client_check_def HasRedirectURI_def HasGrantType_def AllowsScope_def list_all_iff)

lemma CodeStore_Store_InrD:
  assumes "CodeStore_Store E c w = (Inr u, w')"
  shows "pool_db w' = pool_db w \<and> (\<exists>t. redis w' = (redis w)(codePrefix @ acCode c \<mapsto> (RvCode (json_code c), t)))"
  using assms db_freeD [OF db_free_stores(3) assms]
  by (auto simp: CodeStore_Store_def bindE_Inr_iff redis_set_def Let_def split: if_splits option.splits)

lemma CodeStore_Store_InlD: "CodeStore_Store E c w = (Inl e, w') \<Longrightarrow> same_data w w'"
  by (auto simp: CodeStore_Store_def bindE_Inl_iff redis_set_def Let_def same_data_def split: if_splits option.splits)

text \<open>What issuing a code leaves behind: the code, bound to the request, and nothing else.\<close>

definition code_issued :: "ctx \<Rightarrow> authorize_input \<Rightarrow> authorize_output \<Rightarrow> world \<Rightarrow> world \<Rightarrow> bool" where
  "code_issued cx inp out w w' \<longleftrightarrow> pool_db w' = pool_db w \<and> aoRedirectURI out = aiRedirectURI inp \<and> aoState out = aiState inp
     \<and> length (aoCode out) = 43
     \<and> (\<exists>c \<in> set (oauth_clients (view cx w)). may_authorize c inp
          \<and> (\<exists>at t. redis w' = (redis w)(codePrefix @ aoCode out \<mapsto> (RvCode (json_code (code_for c inp (aoCode out) at)), t))))"

lemma Authorize_result:
  assumes "Authorize E cx inp w = (r, w')"
  shows "case r of Inl _ \<Rightarrow> same_data w w' | Inr out \<Rightarrow> code_issued cx inp out w w'"
proof (cases "aiResponseType inp = ''code'' \<and> aiCodeChallenge inp \<noteq> [] \<and> aiCodeChallengeMethod inp = ''S256''")
  case False
  then have "w' = w \<and> (\<exists>e. r = Inl e)"
    using assms by (auto simp: Authorize_def split: if_splits)
  then show ?thesis
    by auto
next
  case True
  obtain rc w1 where get: "ClientRepo_GetByClientID E cx (aiClientID inp) w = (rc, w1)"
    by fastforce
  note s1 = quietD [OF quiet_clients get]
  show ?thesis
  proof (cases "\<exists>c. rc = Inr c \<and> client_check c inp = Inr ()")
    case False
    then have "w' = w1 \<and> (\<exists>e. r = Inl e)"
      using assms True get by (cases rc) (auto simp: Authorize_def of_result_def bindE_def split: sum.splits)
    then show ?thesis
      using s1 by auto
  next
    case good: True
    then obtain c where c: "rc = Inr c" "client_check c inp = Inr ()"
      by blast
    have may: "may_authorize c inp" "c \<in> set (oauth_clients (view cx w))"
      using True c ClientRepo_GetByClientID_InrD [of E cx "aiClientID inp" w c w1] get
      by (auto simp: may_authorize_def client_check_iff)
    obtain rt w2 where g: "GenerateRandom E 32 w1 = (rt, w2)"
      by fastforce
    note s2 = same_data_trans [OF s1 quietD [OF quiet_GenerateRandom g]]
    have rest: "bindE (GenerateRandom E 32) (\<lambda>codeStr. bindE (now E) (\<lambda>at.
        bindE (CodeStore_Store E (code_for c inp codeStr at)) (\<lambda>_.
          ret \<lparr> aoCode = codeStr, aoState = aiState inp, aoRedirectURI = aiRedirectURI inp \<rparr>))) w1 = (r, w')"
      using assms True get c by (simp add: Authorize_def of_result_def)
    show ?thesis
    proof (cases rt)
      case (Inl e)
      then show ?thesis
        using rest g s2 by auto
    next
      case (Inr tok)
      let ?code = "code_for c inp tok (clock_at E (calls w2))"
      obtain rs w3 where st: "CodeStore_Store E ?code (tick w2) = (rs, w3)"
        by fastforce
      have fin: "w' = w3 \<and> r = map_sum id (\<lambda>_. \<lparr> aoCode = tok, aoState = aiState inp, aoRedirectURI = aiRedirectURI inp \<rparr>) rs"
        using rest g Inr st by (cases rs) (auto simp: bindE_def [of "now E"] now_def)
      have len: "length tok = 43"
        using GenerateRandom_InrD [OF g [unfolded Inr]] by simp
      show ?thesis
      proof (cases rs)
        case (Inl e)
        then have "same_data w w3"
          using CodeStore_Store_InlD [OF st [unfolded Inl]] same_data_trans [OF s2] same_data_trans [OF same_data_tick] by blast
        then show ?thesis
          using fin Inl by simp
      next
        case (Inr u)
        then obtain t where "pool_db w3 = pool_db w2" "redis w3 = (redis w2)(codePrefix @ acCode ?code \<mapsto> (RvCode (json_code ?code), t))"
          using CodeStore_Store_InrD [of E ?code "tick w2" u w3] st by auto
        then have d: "pool_db w3 = pool_db w" "redis w3 = (redis w)(codePrefix @ tok \<mapsto> (RvCode (json_code ?code), t))"
          using s2 by (simp_all add: same_data_def code_for_def)
        then show ?thesis
          using fin Inr may len unfolding code_issued_def by (auto intro!: bexI [of _ c])
      qed
    qed
  qed
qed

lemma CodeStore_Consume_InrD:
  assumes "CodeStore_Consume E tok w = (Inr c, w')"
  shows "redis_live E w (codePrefix @ tok) = Some (RvCode c) \<and> pool_db w' = pool_db w
     \<and> redis w' = (redis w)(codePrefix @ tok := None) \<and> calls w' = Suc (calls w)"
proof -
  obtain v where v: "redis_live E w (codePrefix @ tok) = Some v" "as_code v = Some c"
      "w' = (tick w)\<lparr>redis := (redis w)(codePrefix @ tok := None)\<rparr>"
    using consume_InrD [OF assms [unfolded CodeStore_Consume_def]] by blast
  then show ?thesis
    by (cases v) auto
qed

text \<open>What the exchange of a code needs and does.\<close>

definition code_exchanged :: "env \<Rightarrow> token_input \<Rightarrow> token_output \<Rightarrow> world \<Rightarrow> world \<Rightarrow> bool" where
  "code_exchanged E inp out w w' \<longleftrightarrow> (\<exists>client c n res email. client \<in> set (oauth_clients (pool_db w)) \<and> ocClientID client = tiClientID inp
     \<and> client_authenticated client inp
     \<and> redis w (codePrefix @ tiCode inp) = Some (RvCode c, n) \<and> redis w' = (redis w)(codePrefix @ tiCode inp := None)
     \<and> acClientID c = tiClientID inp \<and> acRedirectURI c = tiRedirectURI inp
     \<and> raw_url_encode (sha256 (bytes_of (tiCodeVerifier inp))) = acCodeChallenge c
     \<and> clock_at E (Suc (Suc (calls w))) \<le> acExpiresAt c
     \<and> opened E (code_subject c email) res (pool_db w) (pool_db w')
     \<and> toAccessToken out = lrAccessToken res \<and> toRefreshToken out = lrRefreshToken res)"

lemma code_grant_InrD:
  assumes "authorizationCodeGrant E issuer idt cx inp w = (Inr out, w')" "\<not> cx_tx cx"
  shows "code_exchanged E inp out w w'"
proof -
  let ?exchange = "\<lambda>c. bindE (IdentityRepo_GetByID E cx (acIdentityID c)) (\<lambda>identity.
      bindE (open_session E issuer cx [tiClientID inp] (code_subject c (iPrimaryEmail identity))) (\<lambda>out.
        if hasScope (acScopes c) ''openid'' \<and> idt then
          bindE (IssueIDToken E issuer cx (lrPrincipal out) (tiClientID inp) (acNonce c) accessTokenTTL) (\<lambda>idt.
            ret (code_output c out idt))
        else ret (code_output c out [])))"
  obtain client w1 where get: "ClientRepo_GetByClientID E cx (tiClientID inp) w = (Inr client, w1)"
    and auth: "client_authenticated client inp"
    and r1: "bindE (or_err ErrInvalidGrant (CodeStore_Consume E (tiCode inp))) (\<lambda>c.
         bindE (now E) (\<lambda>at. if acExpiresAt c < at \<or> \<not> code_matches c inp then raise ErrInvalidGrant
           else ?exchange c)) w1 = (Inr out, w')"
    using assms(1) unfolding authorizationCodeGrant_def bindE_Inr_iff [where m = "or_err ErrInvalidClient m" for m]
    by (auto split: if_splits)
  obtain c w2 where cons: "CodeStore_Consume E (tiCode inp) w1 = (Inr c, w2)"
    and fresh: "\<not> acExpiresAt c < clock_at E (calls w2)" and ok: "code_matches c inp"
    and r2: "?exchange c (tick w2) = (Inr out, w')"
    using r1 unfolding bindE_Inr_iff [where m = "or_err ErrInvalidGrant m" for m] bindE_Inr_iff [where m = "now E"]
    by (auto split: if_splits)
  obtain idn w3 res w4 where idn: "IdentityRepo_GetByID E cx (acIdentityID c) (tick w2) = (Inr idn, w3)"
    and op: "open_session E issuer cx [tiClientID inp] (code_subject c (iPrimaryEmail idn)) w3 = (Inr res, w4)"
    and last: "(if hasScope (acScopes c) ''openid'' \<and> idt then
         bindE (IssueIDToken E issuer cx (lrPrincipal res) (tiClientID inp) (acNonce c) accessTokenTTL) (\<lambda>idt.
           ret (code_output c res idt)) else ret (code_output c res [])) w4 = (Inr out, w')"
    using r2 unfolding bindE_Inr_iff [where m = "IdentityRepo_GetByID E cx k" for k]
      bindE_Inr_iff [where m = "open_session E issuer cx aud f" for aud f] by blast
  have c: "client \<in> set (oauth_clients (pool_db w))" "ocClientID client = tiClientID inp" "w1 = tick w"
    using ClientRepo_GetByClientID_InrD [OF get] assms(2) by simp_all
  note code = CodeStore_Consume_InrD [OF cons]
  have s3: "pool_db w3 = pool_db w" "redis w3 = (redis w)(codePrefix @ tiCode inp := None)"
    using quietD [OF quiet_identity(2) idn] code c(3) by (auto simp: same_data_def)
  note op' = open_session_InrD [OF op assms(2)]
  have s4: "pool_db w' = pool_db w4" "redis w' = redis w4"
    and out: "toAccessToken out = lrAccessToken res" "toRefreshToken out = lrRefreshToken res"
    using last quietD [OF quiet_id_token] unfolding same_data_def code_output_def
    by (auto simp: bindE_Inr_iff split: if_splits)
  obtain n where "redis w (codePrefix @ tiCode inp) = Some (RvCode c, n)"
    using code c(3) by (auto simp: redis_live_def split: option.splits if_splits)
  then show ?thesis
    unfolding code_exchanged_def using c auth fresh ok op' s3 s4 out code by (auto simp: code_matches_def verifyPKCE_def not_less)
qed

end
