(* ===== verification/Janus_Oauth_Props.thy ===== *)
theory Janus_Oauth_Props
  imports Janus_Oauth
begin

text \<open>
  The properties of the OAuth endpoints: what a code is issued for and exchanged for, the agreement of
  the two ends of the code flow, the refresh grant, and the redirects, each with an example.
\<close>

section \<open>Properties\<close>

text \<open>
  C13: an authorization code is issued exactly for a request with PKCE (S256) by a registered client of
  the caller's tenant, to one of its registered redirect URIs and within its scopes. The code is stored
  bound to client, caller, redirect URI and challenge and expires ten minutes later; no table changes,
  and a refused request changes nothing at all.
\<close>

theorem authorize_outcome:
  assumes "Authorize E cx inp w = (r, w')"
  shows "case r of
           Inl _ \<Rightarrow> same_data w w'
         | Inr out \<Rightarrow> pool_db w' = pool_db w \<and> aoRedirectURI out = aiRedirectURI inp \<and> aoState out = aiState inp
             \<and> length (aoCode out) = 43
             \<and> (\<exists>c \<in> set (oauth_clients (view cx w)). may_authorize c inp
                  \<and> (\<exists>at t. redis w' = (redis w)(codePrefix @ aoCode out \<mapsto> (RvCode (json_code (code_for c inp (aoCode out) at)), t))))"
  using Authorize_result [OF assms] unfolding code_issued_def .

text \<open>
  C9: a code is exchanged only by the client it was issued to (which proves its secret if it is
  confidential), with the redirect URI and a verifier whose SHA-256 digest is the challenge of the
  authorization request, before it expires. The exchange uses the code up and opens exactly one
  session, for the tenant, identity and user of the code.
\<close>

theorem code_grant_outcome:
  assumes "authorizationCodeGrant E issuer idt cx inp w = (Inr out, w')" "\<not> cx_tx cx"
  shows "\<exists>client c n res email. client \<in> set (oauth_clients (pool_db w)) \<and> ocClientID client = tiClientID inp
     \<and> client_authenticated client inp
     \<and> redis w (codePrefix @ tiCode inp) = Some (RvCode c, n) \<and> redis w' = (redis w)(codePrefix @ tiCode inp := None)
     \<and> acClientID c = tiClientID inp \<and> acRedirectURI c = tiRedirectURI inp
     \<and> raw_url_encode (sha256 (bytes_of (tiCodeVerifier inp))) = acCodeChallenge c
     \<and> clock_at E (Suc (Suc (calls w))) \<le> acExpiresAt c
     \<and> opened E (code_subject c email) res (pool_db w) (pool_db w')
     \<and> toAccessToken out = lrAccessToken res \<and> toRefreshToken out = lrRefreshToken res"
  using code_grant_InrD [OF assms] unfolding code_exchanged_def .

text \<open>
  C17: the code flow agrees on its session. When the code of a successful authorization is exchanged, with
  the stored entry untouched in between, the exchange opens a session for the caller who authorized, in
  the client's tenant, and only for a verifier that hashes to the challenge of that request.
\<close>

theorem code_flow_agreement:
  assumes "Authorize E cx inp w = (Inr ao, w1)"
    and "redis w2 (codePrefix @ aoCode ao) = redis w1 (codePrefix @ aoCode ao)"
    and "authorizationCodeGrant E issuer idt cx' ti w2 = (Inr out, w3)" "tiCode ti = aoCode ao" "\<not> cx_tx cx'"
    and "\<And>s. s \<in> {prIdentityID (aiPrincipal inp), prUserID (aiPrincipal inp), prTenantID (aiPrincipal inp),
        aiCodeChallenge inp, aiClientID inp, aiRedirectURI inp} \<Longrightarrow> json_string s = s"
  shows "raw_url_encode (sha256 (bytes_of (tiCodeVerifier ti))) = aiCodeChallenge inp
     \<and> tiClientID ti = aiClientID inp \<and> tiRedirectURI ti = aiRedirectURI inp
     \<and> (\<exists>res :: login_result. toRefreshToken out = lrRefreshToken res
          \<and> prIdentityID (lrPrincipal res) = prIdentityID (aiPrincipal inp)
          \<and> prUserID (lrPrincipal res) = prUserID (aiPrincipal inp)
          \<and> prTenantID (lrPrincipal res) = prTenantID (aiPrincipal inp)
          \<and> (\<exists>row. pool_db w3 = (pool_db w2)\<lparr>sessions := sessions (pool_db w2) @ [row]\<rparr>
               \<and> ssRefreshTokenHash row = token_Hash (lrRefreshToken res)
               \<and> pg_uuid E (prUserID (aiPrincipal inp)) = Some (ssUserID row)))"
proof -
  obtain c at t where c: "may_authorize c inp"
      "redis w1 (codePrefix @ aoCode ao) = Some (RvCode (json_code (code_for c inp (aoCode ao) at)), t)"
    using Authorize_result [OF assms(1)] by (auto simp: code_issued_def)
  let ?code = "json_code (code_for c inp (aoCode ao) at)"
  obtain res email where m: "acClientID ?code = tiClientID ti" "acRedirectURI ?code = tiRedirectURI ti"
      "raw_url_encode (sha256 (bytes_of (tiCodeVerifier ti))) = acCodeChallenge ?code"
      "opened E (code_subject ?code email) res (pool_db w2) (pool_db w3)" "toRefreshToken out = lrRefreshToken res"
    using code_grant_InrD [OF assms(3,5)] c(2) assms(2,4) by (auto simp: code_exchanged_def)
  have f: "acClientID ?code = aiClientID inp" "acRedirectURI ?code = aiRedirectURI inp" "acCodeChallenge ?code = aiCodeChallenge inp"
      "acIdentityID ?code = prIdentityID (aiPrincipal inp)" "acUserID ?code = prUserID (aiPrincipal inp)"
      "acTenantID ?code = prTenantID (aiPrincipal inp)"
    using c(1) assms(6) by (simp_all add: json_code_def code_for_def may_authorize_def)
  obtain row at where row: "pool_db w3 = (pool_db w2)\<lparr>sessions := sessions (pool_db w2) @ [row]\<rparr>"
      "pg_session E (fresh_session (code_subject ?code email) None (prSessionID (lrPrincipal res)) (token_Hash (lrRefreshToken res)) at) = Some row"
    and pr: "lrPrincipal res = principal_for (code_subject ?code email) (prSessionID (lrPrincipal res))
         (prRoles (lrPrincipal res)) (prPermissions (lrPrincipal res))"
    using m(4) unfolding opened_def by blast
  have ids: "prIdentityID (lrPrincipal res) = acIdentityID ?code" "prUserID (lrPrincipal res) = acUserID ?code"
      "prTenantID (lrPrincipal res) = acTenantID ?code"
    using arg_cong [OF pr, of prIdentityID] arg_cong [OF pr, of prUserID] arg_cong [OF pr, of prTenantID]
    by (simp_all add: principal_for_def code_subject_def)
  have "ssRefreshTokenHash row = token_Hash (lrRefreshToken res)" "pg_uuid E (acUserID ?code) = Some (ssUserID row)"
    using pg_session_fields [OF row(2)] by (simp_all add: fresh_session_def code_subject_def)
  then have "\<exists>r. pool_db w3 = (pool_db w2)\<lparr>sessions := sessions (pool_db w2) @ [r]\<rparr>
      \<and> ssRefreshTokenHash r = token_Hash (lrRefreshToken res) \<and> pg_uuid E (prUserID (aiPrincipal inp)) = Some (ssUserID r)"
    using row(1) f(5) by (intro exI [of _ row]) simp
  then have "toRefreshToken out = lrRefreshToken res
      \<and> prIdentityID (lrPrincipal res) = prIdentityID (aiPrincipal inp)
      \<and> prUserID (lrPrincipal res) = prUserID (aiPrincipal inp)
      \<and> prTenantID (lrPrincipal res) = prTenantID (aiPrincipal inp)
      \<and> (\<exists>row. pool_db w3 = (pool_db w2)\<lparr>sessions := sessions (pool_db w2) @ [row]\<rparr>
           \<and> ssRefreshTokenHash row = token_Hash (lrRefreshToken res)
           \<and> pg_uuid E (prUserID (aiPrincipal inp)) = Some (ssUserID row))"
    unfolding ids f using m(5) by blast
  then show ?thesis
    using m(1,2) [unfolded f, symmetric] m(3) [unfolded f] by blast
qed

section \<open>Examples of the code flow\<close>

definition demo_client :: client where
  "demo_client = \<lparr> ocID = ''oc'', ocTenantID = ''t-a'', ocClientID = ''app'', ocClientSecretHash = [], ocClientName = ''App'',
     ocRedirectURIs = [''https://app/cb''], ocGrantTypes = [''authorization_code''], ocScopes = [''openid''],
     ocConfidential = False, ocCreatedAt = 0 \<rparr>"

definition demo_client_db :: database where
  "demo_client_db = demo_db\<lparr>oauth_clients := [demo_client], sessions := []\<rparr>"

text \<open>The challenge is the digest of the verifier \<open>v\<close>.\<close>

definition demo_authorize :: authorize_input where
  "demo_authorize = \<lparr> aiClientID = ''app'', aiRedirectURI = ''https://app/cb'', aiResponseType = ''code'',
     aiScope = ''openid'', aiState = ''st'', aiCodeChallenge = raw_url_encode (sha256 (bytes_of ''v'')),
     aiCodeChallengeMethod = ''S256'', aiNonce = ''n'', aiPrincipal = demo_principal \<rparr>"

lemma demo_challenge_nonempty: "raw_url_encode (sha256 (bytes_of s)) \<noteq> []"
proof -
  have "length (raw_url_encode (sha256 (bytes_of s))) = 43"
    by (simp add: length_raw_url_encode)
  then show ?thesis
    by auto
qed

lemma demo_client_check: "client_check demo_client demo_authorize = Inr ()"
  by (simp add: client_check_iff demo_client_def demo_authorize_def demo_principal_def splitScopes_def Go_Strings.fields_def is_space_def)

lemma demo_authorizes:
  "\<exists>out w'. Authorize demo_env background demo_authorize (world_of demo_client_db) = (Inr out, w')
     \<and> redis w' (codePrefix @ aoCode out) = Some (RvCode (json_code (code_for demo_client demo_authorize (aoCode out) 2000000000)), 602000000000 + 1000000000)"
proof -
  let ?w = "world_of demo_client_db"
  have "ClientRepo_GetByClientID demo_env background ''app'' ?w = (Inr demo_client, tick ?w)"
    by (simp add: ClientRepo_GetByClientID_def no_rows_not_found_def run_simps demo_client_db_def demo_client_def)
  then show ?thesis
    using demo_client_check demo_challenge_nonempty
    by (simp add: Authorize_def of_result_def GenerateRandom_eval CodeStore_Store_def redis_set_def code_for_def codeTTL_def
       duration_defs now_def ret_def
       Let_def demo_authorize_def)
qed


definition demo_token_input :: "string \<Rightarrow> token_input" where
  "demo_token_input code = \<lparr> tiGrantType = ''authorization_code'', tiCode = code, tiRedirectURI = ''https://app/cb'',
     tiClientID = ''app'', tiClientSecret = [], tiCodeVerifier = ''v'', tiRefreshToken = [], tiScope = [] \<rparr>"

lemma json_string_b64 [simp]: "json_string (raw_url_encode bs) = raw_url_encode bs"
proof -
  have "(of_char c :: nat) < 128" if "b64_alphabet c" for c
    using that by (auto simp: b64_alphabet_def Let_def)
  then have "ascii (raw_url_encode bs)"
    using b64_encode_alphabet [where url = True, folded raw_url_encode_def] unfolding ascii_def by blast
  then show ?thesis
    by simp
qed

lemma demo_json_code:
  "json_code (code_for demo_client demo_authorize code at) =
     (code_for demo_client demo_authorize code at)\<lparr>acCode := json_string code\<rparr>"
  by (simp add: json_code_def code_for_def demo_client_def demo_authorize_def demo_principal_def splitScopes_def
      Go_Strings.fields_def is_space_def ascii_def)

lemma demo_open_session:
  assumes "pool_db w = demo_client_db"
  shows "\<exists>out w'. open_session demo_env ''iss'' background aud
     \<lparr> sfTenantID = ''t-a'', sfIdentityID = ''i-a'', sfUserID = ''u-a'', sfEmail = email, sfIPAddress = None, sfUserAgent = [] \<rparr> w =
     (Inr out, w') \<and> pool_db w' = demo_client_db\<lparr>sessions := sessions (pool_db w')\<rparr>"
proof -
  have "pool_db w = demo_db\<lparr>sessions := [], oauth_clients := [demo_client], webauthn_credentials := []\<rparr>"
    using assms by (simp add: demo_client_db_def demo_db_def)
  from demo_open_session_gen [OF this, of aud email "[]"] show ?thesis
    by (simp only: assms)
qed

lemma demo_issue_code:
  assumes "pool_db w = demo_client_db\<lparr>sessions := ss\<rparr>"
  shows "\<exists>w'. JWT_Issue demo_env ''iss'' background p opts w = (Inr ''tok'', w')"
  using assms
  by (simp add: JWT_Issue_def KeyRepo_GetActive_def no_rows_not_found_def query_first_def newest_first_def of_result_def
      run_simps Let_def demo_client_db_def demo_db_def demo_signing_key_def [symmetric])

lemma demo_get_client:
  "pool_db w = demo_client_db \<Longrightarrow> ClientRepo_GetByClientID demo_env background ''app'' w = (Inr demo_client, tick w)"
  by (simp add: ClientRepo_GetByClientID_def no_rows_not_found_def run_simps demo_client_db_def demo_client_def)

lemma demo_exchange:
  assumes "r (codePrefix @ code) = Some (RvCode (json_code (code_for demo_client demo_authorize code 2000000000)), 603000000000)"
  shows "\<exists>out w3. authorizationCodeGrant demo_env ''iss'' True background (demo_token_input code)
     ((world_of demo_client_db)\<lparr>redis := r\<rparr>) = (Inr out, w3)"
proof -
  let ?w = "(world_of demo_client_db)\<lparr>redis := r\<rparr>"
  let ?c = "(code_for demo_client demo_authorize code 2000000000)\<lparr>acCode := json_string code\<rparr>"
  have get: "ClientRepo_GetByClientID demo_env background ''app'' ?w = (Inr demo_client, tick ?w)"
    by (rule demo_get_client) simp
  obtain w2 where cons: "CodeStore_Consume demo_env code (tick ?w) = (Inr ?c, w2)" "pool_db w2 = demo_client_db" "calls w2 = 2"
    using assms by (simp add: demo_json_code CodeStore_Consume_def consume_def redis_getdel_def redis_live_def run_simps)
  have ok: "client_authenticated demo_client (demo_token_input code)" "code_matches ?c (demo_token_input code)"
      "clock_at demo_env (calls w2) \<le> acExpiresAt ?c" "acIdentityID ?c = ''i-a''"
      "code_subject ?c email = \<lparr> sfTenantID = ''t-a'', sfIdentityID = ''i-a'', sfUserID = ''u-a'', sfEmail = email,
         sfIPAddress = None, sfUserAgent = [] \<rparr>" for email
    using cons(3)
    by (simp_all add: client_authenticated_def code_matches_def verifyPKCE_def code_for_def demo_client_def
        demo_token_input_def demo_authorize_def demo_principal_def codeTTL_def duration_defs code_subject_def)
  obtain idn w3 where idn: "IdentityRepo_GetByID demo_env background ''i-a'' (tick w2) = (Inr idn, w3)" "pool_db w3 = demo_client_db"
    using cons(2) by (simp add: IdentityRepo_GetByID_def where_uuid_def run_simps demo_client_db_def demo_db_def)
  obtain res w4 where op: "open_session demo_env ''iss'' background [''app''] (code_subject ?c (iPrimaryEmail idn)) w3 = (Inr res, w4)"
      "pool_db w4 = demo_client_db\<lparr>sessions := sessions (pool_db w4)\<rparr>"
    using demo_open_session [OF idn(2)] unfolding ok(5) by blast
  obtain w5 where iss: "IssueIDToken demo_env ''iss'' background (lrPrincipal res) ''app'' (acNonce ?c) accessTokenTTL w4 = (Inr ''tok'', w5)"
    using demo_issue_code [OF op(2)] unfolding IssueIDToken_def by blast
  have "tiClientID (demo_token_input code) = ''app''" "tiCode (demo_token_input code) = code"
    by (simp_all add: demo_token_input_def)
  then show ?thesis
    using get cons(1) ok(1-4) idn(1) op(1) iss
    by (simp add: authorizationCodeGrant_def not_less hasScope_def del: tick_simps)
qed

theorem authorize_outcome_witness:
  "\<exists>out w'. Authorize demo_env background demo_authorize (world_of demo_client_db) = (Inr out, w')
     \<and> (\<exists>c \<in> set (oauth_clients demo_client_db). may_authorize c demo_authorize)"
proof -
  obtain out w' where run: "Authorize demo_env background demo_authorize (world_of demo_client_db) = (Inr out, w')"
    using demo_authorizes by blast
  show ?thesis
    using authorize_outcome [OF run] run by auto
qed

theorem code_grant_outcome_witness:
  "\<exists>r out w'. authorizationCodeGrant demo_env ''iss'' True background (demo_token_input ''c'')
       ((world_of demo_client_db)\<lparr>redis := r\<rparr>) = (Inr out, w') \<and> redis w' = r(codePrefix @ ''c'' := None)"
proof -
  let ?r = "[codePrefix @ ''c'' \<mapsto> (RvCode (json_code (code_for demo_client demo_authorize ''c'' 2000000000)), 603000000000)]"
  obtain out w' where run: "authorizationCodeGrant demo_env ''iss'' True background (demo_token_input ''c'')
       ((world_of demo_client_db)\<lparr>redis := ?r\<rparr>) = (Inr out, w')"
    using demo_exchange [of ?r "''c''"] by auto
  show ?thesis
    using code_grant_outcome [OF run background_simps(1)] run
    by (intro exI [of _ ?r] exI [of _ out] exI [of _ w']) (auto simp: demo_token_input_def)
qed

theorem code_flow_agreement_witness:
  "\<exists>ao w1 out w3. Authorize demo_env background demo_authorize (world_of demo_client_db) = (Inr ao, w1)
     \<and> authorizationCodeGrant demo_env ''iss'' True background (demo_token_input (aoCode ao))
          ((world_of demo_client_db)\<lparr>redis := redis w1\<rparr>) = (Inr out, w3)
     \<and> (\<exists>row. sessions (pool_db w3) = [row] \<and> ssUserID row = ''u-a'')"
proof -
  obtain ao w1 where auth: "Authorize demo_env background demo_authorize (world_of demo_client_db) = (Inr ao, w1)"
    and st: "redis w1 (codePrefix @ aoCode ao) =
      Some (RvCode (json_code (code_for demo_client demo_authorize (aoCode ao) 2000000000)), 603000000000)"
    using demo_authorizes by auto
  let ?w2 = "(world_of demo_client_db)\<lparr>redis := redis w1\<rparr>"
  obtain out w3 where ex: "authorizationCodeGrant demo_env ''iss'' True background (demo_token_input (aoCode ao)) ?w2 = (Inr out, w3)"
    using demo_exchange [of "redis w1" "aoCode ao", OF st] by blast
  have json: "json_string s = s" if "s \<in> {prIdentityID (aiPrincipal demo_authorize), prUserID (aiPrincipal demo_authorize),
      prTenantID (aiPrincipal demo_authorize), aiCodeChallenge demo_authorize, aiClientID demo_authorize, aiRedirectURI demo_authorize}" for s
    using that by (auto simp: demo_authorize_def demo_principal_def ascii_def)
  have "tiCode (demo_token_input (aoCode ao)) = aoCode ao" "redis ?w2 (codePrefix @ aoCode ao) = redis w1 (codePrefix @ aoCode ao)"
    by (simp_all add: demo_token_input_def)
  then obtain row where "pool_db w3 = (pool_db ?w2)\<lparr>sessions := sessions (pool_db ?w2) @ [row]\<rparr>" "pg_uuid demo_env ''u-a'' = Some (ssUserID row)"
    using code_flow_agreement [OF auth _ ex _ background_simps(1) json] by (auto simp: demo_authorize_def demo_principal_def)
  then have "\<exists>row. sessions (pool_db w3) = [row] \<and> ssUserID row = ''u-a''"
    by (auto simp: demo_client_db_def)
  then show ?thesis
    using auth ex by blast
qed

section \<open>The refresh grant and the redirects\<close>

lemma refreshTokenGrant_InrD:
  assumes "refreshTokenGrant E issuer cx inp w = (Inr out, w')" "\<not> cx_tx cx"
  shows "redis w' = redis w \<and> (\<exists>s res. s \<in> set (sessions (pool_db w)) \<and> ssRefreshTokenHash s = token_Hash (tiRefreshToken inp)
     \<and> ssRevokedAt s = None \<and> replaced E s res (pool_db w) (pool_db w') \<and> toRefreshToken out = lrRefreshToken res)"
proof -
  obtain s w1 res where find: "find_refreshable E cx ErrInvalidGrant (tiRefreshToken inp) w = (Inr s, w1)"
    and rep: "replace_session E issuer cx (\<lambda>_. ret ()) [tiClientID inp] s w1 = (Inr res, w')"
    and out: "toRefreshToken out = lrRefreshToken res"
    using assms(1) by (auto simp: refreshTokenGrant_def bindE_Inr_iff)
  have "replaced E s res (pool_db w1) (pool_db w') \<and> redis w' = redis w1"
    using replace_session_InrD [OF rep assms(2)] by auto
  then show ?thesis
    using find_refreshable_InrD [OF find] out assms(2) by auto
qed

text \<open>
  The refresh grant of the token endpoint spends its token like the refresh endpoint does: if one
  session has the token's hash, then afterwards neither endpoint accepts the token again.
\<close>

theorem refresh_grant_single_use:
  assumes "refreshTokenGrant E issuer cx inp w = (Inr out, w')" "\<not> cx_tx cx"
    and "filter (\<lambda>s. ssRefreshTokenHash s = token_Hash (tiRefreshToken inp)) (sessions (pool_db w)) = [s]"
    and "pg_uuid E (ssID s) = Some (ssID s)" "token_Hash (toRefreshToken out) \<noteq> token_Hash (tiRefreshToken inp)"
    and "pool_db v = pool_db w'" "\<not> cx_tx cx'"
  shows "fst (refreshTokenGrant E issuer' cx' inp v) = Inl ErrInvalidGrant
     \<and> fst (Refresh E issuer' cached cx' (tiRefreshToken inp) v) = Inl ErrUnauthorized"
proof -
  obtain s0 res where s0: "s0 \<in> set (sessions (pool_db w))" "ssRefreshTokenHash s0 = token_Hash (tiRefreshToken inp)"
    "replaced E s0 res (pool_db w) (pool_db w')" "toRefreshToken out = lrRefreshToken res"
    using refreshTokenGrant_InrD [OF assms(1,2)] by blast
  have "s0 \<in> set (filter (\<lambda>s. ssRefreshTokenHash s = token_Hash (tiRefreshToken inp)) (sessions (pool_db w)))"
    using s0 by simp
  then have "s0 = s"
    unfolding assms(3) by simp
  then have "spent (tiRefreshToken inp) (pool_db w')"
    using replaced_spent [OF s0(3) [unfolded \<open>s0 = s\<close>] assms(3,4)] assms(5) s0(4) by simp
  then have "spent (tiRefreshToken inp) (view cx' v)"
    using assms(6,7) by simp
  then show ?thesis
    unfolding refreshTokenGrant_def Refresh_def by (auto intro: fst_bind_Inl find_refreshable_spent)
qed

lemma fromSessionHeader_hit:
  assumes "redis w (cachePrefix @ sid) = Some (RvPrincipal p, t)" "redis_fault E (calls w) = None"
    and "redis_now E (calls w) < t" "sid \<noteq> []"
  shows "fst (fromSessionHeader E True cx sid w) = Inr (Some p)"
  using assms
  by (simp add: fromSessionHeader_def PrincipalCache_Get_def redis_get_def redis_live_def bindE_def attempt_def cache_hit_def ret_def)

text \<open>
  C36: unlike the refresh endpoint, the refresh grant leaves the principal cache alone: the session it has
  just revoked still authenticates requests through its session header until the cache entry expires.
\<close>

theorem refresh_grant_keeps_cache:
  assumes "refreshTokenGrant E issuer cx inp w = (Inr out, w')" "\<not> cx_tx cx"
    and "redis w (cachePrefix @ sid) = Some (RvPrincipal p, t)" "sid \<noteq> []"
    and "redis_fault E (calls w') = None" "redis_now E (calls w') < t"
  shows "(\<exists>s \<in> set (sessions (pool_db w)). ssRefreshTokenHash s = token_Hash (tiRefreshToken inp) \<and> ssRevokedAt s = None
      \<and> (\<exists>k at row. pg_uuid E (ssID s) = Some k \<and> sessions (pool_db w') = revoke k at (sessions (pool_db w)) @ [row]))
    \<and> fst (fromSessionHeader E True cx sid w') = Inr (Some p)"
proof -
  obtain s res where s: "s \<in> set (sessions (pool_db w))" "ssRefreshTokenHash s = token_Hash (tiRefreshToken inp)" "ssRevokedAt s = None"
    and rep: "replaced E s res (pool_db w) (pool_db w')" and red: "redis w' = redis w"
    using refreshTokenGrant_InrD [OF assms(1,2)] by blast
  have "\<exists>k at row. pg_uuid E (ssID s) = Some k \<and> sessions (pool_db w') = revoke k at (sessions (pool_db w)) @ [row]"
    using rep unfolding replaced_def by auto
  moreover have "fst (fromSessionHeader E True cx sid w') = Inr (Some p)"
    using assms(3-6) red by (intro fromSessionHeader_hit) simp_all
  ultimately show ?thesis
    using s by blast
qed


text \<open>
  A redirect carries its parameters: parsing the query of the URL the handlers redirect to gives
  every parameter they set (the code and the state, or the error) and keeps the other ones of the URI.
\<close>

theorem redirect_carries_params:
  assumes "with_query parse uri kvs = Some u" "distinct (map fst kvs)"
  shows "\<exists>q0 render qs. parse uri = Some (q0, render) \<and> u = render qs
     \<and> (\<forall>k. values_get (parse_query qs) k = (case map_of kvs k of Some v \<Rightarrow> v | None \<Rightarrow> values_get (parse_query q0) k))"
proof -
  let ?set = "foldl (\<lambda>vs (k, v). values_set k v vs)"
  have fold: "values_get (?set vs kvs) k = (case map_of kvs k of Some v \<Rightarrow> v | None \<Rightarrow> values_get vs k)"
    if "distinct (map fst kvs)" for vs k
    using that
  proof (induction kvs arbitrary: vs)
    case (Cons kv kvs)
    obtain a b where kv: "kv = (a, b)" by fastforce
    then have "map_of kvs a = None"
      using Cons.prems by (simp add: map_of_eq_None_iff)
    then show ?case
      using Cons kv by (auto simp: values_get_set split: option.splits)
  qed simp
  obtain q0 render where "parse uri = Some (q0, render)" "u = render (encode_values (?set (parse_query q0) kvs))"
    using assms(1) by (auto simp: with_query_def split: option.splits)
  then show ?thesis
    using fold [OF assms(2)] by (auto simp: parse_encode_values values_get_sorted)
qed



definition demo_refresh_input :: token_input where
  "demo_refresh_input = \<lparr> tiGrantType = ''refresh_token'', tiCode = [], tiRedirectURI = [], tiClientID = ''any'',
     tiClientSecret = [], tiCodeVerifier = [], tiRefreshToken = ''r'', tiScope = [] \<rparr>"

lemma demo_refresh_grant:
  "\<exists>out w'. refreshTokenGrant demo_env ''iss'' background demo_refresh_input ((world_of demo_refresh_db)\<lparr>redis := r\<rparr>) = (Inr out, w')
     \<and> calls w' < 100"
  by (simp add: refreshTokenGrant_def demo_refresh_input_def demo_refresh_defs run_simps Let_def demo_refresh_db_def
      demo_session_def demo_db_def demo_tenant_def demo_signing_key_def [symmetric])

theorem refresh_grant_single_use_witness:
  "\<exists>out w'. refreshTokenGrant demo_env ''iss'' background demo_refresh_input (world_of demo_refresh_db) = (Inr out, w')
     \<and> fst (refreshTokenGrant demo_env ''iss'' background demo_refresh_input w') = Inl ErrInvalidGrant"
proof -
  obtain out w' where run: "refreshTokenGrant demo_env ''iss'' background demo_refresh_input (world_of demo_refresh_db) = (Inr out, w')"
    using demo_refresh_grant [of "\<lambda>_. None"] by (auto simp: world_of_def)
  have tok: "tiRefreshToken demo_refresh_input = ''r''"
    by (simp add: demo_refresh_input_def)
  obtain s w1 res where "find_refreshable demo_env background ErrInvalidGrant ''r'' (world_of demo_refresh_db) = (Inr s, w1)"
    "replace_session demo_env ''iss'' background (\<lambda>_. ret ()) [tiClientID demo_refresh_input] s w1 = (Inr res, w')"
    "toRefreshToken out = lrRefreshToken res"
    using run by (auto simp: refreshTokenGrant_def bindE_Inr_iff tok)
  then have new: "toRefreshToken out = ''FRYXGBkaGxwdHh8gISIjJCUmJygpKissLS4vMDEyMzQ''"
    using demo_rotation_token demo_token by simp
  have "token_Hash (toRefreshToken out) \<noteq> token_Hash (tiRefreshToken demo_refresh_input)"
    unfolding new tok demo_token_hash1 demo_token_hash2 by simp
  moreover have "filter (\<lambda>s. ssRefreshTokenHash s = token_Hash (tiRefreshToken demo_refresh_input))
      (sessions (pool_db (world_of demo_refresh_db))) = [demo_session]"
    by (simp add: demo_refresh_db_def demo_session_def tok)
  ultimately show ?thesis
    using refresh_grant_single_use [OF run background_simps(1) _ _ _ refl background_simps(1)] run by auto
qed

theorem refresh_grant_keeps_cache_witness:
  "\<exists>r out w'. refreshTokenGrant demo_env ''iss'' background demo_refresh_input ((world_of demo_refresh_db)\<lparr>redis := r\<rparr>) = (Inr out, w')
     \<and> (\<exists>s \<in> set (sessions (pool_db w')). ssID s = ''s-a'' \<and> ssRevokedAt s \<noteq> None)
     \<and> fst (fromSessionHeader demo_env True background ''s-a'' w') = Inr (Some demo_principal)"
proof -
  let ?r = "[cachePrefix @ ''s-a'' \<mapsto> (RvPrincipal demo_principal, 300000000000)]"
  obtain out w' where run: "refreshTokenGrant demo_env ''iss'' background demo_refresh_input ((world_of demo_refresh_db)\<lparr>redis := ?r\<rparr>) = (Inr out, w')"
    and calls: "calls w' < 100"
    using demo_refresh_grant by blast
  have "redis_now demo_env (calls w') < 300000000000"
    using calls by simp
  then have "fst (fromSessionHeader demo_env True background ''s-a'' w') = Inr (Some demo_principal)
      \<and> (\<exists>s \<in> set (sessions (pool_db w')). ssID s = ''s-a'' \<and> ssRevokedAt s \<noteq> None)"
    using refresh_grant_keeps_cache [OF run background_simps(1), of "''s-a''" demo_principal 300000000000]
    by (auto simp: demo_refresh_db_def demo_session_def revoke_def)
  then show ?thesis
    using run by blast
qed


theorem redirect_carries_params_witness:
  "\<exists>u. with_query (\<lambda>u. Some (''a=1'', \<lambda>q. u @ ''?'' @ q)) ''https://app/cb'' [(''code'', ''c''), (''state'', ''s'')] = Some (''https://app/cb?'' @ u)
     \<and> values_get (parse_query u) ''code'' = ''c'' \<and> values_get (parse_query u) ''a'' = ''1''"
proof -
  let ?p = "\<lambda>u. Some (''a=1'', \<lambda>q. u @ ''?'' @ q)" and ?kvs = "[(''code'', ''c''), (''state'', ''s'')]"
  obtain u where u: "with_query ?p ''https://app/cb'' ?kvs = Some u"
    by (simp add: with_query_def)
  obtain q0 render qs where "?p ''https://app/cb'' = Some (q0, render)" "u = render qs"
      "\<forall>k. values_get (parse_query qs) k = (case map_of ?kvs k of Some v \<Rightarrow> v | None \<Rightarrow> values_get (parse_query q0) k)"
    using redirect_carries_params [OF u] by auto
  then show ?thesis
    using u by (auto simp: parse_query_def parse_pair_def values_get_def)
qed

end
