(* ===== verification/Janus_Webauthn.thy ===== *)
theory Janus_Webauthn
  imports Janus_Oauth
begin

text \<open>
  \<^verbatim>\<open>internal/webauthn\<close>: the credential repository, the two ceremonies with their sessions in Redis, the
  passkey login and the handlers. The WebAuthn library (\<^verbatim>\<open>go-webauthn\<close>) is the record \<open>wa_library\<close> of
  its functions, an argument of the operations.
\<close>

section \<open>Repository\<close>

definition pg_wa_credential :: "env \<Rightarrow> wa_credential \<Rightarrow> wa_credential option" where
  "pg_wa_credential E c =
     (case (pg_uuid E (wcID c), pg_uuid E (wcIdentityID c)) of
        (Some i, Some d) \<Rightarrow>
          Some (c\<lparr>wcID := i, wcIdentityID := d, wcTransports := map json_string (wcTransports c),
                 wcCreatedAt := pg_time E (wcCreatedAt c), wcLastUsedAt := None\<rparr>)
      | _ \<Rightarrow> None)"

definition WaRepo_Create :: "env \<Rightarrow> ctx \<Rightarrow> wa_credential \<Rightarrow> unit io" where
  "WaRepo_Create E cx c = exec_sql E cx (cast_row (pg_wa_credential E c) ins_wa_credential)"

text \<open>\<open>scanOne\<close> and \<open>list\<close>: the rows come back as they are stored; only \<open>list\<close> looks at \<^verbatim>\<open>rows.Err()\<close>.\<close>

definition wa_scanOne :: "env \<Rightarrow> ctx \<Rightarrow> (database \<Rightarrow> error + wa_credential list) \<Rightarrow> wa_credential io" where
  "wa_scanOne E cx q = no_rows_not_found (query_row E cx q)"

definition wa_list :: "env \<Rightarrow> ctx \<Rightarrow> (database \<Rightarrow> error + wa_credential list) \<Rightarrow> wa_credential list io" where
  "wa_list E cx q = query_all E cx id q"

definition WaRepo_GetByCredentialID :: "env \<Rightarrow> ctx \<Rightarrow> byte list \<Rightarrow> wa_credential io" where
  "WaRepo_GetByCredentialID E cx credID =
     wa_scanOne E cx (\<lambda>d. Inr (filter (\<lambda>c. wcCredentialID c = credID) (webauthn_credentials d)))"

definition WaRepo_ListByIdentity :: "env \<Rightarrow> ctx \<Rightarrow> string \<Rightarrow> wa_credential list io" where
  "WaRepo_ListByIdentity E cx identityID =
     wa_list E cx (\<lambda>d. where_uuid E identityID (\<lambda>k. filter (\<lambda>c. wcIdentityID c = k) (webauthn_credentials d)))"

text \<open>
  The rows a caller sees that drops the error of \<open>ListByIdentity\<close>: none if the query failed, those
  read so far if the result broke off.
\<close>

definition list_ignoring_error :: "env \<Rightarrow> ctx \<Rightarrow> string \<Rightarrow> wa_credential list io" where
  "list_ignoring_error E cx identityID =
     bindE (attempt (query_rows E cx id
        (\<lambda>d. where_uuid E identityID (\<lambda>k. filter (\<lambda>c. wcIdentityID c = k) (webauthn_credentials d)))))
       (\<lambda>r. case r of Inl _ \<Rightarrow> ret [] | Inr cs \<Rightarrow> ret cs)"

definition WaRepo_ListByUserHandle :: "env \<Rightarrow> ctx \<Rightarrow> byte list \<Rightarrow> wa_credential list io" where
  "WaRepo_ListByUserHandle E cx handle =
     wa_list E cx (\<lambda>d. Inr (filter (\<lambda>c. wcUserHandle c = handle) (webauthn_credentials d)))"

definition WaRepo_UpdateSignCount :: "env \<Rightarrow> ctx \<Rightarrow> string \<Rightarrow> 32 word \<Rightarrow> unit io" where
  "WaRepo_UpdateSignCount E cx cid n w =
     exec_sql E cx (\<lambda>d. case pg_uuid E cid of
         None \<Rightarrow> Inl (PgError InvalidText)
       | Some k \<Rightarrow> upd_wa_credentials (\<lambda>c. wcID c = k)
            (\<lambda>c. c\<lparr>wcSignCount := n, wcLastUsedAt := Some (db_now E (calls w))\<rparr>) d) w"

definition WaRepo_Delete :: "env \<Rightarrow> ctx \<Rightarrow> string \<Rightarrow> unit io" where
  "WaRepo_Delete E cx cid =
     exec_sql E cx (\<lambda>d. case pg_uuid E cid of
         None \<Rightarrow> Inl (PgError InvalidText)
       | Some k \<Rightarrow> del_wa_credentials (\<lambda>c. wcID c = k) d)"

lemmas wa_repo_defs = wa_scanOne_def wa_list_def WaRepo_Create_def WaRepo_GetByCredentialID_def WaRepo_ListByIdentity_def
  WaRepo_ListByUserHandle_def WaRepo_UpdateSignCount_def WaRepo_Delete_def

section \<open>The library\<close>

record lib_credential =
  lcID :: "byte list"
  lcPublicKey :: "byte list"
  lcAttestationType :: string
  lcAAGUID :: "byte list"
  lcSignCount :: "32 word"
  lcTransport :: "string list"

record wa_user =
  wuID :: "byte list"
  wuName :: string
  wuDisplayName :: string
  wuCreds :: "wa_credential list"

text \<open>What the library sees of a user's credentials.\<close>

definition WebAuthnCredentials :: "wa_user \<Rightarrow> lib_credential list" where
  "WebAuthnCredentials u = map (\<lambda>c. \<lparr> lcID = wcCredentialID c, lcPublicKey = wcPublicKey c,
     lcAttestationType = wcAttestation c, lcAAGUID = wcAAGUID c, lcSignCount = wcSignCount c,
     lcTransport = [] \<rparr>) (wuCreds u)"

text \<open>
  The four calls. Each may draw random bytes or read the clock, so it depends on the number of calls
  made before; a body that parses as an assertion yields the raw credential id and the user handle the
  library asks the server about, \<open>lib_no_user\<close> is the error it makes of the server's answer.
\<close>

record wa_library =
  lib_begin_registration :: "wa_user \<Rightarrow> nat \<Rightarrow> (string \<times> wa_session) option"
  lib_finish_registration :: "wa_user \<Rightarrow> wa_session \<Rightarrow> string \<Rightarrow> nat \<Rightarrow> lib_credential option"
  lib_begin_login :: "nat \<Rightarrow> (string \<times> wa_session) option"
  lib_parse_assertion :: "wa_session \<Rightarrow> string \<Rightarrow> (byte list \<times> byte list) option"
  lib_validate :: "wa_user \<Rightarrow> wa_session \<Rightarrow> string \<Rightarrow> nat \<Rightarrow> lib_credential option"
  lib_no_user :: "error \<Rightarrow> error"

definition lib_call :: "(nat \<Rightarrow> 'a option) \<Rightarrow> 'a io" where
  "lib_call f w = (case f (calls w) of None \<Rightarrow> (Inl ErrLibrary, tick w) | Some x \<Rightarrow> (Inr x, tick w))"

section \<open>Ceremonies\<close>

definition wa_user_of :: "byte list \<Rightarrow> identity \<Rightarrow> wa_credential list \<Rightarrow> wa_user" where
  "wa_user_of handle i cs = \<lparr> wuID = handle, wuName = iPrimaryEmail i, wuDisplayName = iPrimaryEmail i, wuCreds = cs \<rparr>"

definition handle_of :: "byte list \<Rightarrow> wa_credential list \<Rightarrow> byte list" where
  "handle_of other cs = (case cs of [] \<Rightarrow> other | c # _ \<Rightarrow> wcUserHandle c)"

definition BeginRegistration :: "env \<Rightarrow> wa_library \<Rightarrow> ctx \<Rightarrow> string \<Rightarrow> (string \<times> string) io" where
  "BeginRegistration E L cx identityID =
     bindE (IdentityRepo_GetByID E cx identityID) (\<lambda>i.
     bindE (WaRepo_ListByIdentity E cx identityID) (\<lambda>cs.
     bindE (lib_call (lib_begin_registration L (wa_user_of (handle_of (bytes_of identityID) cs) i cs))) (\<lambda>(options, sess).
     bindE (new_id E) (\<lambda>key.
     bindE (WaSessionStore_Store E key sess) (\<lambda>_.
       ret (options, key))))))"

definition new_wa_credential ::
  "string \<Rightarrow> string \<Rightarrow> byte list \<Rightarrow> string \<Rightarrow> lib_credential \<Rightarrow> time \<Rightarrow> wa_credential" where
  "new_wa_credential cid identityID handle label c at = \<lparr> wcID = cid, wcIdentityID = identityID,
     wcCredentialID = lcID c, wcPublicKey = lcPublicKey c, wcAttestation = lcAttestationType c,
     wcAAGUID = lcAAGUID c, wcSignCount = lcSignCount c, wcTransports = lcTransport c,
     wcUserHandle = handle, wcLabel = label, wcCreatedAt = at, wcLastUsedAt = None \<rparr>"

definition FinishRegistration ::
  "env \<Rightarrow> wa_library \<Rightarrow> ctx \<Rightarrow> string \<Rightarrow> string \<Rightarrow> string \<Rightarrow> string \<Rightarrow> wa_credential io" where
  "FinishRegistration E L cx identityID sessionKey label body =
     bindE (WaSessionStore_Consume E sessionKey) (\<lambda>sess.
     bindE (IdentityRepo_GetByID E cx identityID) (\<lambda>i.
     bindE (list_ignoring_error E cx identityID) (\<lambda>cs.
     bindE (lib_call (lib_finish_registration L (wa_user_of (handle_of (wsUserID sess) cs) i cs) sess body)) (\<lambda>c.
     bindE (new_id E) (\<lambda>cid.
     bindE (now E) (\<lambda>at.
       let stored = new_wa_credential cid identityID (handle_of (wsUserID sess) cs) label c at in
       bindE (WaRepo_Create E cx stored) (\<lambda>_. ret stored)))))))"

text \<open>The 16 random bytes are read and thrown away.\<close>

definition randomKey :: "env \<Rightarrow> string io" where
  "randomKey E = bindE (rand_read E 16) (\<lambda>_. new_id E)"

definition BeginLogin :: "env \<Rightarrow> wa_library \<Rightarrow> (string \<times> string) io" where
  "BeginLogin E L =
     bindE (lib_call (lib_begin_login L)) (\<lambda>(options, sess).
     bindE (randomKey E) (\<lambda>key.
     bindE (WaSessionStore_Store E key sess) (\<lambda>_.
       ret (options, key))))"

text \<open>\<open>find_wa_user\<close>: the callback that tells the library who has a user handle.\<close>

definition find_wa_user :: "env \<Rightarrow> ctx \<Rightarrow> byte list \<Rightarrow> wa_user io" where
  "find_wa_user E cx handle =
     bindE (or_err ErrUnknownCredential (WaRepo_ListByUserHandle E cx handle)) (\<lambda>cs. case cs of
       [] \<Rightarrow> raise ErrUnknownCredential
     | c # _ \<Rightarrow> bindE (IdentityRepo_GetByID E cx (wcIdentityID c)) (\<lambda>i. ret (wa_user_of handle i cs)))"

definition discoverable_login :: "env \<Rightarrow> wa_library \<Rightarrow> ctx \<Rightarrow> wa_session \<Rightarrow> string \<Rightarrow> lib_credential io" where
  "discoverable_login E L cx sess body =
     (case lib_parse_assertion L sess body of
        None \<Rightarrow> raise ErrLibrary
      | Some (rawID, handle) \<Rightarrow>
          bindE (attempt (find_wa_user E cx handle)) (\<lambda>r. case r of
            Inl e \<Rightarrow> raise (lib_no_user L e)
          | Inr u \<Rightarrow> lib_call (lib_validate L u sess body)))"

definition FinishLogin :: "env \<Rightarrow> wa_library \<Rightarrow> ctx \<Rightarrow> string \<Rightarrow> string \<Rightarrow> wa_credential io" where
  "FinishLogin E L cx sessionKey body =
     bindE (WaSessionStore_Consume E sessionKey) (\<lambda>sess.
     bindE (discoverable_login E L cx sess body) (\<lambda>c.
     bindE (WaRepo_GetByCredentialID E cx (lcID c)) (\<lambda>stored.
     bindE (tryM (WaRepo_UpdateSignCount E cx (wcID stored) (lcSignCount c))) (\<lambda>_.
       ret stored))))"

definition wa_subject :: "wa_credential \<Rightarrow> identity \<Rightarrow> user \<Rightarrow> string \<Rightarrow> session_for" where
  "wa_subject c i u ua = \<lparr> sfTenantID = usTenantID u, sfIdentityID = wcIdentityID c, sfUserID = usID u,
     sfEmail = iPrimaryEmail i, sfIPAddress = None, sfUserAgent = ua \<rparr>"

definition WaLogin_Complete ::
  "env \<Rightarrow> string \<Rightarrow> wa_library \<Rightarrow> ctx \<Rightarrow> string \<Rightarrow> string \<Rightarrow> string \<Rightarrow> login_result io" where
  "WaLogin_Complete E issuer L cx sessionKey body ua =
     bindE (FinishLogin E L cx sessionKey body) (\<lambda>c.
     bindE (IdentityRepo_GetByID E cx (wcIdentityID c)) (\<lambda>i.
     bindE (UserRepo_GetByIdentityID E cx (wcIdentityID c)) (\<lambda>u.
       open_session E issuer cx [] (wa_subject c i u ua))))"

definition WaService_List :: "env \<Rightarrow> ctx \<Rightarrow> string \<Rightarrow> wa_credential list io" where
  "WaService_List E cx identityID = WaRepo_ListByIdentity E cx identityID"

definition WaService_Delete :: "env \<Rightarrow> ctx \<Rightarrow> string \<Rightarrow> unit io" where
  "WaService_Delete E cx cid = WaRepo_Delete E cx cid"

section \<open>Handlers\<close>

text \<open>The replies carry the text of the error; \<open>text_of\<close> is \<^verbatim>\<open>Error()\<close>.\<close>

definition RegisterBegin_handler :: "env \<Rightarrow> (error \<Rightarrow> string) \<Rightarrow> wa_library \<Rightarrow> (string \<times> string) handler" where
  "RegisterBegin_handler E text_of L = authorized (\<lambda>p cx.
     serve (BeginRegistration E L cx (prIdentityID p)) (Json 200) (\<lambda>e. HttpError 500 (text_of e)))"

definition RegisterComplete_handler ::
  "env \<Rightarrow> (error \<Rightarrow> string) \<Rightarrow> wa_library \<Rightarrow> (string \<times> string \<times> string) option \<Rightarrow> (string \<times> string) handler" where
  "RegisterComplete_handler E text_of L body = authorized (\<lambda>p cx.
     case body of
       None \<Rightarrow> reply (HttpError 400 ''invalid request'')
     | Some (sessionKey, label, response) \<Rightarrow>
         serve (FinishRegistration E L cx (prIdentityID p) sessionKey label response)
           (\<lambda>c. Json 201 (wcID c, wcLabel c)) (\<lambda>e. HttpError 400 (text_of e)))"

definition LoginBegin_handler :: "env \<Rightarrow> (error \<Rightarrow> string) \<Rightarrow> wa_library \<Rightarrow> (string \<times> string) handler" where
  "LoginBegin_handler E text_of L cx = serve (BeginLogin E L) (Json 200) (\<lambda>e. HttpError 500 (text_of e))"

definition LoginComplete_handler ::
  "env \<Rightarrow> (error \<Rightarrow> string) \<Rightarrow> string \<Rightarrow> wa_library \<Rightarrow> string \<Rightarrow> (string \<times> string) option \<Rightarrow> login_result handler" where
  "LoginComplete_handler E text_of issuer L ua body cx =
     (case body of
        None \<Rightarrow> reply (HttpError 400 ''invalid request'')
      | Some (sessionKey, response) \<Rightarrow>
          serve (WaLogin_Complete E issuer L cx sessionKey response ua) (Json 200) (\<lambda>e. HttpError 401 (text_of e)))"

text \<open>\<open>fmt\<close> formats a time as the handler does, to the second.\<close>

record credential_view =
  cvID :: string
  cvLabel :: string
  cvTransports :: "string list"
  cvCreatedAt :: string
  cvLastUsedAt :: "string option"

definition view_credential :: "(time \<Rightarrow> string) \<Rightarrow> wa_credential \<Rightarrow> credential_view" where
  "view_credential fmt c = \<lparr> cvID = wcID c, cvLabel = wcLabel c, cvTransports = wcTransports c,
     cvCreatedAt = fmt (wcCreatedAt c), cvLastUsedAt = map_option fmt (wcLastUsedAt c) \<rparr>"

definition ListCredentials_handler ::
  "env \<Rightarrow> (error \<Rightarrow> string) \<Rightarrow> (time \<Rightarrow> string) \<Rightarrow> credential_view list handler" where
  "ListCredentials_handler E text_of fmt = authorized (\<lambda>p cx.
     serve (WaService_List E cx (prIdentityID p)) (\<lambda>cs. Json 200 (map (view_credential fmt) cs))
       (\<lambda>e. HttpError 500 (text_of e)))"

section \<open>What the operations keep\<close>

lemma quiet_lib_call [quiet_rules]: "quiet (lib_call f)"
  by (auto simp: quiet_def lib_call_def split: option.splits)

lemma quiet_wa_reads [quiet_rules]:
  "quiet (WaRepo_GetByCredentialID E cx cid)" "quiet (WaRepo_ListByIdentity E cx i)" "quiet (WaRepo_ListByUserHandle E cx h)"
  unfolding wa_repo_defs no_rows_not_found_def by (intro quiet_rules)+

lemma quiet_wa [quiet_rules]:
  "quiet (list_ignoring_error E cx i)" "quiet (find_wa_user E cx h)" "quiet (discoverable_login E L cx sess body)"
  "quiet (randomKey E)"
proof -
  show "quiet (list_ignoring_error E cx i)"
    unfolding list_ignoring_error_def by (intro quiet_rules)
  show find: "quiet (find_wa_user E cx h)" for h
  proof -
    have "quiet (case cs of [] \<Rightarrow> raise ErrUnknownCredential
        | c # _ \<Rightarrow> bindE (IdentityRepo_GetByID E cx (wcIdentityID c)) (\<lambda>i. ret (wa_user_of h i cs)))" for cs
      by (cases cs) (auto intro!: quiet_rules)
    then show ?thesis
      unfolding find_wa_user_def by (intro quiet_rules)
  qed
  show "quiet (discoverable_login E L cx sess body)"
    unfolding discoverable_login_def
    by (auto split: option.split prod.split sum.split intro!: quiet_rules find)
  show "quiet (randomKey E)"
    unfolding randomKey_def by (intro quiet_rules)
qed

context db_law
begin

lemma keeps_wa_writes [keeps_rules]:
  "keeps (dbs I) (WaRepo_Create E cx c)" "keeps (dbs I) (WaRepo_UpdateSignCount E cx cid n)"
proof -
  show "keeps (dbs I) (WaRepo_Create E cx c)"
    unfolding wa_repo_defs by (rule keeps_rules)
  show "keeps (dbs I) (WaRepo_UpdateSignCount E cx cid n)"
    by (rule keepsI) (unfold WaRepo_UpdateSignCount_def, erule keeps_snd [OF keeps_updates(3)])
qed

lemma keeps_wa_ops [keeps_rules]:
  "keeps (dbs I) (BeginRegistration E L cx i)" "keeps (dbs I) (FinishRegistration E L cx i key label body)"
  "keeps (dbs I) (BeginLogin E L)" "keeps (dbs I) (WaLogin_Complete E issuer L cx key body ua)"
proof -
  note steps = keeps_bindE keeps_ret keeps_tryM keeps_case_prod keeps_dbs_quiet [OF quiet_identity(2)]
    keeps_dbs_quiet [OF quiet_identity(5)] keeps_dbs_quiet [OF quiet_wa_reads(1)] keeps_dbs_quiet [OF quiet_wa_reads(2)]
    keeps_dbs_quiet [OF quiet_wa(1)] keeps_dbs_quiet [OF quiet_wa(3)] keeps_dbs_quiet [OF quiet_wa(4)]
    keeps_dbs_quiet [OF quiet_lib_call] keeps_dbs_basic keeps_wa_writes keeps_opened_session
    keeps_db_free [OF db_free_stores(5)] keeps_db_free [OF db_free_stores(6)]
  show "keeps (dbs I) (BeginRegistration E L cx i)" "keeps (dbs I) (FinishRegistration E L cx i key label body)"
    "keeps (dbs I) (BeginLogin E L)" "keeps (dbs I) (WaLogin_Complete E issuer L cx key body ua)"
    unfolding BeginRegistration_def FinishRegistration_def BeginLogin_def WaLogin_Complete_def FinishLogin_def Let_def
    by (intro steps)+
qed

end

context db_law_all
begin

lemma keeps_wa_deletes [keeps_rules]:
  "keeps (dbs I) (WaRepo_Delete E cx cid)" "keeps (dbs I) (WaService_Delete E cx cid)"
  unfolding WaService_Delete_def wa_repo_defs by (rule keeps_by_uuid, erule (1) law_del_wa_credentials)+

end

section \<open>Outcomes\<close>

text \<open>
  What the library promises of an assertion it accepts: the credential is one of the user's.
\<close>

definition validates_own :: "wa_library \<Rightarrow> bool" where
  "validates_own L \<longleftrightarrow> (\<forall>u sess body n c. lib_validate L u sess body n = Some c \<longrightarrow>
     lcID c \<in> lcID ` set (WebAuthnCredentials u))"

lemma ids_of_user: "lcID ` set (WebAuthnCredentials u) = wcCredentialID ` set (wuCreds u)"
  by (auto simp: WebAuthnCredentials_def image_image)

lemma ListByUserHandle_InrD:
  assumes "WaRepo_ListByUserHandle E cx h w = (Inr cs, w')"
  shows "w' = tick w \<and> set cs = {c \<in> set (webauthn_credentials (view cx w)). wcUserHandle c = h}"
  using query_all_InrD [OF assms [unfolded WaRepo_ListByUserHandle_def wa_list_def]] by auto

lemma GetByCredentialID_InrD:
  assumes "WaRepo_GetByCredentialID E cx cid w = (Inr c, w')"
  shows "w' = tick w \<and> c \<in> set (webauthn_credentials (view cx w)) \<and> wcCredentialID c = cid"
  using query_row_InrD [OF no_rows_not_found_InrD [OF assms [unfolded WaRepo_GetByCredentialID_def wa_scanOne_def]]] by auto

lemma find_wa_user_InrD:
  assumes "find_wa_user E cx h w = (Inr u, w')"
  shows "wuID u = h \<and> set (wuCreds u) = {c \<in> set (webauthn_credentials (view cx w)). wcUserHandle c = h}"
proof -
  obtain cs w1 where cs: "WaRepo_ListByUserHandle E cx h w = (Inr cs, w1)"
    and rest: "(case cs of [] \<Rightarrow> raise ErrUnknownCredential
        | c # _ \<Rightarrow> bindE (IdentityRepo_GetByID E cx (wcIdentityID c)) (\<lambda>i. ret (wa_user_of h i cs))) w1 = (Inr u, w')"
    using assms by (auto simp: find_wa_user_def bindE_Inr_iff)
  then have "wuID u = h \<and> wuCreds u = cs"
    by (cases cs) (auto simp: bindE_Inr_iff wa_user_of_def)
  then show ?thesis
    using ListByUserHandle_InrD [OF cs] by simp
qed

lemma discoverable_login_InrD:
  assumes "discoverable_login E L cx sess body w = (Inr c, w')"
  shows "\<exists>rawID h u n. lib_parse_assertion L sess body = Some (rawID, h) \<and> lib_validate L u sess body n = Some c
     \<and> wuID u = h \<and> set (wuCreds u) = {c \<in> set (webauthn_credentials (view cx w)). wcUserHandle c = h}"
proof -
  obtain rawID h where p: "lib_parse_assertion L sess body = Some (rawID, h)"
    using assms by (cases "lib_parse_assertion L sess body") (auto simp: discoverable_login_def)
  obtain r w1 where f: "find_wa_user E cx h w = (r, w1)"
    by fastforce
  obtain u where u: "r = Inr u" "lib_call (lib_validate L u sess body) w1 = (Inr c, w')"
    using assms p f by (cases r) (auto simp: discoverable_login_def)
  then have "lib_validate L u sess body (calls w1) = Some c"
    by (auto simp: lib_call_def split: option.splits)
  then show ?thesis
    using p find_wa_user_InrD f u(1) by blast
qed

lemma redis_live_entry: "redis_live E w k = Some v \<Longrightarrow> \<exists>t. redis w k = Some (v, t)"
  by (auto simp: redis_live_def split: option.splits if_splits)

lemma WaSessionStore_Consume_InrD:
  assumes "WaSessionStore_Consume E key w = (Inr s, w')"
  shows "redis_live E w (webauthnPrefix @ key) = Some (RvWaSession s) \<and> pool_db w' = pool_db w \<and> view cx w' = view cx w
     \<and> redis w' = (redis w)(webauthnPrefix @ key := None)"
proof -
  obtain v where v: "redis_live E w (webauthnPrefix @ key) = Some v" "as_wa_session v = Some s"
      "w' = (tick w)\<lparr>redis := (redis w)(webauthnPrefix @ key := None)\<rparr>"
    using consume_InrD [OF assms [unfolded WaSessionStore_Consume_def]] by blast
  then show ?thesis
    by (cases v) (auto simp: view_def)
qed

definition count_use :: "string \<Rightarrow> 32 word \<Rightarrow> time \<Rightarrow> database \<Rightarrow> database" where
  "count_use k n t d = d\<lparr>webauthn_credentials := map (\<lambda>c. if wcID c = k
     then c\<lparr>wcSignCount := n, wcLastUsedAt := Some t\<rparr> else c) (webauthn_credentials d)\<rparr>"

lemma UpdateSignCount_any:
  assumes "WaRepo_UpdateSignCount E cx cid n w = (r, w')" "\<not> cx_tx cx"
  shows "redis w' = redis w \<and> (pool_db w' = pool_db w
     \<or> (\<exists>k t. pg_uuid E cid = Some k \<and> pool_db w' = count_use k n t (pool_db w)))"
  using assms(1) unfolding WaRepo_UpdateSignCount_def
  by (rule exec_sql_outcome) (use assms(2) in \<open>auto simp: upd_wa_credentials_def count_use_def split: option.splits\<close>)

text \<open>What a finished passkey ceremony rests on.\<close>

definition passkey_proved :: "wa_library \<Rightarrow> string \<Rightarrow> string \<Rightarrow> world \<Rightarrow> wa_credential \<Rightarrow> bool" where
  "passkey_proved L key body w c \<longleftrightarrow> (\<exists>sess t rawID u lc n. redis w (webauthnPrefix @ key) = Some (RvWaSession sess, t)
     \<and> lib_parse_assertion L sess body = Some (rawID, wcUserHandle c) \<and> lib_validate L u sess body n = Some lc
     \<and> lcID lc = wcCredentialID c \<and> c \<in> set (webauthn_credentials (pool_db w)) \<and> wuID u = wcUserHandle c
     \<and> set (wuCreds u) = {c' \<in> set (webauthn_credentials (pool_db w)). wcUserHandle c' = wcUserHandle c})"

lemma FinishLogin_InrD:
  assumes run: "FinishLogin E L cx key body w = (Inr c, w')" and cx: "\<not> cx_tx cx"
    and lib: "validates_own L" and uniq: "unique wcCredentialID (webauthn_credentials (pool_db w))"
  shows "passkey_proved L key body w c \<and> redis w' = (redis w)(webauthnPrefix @ key := None)
     \<and> (pool_db w' = pool_db w \<or> (\<exists>k n t. pg_uuid E (wcID c) = Some k \<and> pool_db w' = count_use k n t (pool_db w)))"
proof -
  obtain sess w1 lc w2 w3 where cons: "WaSessionStore_Consume E key w = (Inr sess, w1)"
    and lg: "discoverable_login E L cx sess body w1 = (Inr lc, w2)"
    and get: "WaRepo_GetByCredentialID E cx (lcID lc) w2 = (Inr c, w3)"
    and upd: "w' = snd (WaRepo_UpdateSignCount E cx (wcID c) (lcSignCount lc) w3)"
    using run by (auto simp: FinishLogin_def bindE_Inr_iff)
  note k = WaSessionStore_Consume_InrD [OF cons]
  have s2: "pool_db w2 = pool_db w" "redis w2 = (redis w)(webauthnPrefix @ key := None)"
    using quietD [OF quiet_wa(3) lg] k by (auto simp: same_data_def)
  have c: "c \<in> set (webauthn_credentials (pool_db w))" "wcCredentialID c = lcID lc" "w3 = tick w2"
    using GetByCredentialID_InrD [OF get] s2 cx by simp_all
  obtain rawID h u n where a: "lib_parse_assertion L sess body = Some (rawID, h)" "lib_validate L u sess body n = Some lc"
      "wuID u = h" "set (wuCreds u) = {c \<in> set (webauthn_credentials (pool_db w)). wcUserHandle c = h}"
    using discoverable_login_InrD [OF lg] k cx by auto
  have "lcID lc \<in> wcCredentialID ` set (wuCreds u)"
    using lib a(2) unfolding validates_own_def ids_of_user by blast
  then obtain c' where c': "c' \<in> set (webauthn_credentials (pool_db w))" "wcUserHandle c' = h" "wcCredentialID c' = lcID lc"
    using a(4) by auto
  have "c' = c"
    using uniq c c' by (auto simp: unique_def distinct_map inj_on_def)
  then have h: "h = wcUserHandle c"
    using c' by simp
  obtain t where "redis w (webauthnPrefix @ key) = Some (RvWaSession sess, t)"
    using redis_live_entry k by blast
  then have "passkey_proved L key body w c"
    unfolding passkey_proved_def using a [unfolded h] c(1) c(2) [symmetric] by blast
  moreover obtain r where "WaRepo_UpdateSignCount E cx (wcID c) (lcSignCount lc) w3 = (r, w')"
    using upd by (metis prod.collapse)
  ultimately show ?thesis
    using UpdateSignCount_any [OF _ cx] c(3) s2 by (metis tick_simps(1,4))
qed

lemma list_ignoring_error_InrD:
  assumes "list_ignoring_error E cx i w = (Inr cs, w')" "\<not> cx_tx cx" "c \<in> set cs"
  shows "c \<in> set (webauthn_credentials (pool_db w)) \<and> pg_uuid E i = Some (wcIdentityID c)"
proof -
  let ?q = "query_rows E cx id (\<lambda>d. where_uuid E i (\<lambda>k. filter (\<lambda>c. wcIdentityID c = k) (webauthn_credentials d)))"
  obtain r w1 where q: "?q w = (r, w1)"
    by fastforce
  then have r: "r = Inr cs"
    using assms(1,3) by (cases r) (auto simp: list_ignoring_error_def)
  obtain rs where "where_uuid E i (\<lambda>k. filter (\<lambda>c. wcIdentityID c = k) (webauthn_credentials (view cx w))) = Inr rs" "set cs \<subseteq> set rs"
    using query_rows_subset [OF q [unfolded r]] by auto
  then show ?thesis
    using assms(2,3) by (auto simp: where_uuid_Inr_iff)
qed

lemma WaRepo_Create_InrD:
  assumes "WaRepo_Create E cx c w = (Inr u, w')" "\<not> cx_tx cx"
  shows "\<exists>row. pg_wa_credential E c = Some row \<and> wcCredentialID row \<notin> wcCredentialID ` set (webauthn_credentials (pool_db w))
     \<and> pool_db w' = (pool_db w)\<lparr>webauthn_credentials := webauthn_credentials (pool_db w) @ [row]\<rparr> \<and> redis w' = redis w"
  using exec_cast_InrD [OF assms(1) [unfolded WaRepo_Create_def]] assms(2)
  by (auto simp: ins_wa_credential_def has_key_def list_ex_iff guarded.simps split: if_splits)

lemma WaRepo_Create_InlD: "WaRepo_Create E cx c w = (Inl e, w') \<Longrightarrow> same_data w w'"
  unfolding WaRepo_Create_def using exec_sql_InlD by blast

text \<open>A registration between taking the ceremony and storing the credential.\<close>

definition registration_of ::
  "env \<Rightarrow> wa_library \<Rightarrow> ctx \<Rightarrow> string \<Rightarrow> string \<Rightarrow> string \<Rightarrow> wa_session \<Rightarrow> (wa_credential \<times> wa_credential list) io" where
  "registration_of E L cx i label body sess =
     bindE (IdentityRepo_GetByID E cx i) (\<lambda>idn. bindE (list_ignoring_error E cx i) (\<lambda>cs.
     bindE (lib_call (lib_finish_registration L (wa_user_of (handle_of (wsUserID sess) cs) idn cs) sess body)) (\<lambda>c.
     bindE (new_id E) (\<lambda>cid. bindE (now E) (\<lambda>at.
       ret (new_wa_credential cid i (handle_of (wsUserID sess) cs) label c at, cs))))))"

lemma FinishRegistration_split:
  "FinishRegistration E L cx i key label body =
     bindE (WaSessionStore_Consume E key) (\<lambda>sess. bindE (registration_of E L cx i label body sess)
       (\<lambda>(stored, cs). bindE (WaRepo_Create E cx stored) (\<lambda>_. ret stored)))"
  by (simp add: FinishRegistration_def registration_of_def Let_def bindE_assoc)

lemma quiet_registration_of: "quiet (registration_of E L cx i label body sess)"
  unfolding registration_of_def by (intro quiet_rules)

lemma registration_of_InrD:
  assumes "registration_of E L cx i label body sess w = (Inr (stored, cs), w')" "\<not> cx_tx cx"
  shows "wcIdentityID stored = i \<and> wcUserHandle stored = handle_of (wsUserID sess) cs
     \<and> (\<forall>c \<in> set cs. c \<in> set (webauthn_credentials (pool_db w)) \<and> pg_uuid E i = Some (wcIdentityID c))"
proof -
  obtain idn v v' where idn: "IdentityRepo_GetByID E cx i w = (Inr idn, v)" and lst: "list_ignoring_error E cx i v = (Inr cs, v')"
    and st: "wcIdentityID stored = i" "wcUserHandle stored = handle_of (wsUserID sess) cs"
    using assms(1) by (auto simp: registration_of_def bindE_Inr_iff new_wa_credential_def)
  have "pool_db v = pool_db w"
    using IdentityRepo_GetByID_InrD [OF idn] by simp
  then show ?thesis
    using st list_ignoring_error_InrD [OF lst assms(2)] by auto
qed

lemma FinishRegistration_cases:
  assumes "FinishRegistration E L cx i key label body w = (r, w')" "\<not> cx_tx cx"
  obtains e where "r = Inl e" "pool_db w' = pool_db w"
  | sess t stored cs w2 where "r = Inr stored" "redis w (webauthnPrefix @ key) = Some (RvWaSession sess, t)"
      "wcIdentityID stored = i" "wcUserHandle stored = handle_of (wsUserID sess) cs"
      "\<forall>c \<in> set cs. c \<in> set (webauthn_credentials (pool_db w)) \<and> pg_uuid E i = Some (wcIdentityID c)"
      "WaRepo_Create E cx stored w2 = (Inr (), w')" "pool_db w2 = pool_db w" "redis w2 = (redis w)(webauthnPrefix @ key := None)"
proof -
  obtain rs w1 where cons: "WaSessionStore_Consume E key w = (rs, w1)"
    by fastforce
  show thesis
  proof (cases rs)
    case (Inl e)
    then have "r = Inl e" "w' = w1"
      using assms(1) cons by (simp_all add: FinishRegistration_split)
    then show ?thesis
      using that(1) db_freeD [OF db_free_stores(6) cons] by blast
  next
    case (Inr sess)
    note k = WaSessionStore_Consume_InrD [OF cons [unfolded Inr]]
    obtain rr w2 where reg: "registration_of E L cx i label body sess w1 = (rr, w2)"
      by fastforce
    have s2: "pool_db w2 = pool_db w" "redis w2 = (redis w)(webauthnPrefix @ key := None)"
      using quietD [OF quiet_registration_of reg] k by (simp_all add: same_data_def)
    show ?thesis
    proof (cases rr)
      case (Inl e)
      then show ?thesis
        using that(1) assms(1) cons Inr reg s2 by (auto simp: FinishRegistration_split)
    next
      case reg_ok: (Inr p)
      obtain stored cs where p: "p = (stored, cs)"
        by fastforce
      have run: "bindE (WaRepo_Create E cx stored) (\<lambda>_. ret stored) w2 = (r, w')"
        using assms(1) cons Inr reg reg_ok p by (simp add: FinishRegistration_split)
      obtain rc w3 where cr: "WaRepo_Create E cx stored w2 = (rc, w3)"
        by fastforce
      show ?thesis
      proof (cases rc)
        case (Inl e)
        then show ?thesis
          using that(1) run cr s2 WaRepo_Create_InlD [of E cx stored w2 e w3] by (auto simp: same_data_def)
      next
        case created: (Inr u)
        obtain t where t: "redis w (webauthnPrefix @ key) = Some (RvWaSession sess, t)"
          using redis_live_entry k by blast
        have "r = Inr stored" "w3 = w'"
          using run cr created by simp_all
        moreover note reg' = registration_of_InrD [OF reg [unfolded reg_ok p] assms(2)]
        ultimately show ?thesis
          using that(2) t cr created s2 k by auto
      qed
    qed
  qed
qed

section \<open>Properties\<close>

text \<open>
  C15: a passkey login needs a stored ceremony, which it uses up, and an assertion the library accepts for
  the credentials with the asserted user handle. It opens one session for a user of the identity the
  asserted credential is registered to; apart from that it changes at most the credential's use counter.
\<close>

theorem webauthn_login_outcome:
  assumes "WaLogin_Complete E issuer L cx key body ua w = (Inr out, w')" "\<not> cx_tx cx"
    and "validates_own L" "integrity (pool_db w)"
  shows "\<exists>c i u d. passkey_proved L key body w c \<and> redis w' = (redis w)(webauthnPrefix @ key := None)
     \<and> i \<in> set (identities (pool_db w)) \<and> pg_uuid E (wcIdentityID c) = Some (iID i)
     \<and> u \<in> set (users (pool_db w)) \<and> usIdentityID u = iID i
     \<and> (d = pool_db w \<or> (\<exists>k n t. pg_uuid E (wcID c) = Some k \<and> d = count_use k n t (pool_db w)))
     \<and> opened E (wa_subject c i u ua) out d (pool_db w')"
proof -
  obtain c w1 i w2 u w3 where fin: "FinishLogin E L cx key body w = (Inr c, w1)"
    and idn: "IdentityRepo_GetByID E cx (wcIdentityID c) w1 = (Inr i, w2)"
    and usr: "UserRepo_GetByIdentityID E cx (wcIdentityID c) w2 = (Inr u, w3)"
    and op: "open_session E issuer cx [] (wa_subject c i u ua) w3 = (Inr out, w')"
    using assms(1) by (auto simp: WaLogin_Complete_def bindE_Inr_iff)
  have uniq: "unique wcCredentialID (webauthn_credentials (pool_db w))"
    using assms(4) by (simp add: integrity_def)
  note f = FinishLogin_InrD [OF fin assms(2,3) uniq]
  have same: "identities (pool_db w1) = identities (pool_db w)" "users (pool_db w1) = users (pool_db w)"
    using f by (auto simp: count_use_def)
  have i: "pg_uuid E (wcIdentityID c) = Some (iID i)" "i \<in> set (identities (pool_db w))" "w2 = tick w1"
    using IdentityRepo_GetByID_InrD [OF idn] assms(2) same by auto
  have u: "usIdentityID u = iID i" "u \<in> set (users (pool_db w))" "w3 = tick w2"
    using UserRepo_GetByIdentityID_InrD [OF usr] assms(2) same i by auto
  have "opened E (wa_subject c i u ua) out (pool_db w1) (pool_db w')" "redis w' = redis w1"
    using open_session_InrD [OF op assms(2)] i u by simp_all
  then show ?thesis
    using f i(1,2) u(1,2) by metis
qed


section \<open>An example\<close>

text \<open>A library that accepts any assertion for the first credential of the user.\<close>

definition demo_lib :: wa_library where
  "demo_lib = \<lparr> lib_begin_registration = (\<lambda>u n. Some (''opts'', \<lparr> wsUserID = wuID u, wsRest = [] \<rparr>)),
     lib_finish_registration = (\<lambda>u s b n. Some \<lparr> lcID = [9], lcPublicKey = [1], lcAttestationType = ''none'', lcAAGUID = [],
       lcSignCount = 0, lcTransport = [] \<rparr>),
     lib_begin_login = (\<lambda>n. Some (''opts'', \<lparr> wsUserID = [], wsRest = [] \<rparr>)),
     lib_parse_assertion = (\<lambda>s b. Some ([8], [7])),
     lib_validate = (\<lambda>u s b n. case WebAuthnCredentials u of [] \<Rightarrow> None | c # _ \<Rightarrow> Some (c\<lparr>lcSignCount := 5\<rparr>)),
     lib_no_user = id \<rparr>"

lemma demo_lib_validates_own: "validates_own demo_lib"
  by (auto simp: validates_own_def demo_lib_def split: list.splits)

definition demo_passkey :: wa_credential where
  "demo_passkey = \<lparr> wcID = ''w-a'', wcIdentityID = ''i-a'', wcCredentialID = [8], wcPublicKey = [1], wcAttestation = ''none'',
     wcAAGUID = [], wcSignCount = 4, wcTransports = [], wcUserHandle = [7], wcLabel = ''key'', wcCreatedAt = 0,
     wcLastUsedAt = None \<rparr>"

definition demo_passkey_db :: database where
  "demo_passkey_db = demo_db\<lparr>sessions := [], oauth_clients := [], webauthn_credentials := [demo_passkey]\<rparr>"

definition demo_passkey_world :: world where
  "demo_passkey_world = (world_of demo_passkey_db)\<lparr>redis :=
     [webauthnPrefix @ ''key'' \<mapsto> (RvWaSession \<lparr> wsUserID = [], wsRest = [] \<rparr>, 300000000000)]\<rparr>"

lemma demo_finish_login:
  "\<exists>w' ws. FinishLogin demo_env demo_lib background ''key'' body demo_passkey_world = (Inr demo_passkey, w')
     \<and> pool_db w' = demo_db\<lparr>sessions := [], oauth_clients := [], webauthn_credentials := ws\<rparr>"
  by (simp add: FinishLogin_def WaSessionStore_Consume_def consume_def redis_getdel_def redis_live_def discoverable_login_def
      demo_lib_def find_wa_user_def wa_repo_defs query_all_def lib_call_def WebAuthnCredentials_def wa_user_of_def
      no_rows_not_found_def identity_repo_defs where_uuid_def upd_wa_credentials_def run_simps demo_passkey_world_def
      demo_passkey_db_def demo_passkey_def demo_db_def) (rule exI, rule refl)

lemma demo_passkey_login:
  "\<exists>out w'. WaLogin_Complete demo_env ''iss'' demo_lib background ''key'' body ''ua'' demo_passkey_world = (Inr out, w')"
proof -
  obtain w1 ws where fin: "FinishLogin demo_env demo_lib background ''key'' body demo_passkey_world = (Inr demo_passkey, w1)"
    and d: "pool_db w1 = demo_db\<lparr>sessions := [], oauth_clients := [], webauthn_credentials := ws\<rparr>"
    using demo_finish_login by blast
  obtain i u where iu: "IdentityRepo_GetByID demo_env background ''i-a'' w1 = (Inr i, tick w1)"
      "UserRepo_GetByIdentityID demo_env background ''i-a'' (tick w1) = (Inr u, tick (tick w1))"
      "usTenantID u = ''t-a''" "usID u = ''u-a''"
    using d by (simp add: identity_repo_defs where_uuid_def run_simps demo_db_def)
  have "pool_db (tick (tick w1)) = demo_db\<lparr>sessions := [], oauth_clients := [], webauthn_credentials := ws\<rparr>"
    using d by simp
  from demo_open_session_gen [OF this] show ?thesis
    using fin iu by (fastforce simp: WaLogin_Complete_def wa_subject_def demo_passkey_def)
qed

theorem webauthn_login_outcome_witness:
  "\<exists>out w'. WaLogin_Complete demo_env ''iss'' demo_lib background ''key'' [] ''ua'' demo_passkey_world = (Inr out, w')
     \<and> passkey_proved demo_lib ''key'' [] demo_passkey_world demo_passkey"
proof -
  obtain out w' where run: "WaLogin_Complete demo_env ''iss'' demo_lib background ''key'' [] ''ua'' demo_passkey_world = (Inr out, w')"
    using demo_passkey_login by blast
  have db: "pool_db demo_passkey_world = demo_passkey_db"
    by (simp add: demo_passkey_world_def)
  have "integrity demo_passkey_db"
    using demo_integrity
    by (simp add: integrity_def demo_passkey_db_def demo_passkey_def unique_def refers_def has_key_def orphaned_def demo_db_def)
  then obtain c where "passkey_proved demo_lib ''key'' [] demo_passkey_world c"
    using webauthn_login_outcome [OF run background_simps(1) demo_lib_validates_own] db by auto
  moreover from this have "c = demo_passkey"
    by (auto simp: passkey_proved_def db demo_passkey_db_def)
  ultimately show ?thesis
    using run by blast
qed

lemma demo_register_passkey:
  "\<exists>c w'. FinishRegistration demo_env demo_lib background ''i-a'' ''key'' ''phone'' [] demo_passkey_world = (Inr c, w')"
  by (simp add: FinishRegistration_def WaSessionStore_Consume_def consume_def redis_getdel_def redis_live_def
      list_ignoring_error_def handle_of_def new_wa_credential_def pg_wa_credential_def cast_row_def ins_wa_credential_def has_key_def
      demo_lib_def wa_repo_defs lib_call_def wa_user_of_def Let_def
      identity_repo_defs where_uuid_def run_simps demo_passkey_world_def
      demo_passkey_db_def demo_passkey_def demo_db_def)


end
