(* ===== verification/Janus_Audit.thy ===== *)
theory Janus_Audit
  imports Janus_Session
begin

text \<open>
  \<^verbatim>\<open>internal/audit\<close> and \<^verbatim>\<open>cmd/worker\<close>: publishing audit events on the message bus, the consumer that
  writes them to the database, and the periodic session cleanup. A message that does not parse is
  \<open>None\<close>; \<open>compact\<close> is \<^verbatim>\<open>json.Compact\<close> on the payload (none if it is not JSON), \<open>jsonb\<close> what a JSONB
  column stores for a text.
\<close>

section \<open>Publisher\<close>

text \<open>\<^verbatim>\<open>Time.MarshalJSON\<close> takes the years 0 to 9999: from 366 days before Go's zero time.\<close>

definition json_time :: "time \<Rightarrow> bool" where
  "json_time t \<longleftrightarrow> - 366 * 24 * hour \<le> t \<and> t < 3652059 * 24 * hour"

definition json_event :: "(string \<Rightarrow> string option) \<Rightarrow> event \<Rightarrow> event option" where
  "json_event compact e =
     (if \<not> json_time (evCreatedAt e) then None
      else case (if evPayload e = [] then Some [] else compact (evPayload e)) of
        None \<Rightarrow> None
      | Some p \<Rightarrow> Some \<lparr> evID = json_string (evID e), evTenantID = json_string (evTenantID e),
          evActorIdentityID = json_string (evActorIdentityID e), evEventType = json_string (evEventType e),
          evResourceType = json_string (evResourceType e), evResourceID = json_string (evResourceID e),
          evIPAddress = json_string (evIPAddress e), evPayload = p, evCreatedAt = evCreatedAt e \<rparr>)"

definition publish :: "env \<Rightarrow> event \<Rightarrow> unit io" where
  "publish E m w = (case publish_fault E (calls w) of
     Some e \<Rightarrow> (Inl e, tick w) | None \<Rightarrow> (Inr (), (tick w)\<lparr>published := published w @ [m]\<rparr>))"

text \<open>The result is the event as the caller's pointer has it afterwards; \<open>conn\<close> tells whether there is a connection.\<close>

definition Emit :: "env \<Rightarrow> (string \<Rightarrow> string option) \<Rightarrow> bool \<Rightarrow> event \<Rightarrow> event io" where
  "Emit E compact conn e =
     (if \<not> conn then ret e
      else
        bindE (if evID e = [] then new_id E else ret (evID e)) (\<lambda>i.
        bindE (if evCreatedAt e = 0 then now E else ret (evCreatedAt e)) (\<lambda>at.
          let e' = e\<lparr>evID := i, evCreatedAt := at\<rparr> in
          (case json_event compact e' of
             None \<Rightarrow> ret e'
           | Some m \<Rightarrow> bindE (tryM (publish E m)) (\<lambda>_. ret e')))))"

section \<open>Consumer\<close>

definition if_set :: "string \<Rightarrow> string option" where
  "if_set s = (if s = [] then None else Some s)"

definition jsonb_opt :: "(string \<Rightarrow> string option) \<Rightarrow> string option \<Rightarrow> string option option" where
  "jsonb_opt jsonb so = (case so of None \<Rightarrow> Some None | Some s \<Rightarrow> map_option Some (jsonb s))"

definition pg_audit_row :: "env \<Rightarrow> (string \<Rightarrow> string option) \<Rightarrow> event \<Rightarrow> audit_row option" where
  "pg_audit_row E jsonb e =
     (case (pg_uuid E (evID e), uuid_opt E (if_set (evTenantID e)), uuid_opt E (if_set (evActorIdentityID e)),
            uuid_opt E (if_set (evResourceID e)), inet_opt E (if_set (evIPAddress e)), jsonb_opt jsonb (if_set (evPayload e))) of
        (Some i, Some t, Some a, Some r, Some ip, Some p) \<Rightarrow>
          Some \<lparr> auID = i, auTenantID = t, auActorIdentityID = a, auEventType = evEventType e,
                 auResourceType = if_set (evResourceType e), auResourceID = r, auIPAddress = ip,
                 auPayload = p, auCreatedAt = pg_time E (evCreatedAt e) \<rparr>
      | _ \<Rightarrow> None)"

text \<open>The audit repository always runs on the pool.\<close>

definition AuditRepo_Insert :: "env \<Rightarrow> (string \<Rightarrow> string option) \<Rightarrow> event \<Rightarrow> unit io" where
  "AuditRepo_Insert E jsonb e = exec_sql E background (cast_row (pg_audit_row E jsonb e) ins_audit_row)"

definition consume_message :: "env \<Rightarrow> (string \<Rightarrow> string option) \<Rightarrow> event option \<Rightarrow> unit io" where
  "consume_message E jsonb msg =
     (case msg of None \<Rightarrow> ret () | Some e \<Rightarrow> tryM (AuditRepo_Insert E jsonb e))"

section \<open>Session cleanup\<close>

definition sessionRetention :: time where "sessionRetention = 30 * 24 * hour"

definition cleanup :: "env \<Rightarrow> unit io" where
  "cleanup E = bindE (now E) (\<lambda>at.
     tryM (SessionRepo_DeleteExpiredOrRevoked E background (at - sessionRetention)))"

text \<open>The loop until the context ends, after \<open>n\<close> ticks of the timer.\<close>

fun runSessionCleanup :: "env \<Rightarrow> nat \<Rightarrow> unit io" where
  "runSessionCleanup E 0 = cleanup E"
| "runSessionCleanup E (Suc n) = bindE (runSessionCleanup E n) (\<lambda>_. cleanup E)"

section \<open>What the operations keep\<close>

lemma quiet_data_Emit: "Emit E compact conn e w = (r, w') \<Longrightarrow> pool_db w' = pool_db w \<and> redis w' = redis w \<and> tx_db w' = tx_db w"
  by (auto simp: Emit_def bindE_def ret_def publish_def tryM_def Let_def new_id_def now_def split: if_splits option.splits)

context db_law
begin

lemma keeps_consume [keeps_rules]: "keeps (dbs I) (consume_message E jsonb msg)"
  unfolding consume_message_def AuditRepo_Insert_def by (intro keeps_rules)

end

context db_law_all
begin

lemma keeps_cleanup [keeps_rules]: "keeps (dbs I) (cleanup E)" "keeps (dbs I) (runSessionCleanup E n)"
proof -
  show one: "keeps (dbs I) (cleanup E)"
    unfolding cleanup_def by (intro keeps_rules)
  show "keeps (dbs I) (runSessionCleanup E n)"
    by (induction n) (auto intro!: keeps_bindE one)
qed

end

section \<open>Outcomes\<close>

lemma if_set_simps [simp]: "if_set [] = None" "s \<noteq> [] \<Longrightarrow> if_set s = Some s"
  by (simp_all add: if_set_def)

text \<open>The event an emit leaves with the caller: the given one, with an id and a time where they were missing.\<close>

definition filled :: "event \<Rightarrow> event \<Rightarrow> bool" where
  "filled e e' \<longleftrightarrow> (\<exists>i at. e' = e\<lparr>evID := i, evCreatedAt := at\<rparr>
     \<and> (evID e \<noteq> [] \<longrightarrow> i = evID e) \<and> (evCreatedAt e \<noteq> 0 \<longrightarrow> at = evCreatedAt e))"

lemma Emit_outcome:
  assumes "Emit E compact True e w = (r, w')" "\<And>n. publish_fault E n = None"
  shows "\<exists>e'. r = Inr e' \<and> filled e e' \<and> pool_db w' = pool_db w
     \<and> published w' = published w @ (case json_event compact e' of None \<Rightarrow> [] | Some m \<Rightarrow> [m])"
proof -
  obtain i w1 where i: "(if evID e = [] then new_id E else ret (evID e)) w = (Inr i, w1)" "evID e \<noteq> [] \<longrightarrow> i = evID e"
      "pool_db w1 = pool_db w" "published w1 = published w"
    by (cases "evID e = []") (auto simp: ret_def)
  obtain at w2 where at: "(if evCreatedAt e = 0 then now E else ret (evCreatedAt e)) w1 = (Inr at, w2)"
      "evCreatedAt e \<noteq> 0 \<longrightarrow> at = evCreatedAt e" "pool_db w2 = pool_db w" "published w2 = published w"
    using i(3,4) by (cases "evCreatedAt e = 0") (auto simp: ret_def)
  let ?e = "e\<lparr>evID := i, evCreatedAt := at\<rparr>"
  have run: "(case json_event compact ?e of None \<Rightarrow> ret ?e | Some m \<Rightarrow> bindE (tryM (publish E m)) (\<lambda>_. ret ?e)) w2 = (r, w')"
    using assms(1) unfolding Emit_def Let_def by (simp add: bindE_def i(1) at(1) split del: if_split)
  have "filled e ?e"
    using i(2) at(2) unfolding filled_def by blast
  moreover have "r = Inr ?e \<and> pool_db w' = pool_db w
      \<and> published w' = published w @ (case json_event compact ?e of None \<Rightarrow> [] | Some m \<Rightarrow> [m])"
    using run at(3,4) assms(2)
    by (cases "json_event compact ?e") (auto simp: bindE_def ret_def publish_def tryM_def)
  ultimately show ?thesis
    by blast
qed

lemma consume_outcome:
  assumes "consume_message E jsonb (Some m) w = (r, w')" "db_fault E (calls w) = None" "pg_audit_row E jsonb m = Some row"
  shows "r = Inr () \<and> redis w' = redis w \<and> pool_db w' = (if auID row \<in> auID ` set (audit_events (pool_db w)) then pool_db w
     else (pool_db w)\<lparr>audit_events := audit_events (pool_db w) @ [row]\<rparr>)"
  using assms
  by (auto simp: consume_message_def AuditRepo_Insert_def exec_sql_def cast_row_def ins_audit_row_def guarded.simps)

section \<open>Properties\<close>

lemma redelivery:
  assumes "for_each (consume_message E jsonb) (replicate k (Some m)) w = (r, w')" "\<And>n. db_fault E n = None"
    and "pg_audit_row E jsonb m = Some row" "auID row \<in> auID ` set (audit_events (pool_db w))"
  shows "r = Inr () \<and> pool_db w' = pool_db w"
  using assms(1,4)
proof (induction k arbitrary: w)
  case 0
  then show ?case by simp
next
  case (Suc k)
  obtain r1 w1 where c: "consume_message E jsonb (Some m) w = (r1, w1)"
    by fastforce
  have one: "r1 = Inr ()" "pool_db w1 = pool_db w"
    using consume_outcome [OF c assms(2,3)] Suc.prems(2) by simp_all
  then have "for_each (consume_message E jsonb) (replicate k (Some m)) w1 = (r, w')"
    using Suc.prems(1) c by simp
  then show ?case
    using Suc.IH [of w1] Suc.prems(2) one(2) by simp
qed


definition demo_event :: event where
  "demo_event = \<lparr> evID = ''e-1'', evTenantID = ''t-a'', evActorIdentityID = ''i-a'', evEventType = ''auth.login'',
     evResourceType = [], evResourceID = [], evIPAddress = ''192.0.2.1'', evPayload = [], evCreatedAt = second \<rparr>"

definition demo_audit_row :: audit_row where
  "demo_audit_row = \<lparr> auID = ''e-1'', auTenantID = Some ''t-a'', auActorIdentityID = Some ''i-a'', auEventType = ''auth.login'',
     auResourceType = None, auResourceID = None, auIPAddress = Some ''192.0.2.1'', auPayload = None, auCreatedAt = second \<rparr>"

lemma demo_json_event: "json_event Some demo_event = Some demo_event"
  by (simp add: json_event_def demo_event_def json_time_def duration_defs ascii_def)

lemma demo_pg_event: "pg_audit_row demo_env Some demo_event = Some demo_audit_row"
  by (simp add: pg_audit_row_def demo_event_def demo_audit_row_def uuid_opt_def inet_opt_def jsonb_opt_def)

lemma demo_emit:
  "\<exists>w1. Emit demo_env Some True demo_event (world_of empty_db) = (Inr demo_event, w1) \<and> published w1 = [demo_event]"
proof -
  have "demo_event\<lparr>evID := evID demo_event, evCreatedAt := evCreatedAt demo_event\<rparr> = demo_event"
      "evID demo_event \<noteq> []" "evCreatedAt demo_event \<noteq> 0"
    by (simp_all add: demo_event_def duration_defs)
  then show ?thesis
    by (simp add: Emit_def Let_def demo_json_event publish_def bindE_def ret_def tryM_def)
qed


end
