(* ===== verification/Janus_Server.thy ===== *)
theory Janus_Server
  imports Janus_Oauth_Props Janus_Webauthn Janus_Audit
begin

text \<open>
  \<^verbatim>\<open>cmd/iam-server\<close>: the routes of the server with their guards, the middleware around them, and the
  whole request as one function of the world. Matching a path against the route patterns is chi's; a
  request comes with the endpoint chi found, with its URL parameters and its decoded body, or none.
  On top of it stand the steps the processes take: requests, messages, the cleanup, a key rotation.
\<close>

section \<open>Endpoints\<close>

datatype endpoint =
    EpHealth
  | EpRegister "(string \<times> string) option"
  | EpLogin "(string \<times> string) option"
  | EpRefresh "string option" "string option"
  | EpJWKS
  | EpDiscovery
  | EpToken "(string \<times> string) option" "(string \<times> string) list option"
  | EpMFAComplete "(string \<times> string) option"
  | EpWaLoginBegin
  | EpWaLoginComplete "(string \<times> string) option"
  | EpMe
  | EpLogout
  | EpAuthorize "(string \<times> string) list"
  | EpUserInfo
  | EpEnrollTOTP "string option"
  | EpVerifyEnrollment "(string \<times> string) option"
  | EpListFactors
  | EpWaRegisterBegin
  | EpWaRegisterComplete "(string \<times> string \<times> string) option"
  | EpWaCredentials
  | EpGetPolicy
  | EpPutPolicy "policy_dto option"
  | EpListUsers
  | EpGetUser string
  | EpCreateUser "create_user_request option"
  | EpCreateRole "create_role_request option"
  | EpListRoles
  | EpAssignPermission string "string option"
  | EpListRolePermissions string

datatype guard = Public | WithAuth | WithPerm string

text \<open>The table of \<^verbatim>\<open>main\<close>: HTTP verb, pattern and guard of every endpoint.\<close>

fun route_of :: "endpoint \<Rightarrow> string \<times> string \<times> guard" where
  "route_of EpHealth = (''GET'', ''/health'', Public)"
| "route_of (EpRegister _) = (''POST'', ''/register'', Public)"
| "route_of (EpLogin _) = (''POST'', ''/login'', Public)"
| "route_of (EpRefresh _ _) = (''POST'', ''/refresh'', Public)"
| "route_of EpJWKS = (''GET'', ''/.well-known/jwks.json'', Public)"
| "route_of EpDiscovery = (''GET'', ''/.well-known/openid-configuration'', Public)"
| "route_of (EpToken _ _) = (''POST'', ''/oauth/token'', Public)"
| "route_of (EpMFAComplete _) = (''POST'', ''/mfa/complete'', Public)"
| "route_of EpWaLoginBegin = (''POST'', ''/webauthn/login/begin'', Public)"
| "route_of (EpWaLoginComplete _) = (''POST'', ''/webauthn/login/complete'', Public)"
| "route_of EpMe = (''GET'', ''/me'', WithAuth)"
| "route_of EpLogout = (''POST'', ''/logout'', WithAuth)"
| "route_of (EpAuthorize _) = (''GET'', ''/oauth/authorize'', WithAuth)"
| "route_of EpUserInfo = (''GET'', ''/oauth/userinfo'', WithAuth)"
| "route_of (EpEnrollTOTP _) = (''POST'', ''/mfa/enroll/totp'', WithAuth)"
| "route_of (EpVerifyEnrollment _) = (''POST'', ''/mfa/enroll/verify'', WithAuth)"
| "route_of EpListFactors = (''GET'', ''/mfa/factors'', WithAuth)"
| "route_of EpWaRegisterBegin = (''POST'', ''/webauthn/register/begin'', WithAuth)"
| "route_of (EpWaRegisterComplete _) = (''POST'', ''/webauthn/register/complete'', WithAuth)"
| "route_of EpWaCredentials = (''GET'', ''/webauthn/credentials'', WithAuth)"
| "route_of EpGetPolicy = (''GET'', ''/tenant/policy'', WithAuth)"
| "route_of (EpPutPolicy _) = (''PUT'', ''/tenant/policy'', WithPerm ''tenant:update'')"
| "route_of EpListUsers = (''GET'', ''/users'', WithPerm ''users:read'')"
| "route_of (EpGetUser _) = (''GET'', ''/users/{userID}'', WithPerm ''users:read'')"
| "route_of (EpCreateUser _) = (''POST'', ''/users'', WithPerm ''users:create'')"
| "route_of (EpCreateRole _) = (''POST'', ''/roles'', WithPerm ''roles:create'')"
| "route_of EpListRoles = (''GET'', ''/roles'', WithPerm ''roles:read'')"
| "route_of (EpAssignPermission _ _) = (''POST'', ''/roles/{roleID}/permissions'', WithPerm ''roles:update'')"
| "route_of (EpListRolePermissions _) = (''GET'', ''/roles/{roleID}/permissions'', WithPerm ''roles:read'')"

definition guard_of :: "endpoint \<Rightarrow> guard" where
  "guard_of ep = snd (snd (route_of ep))"

section \<open>Requests and replies\<close>

text \<open>A header that is absent is empty.\<close>

record http_request =
  hrVerb :: string
  hrAuthorization :: string
  hrSessionID :: string
  hrForwardedFor :: string
  hrRealIP :: string
  hrRemoteAddr :: string
  hrUserAgent :: string
  hrEndpoint :: "endpoint option"

text \<open>
  What the server was configured and built with: the issuer, the libraries that are parameters of the
  handlers, and the replies of code that is not in the repository.
\<close>

record server =
  svIssuer :: string
  svErrorText :: "error \<Rightarrow> string"
  svParseURL :: url_parser
  svParseAddrPort :: "string \<Rightarrow> string option"
  svWebAuthn :: wa_library
  svFormatTime :: "time \<Rightarrow> string"
  svNotFound :: "string reply"

datatype payload =
    PlText string
  | PlLogin login_output
  | PlSession login_result
  | PlJWKS "jwk list"
  | PlDiscovery discovery_doc
  | PlToken "token_output + oauth_error"
  | PlPair "string \<times> string"
  | PlPrincipal principal
  | PlOAuthError oauth_error
  | PlUserInfo user_info
  | PlEnrollment enrollment_result
  | PlFactors "factor_view list"
  | PlCredentials "credential_view list"
  | PlPolicy policy_dto
  | PlUser user
  | PlUsers "user list"
  | PlRoles "role list"
  | PlNames "string list"
  | PlNothing

definition answer :: "('b \<Rightarrow> payload) \<Rightarrow> 'b handler \<Rightarrow> payload handler" where
  "answer f h cx w = (case h cx w of (r, w') \<Rightarrow> (map_reply f r, w'))"

text \<open>The cookies, which the handlers of \<open>Janus_Auth\<close> return beside the reply, are left out here.\<close>

definition answer_only :: "('b \<Rightarrow> payload) \<Rightarrow> (ctx \<Rightarrow> world \<Rightarrow> 'b cookie_reply \<times> world) \<Rightarrow> payload handler" where
  "answer_only f h cx w = (case h cx w of ((r, _), w') \<Rightarrow> (map_reply f r, w'))"

fun serve_endpoint :: "env \<Rightarrow> server \<Rightarrow> http_request \<Rightarrow> endpoint \<Rightarrow> payload handler" where
  "serve_endpoint E S rq EpHealth = (\<lambda>cx. reply (Json 200 (PlText ''ok'')))"
| "serve_endpoint E S rq (EpRegister body) = answer PlText (Register_handler E body)"
| "serve_endpoint E S rq (EpLogin body) = answer_only PlLogin
     (Login_handler E (svIssuer S) True
        (extractIP (svParseAddrPort S) (hrForwardedFor rq) (hrRealIP rq) (hrRemoteAddr rq)) (hrUserAgent rq) body)"
| "serve_endpoint E S rq (EpRefresh from_cookie body) =
     answer_only PlSession (Refresh_handler E (svIssuer S) True from_cookie body)"
| "serve_endpoint E S rq EpJWKS = answer PlJWKS (JWKS_handler E)"
| "serve_endpoint E S rq EpDiscovery = (\<lambda>cx. reply (Json 200 (PlDiscovery (Discovery (svIssuer S)))))"
| "serve_endpoint E S rq (EpToken basic form) = answer PlToken (Token_handler E (svIssuer S) True basic form)"
| "serve_endpoint E S rq (EpMFAComplete body) = answer PlSession (MFAComplete_handler E (svIssuer S) body)"
| "serve_endpoint E S rq EpWaLoginBegin = answer PlPair (LoginBegin_handler E (svErrorText S) (svWebAuthn S))"
| "serve_endpoint E S rq (EpWaLoginComplete body) = answer PlSession
     (LoginComplete_handler E (svErrorText S) (svIssuer S) (svWebAuthn S) (hrUserAgent rq) body)"
| "serve_endpoint E S rq EpMe = answer PlPrincipal Me_handler"
| "serve_endpoint E S rq EpLogout = answer_only (\<lambda>_. PlNothing) (Logout_handler E True)"
| "serve_endpoint E S rq (EpAuthorize q) = answer PlOAuthError (Authorize_handler E (svErrorText S) (svParseURL S) q)"
| "serve_endpoint E S rq EpUserInfo = answer PlUserInfo (UserInfo E)"
| "serve_endpoint E S rq (EpEnrollTOTP body) = answer PlEnrollment (EnrollTOTP_handler E (svIssuer S) body)"
| "serve_endpoint E S rq (EpVerifyEnrollment body) = answer (\<lambda>_. PlNothing) (VerifyEnrollment_handler E body)"
| "serve_endpoint E S rq EpListFactors = answer PlFactors (ListFactors_handler E)"
| "serve_endpoint E S rq EpWaRegisterBegin = answer PlPair (RegisterBegin_handler E (svErrorText S) (svWebAuthn S))"
| "serve_endpoint E S rq (EpWaRegisterComplete body) =
     answer PlPair (RegisterComplete_handler E (svErrorText S) (svWebAuthn S) body)"
| "serve_endpoint E S rq EpWaCredentials =
     answer PlCredentials (ListCredentials_handler E (svErrorText S) (svFormatTime S))"
| "serve_endpoint E S rq EpGetPolicy = answer PlPolicy (PolicyHandler_Get E)"
| "serve_endpoint E S rq (EpPutPolicy body) = answer PlPolicy (PolicyHandler_Put E body)"
| "serve_endpoint E S rq EpListUsers = answer PlUsers (ListUsers_handler E)"
| "serve_endpoint E S rq (EpGetUser userID) = answer PlUser (GetUser_handler E userID)"
| "serve_endpoint E S rq (EpCreateUser body) = answer PlUser (CreateUser_handler E body)"
| "serve_endpoint E S rq (EpCreateRole body) = answer (\<lambda>_. PlNothing) (CreateRole_handler E body)"
| "serve_endpoint E S rq EpListRoles = answer PlRoles (ListRoles_handler E)"
| "serve_endpoint E S rq (EpAssignPermission roleID body) =
     answer (\<lambda>_. PlNothing) (AssignPermission_handler E roleID body)"
| "serve_endpoint E S rq (EpListRolePermissions roleID) = answer PlNames (ListRolePermissions_handler E roleID)"

section \<open>Guards and middleware\<close>

definition withAuth :: "env \<Rightarrow> http_request \<Rightarrow> payload handler \<Rightarrow> payload handler" where
  "withAuth E rq = Authenticate E True (hrAuthorization rq) (hrSessionID rq)"

definition guarded_by :: "env \<Rightarrow> http_request \<Rightarrow> guard \<Rightarrow> payload handler \<Rightarrow> payload handler" where
  "guarded_by E rq g h = (case g of
     Public \<Rightarrow> h
   | WithAuth \<Rightarrow> withAuth E rq h
   | WithPerm p \<Rightarrow> withAuth E rq (RequirePermission p h))"

text \<open>The headers CORS adds are not part of a reply here; a preflight request goes no further.\<close>

definition CORS :: "http_request \<Rightarrow> payload handler \<Rightarrow> payload handler" where
  "CORS rq next_handler = (if hrVerb rq = ''OPTIONS'' then (\<lambda>cx. reply (Empty 204)) else next_handler)"

definition ServeHTTP :: "env \<Rightarrow> server \<Rightarrow> http_request \<Rightarrow> world \<Rightarrow> payload reply \<times> world" where
  "ServeHTTP E S rq = CORS rq (\<lambda>cx.
     case hrEndpoint rq of
       None \<Rightarrow> reply (map_reply PlText (svNotFound S))
     | Some ep \<Rightarrow> guarded_by E rq (guard_of ep) (serve_endpoint E S rq ep) cx) background"

section \<open>Every request is answered\<close>

text \<open>The statuses the handlers use; a panic has none of them.\<close>

definition reply_codes :: "nat list" where
  "reply_codes = [200, 201, 204, 302, 400, 401, 403, 404, 409, 500]"

definition http_status :: "nat \<Rightarrow> bool" where
  "http_status n \<longleftrightarrow> n \<in> set reply_codes"

lemma http_status_simps [simp]:
  "http_status 200" "http_status 201" "http_status 204" "http_status 302" "http_status 400" "http_status 401"
  "http_status 403" "http_status 404" "http_status 409" "http_status 500"
  by (simp_all add: http_status_def reply_codes_def)

lemma status_map [simp]: "status_of (map_reply f r) = status_of r"
  by (cases r) simp_all

lemma status_serve:
  "(\<And>x. http_status (status_of (ok x))) \<Longrightarrow> (\<And>e. http_status (status_of (err e))) \<Longrightarrow>
     http_status (status_of (fst (serve m ok err w)))"
  by (auto simp: serve_def split: prod.splits sum.splits)

lemma status_serve_cookie:
  "(\<And>x. http_status (status_of (fst (ok x)))) \<Longrightarrow> (\<And>e. http_status (status_of (err e))) \<Longrightarrow>
     http_status (status_of (fst (fst (serve_cookie m ok err w))))"
  by (auto simp: serve_cookie_def split: prod.splits sum.splits)

lemma fst_reply [simp]: "fst (reply r w) = r" "fst (plain_reply r w) = (r, None)"
  by (simp_all add: reply_def plain_reply_def)

lemma status_authorized:
  "(\<And>p. http_status (status_of (fst (h p cx w)))) \<Longrightarrow> http_status (status_of (fst (authorized h cx w)))"
  by (auto simp: authorized_def split: option.split)

lemma status_answer [simp]:
  "status_of (fst (answer f h cx w)) = status_of (fst (h cx w))"
  "status_of (fst (answer_only f g cx w)) = status_of (fst (fst (g cx w)))"
  by (simp_all add: answer_def answer_only_def split: prod.split)

lemmas status_rules = status_serve status_serve_cookie status_authorized

lemmas handler_defs =
  Register_handler_def Login_handler_def Refresh_handler_def JWKS_handler_def Token_handler_def
  MFAComplete_handler_def LoginBegin_handler_def LoginComplete_handler_def Me_handler_def Logout_handler_def
  Authorize_handler_def UserInfo_def EnrollTOTP_handler_def VerifyEnrollment_handler_def ListFactors_handler_def
  RegisterBegin_handler_def RegisterComplete_handler_def ListCredentials_handler_def PolicyHandler_Get_def
  PolicyHandler_Put_def ListUsers_handler_def GetUser_handler_def CreateUser_handler_def CreateRole_handler_def
  ListRoles_handler_def AssignPermission_handler_def ListRolePermissions_handler_def

lemma status_endpoint: "http_status (status_of (fst (serve_endpoint E S rq ep cx w)))"
  by (cases ep) (auto simp: handler_defs oauthErrorRedirect_def Let_def
      split: option.split prod.split sum.split intro!: status_rules)

lemma status_guarded:
  "(\<And>cx w. http_status (status_of (fst (h cx w)))) \<Longrightarrow> http_status (status_of (fst (guarded_by E rq g h cx w)))"
  by (auto simp: guarded_by_def withAuth_def Authenticate_def RequirePermission_def
      split: guard.split prod.split sum.split option.split intro!: status_authorized)


section \<open>What requests keep\<close>

definition handler_keeps :: "(world \<Rightarrow> bool) \<Rightarrow> 'b handler \<Rightarrow> bool" where
  "handler_keeps J h \<longleftrightarrow> (\<forall>cx w. J w \<longrightarrow> J (snd (h cx w)))"

lemma handler_keepsI: "(\<And>cx w. J w \<Longrightarrow> J (snd (h cx w))) \<Longrightarrow> handler_keeps J h"
  by (simp add: handler_keeps_def)

lemma snd_answer [simp]:
  "snd (answer f h cx w) = snd (h cx w)" "snd (answer_only f g cx w) = snd (g cx w)"
  by (simp_all add: answer_def answer_only_def split: prod.split)

lemma snd_reply [simp]: "snd (reply r w) = w" "snd (plain_reply r w) = w"
  by (simp_all add: reply_def plain_reply_def)

lemma snd_serve_cookie [simp]: "snd (serve_cookie m ok err w) = snd (m w)"
  by (simp add: serve_cookie_def split: prod.splits sum.splits)

lemma authorized_keeps: "dbs I w \<Longrightarrow> (\<And>p. dbs I (snd (h p cx w))) \<Longrightarrow> dbs I (snd (authorized h cx w))"
  by (auto simp: authorized_def split: option.split)

lemma quiet_ListPublic: "quiet (KeyRepo_ListPublic E cx)"
proof -
  have "quiet (bindE (fetch E cx newest_first q) (\<lambda>rs. case row_cut E n of None \<Rightarrow> ret rs | Some _ \<Rightarrow> raise ErrConn))" for q n
    by (intro quiet_rules)
  then show ?thesis
    unfolding KeyRepo_ListPublic_def quiet_def by blast
qed

lemma quiet_handler_reads:
  "quiet (WaService_List E cx i)" "quiet (ListUsers E cx t)" "quiet (GetUser E cx t u)"
  "quiet (ListRoles E cx t)" "quiet (ListRolePermissions E cx t rid)" "quiet (TOTP_List E cx i)"
  unfolding WaService_List_def ListUsers_def GetUser_def ListRoles_def ListRolePermissions_def TOTP_List_def
  by (intro quiet_rules)+

lemma keeps_pool_quiet: "quiet m \<Longrightarrow> keeps (\<lambda>w. pool_db w = d) m"
  unfolding keeps_def quiet_def same_data_def by metis

lemma keeps_pool_free: "db_free m \<Longrightarrow> keeps (\<lambda>w. pool_db w = d) m"
  unfolding keeps_def db_free_def db_part_def by (metis prod.inject)

lemma keeps_request_principal:
  "keeps (dbs I) (request_principal E cached authz sid cx)"
  "keeps (\<lambda>w. pool_db w = d) (request_principal E cached authz sid cx)"
proof -
  note steps = keeps_bindE keeps_case_option keeps_case_sum keeps_if keeps_ret keeps_attempt
  show "keeps (dbs I) (request_principal E cached authz sid cx)"
    unfolding request_principal_def fromSessionHeader_def
    by (intro steps keeps_dbs_quiet [OF quiet_auth(3)] keeps_dbs_quiet [OF quiet_auth(4)]
        keeps_db_free [OF db_free_stores(7)] keeps_db_free [OF db_free_stores(8)])
  show "keeps (\<lambda>w. pool_db w = d) (request_principal E cached authz sid cx)"
    unfolding request_principal_def fromSessionHeader_def
    by (intro steps keeps_pool_quiet [OF quiet_auth(3)] keeps_pool_quiet [OF quiet_auth(4)]
        keeps_pool_free [OF db_free_stores(7)] keeps_pool_free [OF db_free_stores(8)])
qed

lemma guarded_keeps:
  assumes "handler_keeps (dbs I) h"
  shows "handler_keeps (dbs I) (guarded_by E rq g h)"
proof -
  have h: "dbs I (snd (h cx w))" if "dbs I w" for cx w
    using assms that by (simp add: handler_keeps_def)
  have perm: "dbs I (snd (RequirePermission p h cx w))" if "dbs I w" for p cx w
    unfolding RequirePermission_def using that h by (intro authorized_keeps) auto
  have "dbs I (snd (withAuth E rq k cx w))" if "\<And>cx w. dbs I w \<Longrightarrow> dbs I (snd (k cx w))" "dbs I w" for k :: "payload handler" and cx w
  proof -
    obtain r w1 where r: "request_principal E True (hrAuthorization rq) (hrSessionID rq) cx w = (r, w1)"
      by fastforce
    have "dbs I w1"
      using keepsD [OF keeps_request_principal(1) that(2) r] .
    then show ?thesis
      using r that(1) by (auto simp: withAuth_def Authenticate_def split: sum.split option.split)
  qed
  then show ?thesis
    unfolding guarded_by_def using h perm by (auto intro!: handler_keepsI split: guard.split)
qed

context db_law
begin

lemmas keeps_served =
  keeps_snd [OF keeps_Register] keeps_snd [OF keeps_auth_ops(1)] keeps_snd [OF keeps_auth_ops(2)]
  keeps_snd [OF keeps_auth_ops(3)] keeps_snd [OF keeps_dbs_quiet [OF quiet_ListPublic]]
  keeps_snd [OF keeps_oauth_ops(2)] keeps_snd [OF keeps_oauth_ops(3)] keeps_snd [OF keeps_mfa_ops(1)]
  keeps_snd [OF keeps_mfa_ops(2)] keeps_snd [OF keeps_mfa_ops(3)] keeps_snd [OF keeps_wa_ops(1)]
  keeps_snd [OF keeps_wa_ops(2)] keeps_snd [OF keeps_wa_ops(3)] keeps_snd [OF keeps_wa_ops(4)]
  keeps_snd [OF keeps_dbs_quiet [OF quiet_policy(2)]] keeps_snd [OF keeps_tenant_writes(2)]
  keeps_snd [OF keeps_CreateUser] keeps_snd [OF keeps_authz_ops(3)] keeps_snd [OF keeps_authz_ops(4)]
  keeps_snd [OF keeps_dbs_quiet [OF quiet_identity(2)]] keeps_snd [OF keeps_dbs_quiet [OF quiet_handler_reads(1)]]
  keeps_snd [OF keeps_dbs_quiet [OF quiet_handler_reads(2)]] keeps_snd [OF keeps_dbs_quiet [OF quiet_handler_reads(3)]]
  keeps_snd [OF keeps_dbs_quiet [OF quiet_handler_reads(4)]] keeps_snd [OF keeps_dbs_quiet [OF quiet_handler_reads(5)]]
  keeps_snd [OF keeps_dbs_quiet [OF quiet_handler_reads(6)]]

lemma keeps_endpoint: "handler_keeps (dbs I) (serve_endpoint E S rq ep)"
proof (rule handler_keepsI)
  fix cx w assume w: "dbs I w"
  have user_info: "snd (UserInfo E cx w) = (case Principal cx of None \<Rightarrow> w | Some p \<Rightarrow> snd (IdentityRepo_GetByID E cx (prIdentityID p) w))"
    by (auto simp: UserInfo_def authorized_def split: option.split prod.split sum.split)
  show "dbs I (snd (serve_endpoint E S rq ep cx w))"
  proof (cases "ep = EpUserInfo")
    case True
    then show ?thesis
      using w user_info by (auto intro: keeps_served split: option.split)
  next
    case False
    then show ?thesis
      using w by (cases ep) (auto simp: handler_defs Let_def split: option.split prod.split intro!: keeps_served authorized_keeps)
  qed
qed

lemma keeps_request: "dbs I w \<Longrightarrow> dbs I (snd (ServeHTTP E S rq w))"
  using guarded_keeps [OF keeps_endpoint] unfolding ServeHTTP_def CORS_def handler_keeps_def
  by (auto split: option.split)

end

end
