(* ===== verification/Janus_System.thy ===== *)
theory Janus_System
  imports Janus_Server
begin

text \<open>
  The processes around one database: what a server answering requests, the worker and the key rotator
  do to the shared state, one step at a time, and what holds of every state they reach. Requests are
  steps as a whole here; \<open>Janus_Concurrent\<close> interleaves the calls of some of them.
\<close>

section \<open>Steps\<close>

text \<open>\<open>evicted\<close>: Redis may lose keys at any time. \<open>compact\<close> and \<open>jsonb\<close> are the parameters of the audit code.\<close>

inductive request_step :: "env \<Rightarrow> server \<Rightarrow> (string \<Rightarrow> string option) \<Rightarrow> (string \<Rightarrow> string option) \<Rightarrow> world \<Rightarrow> world \<Rightarrow> bool"
  for E S compact jsonb where
    served: "ServeHTTP E S rq w = (r, w') \<Longrightarrow> request_step E S compact jsonb w w'"
  | emitted: "Emit E compact conn e w = (r, w') \<Longrightarrow> request_step E S compact jsonb w w'"
  | consumed: "consume_message E jsonb msg w = (r, w') \<Longrightarrow> request_step E S compact jsonb w w'"
  | evicted: "rd \<subseteq>\<^sub>m redis w \<Longrightarrow> request_step E S compact jsonb w (w\<lparr>redis := rd\<rparr>)"

inductive system_step :: "env \<Rightarrow> server \<Rightarrow> (string \<Rightarrow> string option) \<Rightarrow> (string \<Rightarrow> string option) \<Rightarrow> world \<Rightarrow> world \<Rightarrow> bool"
  for E S compact jsonb where
    requested: "request_step E S compact jsonb w w' \<Longrightarrow> system_step E S compact jsonb w w'"
  | cleaned: "runSessionCleanup E n w = (r, w') \<Longrightarrow> system_step E S compact jsonb w w'"
  | rotated: "rotate_key E alg w = (r, w') \<Longrightarrow> system_step E S compact jsonb w w'"

inductive_cases request_stepE: "request_step E S compact jsonb w w'"
inductive_cases system_stepE: "system_step E S compact jsonb w w'"

section \<open>What every step keeps\<close>

lemma keeps_Emit: "keeps (dbs I) (Emit E compact conn e)"
proof (rule keepsI)
  fix w assume "dbs I w"
  obtain r w' where run: "Emit E compact conn e w = (r, w')"
    by fastforce
  show "dbs I (snd (Emit E compact conn e w))"
    using \<open>dbs I w\<close> quiet_data_Emit [OF run] by (simp add: run dbs_def)
qed

context db_law
begin

lemma request_step_keeps: "request_step E S compact jsonb w w' \<Longrightarrow> dbs I w \<Longrightarrow> dbs I w'"
proof (induction rule: request_step.induct)
  case (served rq w r w')
  then show ?case
    using keeps_request [of w E S rq] by simp
next
  case (emitted conn e w r w')
  then show ?case
    using keepsD [OF keeps_Emit] by blast
next
  case (consumed msg w r w')
  then show ?case
    using keepsD [OF keeps_consume] by blast
next
  case (evicted rd w)
  then show ?case
    by simp
qed

lemma requests_keep: "(request_step E S compact jsonb)\<^sup>*\<^sup>* w w' \<Longrightarrow> dbs I w \<Longrightarrow> dbs I w'"
  by (induction rule: rtranclp_induct) (auto intro: request_step_keeps)

end

context db_law_all
begin

lemma system_step_keeps: "system_step E S compact jsonb w w' \<Longrightarrow> dbs I w \<Longrightarrow> dbs I w'"
proof (induction rule: system_step.induct)
  case (requested w w')
  then show ?case
    by (rule request_step_keeps)
next
  case (cleaned n w r w')
  then show ?case
    using keepsD [OF keeps_cleanup(2)] by blast
next
  case (rotated alg w r w')
  then show ?case
    using keepsD [OF keeps_rotate_key] by blast
qed

lemma system_keeps: "(system_step E S compact jsonb)\<^sup>*\<^sup>* w w' \<Longrightarrow> dbs I w \<Longrightarrow> dbs I w'"
  by (induction rule: rtranclp_induct) (auto intro: system_step_keeps)

end

section \<open>History\<close>

text \<open>
  How rows evolve while requests are served. \<open>evolves R rs rs'\<close>: the old rows are still there, in
  their order and related by \<open>R\<close> to what they were, with new rows after them.
\<close>

definition evolves :: "('r \<Rightarrow> 'r \<Rightarrow> bool) \<Rightarrow> 'r list \<Rightarrow> 'r list \<Rightarrow> bool" where
  "evolves R rs rs' \<longleftrightarrow> list_all2 R rs (take (length rs) rs')"

definition session_evolves :: "session \<Rightarrow> session \<Rightarrow> bool" where
  "session_evolves s s' \<longleftrightarrow> s'\<lparr>ssRevokedAt := ssRevokedAt s\<rparr> = s \<and> (ssRevokedAt s \<noteq> None \<longrightarrow> ssRevokedAt s' \<noteq> None)"

definition factor_evolves :: "factor \<Rightarrow> factor \<Rightarrow> bool" where
  "factor_evolves f f' \<longleftrightarrow> f'\<lparr>faVerified := faVerified f\<rparr> = f \<and> (faVerified f \<longrightarrow> faVerified f')"

definition passkey_evolves :: "wa_credential \<Rightarrow> wa_credential \<Rightarrow> bool" where
  "passkey_evolves c c' \<longleftrightarrow> c'\<lparr>wcSignCount := wcSignCount c, wcLastUsedAt := wcLastUsedAt c\<rparr> = c"

definition history :: "database \<Rightarrow> database \<Rightarrow> bool" where
  "history D d \<longleftrightarrow> evolves (=) (tenants D) (tenants d) \<and> evolves (=) (identities D) (identities d)
     \<and> evolves (=) (users D) (users d) \<and> evolves (=) (credentials D) (credentials d)
     \<and> evolves (=) (roles D) (roles d) \<and> evolves (=) (permissions D) (permissions d)
     \<and> evolves (=) (role_permissions D) (role_permissions d) \<and> evolves (=) (user_roles D) (user_roles d)
     \<and> evolves (=) (oauth_clients D) (oauth_clients d) \<and> evolves (=) (audit_events D) (audit_events d)
     \<and> evolves session_evolves (sessions D) (sessions d) \<and> evolves factor_evolves (mfa_factors D) (mfa_factors d)
     \<and> evolves passkey_evolves (webauthn_credentials D) (webauthn_credentials d)"

lemma evolves_refl: "(\<And>r. R r r) \<Longrightarrow> evolves R rs rs"
  by (simp add: evolves_def list_all2_refl)

lemma evolves_length: "evolves R rs rs' \<Longrightarrow> length rs \<le> length rs'"
  by (auto simp: evolves_def dest: list_all2_lengthD)

lemma evolves_snoc [intro]: "evolves R rs rs' \<Longrightarrow> evolves R rs (rs' @ [r])"
  using evolves_length [of R rs rs'] by (simp add: evolves_def)

lemma evolves_map [intro]:
  "evolves R rs rs' \<Longrightarrow> (\<And>x y. R x y \<Longrightarrow> R x (f y)) \<Longrightarrow> evolves R rs (map f rs')"
  unfolding evolves_def take_map by (auto simp: list_all2_map2 elim: list_all2_mono)

lemma evolvesD:
  assumes "evolves R rs rs'" "r \<in> set rs"
  shows "\<exists>r' \<in> set rs'. R r r'"
proof -
  obtain i where i: "i < length rs" "r = rs ! i"
    using assms(2) by (auto simp: in_set_conv_nth)
  then have "R r (rs' ! i)" "i < length rs'"
    using assms(1) evolves_length [OF assms(1)] by (auto simp: evolves_def list_all2_conv_all_nth)
  then show ?thesis
    by auto
qed

lemma evolves_eq_iff: "evolves (=) rs rs' \<longleftrightarrow> (\<exists>new. rs' = rs @ new)"
  unfolding evolves_def list.rel_eq by (metis append_eq_conv_conj append_take_drop_id)

lemmas evolution_defs = session_evolves_def factor_evolves_def passkey_evolves_def

lemma history_refl: "history D D"
  by (simp add: history_def evolves_refl evolution_defs)

lemma evolves_updates:
  "evolves session_evolves ss ss' \<Longrightarrow>
     evolves session_evolves ss (map (\<lambda>s. if ssID s = k then s\<lparr>ssRevokedAt := Some t\<rparr> else s) ss')"
  "evolves factor_evolves fs fs' \<Longrightarrow>
     evolves factor_evolves fs (map (\<lambda>f. if faID f = k then f\<lparr>faVerified := True\<rparr> else f) fs')"
  "evolves passkey_evolves cs cs' \<Longrightarrow>
     evolves passkey_evolves cs (map (\<lambda>c. if wcID c = k then c\<lparr>wcSignCount := n, wcLastUsedAt := to\<rparr> else c) cs')"
proof -
  have s: "session_evolves s (if ssID s' = k then s'\<lparr>ssRevokedAt := Some t\<rparr> else s')" if "session_evolves s s'" for s s'
    using that by (cases s; cases s') (simp add: session_evolves_def)
  show "evolves session_evolves ss ss' \<Longrightarrow>
     evolves session_evolves ss (map (\<lambda>s. if ssID s = k then s\<lparr>ssRevokedAt := Some t\<rparr> else s) ss')"
    by (erule evolves_map) (rule s)
  have f: "factor_evolves f (if faID f' = k then f'\<lparr>faVerified := True\<rparr> else f')" if "factor_evolves f f'" for f f'
    using that by (cases f; cases f') (simp add: factor_evolves_def)
  show "evolves factor_evolves fs fs' \<Longrightarrow>
     evolves factor_evolves fs (map (\<lambda>f. if faID f = k then f\<lparr>faVerified := True\<rparr> else f) fs')"
    by (erule evolves_map) (rule f)
  have c: "passkey_evolves c (if wcID c' = k then c'\<lparr>wcSignCount := n, wcLastUsedAt := to\<rparr> else c')" if "passkey_evolves c c'" for c c'
    using that by (cases c; cases c') (simp add: passkey_evolves_def)
  show "evolves passkey_evolves cs cs' \<Longrightarrow>
     evolves passkey_evolves cs (map (\<lambda>c. if wcID c = k then c\<lparr>wcSignCount := n, wcLastUsedAt := to\<rparr> else c) cs')"
    by (erule evolves_map) (rule c)
qed

interpretation past: db_law "history D" for D
proof
  show "history D d'" if "history D d" "upd_sessions (\<lambda>s. ssID s = k) (\<lambda>s. s\<lparr>ssRevokedAt := Some t\<rparr>) d = Inr (u, d')"
    for k t d u d'
    using that by (auto simp: history_def upd_sessions_def intro: evolves_updates)
  show "history D d'" if "history D d" "upd_factors (\<lambda>f. faID f = k) (\<lambda>f. f\<lparr>faVerified := True\<rparr>) d = Inr (u, d')"
    for k d u d'
    using that by (auto simp: history_def upd_factors_def intro: evolves_updates)
  show "history D d'" if "history D d"
      "upd_wa_credentials (\<lambda>c. wcID c = k) (\<lambda>c. c\<lparr>wcSignCount := n, wcLastUsedAt := t\<rparr>) d = Inr (u, d')" for k n t d u d'
    using that by (auto simp: history_def upd_wa_credentials_def intro: evolves_updates)
  show "history D d'" if "history D d" "upsert_policy r d = Inr (u, d')" for r d u d'
    using that by (auto simp: history_def upsert_policy_def split: if_splits)
qed (auto simp: history_def insert_defs)

lemma requests_history:
  assumes "(request_step E S compact jsonb)\<^sup>*\<^sup>* w w'" "tx_db w = None"
  shows "history (pool_db w) (pool_db w')"
  using past.requests_keep [OF assms(1), of "pool_db w"] assms(2) history_refl by (simp add: dbs_def)

lemma requests_integral:
  assumes "(request_step E S compact jsonb)\<^sup>*\<^sup>* w w'" "tx_db w = None" "integrity (pool_db w)"
  shows "integrity (pool_db w')"
  using integral.requests_keep [OF assms(1)] assms(2,3) by (simp add: dbs_def)

section \<open>Properties\<close>


text \<open>
  C20: no sequence of requests deletes or rewrites a tenant, an identity, a user, a password, a role, a
  permission, a grant, an OAuth client or an audit row: these tables only grow. Sessions only get
  revoked, factors only verified, passkeys only counted; a revoked session is not restored and keeps
  its owner, token hash and expiry.
\<close>

theorem requests_only_add:
  assumes "(request_step E S compact jsonb)\<^sup>*\<^sup>* w w'" "tx_db w = None"
  shows "(\<exists>new. tenants (pool_db w') = tenants (pool_db w) @ new)
    \<and> (\<exists>new. identities (pool_db w') = identities (pool_db w) @ new)
    \<and> (\<exists>new. users (pool_db w') = users (pool_db w) @ new)
    \<and> (\<exists>new. credentials (pool_db w') = credentials (pool_db w) @ new)
    \<and> (\<exists>new. roles (pool_db w') = roles (pool_db w) @ new)
    \<and> (\<exists>new. permissions (pool_db w') = permissions (pool_db w) @ new)
    \<and> (\<exists>new. role_permissions (pool_db w') = role_permissions (pool_db w) @ new)
    \<and> (\<exists>new. user_roles (pool_db w') = user_roles (pool_db w) @ new)
    \<and> (\<exists>new. oauth_clients (pool_db w') = oauth_clients (pool_db w) @ new)
    \<and> (\<exists>new. audit_events (pool_db w') = audit_events (pool_db w) @ new)
    \<and> list_all2 session_evolves (sessions (pool_db w)) (take (length (sessions (pool_db w))) (sessions (pool_db w')))
    \<and> list_all2 factor_evolves (mfa_factors (pool_db w)) (take (length (mfa_factors (pool_db w))) (mfa_factors (pool_db w')))
    \<and> list_all2 passkey_evolves (webauthn_credentials (pool_db w))
        (take (length (webauthn_credentials (pool_db w))) (webauthn_credentials (pool_db w')))"
  using requests_history [OF assms] by (simp add: history_def evolves_eq_iff) (simp add: evolves_def)

text \<open>
  C2: a revoked session stays useless: after any sequence of requests, its id authenticates no request
  from the database, and no refresh token leads to it.
\<close>

theorem revoked_for_good:
  assumes reach: "(request_step E S compact jsonb)\<^sup>*\<^sup>* w w'" "tx_db w = None" "integrity (pool_db w)"
    and s: "s \<in> set (sessions (pool_db w))" "ssRevokedAt s \<noteq> None" "pg_uuid E sid = Some (ssID s)"
  shows "fst (load_principal E background sid w') \<noteq> Inr p
    \<and> (find_refreshable E background e tok w' = (Inr s', v) \<longrightarrow> ssID s' \<noteq> ssID s)"
proof -
  obtain t where t: "t \<in> set (sessions (pool_db w'))" "session_evolves s t"
    using evolvesD [of session_evolves, OF _ s(1)] requests_history [OF reach(1,2)] unfolding history_def by blast
  have ids: "unique ssID (sessions (pool_db w'))"
    using requests_integral [OF reach] by (simp add: integrity_def)
  have dead: "ssID t = ssID s" "ssRevokedAt t \<noteq> None"
    using t(2) s(2) by (cases s; cases t; simp add: session_evolves_def)+
  have only: "u = t" if "u \<in> set (sessions (pool_db w'))" "ssID u = ssID s" for u
    using uniqueD [OF ids that(1) t(1)] that(2) dead(1) by simp
  have "fst (load_principal E background sid w') \<noteq> Inr p"
  proof
    assume "fst (load_principal E background sid w') = Inr p"
    then obtain v where "load_principal E background sid w' = (Inr p, v)"
      by (metis prod.collapse)
    from load_principal_InrD [OF this] show False
      using only dead(2) s(3) by auto
  qed
  moreover have "ssID s' \<noteq> ssID s" if "find_refreshable E background e tok w' = (Inr s', v)"
    using find_refreshable_InrD [OF that] only dead(2) by auto
  ultimately show ?thesis
    by blast
qed

text \<open>
  C4: a route that names a permission runs its handler only for an authenticated caller who holds it;
  otherwise it answers 401 or 403 and changes no table.
\<close>

theorem protected_routes:
  assumes run: "ServeHTTP E S rq w = (r, w')"
    and route: "hrEndpoint rq = Some ep" "route_of ep = (verb, pattern, WithPerm p)" "hrVerb rq = verb"
  shows "(\<exists>pr w1. request_principal E True (hrAuthorization rq) (hrSessionID rq) background w = (Inr (Some pr), w1)
      \<and> p \<in> set (prPermissions pr)
      \<and> serve_endpoint E S rq ep (WithPrincipal background pr) w1 = (r, w'))
    \<or> (r = HttpError 401 ''unauthorized'' \<or> r = HttpError 403 ''forbidden'') \<and> pool_db w' = pool_db w"
proof -
  obtain a w1 where a: "request_principal E True (hrAuthorization rq) (hrSessionID rq) background w = (a, w1)"
    by fastforce
  have "verb \<noteq> ''OPTIONS''"
    using route(2) by (cases ep) auto
  then have run': "withAuth E rq (RequirePermission p (serve_endpoint E S rq ep)) background w = (r, w')"
    using run route by (simp add: ServeHTTP_def CORS_def guard_of_def guarded_by_def)
  have same: "pool_db w1 = pool_db w"
    using keepsD [OF keeps_request_principal(2) refl a] .
  show ?thesis
    using run' a same
    by (auto simp: withAuth_def Authenticate_def RequirePermission_def authorized_def Principal_def WithPrincipal_def
        HasPermission_def reply_def split: sum.splits option.splits if_splits)
qed

section \<open>Examples\<close>

definition demo_server :: server where
  "demo_server = \<lparr> svIssuer = ''iss'', svErrorText = (\<lambda>_. ''error''), svParseURL = (\<lambda>u. Some ([], \<lambda>q. u @ ''?'' @ q)),
     svParseAddrPort = (\<lambda>_. None), svWebAuthn = demo_lib, svFormatTime = (\<lambda>_. []), svNotFound = HttpError 404 ''not found'' \<rparr>"

definition demo_request :: "endpoint \<Rightarrow> http_request" where
  "demo_request ep = \<lparr> hrVerb = fst (route_of ep), hrAuthorization = [], hrSessionID = [], hrForwardedFor = [], hrRealIP = [],
     hrRemoteAddr = ''192.0.2.1:5000'', hrUserAgent = ''ua'', hrEndpoint = Some ep \<rparr>"


lemma demo_request_steps:
  "(request_step demo_env demo_server Some Some)\<^sup>*\<^sup>* w (snd (ServeHTTP demo_env demo_server rq w))"
  by (rule r_into_rtranclp) (metis prod.collapse served)


theorem requests_only_add_witness:
  "\<exists>new. users (pool_db (snd (ServeHTTP demo_env demo_server (demo_request (EpRegister (Some (''n@x.io'', ''password''))))
     (world_of demo_db)))) = users demo_db @ new"
  using requests_only_add [OF demo_request_steps, of "world_of demo_db"] by simp

definition demo_revoked_db :: database where
  "demo_revoked_db = demo_db\<lparr>sessions := map (\<lambda>s. s\<lparr>ssRevokedAt := Some 1\<rparr>) (sessions demo_db)\<rparr>"

lemma demo_revoked_integrity: "integrity demo_revoked_db"
  using demo_integrity
  by (simp add: integrity_def demo_revoked_db_def unique_def refers_def orphaned_def demo_db_def)

theorem revoked_for_good_witness:
  "\<not> (\<exists>p. fst (load_principal demo_env background ''s-a''
     (snd (ServeHTTP demo_env demo_server (demo_request EpJWKS) (world_of demo_revoked_db)))) = Inr p)"
proof -
  let ?s = "(hd (sessions demo_db))\<lparr>ssRevokedAt := Some 1\<rparr>"
  have s: "?s \<in> set (sessions (pool_db (world_of demo_revoked_db)))" "ssRevokedAt ?s \<noteq> None" "pg_uuid demo_env ''s-a'' = Some (ssID ?s)"
    by (simp_all add: demo_revoked_db_def demo_db_def)
  show ?thesis
    using revoked_for_good [OF demo_request_steps _ _ s] demo_revoked_integrity by auto
qed

theorem protected_routes_witness:
  "\<exists>w'. ServeHTTP demo_env demo_server (demo_request EpListUsers) (world_of demo_db) = (HttpError 401 ''unauthorized'', w')
     \<and> pool_db w' = demo_db"
proof -
  have "ServeHTTP demo_env demo_server (demo_request EpListUsers) (world_of demo_db) = (HttpError 401 ''unauthorized'', world_of demo_db)"
    by (simp add: ServeHTTP_def CORS_def demo_request_def guarded_by_def guard_of_def withAuth_def Authenticate_def
        request_principal_def fromBearer_def fromSessionHeader_def has_prefix_def bindE_def ret_def)
  then show ?thesis
    using protected_routes [of demo_env demo_server "demo_request EpListUsers" "world_of demo_db"] by (auto simp: demo_request_def)
qed

end
