(* ===== verification/Janus_Progress.thy ===== *)
theory Janus_Progress
  imports Janus_System
begin

text \<open>
  When the services answer, the server gets on: a search for a slug ends, and a login with the right
  password succeeds. And what becomes of a session that is replaced twice, since the rotation does not
  look again.
\<close>

section \<open>Runs that succeed\<close>

definition runs :: "'a io \<Rightarrow> world \<Rightarrow> ('a \<Rightarrow> world \<Rightarrow> bool) \<Rightarrow> bool" where
  "runs m w Q \<longleftrightarrow> (\<exists>x w'. m w = (Inr x, w') \<and> Q x w')"

lemma runsI: "m w = (Inr x, w') \<Longrightarrow> Q x w' \<Longrightarrow> runs m w Q"
  by (auto simp: runs_def)

lemma runs_ret: "Q x w \<Longrightarrow> runs (ret x) w Q"
  by (auto simp: runs_def)

lemma runs_bindE: "runs m w (\<lambda>x w'. runs (f x) w' Q) \<Longrightarrow> runs (bindE m f) w Q"
  by (auto simp: runs_def bindE_Inr_iff)

lemma runs_or_err: "runs m w Q \<Longrightarrow> runs (or_err e m) w Q"
  by (auto simp: runs_def)

lemma runs_now: "Q (clock_at E (calls w)) (tick w) \<Longrightarrow> runs (now E) w Q"
  by (auto simp: runs_def)

lemma runs_new_id: "Q (uuid_at E (calls w)) (tick w) \<Longrightarrow> runs (new_id E) w Q"
  by (auto simp: runs_def)

lemma runs_conseq: "runs m w Q \<Longrightarrow> (\<And>x w'. Q x w' \<Longrightarrow> R x w') \<Longrightarrow> runs m w R"
  by (auto simp: runs_def)

lemma runs_quiet: "runs m w Q \<Longrightarrow> quiet m \<Longrightarrow> runs m w (\<lambda>x w'. Q x w' \<and> pool_db w' = pool_db w)"
  unfolding runs_def using quietD by (metis same_data_def)

text \<open>\<open>ready E cx\<close>: statements run on the pool, no service fails, no result breaks off, and UUIDs are UUIDs.\<close>

definition ready :: "env \<Rightarrow> ctx \<Rightarrow> bool" where
  "ready E cx \<longleftrightarrow> \<not> cx_tx cx \<and> (\<forall>n. db_fault E n = None \<and> row_cut E n = None \<and> rand_at E n \<noteq> None
     \<and> pg_uuid E (uuid_at E n) = Some (uuid_at E n))"

lemma readyD:
  "ready E cx \<Longrightarrow> healthy E cx w" "ready E cx \<Longrightarrow> row_cut E n = None" "ready E cx \<Longrightarrow> \<exists>f. rand_at E n = Some f"
  "ready E cx \<Longrightarrow> pg_uuid E (uuid_at E n) = Some (uuid_at E n)" "ready E cx \<Longrightarrow> \<not> cx_tx cx" "ready E cx \<Longrightarrow> db_fault E n = None"
  by (auto simp: ready_def healthy_def)

lemma runs_query_row:
  assumes "ready E cx" "q (pool_db w) = Inr rs" "rs \<noteq> []" "\<And>x. x \<in> set rs \<Longrightarrow> Q x (tick w)"
  shows "runs (query_row E cx q) w Q"
  using query_row_healthy_ex [OF readyD(1) [OF assms(1)], of q w rs] readyD(5) [OF assms(1)] assms(2-4)
  by (auto intro: runsI)

lemma runs_fetch:
  assumes "ready E cx" "q (pool_db w) = Inr rs" "\<And>p. Q (post (permute p rs)) (tick w)"
  shows "runs (fetch E cx post q) w Q"
  using fetch_healthy [OF readyD(1) [OF assms(1)], of q w rs post] readyD(5) [OF assms(1)] assms(2,3)
  by (auto intro: runsI)

lemma runs_query_rows:
  assumes "ready E cx" "q (pool_db w) = Inr rs" "\<And>xs. Q xs (tick w)"
  shows "runs (query_rows E cx post q) w Q"
  unfolding query_rows_def runs_def
  using runs_fetch [where q = q and post = post and Q = "\<lambda>_ w'. w' = tick w", OF assms(1,2)] assms(3)
  by (auto simp: runs_def bindE_def ret_def)

lemma runs_query_all:
  assumes "ready E cx" "q (pool_db w) = Inr rs" "\<And>p. Q (post (permute p rs)) (tick w)"
  shows "runs (query_all E cx post q) w Q"
  using runs_fetch [where q = q and post = post and Q = Q, OF assms] readyD(2) [OF assms(1)]
  by (auto simp: query_all_def runs_def bindE_def ret_def)

lemma runs_GenerateRandom:
  assumes "ready E cx" "\<And>t. Q t (tick w)"
  shows "runs (GenerateRandom E n) w Q"
  using readyD(3) [OF assms(1), of "calls w"] assms(2) by (auto intro: runsI simp: GenerateRandom_eval)

section \<open>Sessions can be opened\<close>

text \<open>Some key is active, and the libraries can sign with every active key.\<close>

definition can_sign :: "env \<Rightarrow> database \<Rightarrow> bool" where
  "can_sign E d \<longleftrightarrow> (\<exists>k \<in> set (signing_keys d). skIsActive k)
     \<and> (\<forall>k \<in> set (signing_keys d). skIsActive k \<longrightarrow> (\<exists>signer meth. parsePrivateKey E k = Inr (signer, meth)
          \<and> (\<forall>c. jwt_sign E meth signer (skID k) c \<noteq> None)))"

lemma can_sign_sessions [simp]: "can_sign E (d\<lparr>sessions := ss\<rparr>) = can_sign E d"
  by (simp add: can_sign_def)

definition known_subject :: "env \<Rightarrow> database \<Rightarrow> session_for \<Rightarrow> bool" where
  "known_subject E d f \<longleftrightarrow> (\<exists>t i u. pg_uuid E (sfTenantID f) = Some t \<and> pg_uuid E (sfIdentityID f) = Some i
     \<and> pg_uuid E (sfUserID f) = Some u \<and> t \<in> tnID ` set (tenants d) \<and> i \<in> iID ` set (identities d)
     \<and> u \<in> usID ` set (users d) \<and> inet_opt E (sfIPAddress f) \<noteq> None)"

definition fresh_ids :: "env \<Rightarrow> database \<Rightarrow> bool" where
  "fresh_ids E d \<longleftrightarrow> (\<forall>s \<in> set (sessions d). \<forall>n. uuid_at E n \<noteq> ssID s)"

lemma runs_JWT_Issue:
  assumes "ready E cx" "can_sign E (pool_db w)" "\<And>tok w'. Q tok w'"
  shows "runs (JWT_Issue E issuer cx p opts) w Q"
proof -
  let ?ks = "filter skIsActive (signing_keys (pool_db w))"
  have set: "set (newest_first (permute n ?ks)) = set ?ks" for n
    by (simp add: newest_first_def)
  have "runs (query_first E cx newest_first (\<lambda>d. Inr (filter skIsActive (signing_keys d)))) w
      (\<lambda>k w'. k \<in> set ?ks \<and> w' = tick w)"
    unfolding query_first_def
  proof (intro runs_bindE runs_fetch [OF assms(1) refl])
    fix n
    obtain k ks where "newest_first (permute n ?ks) = k # ks"
      using set [of n] assms(2) by (cases "newest_first (permute n ?ks)") (auto simp: can_sign_def filter_empty_conv)
    then show "runs (case newest_first (permute n ?ks) of [] \<Rightarrow> raise ErrNoRows | r # _ \<Rightarrow> ret r) (tick w)
        (\<lambda>k w'. k \<in> set ?ks \<and> w' = tick w)"
      using set [of n] by (auto intro: runs_ret)
  qed
  then obtain k where k: "k \<in> set ?ks" "KeyRepo_GetActive E cx w = (Inr k, tick w)"
    by (auto simp: runs_def KeyRepo_GetActive_def no_rows_not_found_def bindE_def ret_def)
  obtain signer meth where s: "parsePrivateKey E k = Inr (signer, meth)" "\<And>c. jwt_sign E meth signer (skID k) c \<noteq> None"
    using assms(2) k(1) unfolding can_sign_def by auto
  show ?thesis
    using k(2) s assms(3) unfolding JWT_Issue_def
    by (auto simp: runs_def bindE_def of_result_def now_def new_id_def ret_def split: option.splits)
qed

lemma runs_signed:
  assumes "ready E cx" "can_sign E (pool_db w)"
  shows "runs (JWT_Issue E issuer cx p opts) w (\<lambda>_ w'. pool_db w' = pool_db w)"
  using runs_quiet [OF runs_JWT_Issue [where Q = "\<lambda>_ _. True", OF assms] quiet_keys(3)] by simp

text \<open>The session a new one replaces, if any, is there.\<close>

definition known_parent :: "env \<Rightarrow> database \<Rightarrow> string option \<Rightarrow> bool" where
  "known_parent E d parent \<longleftrightarrow> (\<forall>p. parent = Some p \<longrightarrow> (\<exists>k. pg_uuid E p = Some k \<and> k \<in> ssID ` set (sessions d)))"

lemma runs_SessionRepo_Create:
  assumes "ready E cx" "known_subject E (pool_db w) f" "fresh_ids E (pool_db w)" "known_parent E (pool_db w) parent"
    and "\<And>row w'. pool_db w' = (pool_db w)\<lparr>sessions := sessions (pool_db w) @ [row]\<rparr> \<Longrightarrow> Q () w'"
  shows "runs (SessionRepo_Create E cx (fresh_session f parent (uuid_at E n) h at)) w Q"
proof -
  let ?s = "fresh_session f parent (uuid_at E n) h at"
  obtain row where row: "pg_session E ?s = Some row" "ssID row = uuid_at E n" "ssTenantID row \<in> tnID ` set (tenants (pool_db w))"
      "ssIdentityID row \<in> iID ` set (identities (pool_db w))" "ssUserID row \<in> usID ` set (users (pool_db w))"
      "\<forall>p. ssParentSessionID row = Some p \<longrightarrow> p \<in> ssID ` set (sessions (pool_db w))"
    using assms(2,4) readyD(4) [OF assms(1), of n]
    by (cases parent) (auto simp: known_subject_def known_parent_def pg_session_def fresh_session_def uuid_opt_def split: option.splits)
  then have "ins_session row (pool_db w) = Inr ((), (pool_db w)\<lparr>sessions := sessions (pool_db w) @ [row]\<rparr>)"
    using assms(3) by (auto simp: ins_session_def fresh_ids_def guarded.simps has_key_def list_ex_iff split: option.splits)
  then have "SessionRepo_Create E cx ?s w = (Inr (), (tick w)\<lparr>pool_db := (pool_db w)\<lparr>sessions := sessions (pool_db w) @ [row]\<rparr>\<rparr>)"
    using row(1) readyD(5,6) [OF assms(1)] by (simp add: SessionRepo_Create_def cast_row_def exec_sql_def)
  then show ?thesis
    using assms(5) by (auto intro: runsI)
qed

lemma runs_open_session:
  assumes "ready E cx" "known_subject E (pool_db w) f" "fresh_ids E (pool_db w)" "can_sign E (pool_db w)"
  shows "runs (open_session E issuer cx aud f) w (\<lambda>_ w'. can_sign E (pool_db w'))"
proof -
  obtain u where u: "pg_uuid E (sfUserID f) = Some u"
    using assms(2) by (auto simp: known_subject_def)
  have rest: "runs (SessionRepo_Create E cx (fresh_session f None (uuid_at E n) h at)) v (\<lambda>_ w'. can_sign E (pool_db w'))"
    if "pool_db v = pool_db w" for n h at v
    using that assms(2-4) by (intro runs_SessionRepo_Create [OF assms(1)]) (simp_all add: known_parent_def)
  show ?thesis
    unfolding open_session_def issue_for_def GetRolesForUser_def GetPermissionsForUser_def Let_def
    by (intro runs_bindE runs_query_rows [OF assms(1)] runs_GenerateRandom [OF assms(1)] runs_now runs_new_id
        runs_conseq [OF rest] runs_conseq [OF runs_signed [OF assms(1)]] runs_ret) (simp_all add: u where_uuid_def)
qed

section \<open>Logging in\<close>

text \<open>
  Who can log in: there is an identity with the email, and every such identity has a credential, only
  credentials the password opens, a user, only users in a known tenant whose policy does not ask for
  a second factor, and no verified factor.
\<close>

definition opens_account :: "env \<Rightarrow> database \<Rightarrow> login_input \<Rightarrow> identity \<Rightarrow> string \<Rightarrow> bool" where
  "opens_account E d inp i k \<longleftrightarrow>
     (\<exists>c \<in> set (credentials d). crIdentityID c = k)
     \<and> (\<forall>c \<in> set (credentials d). crIdentityID c = k \<longrightarrow> password_Verify E (liPassword inp) (crPasswordHash c))
     \<and> (\<exists>u \<in> set (users d). usIdentityID u = k)
     \<and> (\<forall>u \<in> set (users d). usIdentityID u = k \<longrightarrow> known_subject E d (login_subject inp i u)
          \<and> (\<forall>p \<in> set (tenant_policies d). pg_uuid E (usTenantID u) = Some (poTenantID p) \<longrightarrow> \<not> poRequireMFA p))
     \<and> (\<forall>f \<in> set (mfa_factors d). faIdentityID f = k \<longrightarrow> \<not> faVerified f)"

definition can_log_in :: "env \<Rightarrow> database \<Rightarrow> login_input \<Rightarrow> bool" where
  "can_log_in E d inp \<longleftrightarrow> (\<exists>i \<in> set (identities d). iPrimaryEmail i = liEmail inp)
     \<and> (\<forall>i \<in> set (identities d). iPrimaryEmail i = liEmail inp
          \<longrightarrow> (\<exists>k. pg_uuid E (iID i) = Some k \<and> opens_account E d inp i k))"

lemma can_log_inE:
  assumes "can_log_in E d inp" "i \<in> set (identities d)" "iPrimaryEmail i = liEmail inp"
  obtains k where "pg_uuid E (iID i) = Some k" "opens_account E d inp i k"
  using assms unfolding can_log_in_def by blast

lemma runs_PolicyEnforcer_Get:
  assumes "ready E cx" "pg_uuid E tid = Some t" "\<forall>p \<in> set (tenant_policies (pool_db w)). poTenantID p = t \<longrightarrow> \<not> poRequireMFA p"
    and "\<And>p w'. pool_db w' = pool_db w \<Longrightarrow> \<not> poRequireMFA p \<Longrightarrow> Q p w'"
  shows "runs (PolicyEnforcer_Get E repo cx tid) w Q"
proof (cases repo)
  case False
  then show ?thesis
    using assms(4) by (auto simp: PolicyEnforcer_Get_def DefaultPolicy_def intro!: runs_ret)
next
  case True
  let ?q = "\<lambda>d. where_uuid E tid (\<lambda>k. filter (\<lambda>p. poTenantID p = k) (tenant_policies d))"
  let ?rs = "filter (\<lambda>p. poTenantID p = t) (tenant_policies (pool_db w))"
  have q: "?q (pool_db w) = Inr ?rs"
    by (simp add: where_uuid_def assms(2))
  show ?thesis
  proof (cases "?rs = []")
    case empty: True
    have "query_row E cx ?q w = (Inl ErrNoRows, tick w)"
      using query_row_healthy_none [OF readyD(1) [OF assms(1)], where q = ?q and w = w] q empty readyD(5) [OF assms(1)] by simp
    then have "PolicyEnforcer_Get E repo cx tid w = (Inr (DefaultPolicy\<lparr>poTenantID := tid\<rparr>), tick w)"
      using True by (simp add: PolicyEnforcer_Get_def PolicyRepo_Get_def bindE_def attempt_def ret_def)
    then show ?thesis
      using assms(4) by (auto simp: DefaultPolicy_def intro: runsI)
  next
    case False
    have "runs (query_row E cx ?q) w (\<lambda>p w'. p \<in> set ?rs \<and> w' = tick w)"
      using runs_query_row [where q = ?q and w = w and Q = "\<lambda>p w'. p \<in> set ?rs \<and> w' = tick w", OF assms(1) q False] by simp
    then obtain p where p: "p \<in> set ?rs" "query_row E cx ?q w = (Inr p, tick w)"
      by (auto simp: runs_def)
    then have "PolicyEnforcer_Get E repo cx tid w = (Inr (p\<lparr>poTenantID := tid\<rparr>), tick w)"
      using True by (simp add: PolicyEnforcer_Get_def PolicyRepo_Get_def bindE_def attempt_def ret_def)
    then show ?thesis
      using assms(3,4) p(1) by (auto intro: runsI)
  qed
qed

lemma runs_no_factors:
  assumes "ready E cx" "pg_uuid E i = Some k" "\<forall>f \<in> set (mfa_factors (pool_db w)). faIdentityID f = k \<longrightarrow> \<not> faVerified f"
    and "Q [] (tick w)"
  shows "runs (FactorRepo_GetVerifiedByIdentity E cx i) w Q"
  unfolding FactorRepo_GetVerifiedByIdentity_def
proof (rule runs_query_all [OF assms(1)])
  show "where_uuid E i (\<lambda>k. filter (\<lambda>f. faIdentityID f = k \<and> faVerified f) (mfa_factors (pool_db w))) = Inr []"
    using assms(2,3) by (auto simp: where_uuid_def filter_empty_conv)
  have "permute p ([]::factor list) = []" for p
    by simp
  then show "Q (newest_factor (permute p [])) (tick w)" for p
    using assms(4) by (simp only: newest_factor_def sort_key_simps)
qed

lemma runs_check_password:
  assumes "ready E cx" "can_log_in E (pool_db w) inp"
    and "\<And>i w'. i \<in> set (identities (pool_db w)) \<Longrightarrow> iPrimaryEmail i = liEmail inp \<Longrightarrow> pool_db w' = pool_db w \<Longrightarrow> Q i w'"
  shows "runs (check_password E cx inp) w Q"
  unfolding check_password_def IdentityRepo_GetByEmail_def
proof (rule runs_bindE, rule runs_or_err, rule runs_query_row [OF assms(1) refl])
  show "filter (\<lambda>i. iPrimaryEmail i = liEmail inp) (identities (pool_db w)) \<noteq> []"
    using assms(2) by (auto simp: can_log_in_def filter_empty_conv)
  fix i assume "i \<in> set (filter (\<lambda>i. iPrimaryEmail i = liEmail inp) (identities (pool_db w)))"
  then have i: "i \<in> set (identities (pool_db w))" "iPrimaryEmail i = liEmail inp"
    by simp_all
  obtain k where k: "pg_uuid E (iID i) = Some k" "opens_account E (pool_db w) inp i k"
    using can_log_inE [OF assms(2) i] .
  have "runs (CredentialRepo_GetByIdentityID E cx (iID i)) (tick w)
      (\<lambda>c w'. password_Verify E (liPassword inp) (crPasswordHash c) \<and> pool_db w' = pool_db w)"
    unfolding CredentialRepo_GetByIdentityID_def
    by (rule runs_query_row [OF assms(1), where rs = "filter (\<lambda>c. crIdentityID c = k) (credentials (pool_db w))"])
      (use k in \<open>auto simp: where_uuid_def filter_empty_conv opens_account_def\<close>)
  then show "runs (bindE (or_err ErrInvalidCredentials (CredentialRepo_GetByIdentityID E cx (iID i))) (\<lambda>credential.
       if \<not> password_Verify E (liPassword inp) (crPasswordHash credential) then raise ErrInvalidCredentials
       else ret i)) (tick w) Q"
    by (intro runs_bindE runs_or_err) (erule runs_conseq, use i assms(3) in \<open>auto intro: runs_ret\<close>)
qed

section \<open>Properties\<close>

text \<open>A login once the account is known.\<close>

definition admit :: "env \<Rightarrow> string \<Rightarrow> bool \<Rightarrow> ctx \<Rightarrow> login_input \<Rightarrow> identity \<Rightarrow> user \<Rightarrow> login_output io" where
  "admit E issuer repo cx inp i user =
     bindE (PolicyEnforcer_Get E repo cx (usTenantID user)) (\<lambda>policy.
     bindE (FactorRepo_GetVerifiedByIdentity E cx (iID i)) (\<lambda>factors.
       if poRequireMFA policy \<and> factors = [] then raise ErrMFAEnrollmentRequired
       else if factors \<noteq> [] then
         bindE (open_challenge E (login_subject inp i user)) (\<lambda>tok. ret (MFARequired tok))
       else
         bindE (open_session E issuer cx [] (login_subject inp i user)) (\<lambda>out. ret (LoggedIn out))))"

lemma Login_admit:
  "Login E issuer repo cx inp = bindE (check_password E cx inp) (\<lambda>i. bindE (UserRepo_GetByIdentityID E cx (iID i)) (admit E issuer repo cx inp i))"
  by (simp add: Login_def admit_def [abs_def])

lemma runs_admit:
  assumes "ready E cx" "can_sign E (pool_db w)" "fresh_ids E (pool_db w)" "opens_account E (pool_db w) inp i k"
    and "pg_uuid E (iID i) = Some k" "u \<in> set (users (pool_db w))" "usIdentityID u = k"
  shows "runs (admit E issuer repo cx inp i u) w (\<lambda>out _. \<exists>r. out = LoggedIn r)"
proof -
  have user: "known_subject E (pool_db w) (login_subject inp i u)"
      "\<forall>p \<in> set (tenant_policies (pool_db w)). pg_uuid E (usTenantID u) = Some (poTenantID p) \<longrightarrow> \<not> poRequireMFA p"
    and factors: "\<forall>f \<in> set (mfa_factors (pool_db w)). faIdentityID f = k \<longrightarrow> \<not> faVerified f"
    using assms(4,6,7) by (auto simp: opens_account_def)
  obtain t where t: "pg_uuid E (usTenantID u) = Some t"
    using user(1) by (auto simp: known_subject_def login_subject_def)
  have "runs (open_session E issuer cx [] (login_subject inp i u)) w2
      (\<lambda>x v. runs (ret (LoggedIn x)) v (\<lambda>out _. \<exists>r. out = LoggedIn r))" if "pool_db w2 = pool_db w" for w2
    using user(1) assms(2,3) that
    by (intro runs_conseq [OF runs_open_session [OF assms(1)]]) (auto intro: runs_ret)
  then show ?thesis
    unfolding admit_def using user(2) t assms(5) factors
    by (auto intro!: runs_bindE runs_PolicyEnforcer_Get [OF assms(1)] runs_no_factors [OF assms(1)] intro: runs_ret)
qed


lemma demo_ready: "ready demo_env background"
  by (simp add: ready_def)

lemma demo_fresh_ids: "fresh_ids demo_env demo_db"
  by (simp add: fresh_ids_def demo_db_def)

lemma demo_can_sign: "can_sign demo_env demo_db"
  by (simp add: can_sign_def demo_db_def demo_signing_key_def [symmetric])

lemma demo_can_log_in: "can_log_in demo_env demo_db demo_login"
  by (simp add: can_log_in_def opens_account_def known_subject_def inet_opt_def login_subject_def demo_login_def demo_db_def
      demo_tenant_def)


lemma exec_sql_calls [simp]: "calls (snd (exec_sql E cx st w)) = Suc (calls w)"
  by (simp add: exec_sql_def split: option.splits sum.splits prod.splits)

lemma exec_sql_ticks: "exec_sql E cx st w = (r, w') \<Longrightarrow> calls w' = Suc (calls w)"
  using exec_sql_calls [of E cx st w] by simp

lemma ins_session_InrD:
  "ins_session r d = Inr ((), d') \<Longrightarrow> d' = d\<lparr>sessions := sessions d @ [r]\<rparr> \<and> ssID r \<notin> ssID ` set (sessions d)
     \<and> (\<forall>p. ssParentSessionID r = Some p \<longrightarrow> p = ssID r \<or> p \<in> ssID ` set (sessions d))"
  by (auto simp: ins_session_def guarded.simps has_key_def split: if_splits)

definition looked_up :: "nat \<Rightarrow> world \<Rightarrow> world \<Rightarrow> bool" where
  "looked_up n w w' \<longleftrightarrow> calls w < calls w' \<and> calls w' \<le> calls w + n \<and> same_data w w'"

lemma ExistsBySlug_looked_up: "looked_up 1 w (snd (TenantRepo_ExistsBySlug E cx s w))"
proof (cases "TenantRepo_ExistsBySlug E cx s w")
  case (Pair r w')
  then have "calls w' = Suc (calls w)"
    by (auto simp: TenantRepo_ExistsBySlug_def query_row_def fetch_def bindE_def raise_def ret_def
        dest: exec_sql_ticks split: sum.splits prod.splits list.splits)
  moreover have "same_data w w'"
    using Pair ExistsBySlug_InlD ExistsBySlug_InrD by (cases r) fastforce+
  ultimately show ?thesis
    by (simp add: Pair looked_up_def)
qed

lemma looked_up_bind:
  assumes "looked_up 1 w (snd (m w))" "\<And>x w1. m w = (Inr x, w1) \<Longrightarrow> snd (f x w1) = w1 \<or> looked_up n w1 (snd (f x w1))"
  shows "looked_up (Suc n) w (snd (bindE m f w))"
  using assms by (cases "m w") (auto simp: looked_up_def bindE_def intro: same_data_trans split: sum.splits)

lemma slug_loop_looked_up: "is \<noteq> [] \<Longrightarrow> looked_up (length is) w (snd (slug_loop E cx base is w))"
proof (induction "is" arbitrary: w)
  case (Cons i "is")
  show ?case
    unfolding slug_loop.simps length_Cons
    by (rule looked_up_bind [OF ExistsBySlug_looked_up])
      (use Cons.IH in \<open>cases "is"; auto simp: ret_def raise_def simp del: slug_loop.simps(2)\<close>)
qed simp

text \<open>
  C34: however the database answers, and whoever else writes it, the search for a slug ends after at
  most six lookups, and it writes nothing.
\<close>

theorem slug_search_ends:
  "looked_up 6 w (snd (GenerateUniqueSlug E cx base w))"
proof -
  have "looked_up (Suc (length [1..<Suc maxSlugAttempts])) w (snd (GenerateUniqueSlug E cx base w))"
    unfolding GenerateUniqueSlug_def
    by (rule looked_up_bind [OF ExistsBySlug_looked_up])
      (use slug_loop_looked_up [of "[1..<Suc maxSlugAttempts]"] in \<open>auto simp: ret_def maxSlugAttempts_def simp del: slug_loop.simps(2)\<close>)
  then show ?thesis
    by (simp add: maxSlugAttempts_def)
qed

text \<open>
  C37: a login cannot open a session from an address PostgreSQL does not read as an INET value: also
  with the right password it ends in an error or in a request for a second factor.
\<close>

theorem login_needs_inet:
  assumes "pg_inet E (liIPAddress inp) = None" "\<not> cx_tx cx"
  shows "fst (Login E issuer repo cx inp w) \<noteq> Inr (LoggedIn out)"
proof
  assume "fst (Login E issuer repo cx inp w) = Inr (LoggedIn out)"
  then obtain w' where "Login E issuer repo cx inp w = (Inr (LoggedIn out), w')"
    by (metis prod.collapse)
  then obtain i u w1 where "open_session E issuer cx [] (login_subject inp i u) w1 = (Inr out, w')"
    by (auto simp: Login_def bindE_Inr_iff split: if_splits)
  then have "opened E (login_subject inp i u) out (pool_db w1) (pool_db w')"
    using open_session_InrD assms(2) by blast
  then show False
    using assms(1)
    by (auto simp: opened_def fresh_session_def login_subject_def inet_opt_def dest!: pg_session_fields)
qed

definition strict_env :: env where
  "strict_env = demo_env\<lparr>pg_inet := \<lambda>_. None\<rparr>"

theorem login_needs_inet_witness:
  "\<forall>out. fst (Login strict_env ''iss'' False background demo_login (world_of demo_db)) \<noteq> Inr (LoggedIn out)"
  using login_needs_inet [of strict_env demo_login background] by (simp add: strict_env_def)

lemma replaced_heir:
  assumes "replaced E s out d d'"
  shows "\<exists>r k t. sessions d' = revoke k t (sessions d) @ [r] \<and> pg_uuid E (ssID s) = Some k \<and> ssParentSessionID r = Some k
     \<and> ssRevokedAt r = None \<and> ssRefreshTokenHash r = token_Hash (lrRefreshToken out) \<and> ssID r \<notin> ssID ` set (sessions d)
     \<and> (k = ssID r \<or> k \<in> ssID ` set (sessions d))"
proof -
  obtain r t at k where d': "d' = d\<lparr>sessions := revoke k t (sessions d) @ [r]\<rparr>" "pg_uuid E (ssID s) = Some k"
    and pg: "pg_session E (fresh_session (heir_of s []) (Some (ssID s)) (prSessionID (lrPrincipal out))
       (token_Hash (lrRefreshToken out)) at) = Some r"
    and ins: "ins_session r (d\<lparr>sessions := revoke k t (sessions d)\<rparr>) = Inr ((), d')"
    using assms unfolding replaced_def by auto
  have "ssParentSessionID r = Some k" "ssRevokedAt r = None" "ssRefreshTokenHash r = token_Hash (lrRefreshToken out)"
    using pg_session_fields [OF pg] d'(2) by (auto simp: fresh_session_def uuid_opt_def)
  then show ?thesis
    using ins_session_InrD [OF ins] d' by auto
qed

definition live_heir :: "session \<Rightarrow> login_result \<Rightarrow> session \<Rightarrow> bool" where
  "live_heir s out r \<longleftrightarrow> ssParentSessionID r = Some (ssID s) \<and> ssRevokedAt r = None
     \<and> ssRefreshTokenHash r = token_Hash (lrRefreshToken out)"

lemma two_heirs:
  assumes "replaced E s out1 d0 d1" "replaced E s out2 d1 d2" "pg_uuid E (ssID s) = Some (ssID s)" "s \<in> set (sessions d0)"
  shows "\<exists>r1 \<in> set (sessions d2). \<exists>r2 \<in> set (sessions d2). ssID r1 \<noteq> ssID r2 \<and> live_heir s out1 r1 \<and> live_heir s out2 r2"
proof -
  obtain r1 t1 where 1: "sessions d1 = revoke (ssID s) t1 (sessions d0) @ [r1]" "live_heir s out1 r1"
      "ssID r1 \<notin> ssID ` set (sessions d0)"
    using replaced_heir [OF assms(1)] assms(3) by (auto simp: live_heir_def)
  obtain r2 t2 where 2: "sessions d2 = revoke (ssID s) t2 (sessions d1) @ [r2]" "live_heir s out2 r2"
      "ssID r2 \<notin> ssID ` set (sessions d1)"
    using replaced_heir [OF assms(2)] assms(3) by (auto simp: live_heir_def)
  have "ssID r1 \<noteq> ssID s"
    using 1(3) assms(4) by auto
  then have "r1 \<in> set (revoke (ssID s) t2 (sessions d1))"
    unfolding in_revoke 1(1) by force
  then show ?thesis
    using 1(1,2) 2 by force
qed

text \<open>
  Two replacements of one session, one after the other: two live sessions come of it, each with a
  refresh token of its own.
\<close>

lemma refresh_race:
  assumes "find_refreshable E cx1 ErrUnauthorized tok w0 = (Inr s, w1)" "find_refreshable E cx2 ErrUnauthorized tok w1 = (Inr s, w2)"
    and "replace_session E iss cx1 (PrincipalCache_Delete E cached) [] s w2 = (Inr out1, w3)"
    and "replace_session E iss cx2 (PrincipalCache_Delete E cached) [] s w3 = (Inr out2, w4)"
    and "\<not> cx_tx cx1" "\<not> cx_tx cx2" "pg_uuid E (ssID s) = Some (ssID s)"
  shows "\<exists>r1 \<in> set (sessions (pool_db w4)). \<exists>r2 \<in> set (sessions (pool_db w4)). ssID r1 \<noteq> ssID r2
     \<and> live_heir s out1 r1 \<and> live_heir s out2 r2"
proof (rule two_heirs)
  show "replaced E s out1 (pool_db w2) (pool_db w3)" "replaced E s out2 (pool_db w3) (pool_db w4)"
    using replace_session_InrD [OF assms(3,5) db_free_stores(9)] replace_session_InrD [OF assms(4,6) db_free_stores(9)] by auto
  show "s \<in> set (sessions (pool_db w2))"
    using find_refreshable_InrD [OF assms(1)] find_refreshable_InrD [OF assms(2)] assms(5) by simp
qed fact

lemma demo_finds: "find_refreshable demo_env background ErrUnauthorized ''r'' (world_of demo_refresh_db) = (Inr demo_session, tick (tick (world_of demo_refresh_db)))"
  "find_refreshable demo_env background ErrUnauthorized ''r'' (tick (tick (world_of demo_refresh_db))) = (Inr demo_session, (tick ^^ 4) (world_of demo_refresh_db))"
  by (simp_all add: demo_refresh_defs run_simps Let_def demo_refresh_db_def demo_session_def eval_nat_numeral)

lemma demo_double_spend:
  "\<exists>out1 w3 out2 w4. replace_session demo_env ''iss'' background (PrincipalCache_Delete demo_env False) [] demo_session
       ((tick ^^ 4) (world_of demo_refresh_db)) = (Inr out1, w3)
     \<and> replace_session demo_env ''iss'' background (PrincipalCache_Delete demo_env False) [] demo_session w3 = (Inr out2, w4)"
  by (simp add: demo_refresh_defs run_simps Let_def demo_refresh_db_def demo_session_def demo_db_def demo_tenant_def
      demo_signing_key_def [symmetric] eval_nat_numeral)

end
