(* ===== verification/Janus_Concurrent.thy ===== *)
theory Janus_Concurrent
  imports Janus_Steps Janus_Progress
begin

text \<open>
  The flows that end in a session, step by step: the same code as in the component theories, cut at every
  call of a service (\<open>_steps\<close>; each is shown to run as the operation it is cut from). What holds of them
  when several requests, and the rest of the system, run at the same time.
\<close>

section \<open>The flows, call by call\<close>

definition JWT_Issue_steps :: "env \<Rightarrow> string \<Rightarrow> ctx \<Rightarrow> principal \<Rightarrow> issue_options \<Rightarrow> (world, error, string) steps" where
  "JWT_Issue_steps E issuer cx p opts =
     bindS (atomic (attempt (KeyRepo_GetActive E cx))) (\<lambda>r. case r of
       Inl e \<Rightarrow> Done (Inl (Wrapped ''no active signing key'' e))
     | Inr key \<Rightarrow>
         bindS (atomic (now E)) (\<lambda>now.
         bindS (atomic (new_id E)) (\<lambda>jti.
           case parsePrivateKey E key of
             Inl e \<Rightarrow> Done (Inl e)
           | Inr (signer, meth) \<Rightarrow>
               (case jwt_sign E meth signer (skID key) (claims_for E issuer p opts now jti) of
                  None \<Rightarrow> Done (Inl ErrLibrary)
                | Some token \<Rightarrow> Done (Inr token)))))"

definition issue_for_steps :: "env \<Rightarrow> string \<Rightarrow> ctx \<Rightarrow> string list \<Rightarrow> principal \<Rightarrow> (world, error, string) steps" where
  "issue_for_steps E issuer cx aud p =
     JWT_Issue_steps E issuer cx p \<lparr> ioAudience = aud, ioTTL = accessTokenTTL, ioNonce = [] \<rparr>"

definition open_session_steps ::
  "env \<Rightarrow> string \<Rightarrow> ctx \<Rightarrow> string list \<Rightarrow> session_for \<Rightarrow> (world, error, login_result) steps" where
  "open_session_steps E issuer cx aud f =
     bindS (atomic (GetRolesForUser E cx (sfUserID f))) (\<lambda>roles.
     bindS (atomic (GetPermissionsForUser E cx (sfUserID f))) (\<lambda>perms.
     bindS (atomic (GenerateRandom E 32)) (\<lambda>refresh.
     bindS (atomic (now E)) (\<lambda>at.
     bindS (atomic (new_id E)) (\<lambda>sid.
     bindS (atomic (SessionRepo_Create E cx (fresh_session f None sid (token_Hash refresh) at))) (\<lambda>_.
       let p = principal_for f sid roles perms in
       bindS (issue_for_steps E issuer cx aud p) (\<lambda>access.
         Done (Inr \<lparr> lrPrincipal = p, lrAccessToken = access, lrExpiresIn = accessTokenTTL div second,
               lrRefreshToken = refresh \<rparr>))))))))"

definition replace_session_steps ::
  "env \<Rightarrow> string \<Rightarrow> ctx \<Rightarrow> (string \<Rightarrow> unit io) \<Rightarrow> string list \<Rightarrow> session \<Rightarrow> (world, error, login_result) steps" where
  "replace_session_steps E issuer cx invalidate aud s =
     bindS (atomic (SessionRepo_Revoke E cx (ssID s))) (\<lambda>_.
     bindS (atomic (invalidate (ssID s))) (\<lambda>_.
     bindS (atomic (GenerateRandom E 32)) (\<lambda>refresh.
     bindS (atomic (now E)) (\<lambda>at.
     bindS (atomic (new_id E)) (\<lambda>sid.
     bindS (atomic (SessionRepo_Create E cx (fresh_session (heir_of s []) (Some (ssID s)) sid (token_Hash refresh) at))) (\<lambda>_.
     bindS (atomic (IdentityRepo_GetByID E cx (ssIdentityID s))) (\<lambda>identity.
     bindS (atomic (GetRolesForUser E cx (ssUserID s))) (\<lambda>roles.
     bindS (atomic (GetPermissionsForUser E cx (ssUserID s))) (\<lambda>perms.
       let p = principal_for (heir_of s (iPrimaryEmail identity)) sid roles perms in
       bindS (issue_for_steps E issuer cx aud p) (\<lambda>access.
         Done (Inr \<lparr> lrPrincipal = p, lrAccessToken = access, lrExpiresIn = accessTokenTTL div second,
               lrRefreshToken = refresh \<rparr>)))))))))))"

definition find_refreshable_steps :: "env \<Rightarrow> ctx \<Rightarrow> error \<Rightarrow> string \<Rightarrow> (world, error, session) steps" where
  "find_refreshable_steps E cx e refresh =
     bindS (atomic (or_err e (SessionRepo_GetByRefreshTokenHash E cx (token_Hash refresh)))) (\<lambda>s.
       if ssRevokedAt s \<noteq> None then Done (Inl e)
       else bindS (atomic (now E)) (\<lambda>at. if ssExpiresAt s < at then Done (Inl e) else Done (Inr s)))"

definition Refresh_steps :: "env \<Rightarrow> string \<Rightarrow> bool \<Rightarrow> ctx \<Rightarrow> string \<Rightarrow> (world, error, login_result) steps" where
  "Refresh_steps E issuer cached cx refreshToken =
     bindS (find_refreshable_steps E cx ErrUnauthorized refreshToken)
       (replace_session_steps E issuer cx (PrincipalCache_Delete E cached) [])"

definition MFA_Complete_steps :: "env \<Rightarrow> string \<Rightarrow> ctx \<Rightarrow> string \<Rightarrow> string \<Rightarrow> (world, error, login_result) steps" where
  "MFA_Complete_steps E issuer cx mfaToken code =
     bindS (atomic (or_err ErrInvalidCode (ChallengeStore_Consume E mfaToken))) (\<lambda>c.
     bindS (atomic (now E)) (\<lambda>at.
       if chExpiresAt c < at then Done (Inl ErrInvalidCode)
       else
         bindS (or_errS ErrInvalidCode
             (bindS (atomic (FactorRepo_GetVerifiedByIdentity E cx (chIdentityID c))) (\<lambda>fs. atomic (verify_any E code fs)))) (\<lambda>_.
         bindS (atomic (IdentityRepo_GetByID E cx (chIdentityID c))) (\<lambda>identity.
           open_session_steps E issuer cx [] (challenge_subject c (iPrimaryEmail identity))))))"

definition code_grant_steps :: "env \<Rightarrow> string \<Rightarrow> bool \<Rightarrow> ctx \<Rightarrow> token_input \<Rightarrow> (world, error, token_output) steps" where
  "code_grant_steps E issuer id_tokens cx inp =
     bindS (atomic (or_err ErrInvalidClient (ClientRepo_GetByClientID E cx (tiClientID inp)))) (\<lambda>client.
       if \<not> client_authenticated client inp then Done (Inl ErrInvalidClient)
       else
         bindS (atomic (or_err ErrInvalidGrant (CodeStore_Consume E (tiCode inp)))) (\<lambda>c.
         bindS (atomic (now E)) (\<lambda>at.
           if acExpiresAt c < at \<or> \<not> code_matches c inp then Done (Inl ErrInvalidGrant)
           else
             bindS (atomic (IdentityRepo_GetByID E cx (acIdentityID c))) (\<lambda>identity.
             bindS (open_session_steps E issuer cx [tiClientID inp] (code_subject c (iPrimaryEmail identity))) (\<lambda>out.
               if hasScope (acScopes c) ''openid'' \<and> id_tokens then
                 bindS (JWT_Issue_steps E issuer cx (id_principal (lrPrincipal out))
                   \<lparr> ioAudience = [tiClientID inp], ioTTL = accessTokenTTL, ioNonce = acNonce c \<rparr>) (\<lambda>idt.
                   Done (Inr (code_output c out idt)))
               else Done (Inr (code_output c out [])))))))"

definition Logout_steps :: "env \<Rightarrow> bool \<Rightarrow> ctx \<Rightarrow> string \<Rightarrow> (world, error, unit) steps" where
  "Logout_steps E cached cx sessionID =
     bindS (atomic (or_err ErrNotFound (SessionRepo_GetByID E cx sessionID))) (\<lambda>s.
       if ssRevokedAt s \<noteq> None then atomic (PrincipalCache_Delete E cached sessionID)
       else bindS (atomic (SessionRepo_Revoke E cx (ssID s))) (\<lambda>_. atomic (PrincipalCache_Delete E cached sessionID)))"

definition load_principal_steps :: "env \<Rightarrow> ctx \<Rightarrow> string \<Rightarrow> (world, error, principal) steps" where
  "load_principal_steps E cx sessionID =
     bindS (atomic (SessionRepo_GetByID E cx sessionID)) (\<lambda>s.
       if ssRevokedAt s \<noteq> None then Done (Inl ErrUnauthorized)
       else
         bindS (atomic (now E)) (\<lambda>at.
           if ssExpiresAt s < at then Done (Inl ErrUnauthorized)
           else
             bindS (atomic (IdentityRepo_GetByID E cx (ssIdentityID s))) (\<lambda>identity.
             bindS (atomic (GetRolesForUser E cx (ssUserID s))) (\<lambda>rls.
             bindS (atomic (GetPermissionsForUser E cx (ssUserID s))) (\<lambda>prms.
               Done (Inr (principal_for (heir_of s (iPrimaryEmail identity)) (ssID s) rls prms)))))))"

definition fromSessionHeader_steps :: "env \<Rightarrow> bool \<Rightarrow> ctx \<Rightarrow> string \<Rightarrow> (world, error, principal option) steps" where
  "fromSessionHeader_steps E cached cx sessionID =
     (if sessionID = [] then Done (Inr None)
      else
        bindS (atomic (PrincipalCache_Get E cached sessionID)) (\<lambda>hit. case hit of
          Some p \<Rightarrow> Done (Inr (Some p))
        | None \<Rightarrow>
            bindS (attemptS (load_principal_steps E cx sessionID)) (\<lambda>r. case r of
              Inl _ \<Rightarrow> Done (Inr None)
            | Inr p \<Rightarrow> bindS (atomic (PrincipalCache_Put E cached p)) (\<lambda>_. Done (Inr (Some p))))))"

text \<open>A request in flight, and what it ends with.\<close>

datatype flow = Authenticating bool ctx string | Refreshing bool ctx string | LoggingOut bool ctx string
  | Completing ctx string string | Exchanging bool ctx token_input

datatype flow_result = OfPrincipal "principal option" | OfLogin login_result | OfLogout | OfToken token_output

primrec flow_steps :: "env \<Rightarrow> string \<Rightarrow> flow \<Rightarrow> (world, error, flow_result) steps" where
  "flow_steps E issuer (Authenticating cached cx sid) = mapS OfPrincipal (fromSessionHeader_steps E cached cx sid)"
| "flow_steps E issuer (Refreshing cached cx tok) = mapS OfLogin (Refresh_steps E issuer cached cx tok)"
| "flow_steps E issuer (LoggingOut cached cx sid) = mapS (\<lambda>_. OfLogout) (Logout_steps E cached cx sid)"
| "flow_steps E issuer (Completing cx tok code) = mapS OfLogin (MFA_Complete_steps E issuer cx tok code)"
| "flow_steps E issuer (Exchanging id_tokens cx inp) = mapS OfToken (code_grant_steps E issuer id_tokens cx inp)"

section \<open>Alone they run as the operations\<close>

lemma run_JWT_Issue_steps: "run_steps (JWT_Issue_steps E issuer cx p opts) = JWT_Issue E issuer cx p opts"
  unfolding JWT_Issue_steps_def JWT_Issue_def
  by (auto simp: fun_eq_iff bindE_def raise_def ret_def of_result_def split: sum.splits prod.splits option.splits)

lemma run_issue_for_steps: "run_steps (issue_for_steps E issuer cx aud p) = issue_for E issuer cx aud p"
  by (simp add: issue_for_steps_def issue_for_def run_JWT_Issue_steps)

lemma run_Done: "run_steps (Done (Inr x)) = ret x" "run_steps (Done (Inl e)) = raise e"
  by (auto simp: fun_eq_iff ret_def raise_def)

lemmas run_all = run_bindS run_atomic run_or_errS run_attemptS run_issue_for_steps run_JWT_Issue_steps run_Done

lemma run_open_session_steps: "run_steps (open_session_steps E issuer cx aud f) = open_session E issuer cx aud f"
  unfolding open_session_steps_def open_session_def Let_def by (simp only: run_all)

lemma run_replace_session_steps:
  "run_steps (replace_session_steps E issuer cx invalidate aud s) = replace_session E issuer cx invalidate aud s"
  unfolding replace_session_steps_def replace_session_def Let_def by (simp only: run_all)

lemma run_find_refreshable_steps: "run_steps (find_refreshable_steps E cx e tok) = find_refreshable E cx e tok"
  unfolding find_refreshable_steps_def find_refreshable_def by (simp only: run_all if_distrib [of run_steps])

lemma run_Refresh_steps: "run_steps (Refresh_steps E issuer cached cx tok) = Refresh E issuer cached cx tok"
  by (simp only: Refresh_steps_def Refresh_def run_all run_find_refreshable_steps run_replace_session_steps)

lemma run_MFA_Complete_steps: "run_steps (MFA_Complete_steps E issuer cx tok code) = MFA_Complete E issuer cx tok code"
  unfolding MFA_Complete_steps_def MFA_Complete_def TOTP_Verify_def
  by (simp only: run_all run_open_session_steps if_distrib [of run_steps])

lemma run_code_grant_steps:
  "run_steps (code_grant_steps E issuer idt cx inp) = authorizationCodeGrant E issuer idt cx inp"
  unfolding code_grant_steps_def authorizationCodeGrant_def IssueIDToken_def
  by (simp only: run_all run_open_session_steps if_distrib [of run_steps])

lemma run_Logout_steps: "run_steps (Logout_steps E cached cx sid) = Logout E cached cx sid"
  unfolding Logout_steps_def Logout_def by (simp only: run_all if_distrib [of run_steps])

lemma run_load_principal_steps: "run_steps (load_principal_steps E cx sid) = load_principal E cx sid"
  unfolding load_principal_steps_def load_principal_def by (simp only: run_all if_distrib [of run_steps])

lemma run_fromSessionHeader_steps:
  "run_steps (fromSessionHeader_steps E cached cx sid) = fromSessionHeader E cached cx sid"
  unfolding fromSessionHeader_steps_def fromSessionHeader_def
  by (simp only: run_all run_load_principal_steps if_distrib [of run_steps] option.case_distrib [of run_steps]
      sum.case_distrib [of run_steps])

section \<open>What every step keeps\<close>

lemma safe_JWT_Issue_steps:
  assumes "keeps J (KeyRepo_GetActive E cx)" "keeps J (now E)" "keeps J (new_id E)"
  shows "safe J (JWT_Issue_steps E issuer cx p opts)"
  unfolding JWT_Issue_steps_def by (intro safe_rules keeps_rules assms)

lemma safe_open_session_steps:
  assumes "keeps J (GetRolesForUser E cx (sfUserID f))" "keeps J (GetPermissionsForUser E cx (sfUserID f))"
    and "keeps J (GenerateRandom E 32)" "keeps J (now E)" "keeps J (new_id E)"
    and "\<And>sid h at. keeps J (SessionRepo_Create E cx (fresh_session f None sid h at))"
    and "keeps J (KeyRepo_GetActive E cx)"
  shows "safe J (open_session_steps E issuer cx aud f)"
  unfolding open_session_steps_def issue_for_steps_def Let_def
  by (intro safe_rules keeps_rules assms safe_JWT_Issue_steps)

lemma safe_replace_session_steps:
  assumes "keeps J (SessionRepo_Revoke E cx (ssID s))" "keeps J (invalidate (ssID s))"
    and "keeps J (GenerateRandom E 32)" "keeps J (now E)" "keeps J (new_id E)"
    and "\<And>sid h at. keeps J (SessionRepo_Create E cx (fresh_session (heir_of s []) (Some (ssID s)) sid h at))"
    and "keeps J (IdentityRepo_GetByID E cx (ssIdentityID s))"
    and "keeps J (GetRolesForUser E cx (ssUserID s))" "keeps J (GetPermissionsForUser E cx (ssUserID s))"
    and "keeps J (KeyRepo_GetActive E cx)"
  shows "safe J (replace_session_steps E issuer cx invalidate aud s)"
  unfolding replace_session_steps_def issue_for_steps_def Let_def
  by (intro safe_rules keeps_rules assms safe_JWT_Issue_steps)

text \<open>The repositories do not touch Redis.\<close>

lemma keeps_absent_quiet: "quiet m \<Longrightarrow> keeps (absent (key_set k)) m"
  by (intro keepsI) (metis key_set_def quiet_redis prod.collapse)

lemma keeps_absent_exec: "keeps (absent (key_set k)) (exec_sql E cx st)"
proof (rule keepsI)
  fix w assume "absent (key_set k) w"
  moreover have "redis (snd (exec_sql E cx st w)) = redis w"
    by (rule keeps_snd [OF keeps_redis_exec]) simp
  ultimately show "absent (key_set k) (snd (exec_sql E cx st w))"
    by (simp add: key_set_def)
qed

lemma keeps_absent_consume: "keeps (absent (key_set k)) (consume E k' decode)"
  by (rule keepsI) (rule consume_adds_none)

lemma absent_open_session_steps: "safe (absent (key_set k)) (open_session_steps E issuer cx aud f)"
  by (rule safe_open_session_steps)
    (simp only: SessionRepo_Create_def keeps_absent_exec | rule keeps_absent_quiet, rule quiet_rules)+

lemma absent_JWT_Issue_steps: "safe (absent (key_set k)) (JWT_Issue_steps E issuer cx p opts)"
  by (intro safe_JWT_Issue_steps keeps_absent_quiet quiet_rules)

text \<open>Taking a value from Redis.\<close>

lemma needs_consume:
  assumes "\<And>x. safe (absent (key_set k)) (g x)"
  shows "needs (key_set k) (bindS (atomic (or_err e (consume E k decode))) g)"
proof (rule needs_take)
  show "keeps (absent (key_set k)) (or_err e (consume E k decode))"
    by (intro keeps_or_err keeps_absent_consume)
  show "key_set k w \<and> absent (key_set k) w'" if "or_err e (consume E k decode) w = (Inr x, w')" for x w w'
    using consume_key [of E k decode w x w'] that by simp
qed (rule assms)

lemma code_grant_needs: "needs (key_set (codePrefix @ tiCode inp)) (code_grant_steps E issuer idt cx inp)"
  unfolding code_grant_steps_def CodeStore_Consume_def
  by (rule needs_bind, intro keeps_or_err keeps_absent_quiet quiet_clients, intro needs_if needs_failed needs_consume)
    (intro safe_rules keeps_absent_quiet quiet_rules absent_open_session_steps absent_JWT_Issue_steps)

lemma MFA_Complete_needs: "needs (key_set (challengePrefix @ tok)) (MFA_Complete_steps E issuer cx tok code)"
  unfolding MFA_Complete_steps_def ChallengeStore_Consume_def
  by (intro needs_consume safe_rules keeps_absent_quiet quiet_rules absent_open_session_steps)

text \<open>A cached principal is under a key of its own kind.\<close>

lemma absent_cache:
  assumes "\<And>sid. k \<noteq> cachePrefix @ sid"
  shows "keeps (absent (key_set k)) (PrincipalCache_Put E cached p)" "keeps (absent (key_set k)) (PrincipalCache_Get E cached sid)"
    "keeps (absent (key_set k)) (PrincipalCache_Delete E cached sid)"
proof -
  have set: "keeps (absent (key_set k)) (redis_set E (cachePrefix @ s) v ttl)" for s v ttl
    using assms by (intro keepsI set_adds_one) metis+
  have del: "keeps (absent (key_set k)) (redis_del E k')" for k'
    by (rule keepsI) (auto simp: redis_del_def key_set_def split: option.splits)
  have get: "keeps (absent (key_set k)) (redis_get E k')" for k'
    by (rule keepsI) (auto simp: redis_get_def key_set_def split: option.splits)
  have count: "keeps (absent (key_set k)) cache_miss" "keeps (absent (key_set k)) (cache_hit p)" for p
    by (auto intro!: keepsI simp: cache_miss_def cache_hit_def key_set_def)
  show "keeps (absent (key_set k)) (PrincipalCache_Put E cached p)"
    unfolding PrincipalCache_Put_def by (intro keeps_rules set)
  show "keeps (absent (key_set k)) (PrincipalCache_Delete E cached sid)"
    unfolding PrincipalCache_Delete_def by (intro keeps_rules del)
  show "keeps (absent (key_set k)) (PrincipalCache_Get E cached sid)"
    unfolding PrincipalCache_Get_def by (intro keeps_rules get count)
qed

lemma absent_exec: "keeps (absent (key_set k)) (SessionRepo_Create E cx s)" "keeps (absent (key_set k)) (SessionRepo_Revoke E cx sid)"
proof -
  show "keeps (absent (key_set k)) (SessionRepo_Create E cx s)"
    unfolding SessionRepo_Create_def by (rule keeps_absent_exec)
  show "keeps (absent (key_set k)) (SessionRepo_Revoke E cx sid)"
    by (rule keepsI) (unfold SessionRepo_Revoke_def, erule keeps_snd [OF keeps_absent_exec])
qed

lemma absent_consume:
  "keeps (absent (key_set k)) (ChallengeStore_Consume E tok)" "keeps (absent (key_set k)) (CodeStore_Consume E code)"
  unfolding ChallengeStore_Consume_def CodeStore_Consume_def by (rule keeps_absent_consume)+

text \<open>No flow puts a key into Redis, but for cached principals.\<close>

lemma absent_flow:
  assumes "\<And>sid. k \<noteq> cachePrefix @ sid"
  shows "safe (absent (key_set k)) (flow_steps E issuer f)"
proof -
  note rules = safe_rules keeps_or_err keeps_absent_quiet quiet_rules absent_cache [OF assms] absent_exec absent_consume
    absent_open_session_steps absent_JWT_Issue_steps safe_replace_session_steps
  show ?thesis
  proof (cases f)
    case (Authenticating cached cx sid)
    show ?thesis
      unfolding flow_steps.simps Authenticating fromSessionHeader_steps_def load_principal_steps_def
      by (intro rules)
  qed (simp_all only: flow_steps.simps, unfold Refresh_steps_def find_refreshable_steps_def Logout_steps_def
      MFA_Complete_steps_def code_grant_steps_def, (intro rules)+)
qed

context db_law
begin

lemma safe_flow: "safe (dbs I) (flow_steps E issuer f)"
proof -
  note rules = safe_rules keeps_or_err keeps_dbs_quiet quiet_rules keeps_session_writes
    safe_open_session_steps safe_replace_session_steps safe_JWT_Issue_steps
  have db_free: "keeps (dbs I) m" if "db_free m" for m :: "'x io"
    using that by (rule keeps_db_free)
  show ?thesis
  proof (cases f)
    case (Authenticating cached cx sid)
    show ?thesis
      unfolding flow_steps.simps Authenticating fromSessionHeader_steps_def load_principal_steps_def
      by (intro rules db_free db_free_stores)
  qed (simp_all only: flow_steps.simps, unfold Refresh_steps_def find_refreshable_steps_def Logout_steps_def
      MFA_Complete_steps_def code_grant_steps_def, (intro rules db_free db_free_stores)+)
qed

lemma flows_keep:
  assumes "(schedule (request_step E S compact jsonb))\<^sup>*\<^sup>* (map (flow_steps E' issuer) flows, w) (ts', w')" "dbs I w"
  shows "dbs I w'"
  by (rule schedule_keeps [where J = "dbs I", OF assms(1) _ assms(2)]) (auto intro: safe_flow request_step_keeps)

end

section \<open>Properties\<close>

text \<open>What a flow takes from Redis: a code or a challenge.\<close>

fun redeems :: "flow \<Rightarrow> string option" where
  "redeems (Exchanging idt cx inp) = Some (codePrefix @ tiCode inp)"
| "redeems (Completing cx tok code) = Some (challengePrefix @ tok)"
| "redeems _ = None"

lemma redeems_needs: "redeems f = Some k \<Longrightarrow> needs (key_set k) (flow_steps E issuer f)"
  by (cases f) (auto intro: needs_mapS code_grant_needs MFA_Complete_needs)

lemma redeems_not_cached: "redeems f = Some k \<Longrightarrow> k \<noteq> cachePrefix @ sid"
  by (cases f) (auto simp: prefix_defs)

text \<open>
  C3: an authorization code, and an MFA challenge, is redeemed once however the requests that
  present it are interleaved with each other, with other requests and with the rest of the system: of all of
  them at most one succeeds, as long as nothing stores the key again once it is gone.
\<close>

theorem redeemed_once:
  assumes "(schedule R)\<^sup>*\<^sup>* (map (flow_steps E issuer) flows, w) (ts', w')"
    and "\<And>v v'. R v v' \<Longrightarrow> \<not> key_set k v \<Longrightarrow> \<not> key_set k v'"
    and "i < length ts'" "j < length ts'" "redeems (flows ! i) = Some k" "redeems (flows ! j) = Some k"
    and "succeeded (ts' ! i)" "succeeded (ts' ! j)"
  shows "i = j"
proof -
  let ?N = "{j. redeems (flows ! j) = Some k}"
  have "if j \<in> ?N then needs (key_set k) (map (flow_steps E issuer) flows ! j)
      else safe (absent (key_set k)) (map (flow_steps E issuer) flows ! j)" if "j < length (map (flow_steps E issuer) flows)" for j
    using that redeems_needs absent_flow redeems_not_cached [OF assms(5)] by simp
  then have "\<exists>h. \<forall>j \<in> ?N. j < length ts' \<longrightarrow> succeeded (ts' ! j) \<longrightarrow> j = h"
    by (rule at_most_one [OF assms(1)]) (assumption, erule (1) assms(2))
  then show ?thesis
    using assms(3-8) by blast
qed

text \<open>
  C19: however requests are interleaved at their calls of the services, with whole other requests in between,
  keys stay unique and references resolve, and the tables only grow: sessions that are revoked stay revoked.
\<close>

theorem interleaved_invariants:
  assumes "(schedule (request_step E S compact jsonb))\<^sup>*\<^sup>* (map (flow_steps E' issuer) flows, w) (ts', w')"
    and "tx_db w = None" "integrity (pool_db w)"
  shows "integrity (pool_db w') \<and> history (pool_db w) (pool_db w')"
proof
  show "integrity (pool_db w')"
    using integral.flows_keep [OF assms(1)] assms(2,3) by (simp add: dbs_def)
  show "history (pool_db w) (pool_db w')"
    using past.flows_keep [OF assms(1), of "pool_db w"] assms(2) history_refl by (simp add: dbs_def)
qed

text \<open>
  C27: two refreshes of one token that both look before either writes both succeed: there is a schedule of
  the two requests alone that ends both with tokens and leaves two live sessions that come of the one
  session, each with a refresh token of its own.
\<close>

theorem refresh_interleaving:
  assumes "find_refreshable E cx1 ErrUnauthorized tok w0 = (Inr s, w1)" "find_refreshable E cx2 ErrUnauthorized tok w1 = (Inr s, w2)"
    and "replace_session E iss cx1 (PrincipalCache_Delete E cached) [] s w2 = (Inr out1, w3)"
    and "replace_session E iss cx2 (PrincipalCache_Delete E cached) [] s w3 = (Inr out2, w4)"
    and "\<not> cx_tx cx1" "\<not> cx_tx cx2" "pg_uuid E (ssID s) = Some (ssID s)"
  shows "(schedule (\<lambda>_ _. False))\<^sup>*\<^sup>* (map (flow_steps E iss) [Refreshing cached cx1 tok, Refreshing cached cx2 tok], w0)
      ([Done (Inr (OfLogin out1)), Done (Inr (OfLogin out2))], w4)
    \<and> (\<exists>r1 \<in> set (sessions (pool_db w4)). \<exists>r2 \<in> set (sessions (pool_db w4)). ssID r1 \<noteq> ssID r2
         \<and> live_heir s out1 r1 \<and> live_heir s out2 r2)"
proof
  let ?R = "\<lambda>_ _. False" and ?find = "\<lambda>cx. find_refreshable_steps E cx ErrUnauthorized tok"
  let ?rep = "\<lambda>cx s. replace_session_steps E iss cx (PrincipalCache_Delete E cached) [] s"
  let ?t = "\<lambda>cx. bindS (?find cx) (\<lambda>s. mapS OfLogin (?rep cx s))"
  have "map (flow_steps E iss) [Refreshing cached cx1 tok, Refreshing cached cx2 tok] = [?t cx1, ?t cx2]"
    by (simp add: Refresh_steps_def mapS_bindS)
  also have "(schedule ?R)\<^sup>*\<^sup>* ([?t cx1, ?t cx2], w0) ([mapS OfLogin (?rep cx1 s), ?t cx2], w1)"
    by (rule schedule_first) (simp only: run_find_refreshable_steps assms(1))
  also have "(schedule ?R)\<^sup>*\<^sup>* (\<dots>) ([mapS OfLogin (?rep cx1 s), mapS OfLogin (?rep cx2 s)], w2)"
    by (rule schedule_second) (simp only: run_find_refreshable_steps assms(2))
  also have "(schedule ?R)\<^sup>*\<^sup>* (\<dots>) ([Done (Inr (OfLogin out1)), mapS OfLogin (?rep cx2 s)], w3)"
    unfolding mapS_def by (rule schedule_first) (simp only: run_replace_session_steps assms(3))
  also have "(schedule ?R)\<^sup>*\<^sup>* (\<dots>) ([Done (Inr (OfLogin out1)), Done (Inr (OfLogin out2))], w4)"
    unfolding mapS_def by (rule schedule_second) (simp only: run_replace_session_steps assms(4))
  finally show "(schedule ?R)\<^sup>*\<^sup>* (map (flow_steps E iss) [Refreshing cached cx1 tok, Refreshing cached cx2 tok], w0)
      ([Done (Inr (OfLogin out1)), Done (Inr (OfLogin out2))], w4)" .
  show "\<exists>r1 \<in> set (sessions (pool_db w4)). \<exists>r2 \<in> set (sessions (pool_db w4)). ssID r1 \<noteq> ssID r2
     \<and> live_heir s out1 r1 \<and> live_heir s out2 r2"
    using refresh_race [OF assms] .
qed

text \<open>
  C28: a request that has looked up its session before a logout and caches the principal after it undoes the
  logout: both requests succeed, the session is revoked, and its header still authenticates from the cache.
\<close>

theorem header_outlives_logout:
  assumes "PrincipalCache_Get E True sid w0 = (Inr None, w1)" "load_principal E cx1 sid w1 = (Inr p, w2)"
    and "Logout E True cx2 sid w2 = (Inr (), w3)" "PrincipalCache_Put E True p w3 = (Inr (), w4)"
    and "sid \<noteq> []" "pg_uuid E sid = Some sid" "uuid_canonical E" "\<not> cx_tx cx2" "integrity (pool_db w2)"
    and "\<And>n. redis_fault E n = None" "redis_now E (calls w4) < redis_now E (calls w3) + redis_ttl E (5 * minute)"
  shows "(schedule (\<lambda>_ _. False))\<^sup>*\<^sup>* (map (flow_steps E iss) [Authenticating True cx1 sid, LoggingOut True cx2 sid], w0)
      ([Done (Inr (OfPrincipal (Some p))), Done (Inr OfLogout)], w4)
    \<and> (\<forall>s \<in> set (sessions (pool_db w4)). ssID s = sid \<longrightarrow> ssRevokedAt s \<noteq> None)
    \<and> fst (fromSessionHeader E True cx sid w4) = Inr (Some (json_principal p))"
proof (intro conjI)
  let ?R = "\<lambda>_ _. False" and ?out = "mapS (\<lambda>_. OfLogout) (Logout_steps E True cx2 sid)"
  let ?put = "\<lambda>r :: error + principal. mapS OfPrincipal (case r of Inl _ \<Rightarrow> Done (Inr None)
        | Inr p \<Rightarrow> bindS (atomic (PrincipalCache_Put E True p)) (\<lambda>_. Done (Inr (Some p))))"
  let ?load = "\<lambda>hit. mapS OfPrincipal (case hit of Some p \<Rightarrow> Done (Inr (Some p)) | None \<Rightarrow>
      bindS (attemptS (load_principal_steps E cx1 sid)) (\<lambda>r. case r of Inl _ \<Rightarrow> Done (Inr None)
        | Inr p \<Rightarrow> bindS (atomic (PrincipalCache_Put E True p)) (\<lambda>_. Done (Inr (Some p)))))"
  have "map (flow_steps E iss) [Authenticating True cx1 sid, LoggingOut True cx2 sid]
      = [bindS (atomic (PrincipalCache_Get E True sid)) ?load, ?out]"
    using assms(5) by (simp add: fromSessionHeader_steps_def mapS_bindS)
  also have "(schedule ?R)\<^sup>*\<^sup>* ([bindS (atomic (PrincipalCache_Get E True sid)) ?load, ?out], w0) ([?load None, ?out], w1)"
    by (rule schedule_first) (simp only: run_atomic assms(1))
  also have "?load None = bindS (attemptS (load_principal_steps E cx1 sid)) ?put"
    by (simp add: mapS_bindS)
  also have "(schedule ?R)\<^sup>*\<^sup>* ([\<dots>, ?out], w1) ([?put (Inr p), ?out], w2)"
    by (rule schedule_first) (simp add: run_load_principal_steps assms(2))
  also have "(schedule ?R)\<^sup>*\<^sup>* (\<dots>) ([?put (Inr p), Done (Inr OfLogout)], w3)"
    unfolding mapS_def by (rule schedule_second) (simp only: run_Logout_steps assms(3))
  also have "?put (Inr p) = bindS (atomic (PrincipalCache_Put E True p)) (\<lambda>_. Done (Inr (OfPrincipal (Some p))))"
    by (simp add: mapS_bindS)
  also have "(schedule ?R)\<^sup>*\<^sup>* ([\<dots>, Done (Inr OfLogout)], w3) ([Done (Inr (OfPrincipal (Some p))), Done (Inr OfLogout)], w4)"
    by (rule schedule_first) (simp only: run_atomic assms(4))
  finally show "(schedule ?R)\<^sup>*\<^sup>* (map (flow_steps E iss) [Authenticating True cx1 sid, LoggingOut True cx2 sid], w0)
      ([Done (Inr (OfPrincipal (Some p))), Done (Inr OfLogout)], w4)" .
  have db4: "pool_db w4 = pool_db w3"
    using db_freeD [OF db_free_stores(8) assms(4)] by simp
  have "unique ssID (sessions (pool_db w2))"
    using assms(9) by (simp add: integrity_def)
  then show "\<forall>s \<in> set (sessions (pool_db w4)). ssID s = sid \<longrightarrow> ssRevokedAt s \<noteq> None"
    using Logout_InrD [OF assms(3,8,7,10)] assms(6) db4 by auto
  have "prSessionID p = sid"
    using load_principal_InrD [OF assms(2)] assms(6) by (cases p) (auto simp: principal_for_def)
  then have "redis w4 (cachePrefix @ sid) = Some (RvPrincipal (json_principal p), redis_now E (calls w3) + redis_ttl E (5 * minute))"
    using assms(4,5,10) by (auto simp: PrincipalCache_Put_def redis_set_def tryM_def)
  then show "fst (fromSessionHeader E True cx sid w4) = Inr (Some (json_principal p))"
    by (rule fromSessionHeader_hit) (use assms(5,10,11) in simp_all)
qed

section \<open>Examples\<close>

lemma run_flow: "run_steps p w = (Inr x, w') \<Longrightarrow> run_steps (mapS f p) w = (Inr (f x), w')"
  by (simp add: mapS_def run_Done)

theorem redeemed_once_witness:
  "\<exists>w out w1. (schedule (\<lambda>_ _. False))\<^sup>*\<^sup>* (map (flow_steps demo_env ''iss'')
        [Exchanging True background (demo_token_input ''c''), Exchanging True background (demo_token_input ''c'')], w)
      ([Done (Inr (OfToken out)), flow_steps demo_env ''iss'' (Exchanging True background (demo_token_input ''c''))], w1)
    \<and> \<not> (\<exists>ts' w'. (schedule (\<lambda>_ _. False))\<^sup>*\<^sup>* (map (flow_steps demo_env ''iss'')
        [Exchanging True background (demo_token_input ''c''), Exchanging True background (demo_token_input ''c'')], w) (ts', w')
      \<and> length ts' = 2 \<and> succeeded (ts' ! 0) \<and> succeeded (ts' ! 1))"
proof -
  let ?r = "[codePrefix @ ''c'' \<mapsto> (RvCode (json_code (code_for demo_client demo_authorize ''c'' 2000000000)), 603000000000)]"
  let ?w = "(world_of demo_client_db)\<lparr>redis := ?r\<rparr>" and ?f = "Exchanging True background (demo_token_input ''c'')"
  let ?ts = "map (flow_steps demo_env ''iss'') [?f, ?f]"
  obtain out w1 where "authorizationCodeGrant demo_env ''iss'' True background (demo_token_input ''c'') ?w = (Inr out, w1)"
    using demo_exchange [of ?r "''c''"] by auto
  then have "run_steps (flow_steps demo_env ''iss'' ?f) ?w = (Inr (OfToken out), w1)"
    by (simp add: run_code_grant_steps run_flow)
  then have "(schedule (\<lambda>_ _. False))\<^sup>*\<^sup>* (?ts, ?w) (?ts[0 := Done (Inr (OfToken out))], w1)"
    by (rule schedule_run) simp_all
  moreover have "\<not> (succeeded (ts' ! 0) \<and> succeeded (ts' ! 1))"
    if "(schedule (\<lambda>_ _. False))\<^sup>*\<^sup>* (?ts, ?w) (ts', w')" "length ts' = 2" for ts' w'
    using redeemed_once [OF that(1), of "codePrefix @ tiCode (demo_token_input ''c'')" 0 1] that(2) by auto
  ultimately show ?thesis
    by (intro exI [of _ ?w] exI [of _ out] exI [of _ w1]) auto
qed

theorem interleaved_invariants_witness:
  "\<exists>out w'. (schedule (request_step demo_env demo_server Some Some))\<^sup>*\<^sup>* (map (flow_steps demo_env ''iss'')
        [Refreshing False background ''r'', LoggingOut False background ''s-a''], world_of demo_refresh_db)
      ([Done (Inr (OfLogin out)), flow_steps demo_env ''iss'' (LoggingOut False background ''s-a'')], w')
    \<and> integrity (pool_db w') \<and> history demo_refresh_db (pool_db w')"
proof -
  let ?f = "Refreshing False background ''r''" and ?g = "LoggingOut False background ''s-a''"
  let ?ts = "map (flow_steps demo_env ''iss'') [?f, ?g]"
  obtain out w' where "Refresh demo_env ''iss'' False background ''r'' (world_of demo_refresh_db) = (Inr out, w')"
    using demo_refresh by blast
  then have "run_steps (flow_steps demo_env ''iss'' ?f) (world_of demo_refresh_db) = (Inr (OfLogin out), w')"
    by (simp add: run_Refresh_steps run_flow)
  then have run: "(schedule (request_step demo_env demo_server Some Some))\<^sup>*\<^sup>* (?ts, world_of demo_refresh_db)
      (?ts[0 := Done (Inr (OfLogin out))], w')"
    by (rule schedule_run) simp_all
  have "integrity (pool_db (world_of demo_refresh_db))"
    using demo_integrity by (simp add: integrity_def demo_refresh_db_def demo_session_def unique_def refers_def orphaned_def demo_db_def)
  from interleaved_invariants [OF run _ this] have "integrity (pool_db w') \<and> history demo_refresh_db (pool_db w')"
    by simp
  then show ?thesis
    using run by auto
qed

theorem refresh_interleaving_witness:
  "\<exists>out1 out2 w4. (schedule (\<lambda>_ _. False))\<^sup>*\<^sup>* (map (flow_steps demo_env ''iss'')
        [Refreshing False background ''r'', Refreshing False background ''r''], world_of demo_refresh_db)
      ([Done (Inr (OfLogin out1)), Done (Inr (OfLogin out2))], w4)
    \<and> (\<exists>r1 \<in> set (sessions (pool_db w4)). \<exists>r2 \<in> set (sessions (pool_db w4)). ssID r1 \<noteq> ssID r2
         \<and> live_heir demo_session out1 r1 \<and> live_heir demo_session out2 r2)"
  using demo_double_spend refresh_interleaving [OF demo_finds _ _ background_simps(1,1)] by (simp only: demo_env_simps(3)) blast

lemma demo_late_cache:
  "\<exists>w1 p w2 w3 w4. PrincipalCache_Get demo_env True ''s-a'' (world_of demo_db) = (Inr None, w1)
     \<and> load_principal demo_env background ''s-a'' w1 = (Inr p, w2) \<and> Logout demo_env True background ''s-a'' w2 = (Inr (), w3)
     \<and> PrincipalCache_Put demo_env True p w3 = (Inr (), w4) \<and> pool_db w2 = demo_db \<and> calls w4 \<le> Suc (calls w3)"
  by (simp add: PrincipalCache_Get_def PrincipalCache_Put_def redis_get_def redis_set_def redis_del_def redis_live_def
      cache_miss_def load_principal_def identity_repo_defs GetRolesForUser_def GetPermissionsForUser_def Logout_def
      session_repo_defs upd_sessions_def where_uuid_def PrincipalCache_Delete_def run_simps demo_db_def principal_for_def)

theorem header_outlives_logout_witness:
  "\<exists>p w4. (schedule (\<lambda>_ _. False))\<^sup>*\<^sup>* (map (flow_steps demo_env ''iss'')
        [Authenticating True background ''s-a'', LoggingOut True background ''s-a''], world_of demo_db)
      ([Done (Inr (OfPrincipal (Some p))), Done (Inr OfLogout)], w4)
    \<and> fst (fromSessionHeader demo_env True background ''s-a'' w4) = Inr (Some (json_principal p))"
proof -
  obtain w1 p w2 w3 w4 where run: "PrincipalCache_Get demo_env True ''s-a'' (world_of demo_db) = (Inr None, w1)"
      "load_principal demo_env background ''s-a'' w1 = (Inr p, w2)" "Logout demo_env True background ''s-a'' w2 = (Inr (), w3)"
      "PrincipalCache_Put demo_env True p w3 = (Inr (), w4)" "pool_db w2 = demo_db" "calls w4 \<le> Suc (calls w3)"
    using demo_late_cache by blast
  have "redis_now demo_env (calls w4) < redis_now demo_env (calls w3) + redis_ttl demo_env (5 * minute)"
    using run(6) by (simp add: duration_defs)
  then show ?thesis
    using header_outlives_logout [OF run(1-4)] run(5) demo_integrity by (auto simp: uuid_canonical_def)
qed

end
