(* ===== verification/Janus_Liveness.thy ===== *)
theory Janus_Liveness
  imports Janus_Progress
begin

text \<open>
  What else succeeds while the services answer: refreshing a session that may be refreshed. As for the
  login, one lemma says of each call that it gets through, and what the database holds after it.
\<close>

section \<open>Refreshing\<close>

text \<open>A session that may be refreshed at a time, whose tenant, identity and user are there.\<close>

definition refreshable :: "env \<Rightarrow> database \<Rightarrow> time \<Rightarrow> session \<Rightarrow> bool" where
  "refreshable E d at s \<longleftrightarrow> ssRevokedAt s = None \<and> at \<le> ssExpiresAt s \<and> pg_uuid E (ssID s) = Some (ssID s)
     \<and> known_subject E d (heir_of s [])"

lemma runs_find_refreshable:
  assumes "ready E cx" "\<exists>s \<in> set (sessions (pool_db w)). ssRefreshTokenHash s = token_Hash tok"
    and "\<forall>s \<in> set (sessions (pool_db w)). ssRefreshTokenHash s = token_Hash tok \<longrightarrow>
           refreshable E (pool_db w) (clock_at E (Suc (calls w))) s"
  shows "runs (find_refreshable E cx e tok) w (\<lambda>s w'. s \<in> set (sessions (pool_db w))
     \<and> refreshable E (pool_db w) (clock_at E (Suc (calls w))) s \<and> pool_db w' = pool_db w)"
  unfolding find_refreshable_def SessionRepo_GetByRefreshTokenHash_def
proof (rule runs_bindE, rule runs_or_err, rule runs_query_row [OF assms(1) refl])
  show "filter (\<lambda>s. ssRefreshTokenHash s = token_Hash tok) (sessions (pool_db w)) \<noteq> []"
    using assms(2) by (auto simp: filter_empty_conv)
  fix s assume s: "s \<in> set (filter (\<lambda>s. ssRefreshTokenHash s = token_Hash tok) (sessions (pool_db w)))"
  then have refr: "refreshable E (pool_db w) (clock_at E (Suc (calls w))) s"
    using assms(3) by simp
  then have "\<not> ssExpiresAt s < clock_at E (Suc (calls w))" "ssRevokedAt s = None"
    by (simp_all add: refreshable_def)
  then show "runs (if ssRevokedAt s \<noteq> None then raise e
      else bindE (now E) (\<lambda>at. if ssExpiresAt s < at then raise e else ret s)) (tick w)
      (\<lambda>s w'. s \<in> set (sessions (pool_db w)) \<and> refreshable E (pool_db w) (clock_at E (Suc (calls w))) s \<and> pool_db w' = pool_db w)"
    using refr s by (auto intro!: runs_bindE runs_now runs_ret)
qed

lemma runs_Revoke:
  assumes "ready E cx" "pg_uuid E sid = Some k"
    and "\<And>t w'. pool_db w' = (pool_db w)\<lparr>sessions := revoke k t (sessions (pool_db w))\<rparr> \<Longrightarrow> Q () w'"
  shows "runs (SessionRepo_Revoke E cx sid) w Q"
proof -
  have "SessionRepo_Revoke E cx sid w =
      (Inr (), (tick w)\<lparr>pool_db := (pool_db w)\<lparr>sessions := revoke k (db_now E (calls w)) (sessions (pool_db w))\<rparr>\<rparr>)"
    using assms(2) readyD(5,6) [OF assms(1)] by (simp add: SessionRepo_Revoke_def exec_sql_def upd_sessions_def revoke_def)
  then show ?thesis
    using assms(3) by (rule runsI) simp
qed

lemma runs_PrincipalCache_Delete:
  assumes "\<And>w'. pool_db w' = pool_db w \<Longrightarrow> Q () w'"
  shows "runs (PrincipalCache_Delete E cached sid) w Q"
proof -
  obtain w' where del: "PrincipalCache_Delete E cached sid w = (Inr (), w')"
    by (cases cached) (simp_all add: PrincipalCache_Delete_def tryM_def ret_def)
  then have "pool_db w' = pool_db w"
    using db_freeD [OF db_free_stores(9) del] by simp
  then show ?thesis
    using del assms by (intro runsI)
qed

lemma known_subject_sessions [simp]: "known_subject E (d\<lparr>sessions := ss\<rparr>) f = known_subject E d f"
  by (simp add: known_subject_def)

lemma runs_identity:
  assumes "ready E cx" "pg_uuid E i = Some k" "k \<in> iID ` set (identities (pool_db w))" "\<And>x. Q x (tick w)"
  shows "runs (IdentityRepo_GetByID E cx i) w Q"
  unfolding IdentityRepo_GetByID_def
  by (rule runs_query_row [OF assms(1), where rs = "filter (\<lambda>x. iID x = k) (identities (pool_db w))"])
    (use assms in \<open>auto simp: where_uuid_def filter_empty_conv\<close>)

text \<open>The database after the session was revoked, and after its successor was stored.\<close>

definition parent_revoked :: "database \<Rightarrow> session \<Rightarrow> world \<Rightarrow> bool" where
  "parent_revoked d s v \<longleftrightarrow> (\<exists>t. pool_db v = d\<lparr>sessions := revoke (ssID s) t (sessions d)\<rparr>)"

definition heir_stored :: "env \<Rightarrow> database \<Rightarrow> world \<Rightarrow> bool" where
  "heir_stored E d v \<longleftrightarrow> can_sign E (pool_db v) \<and> identities (pool_db v) = identities d"

lemma stages_tick [simp]: "parent_revoked d s (tick v) = parent_revoked d s v" "heir_stored E d (tick v) = heir_stored E d v"
  by (simp_all add: parent_revoked_def heir_stored_def)

lemma revoke_ids [simp]: "ssID ` set (revoke k t ss) = ssID ` set ss"
  unfolding revoke_def set_map image_image by (rule image_cong) auto

lemma runs_heir:
  assumes "ready E cx" "refreshable E d at0 s" "s \<in> set (sessions d)" "can_sign E d" "fresh_ids E d" "parent_revoked d s v"
  shows "runs (SessionRepo_Create E cx (fresh_session (heir_of s []) (Some (ssID s)) (uuid_at E n) h at)) v (\<lambda>_. heir_stored E d)"
proof -
  obtain t where v: "pool_db v = d\<lparr>sessions := revoke (ssID s) t (sessions d)\<rparr>"
    using assms(6) by (auto simp: parent_revoked_def)
  have "fresh_ids E (pool_db v)"
    using assms(5) revoke_ids [of "ssID s" t "sessions d"] unfolding fresh_ids_def v by (auto simp del: revoke_ids)
  moreover have "known_parent E (pool_db v) (Some (ssID s))"
    using assms(2,3) by (simp add: known_parent_def refreshable_def v)
  ultimately show ?thesis
    using assms(2,4) by (intro runs_SessionRepo_Create [OF assms(1)]) (simp_all add: v refreshable_def heir_stored_def)
qed

lemma runs_replace_session:
  assumes "ready E cx" "refreshable E (pool_db w) at0 s" "s \<in> set (sessions (pool_db w))" "can_sign E (pool_db w)" "fresh_ids E (pool_db w)"
  shows "runs (replace_session E issuer cx (PrincipalCache_Delete E cached) aud s) w (\<lambda>_ _. True)"
proof -
  obtain i u where ids: "pg_uuid E (ssIdentityID s) = Some i" "i \<in> iID ` set (identities (pool_db w))" "pg_uuid E (ssUserID s) = Some u"
    using assms(2) by (auto simp: refreshable_def known_subject_def heir_of_def)
  have sid: "pg_uuid E (ssID s) = Some (ssID s)"
    using assms(2) by (simp add: refreshable_def)
  have revoked: "runs (SessionRepo_Revoke E cx (ssID s)) w (\<lambda>_. parent_revoked (pool_db w) s)"
    by (rule runs_Revoke [OF assms(1) sid]) (auto simp: parent_revoked_def)
  have deleted: "runs (PrincipalCache_Delete E cached (ssID s)) v (\<lambda>_. parent_revoked (pool_db w) s)" if "parent_revoked (pool_db w) s v" for v
    using that by (intro runs_PrincipalCache_Delete) (simp add: parent_revoked_def)
  note heir = runs_heir [OF assms]
  show ?thesis
    unfolding replace_session_def issue_for_def GetRolesForUser_def GetPermissionsForUser_def Let_def
    by (rule runs_bindE, rule runs_conseq [OF revoked], rule runs_bindE, erule runs_conseq [OF deleted],
        intro runs_bindE runs_GenerateRandom [OF assms(1)] runs_now runs_new_id, rule runs_conseq [OF heir], simp,
        intro runs_bindE runs_identity [OF assms(1) ids(1)] runs_query_rows [OF assms(1)]
          runs_conseq [OF runs_signed [OF assms(1)]] runs_ret)
      (use ids in \<open>simp_all add: heir_stored_def where_uuid_def\<close>)
qed

section \<open>Properties\<close>

text \<open>
  C33: while the services answer, a token is refreshed if there is a session of it and every such session
  may be refreshed: not revoked, not expired, of a tenant, identity and user that are there.
\<close>

theorem refresh_succeeds:
  assumes "ready E cx" "can_sign E (pool_db w)" "fresh_ids E (pool_db w)"
    and "\<exists>s \<in> set (sessions (pool_db w)). ssRefreshTokenHash s = token_Hash tok"
    and "\<forall>s \<in> set (sessions (pool_db w)). ssRefreshTokenHash s = token_Hash tok \<longrightarrow>
           refreshable E (pool_db w) (clock_at E (Suc (calls w))) s"
  shows "\<exists>out w'. Refresh E issuer cached cx tok w = (Inr out, w')"
proof -
  have "runs (Refresh E issuer cached cx tok) w (\<lambda>_ _. True)"
    unfolding Refresh_def
    by (rule runs_bindE, rule runs_conseq [OF runs_find_refreshable [OF assms(1,4,5)]])
      (use assms(2,3) in \<open>auto intro: runs_replace_session [OF assms(1)]\<close>)
  then show ?thesis
    by (auto simp: runs_def)
qed

theorem refresh_succeeds_witness:
  "\<exists>out w'. Refresh demo_env ''iss'' True background ''r'' (world_of demo_refresh_db) = (Inr out, w')"
proof -
  have "can_sign demo_env demo_refresh_db" "fresh_ids demo_env demo_refresh_db"
    using demo_can_sign by (simp_all add: demo_refresh_db_def fresh_ids_def demo_session_def)
  then show ?thesis
    using refresh_succeeds [OF demo_ready, of "world_of demo_refresh_db" "''r''"]
    by (simp add: demo_refresh_db_def refreshable_def known_subject_def heir_of_def inet_opt_def demo_session_def demo_db_def demo_tenant_def)
qed

end
