(* ===== verification/Janus_Oneshot.thy ===== *)
theory Janus_Oneshot
  imports Janus_Store
begin

text \<open>
  What a one-shot store promises, as an abstract machine over a map of offers, and the refinement: a
  run of the authorization-code store in Redis is a run of that machine. An offer may disappear at any
  moment, since keys expire.
\<close>

section \<open>The abstract store\<close>

datatype ('k, 'v) store_event = Put 'k 'v | PutFailed 'k | Took 'k 'v | Missed 'k

inductive spec_run :: "('k \<rightharpoonup> 'v) \<Rightarrow> ('k, 'v) store_event list \<Rightarrow> ('k \<rightharpoonup> 'v) \<Rightarrow> bool" where
  stop: "spec_run m [] m"
| expire: "m1 \<subseteq>\<^sub>m m \<Longrightarrow> spec_run m1 es m' \<Longrightarrow> spec_run m es m'"
| put: "spec_run (m(k \<mapsto> v)) es m' \<Longrightarrow> spec_run m (Put k v # es) m'"
| put_failed: "spec_run m es m' \<Longrightarrow> spec_run m (PutFailed k # es) m'"
| took: "m k = Some v \<Longrightarrow> spec_run (m(k := None)) es m' \<Longrightarrow> spec_run m (Took k v # es) m'"
| missed: "spec_run m es m' \<Longrightarrow> spec_run m (Missed k # es) m'"

text \<open>The abstract machine hands out only what was put, and each thing once.\<close>

fun puts_of :: "'k \<Rightarrow> ('k, 'v) store_event list \<Rightarrow> 'v list" where
  "puts_of k [] = []"
| "puts_of k (Put k' v # es) = (if k' = k then v # puts_of k es else puts_of k es)"
| "puts_of k (_ # es) = puts_of k es"

fun takes_of :: "'k \<Rightarrow> ('k, 'v) store_event list \<Rightarrow> 'v list" where
  "takes_of k [] = []"
| "takes_of k (Took k' v # es) = (if k' = k then v # takes_of k es else takes_of k es)"
| "takes_of k (_ # es) = takes_of k es"

lemma spec_takes_bound:
  "spec_run m es m' \<Longrightarrow> length (takes_of k es) \<le> length (puts_of k es) + (if m k = None then 0 else 1)"
proof (induction arbitrary: k rule: spec_run.induct)
  case (expire m1 m es m')
  then have "m k = None \<Longrightarrow> m1 k = None"
    by (metis domIff map_le_def)
  then show ?case
    using expire.IH [of k] by (auto split: if_splits)
next
  case (put m k' v es m')
  then show ?case
    using put.IH [of k] by (cases "k' = k"; cases "m k = None") auto
next
  case (took m k' v es m')
  then show ?case
    using took.IH [of k] took.hyps(1) by (cases "k' = k"; cases "m k = None") auto
qed (auto split: if_splits)

section \<open>The codes in Redis\<close>

definition live_values :: "env \<Rightarrow> string \<Rightarrow> (redis_value \<Rightarrow> 'v option) \<Rightarrow> world \<Rightarrow> string \<rightharpoonup> 'v" where
  "live_values E prefix decode w = (\<lambda>k. Option.bind (redis_live E w (prefix @ k)) decode)"

fun code_trace ::
  "env \<Rightarrow> (string, auth_code) store_op list \<Rightarrow> world \<Rightarrow> (string, auth_code) store_event list \<times> world" where
  "code_trace E [] w = ([], w)"
| "code_trace E (StoreOp k c # ops) w =
     (let (r, w1) = CodeStore_Store E (c\<lparr>acCode := k\<rparr>) w; (es, w2) = code_trace E ops w1 in
      ((case r of Inl _ \<Rightarrow> PutFailed k | Inr _ \<Rightarrow> Put k (json_code (c\<lparr>acCode := k\<rparr>))) # es, w2))"
| "code_trace E (ConsumeOp k # ops) w =
     (let (r, w1) = CodeStore_Consume E k w; (es, w2) = code_trace E ops w1 in
      ((case r of Inl _ \<Rightarrow> Missed k | Inr c \<Rightarrow> Took k c) # es, w2))"

section \<open>Simulation\<close>

text \<open>Redis' clock does not run backwards.\<close>

lemma redis_live_mono:
  assumes "mono (redis_now E)" "calls w \<le> calls w'" "redis w' key = redis w key" "redis_live E w' key = Some v"
  shows "redis_live E w key = Some v"
  using assms monoD [OF assms(1,2)] by (auto simp: redis_live_def split: option.splits if_splits)

lemma live_values_later:
  assumes "mono (redis_now E)" "calls w \<le> calls w'" "redis w' = redis w"
  shows "live_values E prefix decode w' \<subseteq>\<^sub>m live_values E prefix decode w"
  unfolding map_le_def live_values_def
proof
  fix k assume "k \<in> dom (\<lambda>k. Option.bind (redis_live E w' (prefix @ k)) decode)"
  then obtain v where "redis_live E w' (prefix @ k) = Some v"
    by (auto simp: bind_eq_Some_conv)
  then show "Option.bind (redis_live E w' (prefix @ k)) decode = Option.bind (redis_live E w (prefix @ k)) decode"
    using redis_live_mono [OF assms(1,2)] assms(3) by metis
qed

lemma live_values_changed:
  assumes "mono (redis_now E)" "calls w \<le> calls w'" "\<And>key. key \<noteq> prefix @ k \<Longrightarrow> redis w' key = redis w key"
    and "live_values E prefix decode w' k = x \<or> live_values E prefix decode w' k = None"
  shows "live_values E prefix decode w' \<subseteq>\<^sub>m (live_values E prefix decode w)(k := x)"
  unfolding map_le_def
proof
  fix k' assume dom: "k' \<in> dom (live_values E prefix decode w')"
  show "live_values E prefix decode w' k' = ((live_values E prefix decode w)(k := x)) k'"
  proof (cases "k' = k")
    case True
    then show ?thesis
      using dom assms(4) by auto
  next
    case False
    then obtain v where "redis_live E w' (prefix @ k') = Some v" "redis w' (prefix @ k') = redis w (prefix @ k')"
      using dom assms(3) by (auto simp: live_values_def bind_eq_Some_conv)
    then show ?thesis
      using redis_live_mono [OF assms(1,2)] False by (simp add: live_values_def)
  qed
qed

lemma store_simulated:
  assumes "mono (redis_now E)" "CodeStore_Store E c w = (r, w')"
  shows "case r of
      Inl _ \<Rightarrow> live_values E codePrefix as_code w' \<subseteq>\<^sub>m live_values E codePrefix as_code w
    | Inr _ \<Rightarrow> live_values E codePrefix as_code w' \<subseteq>\<^sub>m (live_values E codePrefix as_code w)(acCode c \<mapsto> json_code c)"
proof (cases r)
  case (Inl e)
  then have "redis w' = redis w" "calls w \<le> calls w'"
    using assms(2) by (auto simp: CodeStore_Store_def bindE_def now_def redis_set_def Let_def raise_def split: if_splits option.splits)
  then show ?thesis
    using live_values_later [OF assms(1)] Inl by simp
next
  case (Inr u)
  then obtain t where r: "redis w' = (redis w)(codePrefix @ acCode c \<mapsto> (RvCode (json_code c), t))" "calls w \<le> calls w'"
    using assms(2) by (auto simp: CodeStore_Store_def bindE_def now_def redis_set_def Let_def raise_def split: if_splits option.splits)
  have "live_values E codePrefix as_code w' (acCode c) = Some (json_code c) \<or> live_values E codePrefix as_code w' (acCode c) = None"
    using r(1) by (auto simp: live_values_def redis_live_def)
  then show ?thesis
    using live_values_changed [OF assms(1) r(2), where prefix = codePrefix and k = "acCode c"] r(1) Inr by simp
qed

lemma consume_simulated:
  assumes "mono (redis_now E)" "CodeStore_Consume E k w = (r, w')"
  shows "case r of
      Inl _ \<Rightarrow> live_values E codePrefix as_code w' \<subseteq>\<^sub>m live_values E codePrefix as_code w
    | Inr c \<Rightarrow> live_values E codePrefix as_code w k = Some c
        \<and> live_values E codePrefix as_code w' \<subseteq>\<^sub>m (live_values E codePrefix as_code w)(k := None)"
proof -
  have same: "\<And>key. key \<noteq> codePrefix @ k \<Longrightarrow> redis w' key = redis w key" "calls w \<le> calls w'"
    using assms(2) by (auto simp: CodeStore_Consume_def consume_def bindE_def attempt_def raise_def ret_def redis_getdel_def
        split: option.splits sum.splits)
  show ?thesis
  proof (cases r)
    case (Inl e)
    then have "redis w' = redis w \<or> redis w' (codePrefix @ k) = None"
      using consume_state [of E "codePrefix @ k" as_code w] assms(2) unfolding CodeStore_Consume_def by auto
    then have "live_values E codePrefix as_code w' \<subseteq>\<^sub>m live_values E codePrefix as_code w"
    proof
      assume "redis w' (codePrefix @ k) = None"
      then have "live_values E codePrefix as_code w' k = None"
        by (simp add: live_values_def redis_live_def)
      then have "live_values E codePrefix as_code w' \<subseteq>\<^sub>m (live_values E codePrefix as_code w)(k := None)"
        by (intro live_values_changed [OF assms(1) same(2,1)]) simp_all
      then show ?thesis
        by (rule map_le_trans) (rule upd_None_map_le)
    qed (rule live_values_later [OF assms(1) same(2)])
    then show ?thesis
      using Inl by simp
  next
    case (Inr c)
    then obtain v where v: "redis_live E w (codePrefix @ k) = Some v" "as_code v = Some c" "redis w' (codePrefix @ k) = None"
      using consume_InrD [OF assms(2) [unfolded CodeStore_Consume_def Inr]] by auto
    then have "live_values E codePrefix as_code w k = Some c" "live_values E codePrefix as_code w' k = None"
      by (simp_all add: live_values_def redis_live_def)
    then show ?thesis
      using live_values_changed [OF assms(1) same(2,1), where decode = as_code and x = None] Inr by simp
  qed
qed

lemma code_trace_refines:
  assumes "mono (redis_now E)" "code_trace E ops w = (es, w')"
  shows "spec_run (live_values E codePrefix as_code w) es (live_values E codePrefix as_code w')"
  using assms(2)
proof (induction ops arbitrary: w es)
  case Nil
  then show ?case
    by (simp add: spec_run.stop)
next
  case (Cons op ops)
  show ?case
  proof (cases op)
    case (StoreOp k c)
    obtain r w1 es1 where st: "CodeStore_Store E (c\<lparr>acCode := k\<rparr>) w = (r, w1)" and tr: "code_trace E ops w1 = (es1, w')"
      and es: "es = (case r of Inl _ \<Rightarrow> PutFailed k | Inr _ \<Rightarrow> Put k (json_code (c\<lparr>acCode := k\<rparr>))) # es1"
      using Cons.prems StoreOp by (auto simp: Let_def split: prod.splits)
    show ?thesis
      using store_simulated [OF assms(1) st] es spec_run.expire [OF _ Cons.IH [OF tr]]
      by (cases r) (auto intro: spec_run.put spec_run.put_failed)
  next
    case (ConsumeOp k)
    obtain r w1 es1 where st: "CodeStore_Consume E k w = (r, w1)" and tr: "code_trace E ops w1 = (es1, w')"
      and es: "es = (case r of Inl _ \<Rightarrow> Missed k | Inr c \<Rightarrow> Took k c) # es1"
      using Cons.prems ConsumeOp by (auto simp: Let_def split: prod.splits)
    show ?thesis
      using consume_simulated [OF assms(1) st] es spec_run.expire [OF _ Cons.IH [OF tr]]
      by (cases r) (auto intro: spec_run.took spec_run.missed)
  qed
qed

section \<open>Properties\<close>

text \<open>
  C10: the store of authorization codes refines the abstract one-shot store: every sequence of stores
  and consumes in Redis, with any failures and expiries, is a run of the abstract machine on the live
  codes; hence a code is handed out at most as often as it was stored.
\<close>

theorem code_store_refines:
  assumes "mono (redis_now E)" "code_trace E ops w = (es, w')"
  shows "spec_run (live_values E codePrefix as_code w) es (live_values E codePrefix as_code w')
    \<and> (redis w = Map.empty \<longrightarrow> length (takes_of k es) \<le> length (puts_of k es))"
proof (intro conjI impI)
  show run: "spec_run (live_values E codePrefix as_code w) es (live_values E codePrefix as_code w')"
    by (rule code_trace_refines [OF assms])
  assume "redis w = Map.empty"
  then show "length (takes_of k es) \<le> length (puts_of k es)"
    using spec_takes_bound [OF run, of k] by (simp add: live_values_def redis_live_def)
qed

lemma demo_code_eval: "acExpiresAt demo_code = 60000000000" "demo_code\<lparr>acCode := ''abc''\<rparr> = demo_code" "acCode demo_code = ''abc''"
  by (simp_all add: demo_code_def)

theorem code_store_refines_witness:
  "takes_of ''abc'' (fst (code_trace demo_env [StoreOp ''abc'' demo_code, ConsumeOp ''abc'', ConsumeOp ''abc''] demo_world)) = [demo_code]
     \<and> (\<exists>m. spec_run Map.empty (fst (code_trace demo_env [StoreOp ''abc'' demo_code, ConsumeOp ''abc'', ConsumeOp ''abc''] demo_world)) m)"
proof -
  have mono: "mono (redis_now demo_env)"
    by (auto intro: monoI)
  obtain es w' where tr: "code_trace demo_env [StoreOp ''abc'' demo_code, ConsumeOp ''abc'', ConsumeOp ''abc''] demo_world = (es, w')"
    by fastforce
  have "live_values demo_env codePrefix as_code demo_world = Map.empty"
    by (simp add: live_values_def redis_live_def demo_world_def)
  moreover have json: "json_code (demo_code\<lparr>acCode := ''abc''\<rparr>) = demo_code"
    by (simp add: json_code_def demo_code_def ascii_def)
  moreover have "es = [Put ''abc'' demo_code, Took ''abc'' demo_code, Missed ''abc'']"
    using tr json by (simp add: demo_code_eval CodeStore_Store_def CodeStore_Consume_def consume_def run_simps redis_set_def
        redis_getdel_def redis_live_def Let_def demo_world_def)
  ultimately show ?thesis
    using code_store_refines [OF mono tr] tr by auto
qed

end
