(* ===== verification/Janus_Platform.thy ===== *)
theory Janus_Platform
  imports Janus_Server
begin

text \<open>
  \<^verbatim>\<open>internal/platform\<close>: the configuration with its defaults, the two database pools, and the two
  middlewares that record a response, for the log and for the metrics. Opening a pool is a parameter;
  what a handler does to its \<^verbatim>\<open>ResponseWriter\<close> is a list of calls.
\<close>

section \<open>Configuration\<close>

record config =
  cfAppEnv :: string
  cfHTTPPort :: string
  cfDatabaseURL :: string
  cfDatabaseReadURL :: string
  cfRedisAddr :: string
  cfNATSURL :: string
  cfJWTIssuer :: string
  cfWebAuthnRPID :: string
  cfWebAuthnName :: string
  cfWebAuthnOrigin :: string

text \<open>\<open>env_var\<close> is \<^verbatim>\<open>os.Getenv\<close> after \<^verbatim>\<open>godotenv.Load\<close>: empty when the variable is not set.\<close>

definition getEnv :: "(string \<Rightarrow> string) \<Rightarrow> string \<Rightarrow> string \<Rightarrow> string" where
  "getEnv env_var key fallback = (let val = env_var key in if val = [] then fallback else val)"

definition Load :: "(string \<Rightarrow> string) \<Rightarrow> config" where
  "Load env_var = \<lparr>
     cfAppEnv = getEnv env_var ''APP_ENV'' ''development'',
     cfHTTPPort = getEnv env_var ''HTTP_PORT'' ''8080'',
     cfDatabaseURL = getEnv env_var ''DATABASE_URL'' [],
     cfDatabaseReadURL = getEnv env_var ''DATABASE_READ_URL'' [],
     cfRedisAddr = getEnv env_var ''REDIS_ADDR'' ''localhost:6380'',
     cfNATSURL = getEnv env_var ''NATS_URL'' ''nats://localhost:4223'',
     cfJWTIssuer = getEnv env_var ''JWT_ISSUER'' ''http://localhost:8080'',
     cfWebAuthnRPID = getEnv env_var ''WEBAUTHN_RPID'' ''localhost'',
     cfWebAuthnName = getEnv env_var ''WEBAUTHN_NAME'' ''Auth Server'',
     cfWebAuthnOrigin = getEnv env_var ''WEBAUTHN_ORIGIN'' ''http://localhost:3000'' \<rparr>"

section \<open>Connection pools\<close>

text \<open>What becomes of the \<open>n\<close>th attempt to open a pool; the open pools, and the number of the next one.\<close>

datatype connect_outcome = BadConfig | NotCreated | NoAnswer | Connected

record pool_world =
  pwNext :: nat
  pwOpen :: "nat set"

record pools =
  plWriter :: "nat option"
  plReader :: "nat option"

text \<open>A pool that was created stays open when its \<^verbatim>\<open>Ping\<close> fails.\<close>

definition postgres_New :: "(string \<Rightarrow> nat \<Rightarrow> connect_outcome) \<Rightarrow> string \<Rightarrow> pool_world \<Rightarrow> (error + nat) \<times> pool_world" where
  "postgres_New connect url w =
     (let n = pwNext w; opened = w\<lparr>pwNext := Suc n, pwOpen := insert n (pwOpen w)\<rparr> in
      case connect url n of
        BadConfig \<Rightarrow> (Inl (ErrMsg ''parse postgres config''), w\<lparr>pwNext := Suc n\<rparr>)
      | NotCreated \<Rightarrow> (Inl (ErrMsg ''create postgres pool''), w\<lparr>pwNext := Suc n\<rparr>)
      | NoAnswer \<Rightarrow> (Inl (ErrMsg ''ping postgres''), opened)
      | Connected \<Rightarrow> (Inr n, opened))"

definition close_pool :: "nat \<Rightarrow> pool_world \<Rightarrow> pool_world" where
  "close_pool n w = w\<lparr>pwOpen := pwOpen w - {n}\<rparr>"

definition NewPools :: "(string \<Rightarrow> nat \<Rightarrow> connect_outcome) \<Rightarrow> string \<Rightarrow> string \<Rightarrow> pool_world \<Rightarrow> (error + pools) \<times> pool_world" where
  "NewPools connect writerURL readerURL w =
     (case postgres_New connect writerURL w of
        (Inl e, w1) \<Rightarrow> (Inl e, w1)
      | (Inr wr, w1) \<Rightarrow>
          if readerURL = [] \<or> readerURL = writerURL then (Inr \<lparr> plWriter = Some wr, plReader = Some wr \<rparr>, w1)
          else
            (case postgres_New connect readerURL w1 of
               (Inl e, w2) \<Rightarrow> (Inl e, close_pool wr w2)
             | (Inr rd, w2) \<Rightarrow> (Inr \<lparr> plWriter = Some wr, plReader = Some rd \<rparr>, w2)))"

text \<open>Closing works on a nil pointer too; a shared pool is closed once.\<close>

definition Pools_Close :: "pools option \<Rightarrow> pool_world \<Rightarrow> pool_world" where
  "Pools_Close po w =
     (case po of
        None \<Rightarrow> w
      | Some p \<Rightarrow>
          let w1 = (case plWriter p of None \<Rightarrow> w | Some n \<Rightarrow> close_pool n w) in
          (case plReader p of None \<Rightarrow> w1
           | Some n \<Rightarrow> if plReader p \<noteq> plWriter p then close_pool n w1 else w1))"

section \<open>Recording responses\<close>

text \<open>
  The calls of a handler: \<^verbatim>\<open>WriteHeader\<close> with a status and \<^verbatim>\<open>Write\<close> of so many bytes. The status that
  goes out is that of the first call.
\<close>

datatype response_call = CallWriteHeader nat | CallWrite nat

fun sent_status :: "response_call list \<Rightarrow> nat" where
  "sent_status (CallWriteHeader s # _) = s"
| "sent_status _ = 200"

record recorder =
  rcStatus :: nat
  rcBytes :: nat

text \<open>\<^verbatim>\<open>httpserver.statusRecorder\<close> and \<^verbatim>\<open>metrics.statusRecorder\<close>.\<close>

fun log_call :: "response_call \<Rightarrow> recorder \<Rightarrow> recorder" where
  "log_call (CallWriteHeader s) rc = rc\<lparr>rcStatus := s\<rparr>"
| "log_call (CallWrite n) rc =
     rc\<lparr>rcStatus := (if rcStatus rc = 0 then 200 else rcStatus rc), rcBytes := rcBytes rc + n\<rparr>"

fun metrics_call :: "response_call \<Rightarrow> nat \<Rightarrow> nat" where
  "metrics_call (CallWriteHeader s) st = s"
| "metrics_call (CallWrite n) st = st"

datatype log_level = LevelInfo | LevelWarn | LevelError

record log_line =
  llLevel :: log_level
  llMethod :: string
  llPath :: string
  llStatus :: nat
  llDuration :: time
  llBytes :: nat
  llRemote :: string
  llUserAgent :: string

definition RequestLogger :: "time \<Rightarrow> time \<Rightarrow> http_request \<Rightarrow> string \<Rightarrow> response_call list \<Rightarrow> log_line" where
  "RequestLogger start finish rq path cs =
     (let rc = fold log_call cs \<lparr> rcStatus = 0, rcBytes = 0 \<rparr>;
          status = (if rcStatus rc = 0 then 200 else rcStatus rc) in
      \<lparr> llLevel = (if 500 \<le> status then LevelError else if 400 \<le> status then LevelWarn else LevelInfo),
        llMethod = hrVerb rq, llPath = path, llStatus = status, llDuration = finish - start,
        llBytes = rcBytes rc, llRemote = hrRemoteAddr rq, llUserAgent = hrUserAgent rq \<rparr>)"

text \<open>
  The package's instruments: a counter is a function of its labels, a histogram keeps what it observed (the buckets
  are Prometheus' own). \<open>register\<close> is Prometheus' \<^verbatim>\<open>MustRegister\<close>.
\<close>

datatype instrument_kind = CounterVec | HistogramVec | PlainCounter

record instrument =
  imKind :: instrument_kind
  imName :: string
  imLabels :: "string list"

definition instruments :: "instrument list" where
  "instruments =
     [\<lparr> imKind = CounterVec, imName = ''auth_http_requests_total'', imLabels = [''method'', ''route'', ''status''] \<rparr>,
      \<lparr> imKind = HistogramVec, imName = ''auth_http_request_duration_seconds'', imLabels = [''method'', ''route'', ''status''] \<rparr>,
      \<lparr> imKind = CounterVec, imName = ''auth_events_total'', imLabels = [''event''] \<rparr>,
      \<lparr> imKind = PlainCounter, imName = ''auth_principal_cache_hits_total'', imLabels = [] \<rparr>,
      \<lparr> imKind = PlainCounter, imName = ''auth_principal_cache_misses_total'', imLabels = [] \<rparr>]"

definition metrics_init :: "(instrument list \<Rightarrow> 'r) \<Rightarrow> 'r" where
  "metrics_init register = register instruments"

type_synonym labels = "string \<times> string \<times> string"

record metrics =
  mtRequests :: "labels \<Rightarrow> nat"
  mtDurations :: "labels \<Rightarrow> time list"

definition metrics_Middleware ::
  "string option \<Rightarrow> time \<Rightarrow> time \<Rightarrow> http_request \<Rightarrow> response_call list \<Rightarrow> metrics \<Rightarrow> metrics" where
  "metrics_Middleware route_fn start finish rq cs m =
     (let route = (case route_fn of None \<Rightarrow> ''unknown'' | Some rt \<Rightarrow> if rt \<noteq> [] then rt else ''unknown'');
          labels = (hrVerb rq, route, itoa (fold metrics_call cs 200)) in
      m\<lparr>mtRequests := (mtRequests m)(labels := Suc (mtRequests m labels)),
        mtDurations := (mtDurations m)(labels := mtDurations m labels @ [finish - start])\<rparr>)"

text \<open>The function \<^verbatim>\<open>main\<close> passes: the pattern chi matched, else the path.\<close>

definition main_route :: "string option \<Rightarrow> string \<Rightarrow> string" where
  "main_route pattern path = (case pattern of Some p \<Rightarrow> if p \<noteq> [] then p else path | None \<Rightarrow> path)"

section \<open>What they do\<close>

lemma getEnv_cases: "getEnv v k fb = fb \<and> v k = [] \<or> getEnv v k fb = v k \<and> v k \<noteq> []"
  by (simp add: getEnv_def Let_def)

text \<open>No setting but the two database addresses can be empty.\<close>

theorem config_complete:
  "cfAppEnv (Load v) \<noteq> [] \<and> cfHTTPPort (Load v) \<noteq> [] \<and> cfRedisAddr (Load v) \<noteq> [] \<and> cfNATSURL (Load v) \<noteq> []
     \<and> cfJWTIssuer (Load v) \<noteq> [] \<and> cfWebAuthnRPID (Load v) \<noteq> [] \<and> cfWebAuthnName (Load v) \<noteq> []
     \<and> cfWebAuthnOrigin (Load v) \<noteq> []"
  by (simp add: Load_def getEnv_def Let_def)

definition pools_well_numbered :: "pool_world \<Rightarrow> bool" where
  "pools_well_numbered w \<longleftrightarrow> (\<forall>n \<in> pwOpen w. n < pwNext w)"

text \<open>
  Pools are not leaked, unless a server accepts the connection and then does not answer: closing what
  \<^verbatim>\<open>NewPools\<close> returned leaves open what was open before, and after an error nothing new is open.
\<close>

theorem pools_closed:
  assumes "NewPools connect a b w = (r, w')" "pools_well_numbered w" "\<And>url n. connect url n \<noteq> NoAnswer"
  shows "case r of Inl _ \<Rightarrow> pwOpen w' = pwOpen w | Inr p \<Rightarrow> pwOpen (Pools_Close (Some p) w') = pwOpen w"
proof -
  have "pwNext w \<notin> pwOpen w" "Suc (pwNext w) \<notin> pwOpen w"
    using assms(2) by (auto simp: pools_well_numbered_def)
  then show ?thesis
    using assms(1,3)
    by (auto simp: NewPools_def postgres_New_def close_pool_def Pools_Close_def Let_def
        split: connect_outcome.splits if_splits)
qed

theorem pools_closed_witness:
  "case fst (NewPools (\<lambda>_ _. Connected) ''w'' ''r'' \<lparr> pwNext = 0, pwOpen = {} \<rparr>) of
     Inl _ \<Rightarrow> False
   | Inr p \<Rightarrow> pwOpen (Pools_Close (Some p) (snd (NewPools (\<lambda>_ _. Connected) ''w'' ''r'' \<lparr> pwNext = 0, pwOpen = {} \<rparr>))) = {}"
  using pools_closed [of "\<lambda>_ _. Connected" "''w''" "''r''" "\<lparr> pwNext = 0, pwOpen = {} \<rparr>"]
  by (simp add: NewPools_def postgres_New_def pools_well_numbered_def Let_def)

text \<open>
  When a handler calls \<^verbatim>\<open>WriteHeader\<close> only before it writes, and once, the log and the metrics name the
  status that was sent.
\<close>

definition header_first :: "response_call list \<Rightarrow> bool" where
  "header_first cs \<longleftrightarrow> list_all (\<lambda>c. case c of CallWrite _ \<Rightarrow> True | CallWriteHeader _ \<Rightarrow> False) (tl cs)"

lemma writes_keep_status:
  "list_all (\<lambda>c. case c of CallWrite _ \<Rightarrow> True | CallWriteHeader _ \<Rightarrow> False) cs \<Longrightarrow>
     fold metrics_call cs s = s \<and> (rcStatus rc \<noteq> 0 \<longrightarrow> rcStatus (fold log_call cs rc) = rcStatus rc)"
proof (induction cs arbitrary: rc)
  case (Cons c cs)
  then show ?case by (cases c) auto
qed simp

lemma recorded:
  assumes "header_first cs"
  shows "fold metrics_call cs 200 = sent_status cs
    \<and> (sent_status cs \<noteq> 0 \<longrightarrow> rcStatus (fold log_call cs \<lparr> rcStatus = 0, rcBytes = 0 \<rparr>) = (if cs = [] then 0 else sent_status cs))"
proof (cases cs)
  case (Cons c tail)
  then show ?thesis
    using assms writes_keep_status by (cases c) (simp_all add: header_first_def)
qed simp

theorem recorded_status:
  assumes "header_first cs" "sent_status cs \<noteq> 0"
  shows "llStatus (RequestLogger start finish rq path cs) = sent_status cs
    \<and> (let ls = (hrVerb rq, if route \<noteq> [] then route else ''unknown'', itoa (sent_status cs));
           m' = metrics_Middleware (Some route) start finish rq cs m in
        mtRequests m' ls = Suc (mtRequests m ls) \<and> mtDurations m' ls = mtDurations m ls @ [finish - start])"
  using recorded [OF assms(1)] assms(2) by (auto simp: RequestLogger_def metrics_Middleware_def Let_def)

text \<open>As many durations are observed as requests are counted, under every label.\<close>

lemma counted_durations:
  assumes "\<And>ls. length (mtDurations m ls) = mtRequests m ls"
  shows "length (mtDurations (metrics_Middleware rf start finish rq cs m) ls)
    = mtRequests (metrics_Middleware rf start finish rq cs m) ls"
  using assms by (simp add: metrics_Middleware_def Let_def)

text \<open>The names differ, so a registry that refuses only a name it has already takes them all.\<close>

lemma instruments_distinct: "metrics_init (\<lambda>is. distinct (map imName is))"
  by (simp add: metrics_init_def instruments_def)

end
