(* ===== verification/Janus_Startup.thy ===== *)
theory Janus_Startup
  imports Janus_Platform
begin

text \<open>
  How the programs of \<^verbatim>\<open>cmd/\<close> start and end: which connections they open in which order, what an
  error makes of the process, and which of the deferred closings run. \<^verbatim>\<open>os.Exit\<close> runs none of them.
\<close>

section \<open>Processes\<close>

datatype resource = DbPool | RedisClient | NatsConn | AuditSubscription | CleanupLoop

text \<open>What is open, the last first, and what was logged.\<close>

record proc =
  prOpen :: "resource list"
  prLog :: "(log_level \<times> string) list"

text \<open>A process ends with a status, or goes on for ever: it serves an address or waits for a signal.\<close>

datatype ending = Exit nat | ServesForever string | WaitsForever

type_synonym 'a boot = "(proc, ending, 'a) comp"

text \<open>The services a program finds, and what it is told by the system.\<close>

record hosts =
  hsPostgres :: "string \<Rightarrow> connect_outcome"
  hsRedisAnswers :: "string \<Rightarrow> bool"
  hsNatsAccepts :: "string \<Rightarrow> bool"
  hsSubscribes :: "string \<Rightarrow> bool"
  hsWebAuthnOk :: "string \<Rightarrow> string \<Rightarrow> string list \<Rightarrow> bool"
  hsListens :: "string \<Rightarrow> bool"
  hsSignal :: "string option"

definition slog :: "log_level \<Rightarrow> string \<Rightarrow> unit boot" where
  "slog lv msg p = (Inr (), p\<lparr>prLog := prLog p @ [(lv, msg)]\<rparr>)"

definition opened_resource :: "resource \<Rightarrow> unit boot" where
  "opened_resource r p = (Inr (), p\<lparr>prOpen := r # prOpen p\<rparr>)"

definition close_resource :: "resource \<Rightarrow> unit boot" where
  "close_resource r p = (Inr (), p\<lparr>prOpen := remove1 r (prOpen p)\<rparr>)"

definition os_exit :: "nat \<Rightarrow> 'a boot" where
  "os_exit n = raise (Exit n)"

text \<open>\<^verbatim>\<open>defer\<close>: only a body that returns runs what it has deferred.\<close>

definition deferring :: "unit boot \<Rightarrow> 'a boot \<Rightarrow> 'a boot" where
  "deferring close body = bindE body (\<lambda>x. bindE close (\<lambda>_. ret x))"

definition or_exit :: "string \<Rightarrow> (error + 'a) boot \<Rightarrow> 'a boot" where
  "or_exit msg m = bindE m (\<lambda>r. case r of
     Inl e \<Rightarrow> bindE (slog LevelError msg) (\<lambda>_. os_exit 1)
   | Inr x \<Rightarrow> ret x)"

section \<open>The connections\<close>

definition open_pool :: "hosts \<Rightarrow> string \<Rightarrow> (error + unit) boot" where
  "open_pool H url =
     (case hsPostgres H url of
        BadConfig \<Rightarrow> ret (Inl (ErrMsg ''parse postgres config''))
      | NotCreated \<Rightarrow> ret (Inl (ErrMsg ''create postgres pool''))
      | NoAnswer \<Rightarrow> bindE (opened_resource DbPool) (\<lambda>_. ret (Inl (ErrMsg ''ping postgres'')))
      | Connected \<Rightarrow> bindE (opened_resource DbPool) (\<lambda>_. ret (Inr ())))"

text \<open>The client is there before it is pinged.\<close>

definition redis_New :: "hosts \<Rightarrow> string \<Rightarrow> (error + unit) boot" where
  "redis_New H addr =
     bindE (opened_resource RedisClient) (\<lambda>_.
       if hsRedisAnswers H addr then ret (Inr ()) else ret (Inl (ErrMsg ''ping redis'')))"

definition nats_New :: "hosts \<Rightarrow> string \<Rightarrow> (error + unit) boot" where
  "nats_New H url =
     (if hsNatsAccepts H url then bindE (opened_resource NatsConn) (\<lambda>_. ret (Inr ()))
      else ret (Inl (ErrMsg ''connect nats'')))"

definition WaService_New :: "hosts \<Rightarrow> string \<Rightarrow> string \<Rightarrow> string list \<Rightarrow> (error + unit) boot" where
  "WaService_New H name rpid origins =
     (if hsWebAuthnOk H name rpid origins then ret (Inr ()) else ret (Inl ErrLibrary))"

text \<open>\<^verbatim>\<open>http.ListenAndServe\<close> returns only with an error.\<close>

definition server_Start :: "hosts \<Rightarrow> string \<Rightarrow> (error + unit) boot" where
  "server_Start H port =
     (if hsListens H (CHR '':'' # port) then raise (ServesForever (CHR '':'' # port)) else ret (Inl ErrConn))"

definition consumer_Subscribe :: "hosts \<Rightarrow> (error + unit) boot" where
  "consumer_Subscribe H =
     (if hsSubscribes H ''audit.events'' then bindE (opened_resource AuditSubscription) (\<lambda>_. ret (Inr ()))
      else ret (Inl ErrConn))"

section \<open>The programs\<close>

definition iam_webauthn :: "hosts \<Rightarrow> config \<Rightarrow> unit boot" where
  "iam_webauthn H cfg = or_exit ''webauthn init failed''
     (WaService_New H (cfWebAuthnName cfg) (cfWebAuthnRPID cfg) [cfWebAuthnOrigin cfg])"

definition iam_listen :: "hosts \<Rightarrow> config \<Rightarrow> unit boot" where
  "iam_listen H cfg =
     bindE (slog LevelInfo ''starting auth server'') (\<lambda>_.
       or_exit ''server failed'' (server_Start H (cfHTTPPort cfg)))"

definition iam_server_main :: "hosts \<Rightarrow> (string \<Rightarrow> string) \<Rightarrow> unit boot" where
  "iam_server_main H env_var =
     (let cfg = Load env_var in
      bindE (or_exit ''postgres init failed'' (open_pool H (cfDatabaseURL cfg))) (\<lambda>_. deferring (close_resource DbPool) (
      bindE (or_exit ''redis init failed'' (redis_New H (cfRedisAddr cfg))) (\<lambda>_. deferring (close_resource RedisClient) (
      bindE (or_exit ''nats init failed'' (nats_New H (cfNATSURL cfg))) (\<lambda>_. deferring (close_resource NatsConn) (
      bindE (slog LevelInfo ''infrastructure connected'') (\<lambda>_.
      bindE (iam_webauthn H cfg) (\<lambda>_. iam_listen H cfg)))))))))"

text \<open>\<^verbatim>\<open>cancel\<close> ends the cleanup loop; it is called on the signal and deferred too.\<close>

definition worker_main :: "hosts \<Rightarrow> (string \<Rightarrow> string) \<Rightarrow> unit boot" where
  "worker_main H env_var =
     (let cfg = Load env_var; cancel = close_resource CleanupLoop in
      bindE (or_exit ''postgres init failed'' (open_pool H (cfDatabaseURL cfg))) (\<lambda>_. deferring (close_resource DbPool) (
      bindE (or_exit ''nats init failed'' (nats_New H (cfNATSURL cfg))) (\<lambda>_. deferring (close_resource NatsConn) (
      deferring cancel (
      bindE (or_exit ''audit subscribe failed'' (consumer_Subscribe H)) (\<lambda>_. deferring (close_resource AuditSubscription) (
      bindE (slog LevelInfo ''audit consumer ready'') (\<lambda>_.
      bindE (opened_resource CleanupLoop) (\<lambda>_.
        case hsSignal H of
          None \<Rightarrow> raise WaitsForever
        | Some sig \<Rightarrow> bindE (slog LevelInfo ''shutting down'') (\<lambda>_. cancel)))))))))))"

text \<open>The rotator's process and the shared world side by side.\<close>

definition on_proc :: "'a boot \<Rightarrow> (proc \<times> world, ending, 'a) comp" where
  "on_proc m s = (case m (fst s) of (r, p) \<Rightarrow> (r, (p, snd s)))"

definition on_world :: "string \<Rightarrow> 'a io \<Rightarrow> (proc \<times> world, ending, 'a) comp" where
  "on_world msg m s =
     (case m (snd s) of
        (Inl e, w) \<Rightarrow> on_proc (bindE (slog LevelError msg) (\<lambda>_. os_exit 1)) (fst s, w)
      | (Inr x, w) \<Rightarrow> (Inr x, (fst s, w)))"

definition key_rotator_main ::
  "hosts \<Rightarrow> (string \<Rightarrow> string) \<Rightarrow> env \<Rightarrow> string \<Rightarrow> (proc \<times> world, ending, unit) comp" where
  "key_rotator_main H env_var E alg =
     bindE (on_proc (or_exit ''postgres init failed'' (open_pool H (cfDatabaseURL (Load env_var))))) (\<lambda>_.
     bindE (bindE (on_world ''key generation failed'' (GenerateKey E alg)) (\<lambda>key.
            bindE (on_world ''failed to deactivate existing keys'' (KeyRepo_DeactivateAll E background)) (\<lambda>_.
            bindE (on_world ''failed to insert new key'' (KeyRepo_Create E background key)) (\<lambda>_.
              on_proc (slog LevelInfo ''signing key rotated''))))) (\<lambda>_.
       on_proc (close_resource DbPool)))"

section \<open>What they do\<close>

lemmas boot_defs = or_exit_def deferring_def slog_def opened_resource_def close_resource_def os_exit_def
  open_pool_def redis_New_def nats_New_def WaService_New_def server_Start_def consumer_Subscribe_def
  bindE_def ret_def raise_def

text \<open>
  C38: the server never returns from \<^verbatim>\<open>main\<close>: it serves its port for ever or exits with status 1, and in
  neither case is anything closed that was opened: the deferred closings never run. It serves exactly if every service it needs is there.
\<close>

definition all_there :: "hosts \<Rightarrow> config \<Rightarrow> bool" where
  "all_there H cfg \<longleftrightarrow> hsPostgres H (cfDatabaseURL cfg) = Connected \<and> hsRedisAnswers H (cfRedisAddr cfg)
     \<and> hsNatsAccepts H (cfNATSURL cfg) \<and> hsWebAuthnOk H (cfWebAuthnName cfg) (cfWebAuthnRPID cfg) [cfWebAuthnOrigin cfg]
     \<and> hsListens H (CHR '':'' # cfHTTPPort cfg)"


text \<open>
  The worker ends normally exactly if everything was there and a signal came; then it has closed all it
  had opened.
\<close>

theorem worker_outcome:
  assumes "worker_main H v p = (r, p')" "CleanupLoop \<notin> set (prOpen p)"
  shows "case r of
      Inr _ \<Rightarrow> hsPostgres H (cfDatabaseURL (Load v)) = Connected \<and> hsNatsAccepts H (cfNATSURL (Load v))
        \<and> hsSubscribes H ''audit.events'' \<and> hsSignal H \<noteq> None \<and> prOpen p' = prOpen p
    | Inl e \<Rightarrow> e = Exit 1 \<or> e = WaitsForever \<and> hsSignal H = None
        \<and> prOpen p' = [CleanupLoop, AuditSubscription, NatsConn, DbPool] @ prOpen p"
  using assms
  by (auto simp: remove1_idem worker_main_def boot_defs Let_def split: connect_outcome.splits if_splits option.splits)

text \<open>The rotator does to the keys what \<open>rotate_key\<close> does, if it reaches the database.\<close>

theorem key_rotator_outcome:
  assumes "hsPostgres H (cfDatabaseURL (Load v)) = Connected"
  shows "case key_rotator_main H v E alg (p, w) of
      (Inr _, p', w') \<Rightarrow> rotate_key E alg w = (Inr (), w') \<and> prOpen p' = prOpen p
    | (Inl e, p', w') \<Rightarrow> e = Exit 1 \<and> (\<exists>err. rotate_key E alg w = (Inl err, w'))"
  using assms
  by (auto simp: key_rotator_main_def rotate_key_def boot_defs on_proc_def on_world_def
      split: prod.splits sum.splits)

definition demo_hosts :: hosts where
  "demo_hosts = \<lparr> hsPostgres = (\<lambda>_. Connected), hsRedisAnswers = (\<lambda>_. True), hsNatsAccepts = (\<lambda>_. True),
     hsSubscribes = (\<lambda>_. True), hsWebAuthnOk = (\<lambda>_ _ _. True), hsListens = (\<lambda>_. True), hsSignal = Some ''terminated'' \<rparr>"

theorem worker_outcome_witness:
  "\<exists>u p'. worker_main demo_hosts (\<lambda>_. []) \<lparr> prOpen = [], prLog = [] \<rparr> = (Inr u, p') \<and> prOpen p' = []"
proof -
  obtain r p' where run: "worker_main demo_hosts (\<lambda>_. []) \<lparr> prOpen = [], prLog = [] \<rparr> = (r, p')"
    by fastforce
  moreover have "\<not> isl r"
    using run by (auto simp: worker_main_def demo_hosts_def boot_defs Let_def)
  ultimately show ?thesis
    using worker_outcome [OF run] by (cases r) auto
qed

end
