(* ===== verification/Janus_Wiring.thy ===== *)
theory Janus_Wiring
  imports Janus_Startup
begin

text \<open>
  What \<^verbatim>\<open>main\<close> of the server builds: repositories, services, use cases and handlers, each a
  \<^verbatim>\<open>struct\<close> with its fields; one definition per \<^verbatim>\<open>New\<close> function, named after it and, where the name is
  taken, after its package, whose import name in \<^verbatim>\<open>main\<close> qualifies the type. And what the other theories take for granted of it: all parts work on one database
  and one Redis, and share the cache and the issuer of tokens.
\<close>

section \<open>Components\<close>

text \<open>A struct with its type and its fields, a connection, or plain data.\<close>

datatype component = Pool nat | Redis nat | Nats nat | Text string | Duration time
  | WebAuthnConfig string string "string list" | Component string "(string \<times> component) list"

definition NewIdentityRepository :: "component \<Rightarrow> component" where
  "NewIdentityRepository db = Component ''identitypostgres.Repository'' [(''db'', db)]"

definition NewCredentialRepository :: "component \<Rightarrow> component" where
  "NewCredentialRepository db = Component ''authpostgres.Repository'' [(''db'', db)]"

definition NewTenantRepository :: "component \<Rightarrow> component" where
  "NewTenantRepository db = Component ''tenantpostgres.Repository'' [(''db'', db)]"

definition NewUserRepository :: "component \<Rightarrow> component" where
  "NewUserRepository db = Component ''postgresuser.Repository'' [(''db'', db)]"

definition NewSessionRepository :: "component \<Rightarrow> component" where
  "NewSessionRepository db = Component ''sessionpostgres.Repository'' [(''db'', db)]"

definition NewPermissionRepository :: "component \<Rightarrow> component" where
  "NewPermissionRepository db = Component ''authorizationpostgres.PermissionRepository'' [(''db'', db)]"

definition NewRolePermissionRepository :: "component \<Rightarrow> component" where
  "NewRolePermissionRepository db = Component ''authorizationpostgres.RolePermissionRepository'' [(''db'', db)]"

definition NewRoleRepository :: "component \<Rightarrow> component" where
  "NewRoleRepository db = Component ''authorizationpostgres.RoleRepository'' [(''db'', db)]"

definition NewUserRoleRepository :: "component \<Rightarrow> component" where
  "NewUserRoleRepository db = Component ''authorizationpostgres.UserRoleRepository'' [(''db'', db)]"

definition NewSigningKeyRepository :: "component \<Rightarrow> component" where
  "NewSigningKeyRepository db = Component ''tokenpostgres.Repository'' [(''db'', db)]"

definition NewClientRepository :: "component \<Rightarrow> component" where
  "NewClientRepository db = Component ''oauthpostgres.ClientRepository'' [(''db'', db)]"

definition NewCodeStore :: "component \<Rightarrow> component" where
  "NewCodeStore client = Component ''oauthredis.CodeStore'' [(''client'', client)]"

definition NewMfaRepository :: "component \<Rightarrow> component" where
  "NewMfaRepository db = Component ''mfapostgres.Repository'' [(''db'', db)]"

definition NewChallengeStore :: "component \<Rightarrow> component" where
  "NewChallengeStore client = Component ''mfaapp.ChallengeStore'' [(''client'', client)]"

definition NewPolicyRepository :: "component \<Rightarrow> component" where
  "NewPolicyRepository db = Component ''tenantpostgres.PolicyRepository'' [(''db'', db)]"

definition NewWaRepository :: "component \<Rightarrow> component" where
  "NewWaRepository db = Component ''wapostgres.Repository'' [(''db'', db)]"

definition NewSessionStore :: "component \<Rightarrow> component" where
  "NewSessionStore client = Component ''waapp.SessionStore'' [(''client'', client)]"

definition NewTxManager :: "component \<Rightarrow> component" where
  "NewTxManager db = Component ''pgtx.Manager'' [(''db'', db)]"

definition NewJWTService :: "component \<Rightarrow> component \<Rightarrow> component" where
  "NewJWTService keyRepo issuer = Component ''tokenapp.JWTService'' [(''keyRepo'', keyRepo), (''issuer'', issuer)]"

definition NewTOTPService :: "component \<Rightarrow> component \<Rightarrow> component" where
  "NewTOTPService repo issuer = Component ''mfaapp.TOTPService'' [(''repo'', repo), (''issuer'', issuer)]"

definition NewPolicyEnforcer :: "component \<Rightarrow> component" where
  "NewPolicyEnforcer repo = Component ''tenantapp.PolicyEnforcer'' [(''repo'', repo)]"

definition NewPrincipalCache :: "component \<Rightarrow> component" where
  "NewPrincipalCache client = Component ''authmiddleware.PrincipalCache'' [(''client'', client),
     (''ttl'', Duration (5 * minute))]"

definition NewPublisher :: "component \<Rightarrow> component" where
  "NewPublisher conn = Component ''auditapp.Publisher'' [(''conn'', conn)]"

definition NewSlugService :: "component \<Rightarrow> component" where
  "NewSlugService repo = Component ''tenantapp.SlugService'' [(''repo'', repo)]"

definition NewBootstrapService :: "component \<Rightarrow> component" where
  "NewBootstrapService roleRepo = Component ''authorizationapp.BootstrapService'' [(''roleRepo'', roleRepo)]"

definition NewPermissionBootstrapService :: "component \<Rightarrow> component \<Rightarrow> component" where
  "NewPermissionBootstrapService permissionRepo rolePermissionRepo =
     Component ''authorizationapp.PermissionBootstrapService'' [(''permissionRepo'', permissionRepo),
     (''rolePermissionRepo'', rolePermissionRepo)]"

definition NewRegisterUseCase ::
  "component \<Rightarrow> component \<Rightarrow> component \<Rightarrow> component \<Rightarrow> component
     \<Rightarrow> component \<Rightarrow> component \<Rightarrow> component \<Rightarrow> component \<Rightarrow> component" where
  "NewRegisterUseCase txManager identityRepo credentialRepo tenantRepo userRepo slugService userRoleRepo
     bootstrapService permissionBootstrapService =
     Component ''authapp.RegisterUseCase'' [(''txManager'', txManager), (''identityRepo'', identityRepo),
     (''credentialRepo'', credentialRepo), (''tenantRepo'', tenantRepo), (''userRepo'', userRepo),
     (''slugService'', slugService), (''userRoleRepo'', userRoleRepo),
     (''bootstrapService'', bootstrapService), (''permissionBootstrapService'', permissionBootstrapService)]"

definition NewLoginUseCase ::
  "component \<Rightarrow> component \<Rightarrow> component \<Rightarrow> component \<Rightarrow> component
     \<Rightarrow> component \<Rightarrow> component \<Rightarrow> component \<Rightarrow> component \<Rightarrow> component \<Rightarrow> component" where
  "NewLoginUseCase identityRepo credentialRepo userRepo userRoleRepo rolePermissionRepo sessionRepo
     jwtService mfaRepo mfaChallengeStore policyEnforcer =
     Component ''authapp.LoginUseCase'' [(''identityRepo'', identityRepo), (''credentialRepo'', credentialRepo),
     (''userRepo'', userRepo), (''userRoleRepo'', userRoleRepo), (''rolePermissionRepo'', rolePermissionRepo),
     (''sessionRepo'', sessionRepo), (''jwtService'', jwtService), (''mfaRepo'', mfaRepo),
     (''mfaChallengeStore'', mfaChallengeStore), (''policyEnforcer'', policyEnforcer)]"

definition NewCompleteUseCase ::
  "component \<Rightarrow> component \<Rightarrow> component \<Rightarrow> component
     \<Rightarrow> component \<Rightarrow> component \<Rightarrow> component \<Rightarrow> component" where
  "NewCompleteUseCase challengeStore totpService sessionRepo identityRepo userRoleRepo rolePermissionRepo jwtService =
     Component ''mfaapp.CompleteUseCase'' [(''challengeStore'', challengeStore), (''totpService'', totpService),
     (''sessionRepo'', sessionRepo), (''identityRepo'', identityRepo), (''userRoleRepo'', userRoleRepo),
     (''rolePermissionRepo'', rolePermissionRepo), (''jwtService'', jwtService)]"

definition NewRefreshUseCase ::
  "component \<Rightarrow> component \<Rightarrow> component
     \<Rightarrow> component \<Rightarrow> component \<Rightarrow> component \<Rightarrow> component" where
  "NewRefreshUseCase sessionRepo identityRepo userRoleRepo rolePermissionRepo jwtService invalidator =
     Component ''authapp.RefreshUseCase'' [(''sessionRepo'', sessionRepo), (''identityRepo'', identityRepo),
     (''userRoleRepo'', userRoleRepo), (''rolePermissionRepo'', rolePermissionRepo),
     (''jwtService'', jwtService), (''invalidator'', invalidator)]"

definition NewLogoutUseCase :: "component \<Rightarrow> component \<Rightarrow> component" where
  "NewLogoutUseCase sessionRepo invalidator = Component ''authapp.LogoutUseCase'' [(''sessionRepo'', sessionRepo),
     (''invalidator'', invalidator)]"

definition NewGetUserUseCase :: "component \<Rightarrow> component" where
  "NewGetUserUseCase userRepo = Component ''identityapp.GetUserUseCase'' [(''userRepo'', userRepo)]"

definition NewListUsersUseCase :: "component \<Rightarrow> component" where
  "NewListUsersUseCase userRepo = Component ''identityapp.ListUsersUseCase'' [(''userRepo'', userRepo)]"

definition NewCreateUserUseCase ::
  "component \<Rightarrow> component \<Rightarrow> component
     \<Rightarrow> component \<Rightarrow> component \<Rightarrow> component \<Rightarrow> component" where
  "NewCreateUserUseCase txManager identityRepo credentialRepo userRepo roleRepo userRoleRepo =
     Component ''identityapp.CreateUserUseCase'' [(''txManager'', txManager), (''identityRepo'', identityRepo),
     (''credentialRepo'', credentialRepo), (''userRepo'', userRepo), (''roleRepo'', roleRepo),
     (''userRoleRepo'', userRoleRepo)]"

definition NewCreateRoleUseCase :: "component \<Rightarrow> component" where
  "NewCreateRoleUseCase roleRepo = Component ''authorizationapp.CreateRoleUseCase'' [(''roleRepo'', roleRepo)]"

definition NewListRolesUseCase :: "component \<Rightarrow> component" where
  "NewListRolesUseCase roleRepo = Component ''authorizationapp.ListRolesUseCase'' [(''roleRepo'', roleRepo)]"

definition NewAssignPermissionToRoleUseCase ::
  "component \<Rightarrow> component \<Rightarrow> component \<Rightarrow> component" where
  "NewAssignPermissionToRoleUseCase roleRepo permissionRepo rolePermissionRepo =
     Component ''authorizationapp.AssignPermissionToRoleUseCase'' [(''roleRepo'', roleRepo),
     (''permissionRepo'', permissionRepo), (''rolePermissionRepo'', rolePermissionRepo)]"

definition NewListRolePermissionsUseCase :: "component \<Rightarrow> component \<Rightarrow> component" where
  "NewListRolePermissionsUseCase roleRepo rolePermissionRepo =
     Component ''authorizationapp.ListRolePermissionsUseCase'' [(''roleRepo'', roleRepo),
     (''rolePermissionRepo'', rolePermissionRepo)]"

definition NewAuthHandler ::
  "component \<Rightarrow> component \<Rightarrow> component \<Rightarrow> component \<Rightarrow> component" where
  "NewAuthHandler registerUseCase loginUseCase refreshUseCase logoutUseCase =
     Component ''authhttp.Handler'' [(''registerUseCase'', registerUseCase), (''loginUseCase'', loginUseCase),
     (''refreshUseCase'', refreshUseCase), (''logoutUseCase'', logoutUseCase)]"

definition NewIdentityHandler ::
  "component \<Rightarrow> component \<Rightarrow> component \<Rightarrow> component" where
  "NewIdentityHandler getUserUseCase listUsersUseCase createUserUseCase =
     Component ''identityhttp.Handler'' [(''getUserUseCase'', getUserUseCase), (''listUsersUseCase'', listUsersUseCase),
     (''createUserUseCase'', createUserUseCase)]"

definition NewAuthorizationHandler ::
  "component \<Rightarrow> component \<Rightarrow> component \<Rightarrow> component \<Rightarrow> component" where
  "NewAuthorizationHandler createRoleUseCase listRolesUseCase assignPermissionUseCase listRolePermissionsUseCase =
     Component ''authorizationhttp.Handler'' [(''createRoleUseCase'', createRoleUseCase),
     (''listRolesUseCase'', listRolesUseCase), (''assignPermissionUseCase'', assignPermissionUseCase),
     (''listRolePermissionsUseCase'', listRolePermissionsUseCase)]"

definition NewAuthenticationMiddleware ::
  "component \<Rightarrow> component \<Rightarrow> component
     \<Rightarrow> component \<Rightarrow> component \<Rightarrow> component \<Rightarrow> component" where
  "NewAuthenticationMiddleware sessionRepo identityRepo userRoleRepo rolePermissionRepo jwtService cache =
     Component ''authmiddleware.AuthenticationMiddleware'' [(''sessionRepo'', sessionRepo), (''identityRepo'', identityRepo),
     (''userRoleRepo'', userRoleRepo), (''rolePermissionRepo'', rolePermissionRepo),
     (''jwtService'', jwtService), (''cache'', cache)]"

definition NewPolicyHandler :: "component \<Rightarrow> component \<Rightarrow> component" where
  "NewPolicyHandler enforcer repo = Component ''tenanthttp.PolicyHandler'' [(''enforcer'', enforcer),
     (''repo'', repo)]"

definition NewJwksHandler :: "component \<Rightarrow> component" where
  "NewJwksHandler keyRepo = Component ''tokenhttp.Handler'' [(''keyRepo'', keyRepo)]"

definition NewIDTokenService :: "component \<Rightarrow> component" where
  "NewIDTokenService jwtService = Component ''oidcapp.IDTokenService'' [(''jwtService'', jwtService)]"

definition NewOidcHandler :: "component \<Rightarrow> component" where
  "NewOidcHandler issuer = Component ''oidchttp.Handler'' [(''issuer'', issuer)]"

definition NewUserInfoHandler :: "component \<Rightarrow> component" where
  "NewUserInfoHandler identityRepo = Component ''oidchttp.UserInfoHandler'' [(''identityRepo'', identityRepo)]"

definition NewAuthorizeUseCase :: "component \<Rightarrow> component \<Rightarrow> component" where
  "NewAuthorizeUseCase clientRepo codeStore = Component ''oauthapp.AuthorizeUseCase'' [(''clientRepo'', clientRepo),
     (''codeStore'', codeStore)]"

definition NewTokenUseCase ::
  "component \<Rightarrow> component \<Rightarrow> component \<Rightarrow> component
     \<Rightarrow> component \<Rightarrow> component \<Rightarrow> component \<Rightarrow> component \<Rightarrow> component" where
  "NewTokenUseCase clientRepo codeStore sessionRepo identityRepo userRoleRepo rolePermissionRepo
     jwtService idTokenIssuer =
     Component ''oauthapp.TokenUseCase'' [(''clientRepo'', clientRepo), (''codeStore'', codeStore),
     (''sessionRepo'', sessionRepo), (''identityRepo'', identityRepo), (''userRoleRepo'', userRoleRepo),
     (''rolePermissionRepo'', rolePermissionRepo), (''jwtService'', jwtService),
     (''idTokenIssuer'', idTokenIssuer)]"

definition NewOAuthHandler :: "component \<Rightarrow> component \<Rightarrow> component" where
  "NewOAuthHandler authorizeUseCase tokenUseCase = Component ''oauthhttp.Handler'' [
     (''authorizeUseCase'', authorizeUseCase), (''tokenUseCase'', tokenUseCase)]"

definition NewMfaHandler :: "component \<Rightarrow> component \<Rightarrow> component" where
  "NewMfaHandler totpService completeUseCase = Component ''mfahttp.Handler'' [(''totpService'', totpService),
     (''completeUseCase'', completeUseCase)]"

definition NewWaService ::
  "string \<Rightarrow> string \<Rightarrow> string list \<Rightarrow> component \<Rightarrow> component \<Rightarrow> component \<Rightarrow> component" where
  "NewWaService rpDisplayName rpID rpOrigins credRepo identityRepo sessionStore =
     Component ''waapp.Service'' [(''webauthn'', WebAuthnConfig rpDisplayName rpID rpOrigins),
     (''credRepo'', credRepo), (''identityRepo'', identityRepo), (''sessions'', sessionStore)]"

definition NewWaLoginUseCase ::
  "component \<Rightarrow> component \<Rightarrow> component \<Rightarrow> component
     \<Rightarrow> component \<Rightarrow> component \<Rightarrow> component \<Rightarrow> component" where
  "NewWaLoginUseCase service sessionRepo identityRepo userRepo userRoleRepo rolePermissionRepo jwtService =
     Component ''waapp.LoginUseCase'' [(''service'', service), (''sessionRepo'', sessionRepo),
     (''identityRepo'', identityRepo), (''userRepo'', userRepo), (''userRoleRepo'', userRoleRepo),
     (''rolePermissionRepo'', rolePermissionRepo), (''jwtService'', jwtService)]"

definition NewWaHandler :: "component \<Rightarrow> component \<Rightarrow> component" where
  "NewWaHandler service loginUseCase = Component ''wahttp.Handler'' [(''service'', service),
     (''loginUseCase'', loginUseCase), (''sessionKeyName'', Text ''X-WebAuthn-Session'')]"


section \<open>The server\<close>

definition wire :: "component \<Rightarrow> component \<Rightarrow> component \<Rightarrow> config \<Rightarrow> component list" where
  "wire db cache msgBus cfg = (let
     txManager = NewTxManager db;
     identityRepo = NewIdentityRepository db;
     credentialRepo = NewCredentialRepository db;
     tenantRepo = NewTenantRepository db;
     userRepo = NewUserRepository db;
     sessionRepo = NewSessionRepository db;
     permissionRepo = NewPermissionRepository db;
     rolePermissionRepo = NewRolePermissionRepository db;
     roleRepo = NewRoleRepository db;
     userRoleRepo = NewUserRoleRepository db;
     signingKeyRepo = NewSigningKeyRepository db;
     oauthClientRepo = NewClientRepository db;
     oauthCodeStore = NewCodeStore cache;
     mfaRepo = NewMfaRepository db;
     mfaChallengeStore = NewChallengeStore cache;
     tenantPolicyRepo = NewPolicyRepository db;
     jwtService = NewJWTService signingKeyRepo (Text (cfJWTIssuer cfg));
     totpService = NewTOTPService mfaRepo (Text (cfJWTIssuer cfg));
     policyEnforcer = NewPolicyEnforcer tenantPolicyRepo;
     principalCache = NewPrincipalCache cache;
     auditPublisher = NewPublisher msgBus;
     slugService = NewSlugService tenantRepo;
     bootstrapService = NewBootstrapService roleRepo;
     permissionBootstrapService = NewPermissionBootstrapService permissionRepo rolePermissionRepo;
     registerUseCase = NewRegisterUseCase txManager identityRepo credentialRepo tenantRepo userRepo slugService
       userRoleRepo bootstrapService permissionBootstrapService;
     loginUseCase = NewLoginUseCase identityRepo credentialRepo userRepo userRoleRepo rolePermissionRepo
       sessionRepo jwtService mfaRepo mfaChallengeStore policyEnforcer;
     mfaCompleteUseCase = NewCompleteUseCase mfaChallengeStore totpService sessionRepo identityRepo
       userRoleRepo rolePermissionRepo jwtService;
     refreshUseCase = NewRefreshUseCase sessionRepo identityRepo userRoleRepo rolePermissionRepo jwtService
       principalCache;
     logoutUseCase = NewLogoutUseCase sessionRepo principalCache;
     identityGetUserUseCase = NewGetUserUseCase userRepo;
     listUsersUseCase = NewListUsersUseCase userRepo;
     createUserUseCase = NewCreateUserUseCase txManager identityRepo credentialRepo userRepo roleRepo userRoleRepo;
     createRoleUseCase = NewCreateRoleUseCase roleRepo;
     listRolesUseCase = NewListRolesUseCase roleRepo;
     assignPermissionUseCase = NewAssignPermissionToRoleUseCase roleRepo permissionRepo rolePermissionRepo;
     listRolePermissionsUseCase = NewListRolePermissionsUseCase roleRepo rolePermissionRepo;
     authHandler = NewAuthHandler registerUseCase loginUseCase refreshUseCase logoutUseCase;
     identityHandler = NewIdentityHandler identityGetUserUseCase listUsersUseCase createUserUseCase;
     authorizationHandler = NewAuthorizationHandler createRoleUseCase listRolesUseCase assignPermissionUseCase
       listRolePermissionsUseCase;
     authMiddleware = NewAuthenticationMiddleware sessionRepo identityRepo userRoleRepo rolePermissionRepo
       jwtService principalCache;
     policyHandler = NewPolicyHandler policyEnforcer tenantPolicyRepo;
     jwksHandler = NewJwksHandler signingKeyRepo;
     idTokenService = NewIDTokenService jwtService;
     oidcHandler = NewOidcHandler (Text (cfJWTIssuer cfg));
     userInfoHandler = NewUserInfoHandler identityRepo;
     authorizeUseCase = NewAuthorizeUseCase oauthClientRepo oauthCodeStore;
     oauthTokenUseCase = NewTokenUseCase oauthClientRepo oauthCodeStore sessionRepo identityRepo userRoleRepo
       rolePermissionRepo jwtService idTokenService;
     oauthHandler = NewOAuthHandler authorizeUseCase oauthTokenUseCase;
     mfaHandler = NewMfaHandler totpService mfaCompleteUseCase;
     waCredRepo = NewWaRepository db;
     waSessionStore = NewSessionStore cache;
     waService = NewWaService (cfWebAuthnName cfg) (cfWebAuthnRPID cfg) [cfWebAuthnOrigin cfg] waCredRepo
       identityRepo waSessionStore;
     waLoginUseCase = NewWaLoginUseCase waService sessionRepo identityRepo userRepo userRoleRepo
       rolePermissionRepo jwtService;
     waHandler = NewWaHandler waService waLoginUseCase in
     [authHandler, identityHandler, authorizationHandler, authMiddleware, policyHandler, jwksHandler, oidcHandler,
      userInfoHandler, oauthHandler, mfaHandler, waHandler])"

section \<open>What is shared\<close>

text \<open>A property of a component and of everything it is built of.\<close>

primrec everywhere :: "(component \<Rightarrow> bool) \<Rightarrow> component \<Rightarrow> bool" where
  "everywhere P (Pool n) = P (Pool n)"
| "everywhere P (Redis n) = P (Redis n)"
| "everywhere P (Nats n) = P (Nats n)"
| "everywhere P (Text s) = P (Text s)"
| "everywhere P (Duration t) = P (Duration t)"
| "everywhere P (WebAuthnConfig a b c) = P (WebAuthnConfig a b c)"
| "everywhere P (Component n fs) = (P (Component n fs) \<and> list_all snd (map (map_prod id (everywhere P)) fs))"

lemmas constructor_defs = NewIdentityRepository_def NewCredentialRepository_def NewTenantRepository_def NewUserRepository_def
  NewSessionRepository_def NewPermissionRepository_def NewRolePermissionRepository_def NewRoleRepository_def
  NewUserRoleRepository_def NewSigningKeyRepository_def NewClientRepository_def NewCodeStore_def
  NewMfaRepository_def NewChallengeStore_def NewPolicyRepository_def NewWaRepository_def
  NewSessionStore_def NewTxManager_def NewJWTService_def NewTOTPService_def
  NewPolicyEnforcer_def NewPrincipalCache_def NewPublisher_def NewSlugService_def
  NewBootstrapService_def NewPermissionBootstrapService_def NewRegisterUseCase_def NewLoginUseCase_def
  NewCompleteUseCase_def NewRefreshUseCase_def NewLogoutUseCase_def NewGetUserUseCase_def
  NewListUsersUseCase_def NewCreateUserUseCase_def NewCreateRoleUseCase_def NewListRolesUseCase_def
  NewAssignPermissionToRoleUseCase_def NewListRolePermissionsUseCase_def NewAuthHandler_def NewIdentityHandler_def
  NewAuthorizationHandler_def NewAuthenticationMiddleware_def NewPolicyHandler_def NewJwksHandler_def
  NewIDTokenService_def NewOidcHandler_def NewUserInfoHandler_def NewAuthorizeUseCase_def
  NewTokenUseCase_def NewOAuthHandler_def NewMfaHandler_def NewWaService_def
  NewWaLoginUseCase_def NewWaHandler_def

text \<open>A component's parts are looked at without unfolding how they were built.\<close>

lemmas everywhere_New = constructor_defs [THEN arg_cong [where f = "everywhere P"]] for P

fun connection_ok :: "nat \<Rightarrow> nat \<Rightarrow> component \<Rightarrow> bool" where
  "connection_ok d r (Pool n) \<longleftrightarrow> n = d"
| "connection_ok d r (Redis n) \<longleftrightarrow> n = r"
| "connection_ok d r (Nats n) \<longleftrightarrow> False"
| "connection_ok d r _ \<longleftrightarrow> True"

text \<open>The fields of that name that a struct has hold the component that is expected there.\<close>

fun slots_ok :: "(string \<times> component) list \<Rightarrow> component \<Rightarrow> bool" where
  "slots_ok ex (Component n fs) \<longleftrightarrow> list_all (\<lambda>(f, v). case map_of ex f of None \<Rightarrow> True | Some e \<Rightarrow> v = e) fs"
| "slots_ok ex _ \<longleftrightarrow> True"

definition shared_parts :: "nat \<Rightarrow> nat \<Rightarrow> config \<Rightarrow> (string \<times> component) list" where
  "shared_parts d r cfg =
     [(''cache'', NewPrincipalCache (Redis r)), (''invalidator'', NewPrincipalCache (Redis r)),
      (''jwtService'', NewJWTService (NewSigningKeyRepository (Pool d)) (Text (cfJWTIssuer cfg))),
      (''keyRepo'', NewSigningKeyRepository (Pool d)), (''issuer'', Text (cfJWTIssuer cfg)),
      (''txManager'', NewTxManager (Pool d)), (''sessionRepo'', NewSessionRepository (Pool d)),
      (''identityRepo'', NewIdentityRepository (Pool d)), (''userRepo'', NewUserRepository (Pool d)),
      (''credentialRepo'', NewCredentialRepository (Pool d)), (''roleRepo'', NewRoleRepository (Pool d)),
      (''userRoleRepo'', NewUserRoleRepository (Pool d)), (''rolePermissionRepo'', NewRolePermissionRepository (Pool d)),
      (''codeStore'', NewCodeStore (Redis r)), (''challengeStore'', NewChallengeStore (Redis r))]"

lemma slots_leaves:
  fixes d r :: nat and cfg :: config
  defines "P \<equiv> everywhere (slots_ok (shared_parts d r cfg))"
  shows "P (NewTxManager (Pool d))" "P (NewIdentityRepository (Pool d))" "P (NewCredentialRepository (Pool d))"
    "P (NewTenantRepository (Pool d))" "P (NewUserRepository (Pool d))" "P (NewSessionRepository (Pool d))"
    "P (NewPermissionRepository (Pool d))" "P (NewRolePermissionRepository (Pool d))" "P (NewRoleRepository (Pool d))"
    "P (NewUserRoleRepository (Pool d))" "P (NewSigningKeyRepository (Pool d))" "P (NewClientRepository (Pool d))"
    "P (NewCodeStore (Redis r))" "P (NewMfaRepository (Pool d))" "P (NewChallengeStore (Redis r))"
    "P (NewPolicyRepository (Pool d))" "P (NewWaRepository (Pool d))" "P (NewSessionStore (Redis r))"
    "P (NewPrincipalCache (Redis r))" "P (NewJWTService (NewSigningKeyRepository (Pool d)) (Text (cfJWTIssuer cfg)))"
  unfolding P_def by (simp_all add: everywhere_New shared_parts_def)

text \<open>
  Every handler and the authentication middleware works, in all its parts, on the one pool and the one
  Redis client \<^verbatim>\<open>main\<close> has opened, and none on the connection to NATS: the server publishes no audit
  event. The cache the middleware reads is the one refresh and logout delete from, every token is issued
  and verified by one service with the configured issuer, and transactions run on the repositories' pool.
  This is what allows the other theories one \<open>world\<close>, \<open>cached\<close> true for all, and one \<open>issuer\<close>.
\<close>

theorem server_wiring:
  "list_all (everywhere (connection_ok d r)) (wire (Pool d) (Redis r) (Nats n) cfg)
     \<and> list_all (everywhere (slots_ok (shared_parts d r cfg))) (wire (Pool d) (Redis r) (Nats n) cfg)"
proof
  show "list_all (everywhere (connection_ok d r)) (wire (Pool d) (Redis r) (Nats n) cfg)"
    by (simp add: wire_def Let_def everywhere_New)
  show "list_all (everywhere (slots_ok (shared_parts d r cfg))) (wire (Pool d) (Redis r) (Nats n) cfg)"
    by (simp add: wire_def Let_def everywhere_New slots_leaves) (simp add: shared_parts_def)
qed

end
