(* ===== verification/Spec2Isabelle.thy ===== *)
theory Spec2Isabelle
  imports Janus_Tenant Janus_Register Janus_Store Janus_Token Janus_Concurrent Janus_Liveness Janus_Oneshot
    Janus_Wiring
begin

text \<open>
  A model of the Janus identity server: tenants with their users, roles and policies; logins with a
  password, a second factor or a passkey; sessions with rotating refresh tokens; signed access tokens;
  OAuth authorization codes with PKCE and OpenID Connect; an audit log. The Go code is under
  \<^verbatim>\<open>cmd/\<close> and \<^verbatim>\<open>internal/\<close>; names in \<^verbatim>\<open>this font\<close> are the code's.

  \<^bold>\<open>How the code is read.\<close> A Go function with effects that returns \<open>(T, error)\<close> is a \<open>'t io\<close>, a function
  from the \<open>world\<close> to the error or value it returns and the world it leaves (\<open>Janus_Prelude\<close>, with
  \<open>bindE\<close> for \<^verbatim>\<open>if err != nil { return err }\<close>). The \<open>world\<close> (\<open>Janus_World\<close>) has the committed database, the
  database of the open transaction, Redis, the messages published and the number of external calls so
  far. What the repository only calls is in the record \<open>env\<close>, as functions of that number: the
  clock, the random source, UUIDs, and for every statement whether it fails (\<open>db_fault\<close>,
  \<open>redis_fault\<close>, \<open>publish_fault\<close>), in which order its rows come (\<open>row_order\<close>) and where they break off
  (\<open>row_cut\<close>). So a theorem about all \<open>env\<close> covers every failure at every point. Libraries are fields
  too: Argon2, TOTP, PEM and X.509, JWT signatures, Unicode tables beyond ASCII, PostgreSQL's input
  functions for UUID and INET; the go-webauthn library is the record \<open>wa_library\<close>. What the properties
  need of them is stated as predicates where it is used: \<open>jwt_library\<close> (a signed token opens to its
  header and claims and verifies with the matching key only), \<open>x509_library\<close> (what was marshalled
  parses), \<open>argon_law\<close> (keys have the length asked for), \<open>uuid_canonical\<close> (a canonical UUID is its own
  canonical form), \<open>validates_own\<close> (go-webauthn answers with a credential of the user the callback gave).

  \<^bold>\<open>Go's library.\<close> \<open>Go_Strings\<close>, \<open>Go_Runes\<close> (UTF-8, classes, case, the replacement of invalid bytes in JSON),
  \<open>Go_Encoding\<close> (hex, base64), \<open>Go_Sha256\<close> and \<open>Go_Url\<close> (query escaping) define what the code calls of
  the standard library, with the round trips the components use.

  \<^bold>\<open>The database.\<close> \<open>Janus_Types\<close> has the domain structs as records; \<open>Janus_Schema\<close> the tables of
  \<^verbatim>\<open>migrations/\<close> as lists of rows, inserts that check the constraints in order, and \<open>integrity\<close>: keys are
  unique, references resolve. \<open>Janus_Sql\<close> has the conversions of the columns and two interfaces. The locale
  \<open>sql_table\<close> states what an insert promises of a key and is interpreted once per unique key. The locale
  \<open>db_law\<close> (and \<open>db_law_all\<close>, with the deletions of the worker) states what a predicate of databases has to
  satisfy to survive every statement of the server; each component proves inside it, once, that its
  operations keep such a predicate. It is interpreted twice: with \<open>integrity\<close> (\<open>integral\<close>) and with
  \<open>history D\<close>, what requests may do to the tables since \<open>D\<close> (\<open>past\<close>, in \<open>Janus_System\<close>).

  \<^bold>\<open>Components.\<close>
  \<open>Janus_Shared\<close>: tokens, passwords, slugs, principals, request contexts (\<^verbatim>\<open>internal/shared\<close>).
  \<open>Janus_Http\<close>: replies of handlers.
  \<open>Janus_Tenant\<close>, \<open>Janus_Authz\<close>, \<open>Janus_Identity\<close>: the repositories, use cases, middleware and handlers of
  \<^verbatim>\<open>internal/tenant\<close>, \<^verbatim>\<open>internal/authorization\<close>, \<^verbatim>\<open>internal/identity\<close>.
  \<open>Janus_Register\<close>, \<open>Janus_Auth\<close>: \<^verbatim>\<open>internal/auth\<close> (registration; login, refresh, logout, profile, the
  authentication middleware with its cache).
  \<open>Janus_Store\<close>: the Redis stores; the locale \<open>one_shot\<close> states their contract (what is taken was
  stored, and is taken once) and is interpreted for challenges, codes and ceremonies.
  \<open>Janus_Oneshot\<close>: the abstract one-shot store and the simulation of it by the code store.
  \<open>Janus_Token\<close>: signing keys, JWTs, the JWKS document, \<^verbatim>\<open>cmd/key-rotator\<close>.
  \<open>Janus_Session\<close>, \<open>Janus_Mfa\<close>, \<open>Janus_Webauthn\<close>: \<^verbatim>\<open>internal/session\<close>, \<^verbatim>\<open>internal/mfa\<close>, \<^verbatim>\<open>internal/webauthn\<close>;
  \<open>open_session\<close> and \<open>replace_session\<close> are the steps all logins and both refreshes share in the code.
  \<open>Janus_Oauth\<close>, \<open>Janus_Oauth_Props\<close>: \<^verbatim>\<open>internal/oauth\<close> and \<^verbatim>\<open>internal/oidc\<close>.
  \<open>Janus_Audit\<close>: \<^verbatim>\<open>internal/audit\<close> and the cleanup of \<^verbatim>\<open>cmd/worker\<close>.
  \<open>Janus_Platform\<close>: configuration, connection pools, request log and metrics.
  \<open>Janus_Startup\<close>: how the three programs start and end (\<open>boot\<close>: what a process has open and logged; an ending is an
  exit status or serving for ever). \<open>Janus_Wiring\<close>: the components \<^verbatim>\<open>main\<close> of the server builds, and that they
  share one pool, one Redis, one cache and one issuer, as the one \<open>world\<close> of the other theories takes for granted.
  \<open>Janus_Server\<close>: the routes, guards and middleware of \<^verbatim>\<open>cmd/iam-server\<close>; \<open>ServeHTTP\<close> answers a request.
  \<open>Janus_System\<close>: the step relations \<open>request_step\<close> and \<open>system_step\<close> of all processes on one database.
  \<open>Janus_Progress\<close>, \<open>Janus_Liveness\<close>: the logins and refreshes that succeed when the services answer.
  \<open>Janus_Steps\<close>, \<open>Janus_Concurrent\<close>: requests at the same time. An operation as the tree of its calls
  (\<open>steps\<close>), schedules of several such trees with steps of the environment between theirs, and what holds under
  every schedule; refresh, logout, the session header, the MFA challenge and the code exchange cut into their calls,
  each shown to run alone as the operation of its component (\<open>run_\<close> lemmas).
  \<open>Janus_Demo\<close>: a concrete \<open>env\<close>, on which the witnesses of the theorems run the operations.

  \<^bold>\<open>What is shown.\<close> \<open>_InrD\<close> lemmas say what a successful run did, \<open>keeps_\<close> lemmas what survives any run, \<open>quiet_\<close>
  lemmas that an operation only reads. On them rest the properties, numbered C1 to C40 in the theories:
  over all reachable states, integrity, the tables that only grow, revoked sessions that stay revoked; over all
  schedules of requests, the same, and that codes and challenges are redeemed once; for each
  flow (password, second factor, passkey, authorization code, refresh, logout), under which conditions
  exactly it succeeds and what it leaves behind, with every failure of a service allowed; access tokens
  round trip through issuing, key rotation and verification; registration and user creation are all or
  nothing; permissions guard their routes and stay inside the tenant; a login with the right password
  or the refresh of a session that may be refreshed succeeds when the services answer. Some properties state what the code does and a reader may not
  expect: a refused authorization is redirected anywhere, any caller verifies any factor whose code they
  know (\<open>verify_enrollment_ignores_caller\<close>), the token endpoint's refresh leaves the cached principal, two
  concurrent refreshes both succeed, a request that is under way caches the principal of a session logged out meanwhile, one session with a live
  successor blocks the cleanup, a failed rotation leaves no active key, the server closes nothing it has opened.

  \<^bold>\<open>Bounds and loops.\<close> The slug search makes at most \<open>maxSlugAttempts\<close> + 1 = 6 lookups. Other loops are over
  rows or strings and are structural; \<open>big_int_loop\<close> and the decoders end by the size of their argument. The
  loop of the worker is \<open>runSessionCleanup\<close> for any number of ticks. Times are nanoseconds as integers, since
  Go's zero time (0 is \<^verbatim>\<open>IsZero\<close>), without the wrap-around of \<^verbatim>\<open>Duration\<close>; SHA-256 is on 32-bit words, INT
  columns are checked to hold 32 bits.

  \<^bold>\<open>Not modelled.\<close> chi's matching of paths (a request comes with its endpoint and its decoded body), the
  decoding of JSON request bodies, the headers and cookies of the whole server (the handlers of
  \<open>Janus_Auth\<close> return the cookie beside the reply), the attributes of log lines and Prometheus' own output, timeouts and
  cancellation of contexts. Of the requests, those of \<open>Janus_Concurrent\<close> are interleaved call by call, the others
  run as a whole; a transaction is never interleaved. \<^verbatim>\<open>cmd/migrate\<close> is empty; \<^verbatim>\<open>auth/domain/refresh_token*.go\<close> is unused; the programs
  under \<^verbatim>\<open>test/\<close> are load generators. Of \<^verbatim>\<open>migrations/\<close> the first schema with \<open>permissions.created_at\<close> is taken, as the
  code needs it, and \<^verbatim>\<open>refresh_tokens\<close>, which no code uses, is left out.
\<close>

end
